(* ===== verification/Prelude.thy ===== *)
theory Prelude
  imports Main "HOL-Library.Char_ord" "HOL-Library.List_Lexorder" "HOL-Library.Word"
begin

text \<open>
  Shared vocabulary of the development.

  \<^item> \<open>'a result\<close>: the outcome of Rust code that may trap. A trap is a value of
    \<open>fault\<close>: an overflowing \<open>usize\<close> subtraction (\<open>UsizeUnderflow\<close>), an index out of
    bounds (\<open>IndexOutOfBounds\<close>), any other explicit panic (\<open>Panicked\<close>), or the model's own
    \<open>OutOfFuel\<close>, which the components prove unreachable.
  \<^item> \<open>rbind\<close>: sequencing that stops at the first fault, with its splitting rule.
  \<^item> \<open>show_nat\<close>: the decimal rendering that \<open>{}\<close> gives to unsigned integers, and its
    injectivity.
  \<^item> \<open>pad\<close>, \<open>nl\<close>, \<open>intercalate\<close>: the formatting primitives of the \<open>write!\<close> calls.
  \<^item> \<open>entry_or_insert\<close>: the \<open>BTreeMap\<close> interface as a sorted association list.
\<close>

named_theorems result_simps \<open>unfolding rules of the fault monad\<close>

section \<open>Results with faults\<close>

datatype fault = UsizeUnderflow | IndexOutOfBounds | Panicked string | OutOfFuel

type_synonym 'a result = "fault + 'a"

definition rbind :: "('e + 'a) \<Rightarrow> ('a \<Rightarrow> 'e + 'b) \<Rightarrow> 'e + 'b" where
  "rbind m f = (case m of Inl e \<Rightarrow> Inl e | Inr a \<Rightarrow> f a)"

lemma rbind_Inl [simp, result_simps]: "rbind (Inl e) f = Inl e"
  by (simp add: rbind_def)

lemma rbind_Inr [simp, result_simps]: "rbind (Inr a) f = f a"
  by (simp add: rbind_def)

lemma rbind_eq_Inr_iff: "rbind m f = Inr b \<longleftrightarrow> (\<exists>a. m = Inr a \<and> f a = Inr b)"
  by (cases m) auto

lemma rbind_eq_Inl_iff: "rbind m f = Inl e \<longleftrightarrow> m = Inl e \<or> (\<exists>a. m = Inr a \<and> f a = Inl e)"
  by (cases m) auto

lemma rbind_cong [fundef_cong]:
  "m = m' \<Longrightarrow> (\<And>a. m' = Inr a \<Longrightarrow> f a = g a) \<Longrightarrow> rbind m f = rbind m' g"
  by (cases m') auto

lemma rbind_assoc: "rbind (rbind m f) g = rbind m (\<lambda>a. rbind (f a) g)"
  by (cases m) auto

text \<open>Checked subtraction on \<open>usize\<close>, as in a build with overflow checks.\<close>

definition usub :: "nat \<Rightarrow> nat \<Rightarrow> nat result" where
  "usub a b = (if b \<le> a then Inr (a - b) else Inl UsizeUnderflow)"

lemma usub_Inr_iff: "usub a b = Inr c \<longleftrightarrow> b \<le> a \<and> c = a - b"
  by (auto simp: usub_def)

lemma usub_ok [simp]: "b \<le> a \<Longrightarrow> usub a b = Inr (a - b)"
  by (simp add: usub_def)

text \<open>\<open>as u32\<close> of a larger unsigned integer.\<close>

definition as_u32 :: "nat \<Rightarrow> nat" where
  "as_u32 n = n mod 2 ^ 32"

text \<open>Checked indexing \<open>xs[i]\<close>.\<close>

definition at_index :: "'a list \<Rightarrow> nat \<Rightarrow> 'a result" where
  "at_index xs i = (if i < length xs then Inr (xs ! i) else Inl IndexOutOfBounds)"

lemma at_index_ok [simp]: "i < length xs \<Longrightarrow> at_index xs i = Inr (xs ! i)"
  by (simp add: at_index_def)

lemma at_index_Inr_iff: "at_index xs i = Inr x \<longleftrightarrow> i < length xs \<and> x = xs ! i"
  by (auto simp: at_index_def)

text \<open>Mapping a fallible function over a list (\<open>collect::<Result<Vec<_>, _>>()\<close>).\<close>

primrec mapM :: "('a \<Rightarrow> 'e + 'b) \<Rightarrow> 'a list \<Rightarrow> 'e + 'b list" where
  "mapM f [] = Inr []"
| "mapM f (x # xs) = rbind (f x) (\<lambda>y. rbind (mapM f xs) (\<lambda>ys. Inr (y # ys)))"

lemma mapM_cong [fundef_cong]:
  "xs = ys \<Longrightarrow> (\<And>x. x \<in> set ys \<Longrightarrow> f x = g x) \<Longrightarrow> mapM f xs = mapM g ys"
  by (induction ys arbitrary: xs) auto

lemma mapM_Inr_length: "mapM f xs = Inr ys \<Longrightarrow> length ys = length xs"
  by (induction xs arbitrary: ys) (auto simp: rbind_eq_Inr_iff)

lemma mapM_Inr_nth: "mapM f xs = Inr ys \<Longrightarrow> i < length xs \<Longrightarrow> f (xs ! i) = Inr (ys ! i)"
  by (induction xs arbitrary: ys i) (auto simp: rbind_eq_Inr_iff nth_Cons split: nat.splits)

lemma mapM_total: "(\<And>x. x \<in> set xs \<Longrightarrow> f x = Inr (g x)) \<Longrightarrow> mapM f xs = Inr (map g xs)"
  by (induction xs) auto

lemma mapM_append: "mapM f (xs @ ys) = rbind (mapM f xs) (\<lambda>as. rbind (mapM f ys) (\<lambda>bs. Inr (as @ bs)))"
  by (induction xs) (simp_all add: rbind_assoc rbind_def split: sum.splits)

lemma mapM_total_ex: "(\<And>x. x \<in> set xs \<Longrightarrow> \<exists>y. f x = Inr y) \<Longrightarrow> \<exists>ys. mapM f xs = Inr ys"
  by (induction xs) (fastforce simp: rbind_def split: sum.splits)+

text \<open>A loop that threads a state and stops at the first fault.\<close>

primrec foldM :: "('a \<Rightarrow> 's \<Rightarrow> 'e + 's) \<Rightarrow> 'a list \<Rightarrow> 's \<Rightarrow> 'e + 's" where
  "foldM f [] s = Inr s"
| "foldM f (x # xs) s = rbind (f x s) (foldM f xs)"

lemma foldM_total:
  assumes "\<And>x s. x \<in> set xs \<Longrightarrow> \<exists>s'. f x s = Inr s'"
  shows "\<exists>s'. foldM f xs s = Inr s'"
  using assms
proof (induction xs arbitrary: s)
  case (Cons x xs)
  from Cons.prems[of x s] obtain s1 where "f x s = Inr s1" by auto
  with Cons show ?case by simp
qed simp

lemma sorted_le_last: "sorted xs \<Longrightarrow> (y::'a::linorder) \<in> set xs \<Longrightarrow> y \<le> last xs"
  by (induction xs) auto

section \<open>Text\<close>

definition nl :: string where
  "nl = [CHR 0x0A]"

text \<open>\<open>{s:width$}\<close> with \<open>s = ""\<close>: that many blanks.\<close>

definition pad :: "nat \<Rightarrow> string" where
  "pad n = replicate n (CHR '' '')"

lemma length_pad [simp]: "length (pad n) = n"
  by (simp add: pad_def)

lemma pad_0 [simp]: "pad 0 = []"
  by (simp add: pad_def)

primrec intercalate :: "string \<Rightarrow> string list \<Rightarrow> string" where
  "intercalate sep [] = []"
| "intercalate sep (x # xs) = x @ (if xs = [] then [] else sep @ intercalate sep xs)"

definition digit_char :: "nat \<Rightarrow> char" where
  "digit_char d = char_of (48 + d)"

fun show_nat :: "nat \<Rightarrow> string" where
  "show_nat n = (if n < 10 then [digit_char n] else show_nat (n div 10) @ [digit_char (n mod 10)])"

declare show_nat.simps [simp del]

definition digit_value :: "char \<Rightarrow> nat" where
  "digit_value c = of_char c - 48"

definition read_nat :: "string \<Rightarrow> nat" where
  "read_nat s = foldl (\<lambda>n c. 10 * n + digit_value c) 0 s"

lemma digit_value_char [simp]: "d < 10 \<Longrightarrow> digit_value (digit_char d) = d"
  by (simp add: digit_value_def digit_char_def of_char_of)

text \<open>Reading a rendered number gives the number back, so the rendering is injective.\<close>

lemma read_show_nat [simp]: "read_nat (show_nat n) = n"
proof (induction n rule: show_nat.induct)
  case (1 n)
  show ?case
  proof (cases "n < 10")
    case True
    then show ?thesis by (simp add: show_nat.simps[of n] read_nat_def)
  next
    case False
    with 1 have IH: "read_nat (show_nat (n div 10)) = n div 10" by simp
    from False have "read_nat (show_nat n) = 10 * read_nat (show_nat (n div 10)) + n mod 10"
      by (simp add: show_nat.simps[of n] read_nat_def)
    with IH show ?thesis by simp
  qed
qed

lemma show_nat_inject [simp]: "show_nat m = show_nat n \<longleftrightarrow> m = n"
  by (metis read_show_nat)

lemma show_nat_nonempty [simp]: "show_nat n \<noteq> []" "[] \<noteq> show_nat n"
  by (simp_all add: show_nat.simps[of n])

definition is_digit_char :: "char \<Rightarrow> bool" where
  "is_digit_char c = (48 \<le> (of_char c :: nat) \<and> (of_char c :: nat) \<le> 57)"

lemma show_nat_digits: "c \<in> set (show_nat n) \<Longrightarrow> is_digit_char c"
proof (induction n rule: show_nat.induct)
  case (1 n)
  have dig: "d < 10 \<Longrightarrow> is_digit_char (digit_char d)" for d
    by (simp add: is_digit_char_def digit_char_def of_char_of)
  show ?case
    using 1 dig[of n] dig[of "n mod 10"]
    by (cases "n < 10") (auto simp: show_nat.simps[of n])
qed

section \<open>Suffixes of digits\<close>

text \<open>Names are printed as a stem followed by a number; stems that do not end in a digit
  make the pair recoverable.\<close>

lemma append_digits_inject:
  assumes "a @ d = b @ e" "\<forall>c\<in>set d. is_digit_char c" "\<forall>c\<in>set e. is_digit_char c"
    and "a \<noteq> []" "b \<noteq> []" "\<not> is_digit_char (last a)" "\<not> is_digit_char (last b)"
  shows "a = b \<and> d = e"
proof -
  have takeWhile_rev: "takeWhile is_digit_char (rev (s @ t)) = rev t"
    if "\<forall>c\<in>set t. is_digit_char c" "s \<noteq> []" "\<not> is_digit_char (last s)" for s t
  proof -
    from that(2,3) obtain s' x where s: "s = s' @ [x]" "\<not> is_digit_char x"
      by (metis append_butlast_last_id)
    have "takeWhile is_digit_char (rev t @ (x # rev s')) = rev t"
      using that(1) s(2) by (subst takeWhile_append2) auto
    then show ?thesis by (simp add: s)
  qed
  from takeWhile_rev[of d a] takeWhile_rev[of e b] assms have "rev d = rev e" by simp
  then have "d = e" by simp
  with assms(1) show ?thesis by simp
qed

section \<open>Sorted association lists (BTreeMap)\<close>

type_synonym ('k, 'v) btree = "('k \<times> 'v) list"

text \<open>\<open>map.entry(k).or_insert_with(|| v)\<close>: insert in key order unless the key is present.\<close>

primrec entry_or_insert :: "'k::linorder \<Rightarrow> 'v \<Rightarrow> ('k, 'v) btree \<Rightarrow> ('k, 'v) btree" where
  "entry_or_insert k v [] = [(k, v)]"
| "entry_or_insert k v (x # xs) =
     (if k < fst x then (k, v) # x # xs
      else if k = fst x then x # xs
      else x # entry_or_insert k v xs)"

text \<open>\<open>map.insert(k, v)\<close>: the new value replaces an old one.\<close>

primrec btree_insert :: "'k::linorder \<Rightarrow> 'v \<Rightarrow> ('k, 'v) btree \<Rightarrow> ('k, 'v) btree" where
  "btree_insert k v [] = [(k, v)]"
| "btree_insert k v (x # xs) =
     (if k < fst x then (k, v) # x # xs
      else if k = fst x then (k, v) # xs
      else x # btree_insert k v xs)"

abbreviation btree_get :: "('k, 'v) btree \<Rightarrow> 'k \<Rightarrow> 'v option" where
  "btree_get m k \<equiv> map_of m k"

definition btree_ok :: "('k::linorder, 'v) btree \<Rightarrow> bool" where
  "btree_ok m = sorted_wrt (\<lambda>a b. fst a < fst b) m"

lemma btree_ok_Nil [simp]: "btree_ok []"
  by (simp add: btree_ok_def)

lemma btree_ok_Cons: "btree_ok (x # xs) \<longleftrightarrow> (\<forall>y\<in>set xs. fst x < fst y) \<and> btree_ok xs"
  by (simp add: btree_ok_def)

lemma btree_ok_distinct: "btree_ok m \<Longrightarrow> distinct (map fst m)"
  by (induction m) (auto simp: btree_ok_Cons)

lemma keys_entry_or_insert: "fst ` set (entry_or_insert k v m) = insert k (fst ` set m)"
  by (induction m) auto

lemma keys_btree_insert: "fst ` set (btree_insert k v m) = insert k (fst ` set m)"
  by (induction m) auto

lemma btree_ok_entry_or_insert: "btree_ok m \<Longrightarrow> btree_ok (entry_or_insert k v m)"
proof (induction m)
  case Nil
  then show ?case by (simp add: btree_ok_Cons)
next
  case (Cons x xs)
  then have "\<forall>y\<in>set (entry_or_insert k v xs). fst y \<in> insert k (fst ` set xs)"
    using keys_entry_or_insert[of k v xs] by blast
  with Cons show ?case by (fastforce simp: btree_ok_Cons)
qed

lemma btree_ok_insert: "btree_ok m \<Longrightarrow> btree_ok (btree_insert k v m)"
proof (induction m)
  case Nil
  then show ?case by (simp add: btree_ok_Cons)
next
  case (Cons x xs)
  then have "\<forall>y\<in>set (btree_insert k v xs). fst y \<in> insert k (fst ` set xs)"
    using keys_btree_insert[of k v xs] by blast
  with Cons show ?case by (fastforce simp: btree_ok_Cons)
qed

lemma btree_notin_get: "\<forall>y\<in>set m. (k::'k::linorder) < fst y \<Longrightarrow> btree_get m k = None"
  by (induction m) auto

lemma btree_get_entry_or_insert:
  "btree_ok m \<Longrightarrow> btree_get (entry_or_insert k v m) j =
     (if j = k then (case btree_get m k of None \<Rightarrow> Some v | Some w \<Rightarrow> Some w) else btree_get m j)"
proof (induction m)
  case Nil
  then show ?case by simp
next
  case (Cons x xs)
  have "k < fst x \<Longrightarrow> btree_get xs k = None"
    using Cons.prems by (intro btree_notin_get) (auto simp: btree_ok_Cons)
  with Cons show ?case by (cases x) (auto simp: btree_ok_Cons)
qed

lemma btree_get_insert:
  "btree_ok m \<Longrightarrow> btree_get (btree_insert k v m) j = (if j = k then Some v else btree_get m j)"
proof (induction m)
  case Nil
  then show ?case by simp
next
  case (Cons x xs)
  have "k < fst x \<Longrightarrow> btree_get xs k = None"
    using Cons.prems by (intro btree_notin_get) (auto simp: btree_ok_Cons)
  with Cons show ?case by (cases x) (auto simp: btree_ok_Cons)
qed

lemma length_entry_or_insert:
  "btree_ok m \<Longrightarrow>
     length (entry_or_insert k v m) = (if btree_get m k = None then Suc (length m) else length m)"
proof (induction m)
  case Nil
  then show ?case by simp
next
  case (Cons x xs)
  have "k < fst x \<Longrightarrow> btree_get xs k = None"
    using Cons.prems by (intro btree_notin_get) (auto simp: btree_ok_Cons)
  with Cons show ?case by (cases x) (auto simp: btree_ok_Cons)
qed

end
