(* ===== verification/Dis_Format.thy ===== *)
theory Dis_Format
  imports Prelude
begin

text \<open>
  The data the disassembler (\<open>lang/disassembler/src\<close>) works on.

  The bytecode file format itself belongs to the \<open>vm\<close> crate, which is not part of this
  repository. What appears here is the shape the repository matches on: the opcodes are the
  arms of \<open>Translator::next_exp\<close> (an exhaustive match), the signature tokens the arms of
  \<open>extract_type_signature\<close>, the handles and definitions the fields that the code reads.
  The table accessors of \<open>vm::access::{ModuleAccess, ScriptAccess}\<close> are function-valued
  fields of \<open>module_access\<close> and \<open>script_access\<close>: parameters of the model.

  \<open>compiled_unit\<close> and the \<open>ua_*\<close> functions are \<open>unit.rs\<close>: the \<open>CompiledUnit\<close> enum, its
  loader, and the \<open>UnitAccess\<close> implementation that dispatches on script or module.
\<close>

type_synonym account_address = "8 word list"

section \<open>Signatures, handles and definitions\<close>

datatype signature_token =
    TkBool | TkU8 | TkU64 | TkU128 | TkAddress | TkSigner
  | TkVector signature_token
  | TkStruct nat
  | TkStructInstantiation nat "signature_token list"
  | TkReference signature_token
  | TkMutableReference signature_token
  | TkTypeParameter nat

datatype kind = KAll | KResource | KCopyable

record module_id =
  mid_address :: account_address
  mid_name :: string

record module_handle =
  mh_name :: nat
  mh_address :: nat

record struct_handle =
  sh_module :: nat
  sh_name :: nat
  sh_is_nominal_resource :: bool
  sh_type_parameters :: "kind list"

record function_handle =
  fh_module :: nat
  fh_name :: nat
  fh_parameters :: nat
  fh_return :: nat
  fh_type_parameters :: "kind list"

record function_instantiation =
  fi_handle :: nat
  fi_type_parameters :: nat

record field_definition =
  fld_name :: nat
  fld_signature :: signature_token

datatype struct_field_information = Native | Declared "field_definition list"

record struct_definition =
  sd_struct_handle :: nat
  sd_field_information :: struct_field_information

record struct_def_instantiation =
  sdi_def :: nat
  sdi_type_parameters :: nat

record field_handle =
  fdh_owner :: nat
  fdh_field :: nat

record field_instantiation =
  fdi_handle :: nat

section \<open>Bytecode\<close>

datatype (plugins only: size) bytecode =
    BcPop | BcNot | BcAbort | BcAdd | BcSub | BcMul | BcMod | BcDiv | BcBitOr | BcBitAnd
  | BcXor | BcOr | BcAnd | BcEq | BcNeq | BcLt | BcGt | BcLe | BcGe | BcShl | BcShr | BcNop
  | BcRet | BcCastU8 | BcCastU64 | BcCastU128
  | BcLdU8 "8 word" | BcLdU64 "64 word" | BcLdU128 "128 word" | BcLdConst nat
  | BcLdTrue | BcLdFalse
  | BcCall nat | BcCallGeneric nat
  | BcExists nat | BcExistsGeneric nat
  | BcMoveFrom nat | BcMoveFromGeneric nat
  | BcMoveTo nat | BcMoveToGeneric nat
  | BcImmBorrowGlobal nat | BcImmBorrowGlobalGeneric nat
  | BcMutBorrowGlobal nat | BcMutBorrowGlobalGeneric nat
  | BcCopyLoc "8 word" | BcMoveLoc "8 word" | BcStLoc "8 word"
  | BcPack nat | BcPackGeneric nat | BcUnpack nat | BcUnpackGeneric nat
  | BcMutBorrowField nat | BcMutBorrowFieldGeneric nat
  | BcImmBorrowField nat | BcImmBorrowFieldGeneric nat
  | BcFreezeRef | BcMutBorrowLoc "8 word" | BcImmBorrowLoc "8 word"
  | BcReadRef | BcWriteRef
  | BcBrTrue "16 word" | BcBrFalse "16 word" | BcBranch "16 word"

record code_unit =
  cu_locals :: nat
  cu_code :: "bytecode list"

record function_definition =
  fd_function :: nat
  fd_is_public :: bool
  fd_is_native :: bool
  fd_acquires_global_resources :: "nat list"
  fd_code :: "code_unit option"

text \<open>A constant of the pool and the values the repository distinguishes in it.\<close>

type_synonym pool_constant = "8 word list"

datatype move_value =
    MvU8 "8 word" | MvU64 "64 word" | MvU128 "128 word" | MvBool bool
  | MvAddress account_address | MvVector "move_value list" | MvOther

section \<open>Third-party functions the disassembler calls\<close>

text \<open>
  \<^item> \<open>v_bc_debug\<close>: \<open>{:?}\<close> of a \<open>Bytecode\<close>;
  \<^item> \<open>v_bc_offset\<close>: \<open>Bytecode::offset\<close>, the target of a branch instruction;
  \<^item> \<open>v_addr_display\<close>: \<open>{}\<close> of an \<open>AccountAddress\<close>;
  \<^item> \<open>v_hex_encode\<close>: \<open>hex::encode\<close>;
  \<^item> \<open>v_core_code_address\<close>: the \<open>CORE_CODE_ADDRESS\<close> of \<open>move_core_types\<close>;
  \<^item> \<open>v_deserialize_constant\<close>: \<open>Constant::deserialize_constant\<close>.
\<close>

record vendor =
  v_bc_debug :: "bytecode \<Rightarrow> string"
  v_bc_offset :: "bytecode \<Rightarrow> 16 word option"
  v_addr_display :: "account_address \<Rightarrow> string"
  v_hex_encode :: "8 word list \<Rightarrow> string"
  v_core_code_address :: account_address
  v_deserialize_constant :: "pool_constant \<Rightarrow> move_value option"

section \<open>Compiled units\<close>

record script_access =
  sa_code :: code_unit
  sa_type_parameters :: "kind list"
  sa_parameters :: nat
  sa_module_handles :: "module_handle list"
  sa_module_handle_at :: "nat \<Rightarrow> module_handle"
  sa_identifiers :: "string list"
  sa_identifier_at :: "nat \<Rightarrow> string"
  sa_address_identifier_at :: "nat \<Rightarrow> account_address"
  sa_function_handle_at :: "nat \<Rightarrow> function_handle"
  sa_function_instantiation_at :: "nat \<Rightarrow> function_instantiation"
  sa_signature_at :: "nat \<Rightarrow> signature_token list"
  sa_struct_handle_at :: "nat \<Rightarrow> struct_handle"
  sa_constant_at :: "nat \<Rightarrow> pool_constant"

record module_access =
  ma_self_id :: module_id
  ma_self_handle_idx :: nat
  ma_module_handles :: "module_handle list"
  ma_module_handle_at :: "nat \<Rightarrow> module_handle"
  ma_identifiers :: "string list"
  ma_identifier_at :: "nat \<Rightarrow> string"
  ma_address_identifier_at :: "nat \<Rightarrow> account_address"
  ma_function_defs :: "function_definition list"
  ma_function_handle_at :: "nat \<Rightarrow> function_handle"
  ma_function_instantiation_at :: "nat \<Rightarrow> function_instantiation"
  ma_signature_at :: "nat \<Rightarrow> signature_token list"
  ma_struct_defs :: "struct_definition list"
  ma_struct_def_at :: "nat \<Rightarrow> struct_definition"
  ma_struct_handle_at :: "nat \<Rightarrow> struct_handle"
  ma_struct_instantiation_at :: "nat \<Rightarrow> struct_def_instantiation"
  ma_field_instantiation_at :: "nat \<Rightarrow> field_instantiation"
  ma_constant_at :: "nat \<Rightarrow> pool_constant"
  ma_field_handle_at :: "nat \<Rightarrow> field_handle"

datatype compiled_unit = Script script_access | Module module_access

text \<open>
  \<open>CompiledUnit::new\<close>: the bytes are a script when they deserialize as one with a non-empty
  body; everything else is loaded as a module. The two deserializers are the \<open>vm\<close> crate's.
\<close>

definition check_is_script :: "script_access \<Rightarrow> bool" where
  "check_is_script s = (cu_code (sa_code s) \<noteq> [])"

definition load_as_module ::
    "('b \<Rightarrow> 'e + module_access) \<Rightarrow> 'b \<Rightarrow> 'e + compiled_unit" where
  "load_as_module deser_module bytes =
     (case deser_module bytes of Inl e \<Rightarrow> Inl e | Inr m \<Rightarrow> Inr (Module m))"

definition compiled_unit_new ::
    "('b \<Rightarrow> 'e + script_access) \<Rightarrow> ('b \<Rightarrow> 'e + module_access) \<Rightarrow> 'b \<Rightarrow> 'e + compiled_unit" where
  "compiled_unit_new deser_script deser_module bytes =
     (case rbind (deser_script bytes)
             (\<lambda>s. if check_is_script s then Inr (Script s) else load_as_module deser_module bytes) of
        Inr u \<Rightarrow> Inr u
      | Inl _ \<Rightarrow> load_as_module deser_module bytes)"

text \<open>The \<open>UnitAccess\<close> methods, dispatching on the kind of unit.\<close>

definition ua_is_script :: "compiled_unit \<Rightarrow> bool" where
  "ua_is_script u = (case u of Script _ \<Rightarrow> True | Module _ \<Rightarrow> False)"

definition ua_script_info :: "compiled_unit \<Rightarrow> (code_unit \<times> kind list \<times> nat) option" where
  "ua_script_info u =
     (case u of Script s \<Rightarrow> Some (sa_code s, sa_type_parameters s, sa_parameters s)
              | Module _ \<Rightarrow> None)"

definition ua_self_id :: "account_address \<Rightarrow> compiled_unit \<Rightarrow> module_id" where
  "ua_self_id core_code_address u =
     (case u of Script _ \<Rightarrow> \<lparr>mid_address = core_code_address, mid_name = ''<SELF>''\<rparr>
              | Module m \<Rightarrow> ma_self_id m)"

definition ua_module_handles :: "compiled_unit \<Rightarrow> module_handle list" where
  "ua_module_handles u = (case u of Script s \<Rightarrow> sa_module_handles s | Module m \<Rightarrow> ma_module_handles m)"

definition ua_module_handle :: "compiled_unit \<Rightarrow> nat \<Rightarrow> module_handle" where
  "ua_module_handle u i =
     (case u of Script s \<Rightarrow> sa_module_handle_at s i | Module m \<Rightarrow> ma_module_handle_at m i)"

definition ua_identifiers :: "compiled_unit \<Rightarrow> string list" where
  "ua_identifiers u = (case u of Script s \<Rightarrow> sa_identifiers s | Module m \<Rightarrow> ma_identifiers m)"

definition ua_identifier :: "compiled_unit \<Rightarrow> nat \<Rightarrow> string" where
  "ua_identifier u i =
     (case u of Script s \<Rightarrow> sa_identifier_at s i | Module m \<Rightarrow> ma_identifier_at m i)"

definition ua_address :: "compiled_unit \<Rightarrow> nat \<Rightarrow> account_address" where
  "ua_address u i =
     (case u of Script s \<Rightarrow> sa_address_identifier_at s i | Module m \<Rightarrow> ma_address_identifier_at m i)"

definition ua_self_module_handle_idx :: "compiled_unit \<Rightarrow> nat option" where
  "ua_self_module_handle_idx u =
     (case u of Script _ \<Rightarrow> None | Module m \<Rightarrow> Some (ma_self_handle_idx m))"

definition ua_function_defs :: "compiled_unit \<Rightarrow> function_definition list" where
  "ua_function_defs u = (case u of Script _ \<Rightarrow> [] | Module m \<Rightarrow> ma_function_defs m)"

definition ua_function_handle :: "compiled_unit \<Rightarrow> nat \<Rightarrow> function_handle" where
  "ua_function_handle u i =
     (case u of Script s \<Rightarrow> sa_function_handle_at s i | Module m \<Rightarrow> ma_function_handle_at m i)"

definition ua_function_instantiation :: "compiled_unit \<Rightarrow> nat \<Rightarrow> function_instantiation" where
  "ua_function_instantiation u i =
     (case u of Script s \<Rightarrow> sa_function_instantiation_at s i
              | Module m \<Rightarrow> ma_function_instantiation_at m i)"

definition ua_signature :: "compiled_unit \<Rightarrow> nat \<Rightarrow> signature_token list" where
  "ua_signature u i =
     (case u of Script s \<Rightarrow> sa_signature_at s i | Module m \<Rightarrow> ma_signature_at m i)"

definition ua_struct_defs :: "compiled_unit \<Rightarrow> struct_definition list" where
  "ua_struct_defs u = (case u of Script _ \<Rightarrow> [] | Module m \<Rightarrow> ma_struct_defs m)"

definition ua_struct_def :: "compiled_unit \<Rightarrow> nat \<Rightarrow> struct_definition option" where
  "ua_struct_def u i = (case u of Script _ \<Rightarrow> None | Module m \<Rightarrow> Some (ma_struct_def_at m i))"

definition ua_struct_handle :: "compiled_unit \<Rightarrow> nat \<Rightarrow> struct_handle" where
  "ua_struct_handle u i =
     (case u of Script s \<Rightarrow> sa_struct_handle_at s i | Module m \<Rightarrow> ma_struct_handle_at m i)"

definition ua_struct_def_instantiation ::
    "compiled_unit \<Rightarrow> nat \<Rightarrow> struct_def_instantiation option" where
  "ua_struct_def_instantiation u i =
     (case u of Script _ \<Rightarrow> None | Module m \<Rightarrow> Some (ma_struct_instantiation_at m i))"

definition ua_field_instantiation :: "compiled_unit \<Rightarrow> nat \<Rightarrow> field_instantiation option" where
  "ua_field_instantiation u i =
     (case u of Script _ \<Rightarrow> None | Module m \<Rightarrow> Some (ma_field_instantiation_at m i))"

definition ua_constant :: "compiled_unit \<Rightarrow> nat \<Rightarrow> pool_constant" where
  "ua_constant u i = (case u of Script s \<Rightarrow> sa_constant_at s i | Module m \<Rightarrow> ma_constant_at m i)"

definition ua_field_handle :: "compiled_unit \<Rightarrow> nat \<Rightarrow> field_handle option" where
  "ua_field_handle u i = (case u of Script _ \<Rightarrow> None | Module m \<Rightarrow> Some (ma_field_handle_at m i))"

lemmas ua_defs =
  ua_is_script_def ua_script_info_def ua_self_id_def ua_module_handles_def ua_module_handle_def
  ua_identifiers_def ua_identifier_def ua_address_def ua_self_module_handle_idx_def
  ua_function_defs_def ua_function_handle_def ua_function_instantiation_def ua_signature_def
  ua_struct_defs_def ua_struct_def_def ua_struct_handle_def ua_struct_def_instantiation_def
  ua_field_instantiation_def ua_constant_def ua_field_handle_def

end
