(* ===== verification/Dis_Names.thy ===== *)
theory Dis_Names
  imports Dis_Format
begin

text \<open>
  The naming layer of the disassembler: \<open>generics.rs\<close> (type-parameter names),
  \<open>imports.rs\<close> (the \<open>use\<close> table and its aliases) and \<open>types.rs\<close> (types and full struct
  names). An \<open>Encode\<close> implementation is a function to \<open>string\<close>: the writer is the \<open>String\<close>
  of \<open>disasm_str\<close>, whose \<open>write_str\<close> never fails.
\<close>

section \<open>write_array (lib.rs)\<close>

text \<open>The elements arrive already encoded with indent 0, in order.\<close>

fun write_array_from :: "string \<Rightarrow> nat \<Rightarrow> nat \<Rightarrow> string list \<Rightarrow> string" where
  "write_array_from sep index len [] = []"
| "write_array_from sep index len (e # es) =
     e @ (if int index \<noteq> int len - 1 then sep else []) @ write_array_from sep (Suc index) len es"

definition write_array :: "string \<Rightarrow> string \<Rightarrow> string list \<Rightarrow> string \<Rightarrow> string" where
  "write_array prefix sep es suffix =
     prefix @ write_array_from sep 0 (length es) es @ suffix"

lemma write_array_from_intercalate:
  "len = index + length es \<Longrightarrow> write_array_from sep index len es = intercalate sep es"
proof (induction es arbitrary: index)
  case Nil
  then show ?case by simp
next
  case (Cons e es)
  then have "write_array_from sep (Suc index) len es = intercalate sep es" by simp
  with Cons.prems show ?case by (cases es) auto
qed

lemma write_array_eq [simp]:
  "write_array prefix sep es suffix = prefix @ intercalate sep es @ suffix"
  by (simp add: write_array_def write_array_from_intercalate)

section \<open>Generics (generics.rs)\<close>

definition generics_prefix_table :: "string list" where
  "generics_prefix_table =
     [''T'', ''G'', ''V'', ''A'', ''B'', ''C'', ''D'', ''F'', ''H'', ''J'', ''K'', ''L'', ''M'',
      ''N'', ''P'', ''Q'', ''R'', ''S'', ''W'', ''X'', ''Y'', ''Z'']"

datatype generic_prefix = SimplePrefix string | Generated "16 word"

text \<open>\<open>rand\<close> is the value \<open>rand::random()\<close> returns.\<close>

definition generics_new :: "16 word \<Rightarrow> compiled_unit \<Rightarrow> generic_prefix" where
  "generics_new rand u =
     (case find (\<lambda>prefix. prefix \<notin> set (ua_identifiers u)) generics_prefix_table of
        Some prefix \<Rightarrow> SimplePrefix prefix
      | None \<Rightarrow> Generated rand)"

record generic =
  g_prefix :: generic_prefix
  g_index :: nat
  g_kind :: kind

definition create_generic :: "generic_prefix \<Rightarrow> nat \<Rightarrow> kind \<Rightarrow> generic" where
  "create_generic gs index k = \<lparr>g_prefix = gs, g_index = index, g_kind = k\<rparr>"

definition encode_prefix :: "generic_prefix \<Rightarrow> string" where
  "encode_prefix g =
     (case g of SimplePrefix p \<Rightarrow> p | Generated p \<Rightarrow> ''TYPE'' @ show_nat (unat p))"

definition encode_generic_name :: "generic \<Rightarrow> string" where
  "encode_generic_name g =
     encode_prefix (g_prefix g) @ (if g_index g \<noteq> 0 then show_nat (g_index g) else [])"

definition encode_generic :: "generic \<Rightarrow> string" where
  "encode_generic g =
     encode_prefix (g_prefix g) @ (if g_index g \<noteq> 0 then show_nat (g_index g) else []) @
     (case g_kind g of KAll \<Rightarrow> [] | KResource \<Rightarrow> '': resource'' | KCopyable \<Rightarrow> '': copyable'')"

definition extract_type_params :: "kind list \<Rightarrow> generic_prefix \<Rightarrow> generic list" where
  "extract_type_params params gs = map (\<lambda>(i, k). create_generic gs i k) (enumerate 0 params)"

definition write_type_parameters :: "generic list \<Rightarrow> string" where
  "write_type_parameters tps =
     (if tps \<noteq> [] then write_array ''<'' '', '' (map encode_generic tps) ''>'' else [])"

section \<open>Imports (imports.rs)\<close>

datatype import_name = ImportName string | ImportAlias string nat

type_synonym import_table = "(string, (account_address, import_name) btree) btree"

text \<open>One turn of the loop of \<open>Imports::new\<close>: the alias counts the addresses already known
  for the module name, and an address that is already known keeps its import.\<close>

definition imports_step ::
    "compiled_unit \<Rightarrow> nat option \<Rightarrow> nat \<times> module_handle \<Rightarrow> import_table \<Rightarrow> import_table" where
  "imports_step u self_idx ih tbl =
     (case ih of (index, handler) \<Rightarrow>
        if self_idx \<noteq> Some index then
          let module_name = ua_identifier u (mh_name handler);
              name_map = (case btree_get tbl module_name of None \<Rightarrow> [] | Some m \<Rightarrow> m);
              count = length name_map;
              name_map' = entry_or_insert (ua_address u (mh_address handler))
                (if count = 0 then ImportName module_name else ImportAlias module_name count)
                name_map
          in btree_insert module_name name_map' tbl
        else tbl)"

definition imports_new :: "compiled_unit \<Rightarrow> import_table" where
  "imports_new u =
     fold (imports_step u (ua_self_module_handle_idx u)) (enumerate 0 (ua_module_handles u)) []"

definition get_import :: "import_table \<Rightarrow> account_address \<Rightarrow> string \<Rightarrow> import_name option" where
  "get_import im address name =
     Option.bind (btree_get im name) (\<lambda>m. btree_get m address)"

definition imports_is_empty :: "import_table \<Rightarrow> bool" where
  "imports_is_empty im = (im = [])"

definition encode_import_name :: "import_name \<Rightarrow> string" where
  "encode_import_name i =
     (case i of ImportName name \<Rightarrow> name
              | ImportAlias name n \<Rightarrow> name @ ''_'' @ show_nat n)"

definition encode_import_line ::
    "vendor \<Rightarrow> nat \<Rightarrow> string \<Rightarrow> account_address \<Rightarrow> import_name \<Rightarrow> string" where
  "encode_import_line v indent name address alias =
     pad indent @ ''use 0x'' @ v_addr_display v address @ ''::'' @ name @
     (case alias of ImportAlias a n \<Rightarrow> '' as '' @ a @ ''_'' @ show_nat n | ImportName _ \<Rightarrow> []) @
     '';'' @ nl"

definition encode_imports :: "vendor \<Rightarrow> import_table \<Rightarrow> nat \<Rightarrow> string" where
  "encode_imports v im indent =
     concat (map (\<lambda>(name, address_map).
       concat (map (\<lambda>(address, alias). encode_import_line v indent name address alias) address_map))
       im)"

section \<open>Types (types.rs)\<close>

record full_struct_name =
  fsn_name :: string
  fsn_import :: "import_name option"

datatype ftype =
    FGeneric generic
  | FPrimitive string
  | FRef ftype
  | FRefMut ftype
  | FVec ftype
  | FStruct full_struct_name
  | FStructInst full_struct_name "ftype list"

definition extract_struct_name :: "compiled_unit \<Rightarrow> nat \<Rightarrow> import_table \<Rightarrow> full_struct_name" where
  "extract_struct_name u struct_index im =
     (let handler = ua_struct_handle u struct_index;
          module_handler = ua_module_handle u (sh_module handler);
          module_name = ua_identifier u (mh_name module_handler);
          address = ua_address u (mh_address module_handler);
          type_name = ua_identifier u (sh_name handler)
      in (case get_import im address module_name of
            Some i \<Rightarrow> \<lparr>fsn_name = type_name, fsn_import = Some i\<rparr>
          | None \<Rightarrow> \<lparr>fsn_name = type_name, fsn_import = None\<rparr>))"

text \<open>\<open>type_params[*index as usize]\<close> panics when the index is out of bounds.\<close>

fun extract_type_signature ::
    "compiled_unit \<Rightarrow> signature_token \<Rightarrow> import_table \<Rightarrow> generic list \<Rightarrow> ftype result" where
  "extract_type_signature u TkU8 im tps = Inr (FPrimitive ''u8'')"
| "extract_type_signature u TkBool im tps = Inr (FPrimitive ''bool'')"
| "extract_type_signature u TkU64 im tps = Inr (FPrimitive ''u64'')"
| "extract_type_signature u TkU128 im tps = Inr (FPrimitive ''u128'')"
| "extract_type_signature u TkAddress im tps = Inr (FPrimitive ''address'')"
| "extract_type_signature u TkSigner im tps = Inr (FPrimitive ''signer'')"
| "extract_type_signature u (TkVector sign) im tps =
     rbind (extract_type_signature u sign im tps) (\<lambda>t. Inr (FVec t))"
| "extract_type_signature u (TkStruct si) im tps = Inr (FStruct (extract_struct_name u si im))"
| "extract_type_signature u (TkStructInstantiation si typed) im tps =
     rbind (mapM (\<lambda>t. extract_type_signature u t im tps) typed)
       (\<lambda>ts. Inr (FStructInst (extract_struct_name u si im) ts))"
| "extract_type_signature u (TkReference sign) im tps =
     rbind (extract_type_signature u sign im tps) (\<lambda>t. Inr (FRef t))"
| "extract_type_signature u (TkMutableReference sign) im tps =
     rbind (extract_type_signature u sign im tps) (\<lambda>t. Inr (FRefMut t))"
| "extract_type_signature u (TkTypeParameter index) im tps =
     rbind (at_index tps index) (\<lambda>g. Inr (FGeneric g))"

definition encode_full_struct_name :: "full_struct_name \<Rightarrow> string" where
  "encode_full_struct_name n =
     (case fsn_import n of Some i \<Rightarrow> encode_import_name i @ ''::'' | None \<Rightarrow> []) @ fsn_name n"

fun encode_ftype :: "ftype \<Rightarrow> string" where
  "encode_ftype (FPrimitive name) = name"
| "encode_ftype (FGeneric type_param) = encode_generic_name type_param"
| "encode_ftype (FRef t) = ''&'' @ encode_ftype t"
| "encode_ftype (FRefMut t) = ''&mut '' @ encode_ftype t"
| "encode_ftype (FVec t) = ''vector<'' @ encode_ftype t @ ''>''"
| "encode_ftype (FStruct name) = encode_full_struct_name name"
| "encode_ftype (FStructInst name generics) =
     encode_full_struct_name name @
     (if generics \<noteq> [] then ''<'' @ write_array_from '', '' 0 (length generics)
        (map encode_ftype generics) @ ''>'' else [])"

end
