(* ===== verification/Dis_Exp.thy ===== *)
theory Dis_Exp
  imports Dis_Names
begin

text \<open>
  The expression tree of the disassembler (\<open>code/exp/*.rs\<close>, \<open>code/locals.rs\<close>,
  \<open>functions.rs\<close> for \<open>Param\<close>): its data, the bytecode ranges of \<open>SourceRange\<close> and the
  \<open>Encode\<close> implementations.

  \<open>Param\<close> and \<open>Var\<close> share a \<open>used\<close> flag (\<open>Rc<AtomicBool>\<close>) between all their clones. The
  flag is a cell of an explicit store \<open>nat \<Rightarrow> bool\<close>: \<open>prm_cell\<close> and \<open>var_cell\<close> are the
  addresses, and encoding reads the store as translation left it.
\<close>

section \<open>Locals (locals.rs, functions.rs)\<close>

record param =
  prm_cell :: nat
  prm_index :: nat
  prm_type :: ftype

record var =
  var_cell :: nat
  var_index :: nat
  var_type :: ftype

datatype local_var = LParam param | LVar var

definition local_cell :: "local_var \<Rightarrow> nat" where
  "local_cell l = (case l of LParam p \<Rightarrow> prm_cell p | LVar x \<Rightarrow> var_cell x)"

type_synonym store = "nat \<Rightarrow> bool"

definition mark_as_used :: "local_var \<Rightarrow> store \<Rightarrow> store" where
  "mark_as_used l used = used(local_cell l := True)"

definition param_write_name :: "store \<Rightarrow> param \<Rightarrow> string" where
  "param_write_name used p =
     (if \<not> used (prm_cell p) then ''_'' else []) @ ''arg'' @
     (if prm_index p \<noteq> 0 then show_nat (prm_index p) else [])"

definition var_write_name :: "store \<Rightarrow> var \<Rightarrow> string" where
  "var_write_name used x =
     (if \<not> used (var_cell x) then ''_'' else []) @ ''var'' @
     (if var_index x \<noteq> 0 then show_nat (var_index x) else [])"

definition local_write_name :: "store \<Rightarrow> local_var \<Rightarrow> string" where
  "local_write_name used l =
     (case l of LParam p \<Rightarrow> param_write_name used p | LVar x \<Rightarrow> var_write_name used x)"

definition encode_param :: "store \<Rightarrow> param \<Rightarrow> string" where
  "encode_param used p = param_write_name used p @ '': '' @ encode_ftype (prm_type p)"

definition encode_var :: "store \<Rightarrow> var \<Rightarrow> string" where
  "encode_var used x = var_write_name used x @ '': '' @ encode_ftype (var_type x)"

section \<open>Expressions\<close>

datatype op =
    OpAdd | OpSub | OpMul | OpMod | OpDiv | OpBitOr | OpBitAnd | OpXor | OpOr | OpAnd
  | OpEq | OpNeq | OpLt | OpGt | OpLe | OpGe | OpShl | OpShr

datatype cast_type = CastToU8 | CastToU64 | CastToU128

datatype ld =
    LdU8 "8 word" | LdU64 "64 word" | LdU128 "128 word" | LdBool bool
  | LdAddress account_address | LdVector "8 word list"

datatype loc_access = AccessMove | AccessCopy

datatype build_in = BiExists | BiMoveFrom | BiMoveTo | BiBorrowGlobal | BiBorrowGlobalMut

record struct_name =
  sn_name :: string
  sn_import :: "import_name option"

datatype (plugins only: size) exp =
    Abort exp_loc
  | Ld ld
  | Error bytecode
  | Local bool loc_access local_var
  | Cast exp_loc cast_type
  | BinaryOp exp_loc op exp_loc
  | Basket exp_loc
  | NotExp exp_loc
  | FnCall fn_call
  | LetExp local_var exp_loc
  | Pack "import_name option" string "ftype list" "pack_field list"
  | Unpack "import_name option" string "ftype list" "pack_field list" exp_loc
  | Ret "exp_loc list" bool
  | FieldRef bool string exp_loc
  | Ref bool local_var
  | Deref exp_loc
  | WriteRef exp_loc exp_loc
  | Loop block
  | While exp_loc block
  | IfElse exp_loc block "block option"
  | Break
  | Continue
  | Nop
and exp_loc = ExpLoc (loc_index: nat) (loc_exp: exp)
and fn_call =
    BuildIn build_in struct_name "ftype list" "exp_loc list"
  | Plain "import_name option" string "ftype list" "exp_loc list"
and pack_field = PackField (pf_name: string) (pf_value: exp_loc)
and block = Block "exp_loc list" bool

definition is_nop :: "exp \<Rightarrow> bool" where
  "is_nop e = (case e of Nop \<Rightarrow> True | _ \<Rightarrow> False)"

section \<open>Bytecode ranges\<close>

text \<open>The ends of the present ranges, sorted; the first and the last of them.\<close>

definition find_range :: "(nat \<times> nat) option list \<Rightarrow> (nat \<times> nat) option" where
  "find_range range_list =
     (case sort (concat (map (\<lambda>p. case p of None \<Rightarrow> [] | Some (a, b) \<Rightarrow> [a, b]) range_list)) of
        [] \<Rightarrow> None
      | f # rest \<Rightarrow> Some (f, last (f # rest)))"

primrec exp_source_range :: "exp \<Rightarrow> (nat \<times> nat) option"
and loc_range :: "exp_loc \<Rightarrow> nat \<times> nat"
and call_source_range :: "fn_call \<Rightarrow> (nat \<times> nat) option"
and field_range :: "pack_field \<Rightarrow> nat \<times> nat"
and block_source_range :: "block \<Rightarrow> (nat \<times> nat) option" where
  "exp_source_range (Abort e) = Some (loc_range e)"
| "exp_source_range (Error b) = None"
| "exp_source_range (Ld l) = None"
| "exp_source_range (Local k a l) = None"
| "exp_source_range (Cast e t) = Some (loc_range e)"
| "exp_source_range (FnCall c) = call_source_range c"
| "exp_source_range (BinaryOp l s r) = find_range [Some (loc_range l), Some (loc_range r)]"
| "exp_source_range (Basket e) = Some (loc_range e)"
| "exp_source_range (NotExp e) = Some (loc_range e)"
| "exp_source_range (LetExp l e) = Some (loc_range e)"
| "exp_source_range (Pack m n ts fs) = find_range (map (\<lambda>f. Some (field_range f)) fs)"
| "exp_source_range (Unpack m n ts fs s) = find_range (map (\<lambda>f. Some (field_range f)) fs)"
| "exp_source_range (Ret rs k) = find_range (map (\<lambda>e. Some (loc_range e)) rs)"
| "exp_source_range (FieldRef m n i) = Some (loc_range i)"
| "exp_source_range (Ref m l) = None"
| "exp_source_range (Deref e) = Some (loc_range e)"
| "exp_source_range (WriteRef x r) = find_range [Some (loc_range x), Some (loc_range r)]"
| "exp_source_range (Loop b) = block_source_range b"
| "exp_source_range (While e b) = find_range [Some (loc_range e), block_source_range b]"
| "exp_source_range (IfElse e t f) =
     find_range [Some (loc_range e), block_source_range t,
                 (case map_option block_source_range f of None \<Rightarrow> None | Some r \<Rightarrow> r)]"
| "exp_source_range Break = None"
| "exp_source_range Continue = None"
| "exp_source_range Nop = None"
| "loc_range (ExpLoc index e) =
     (case exp_source_range e of
        Some (l, r) \<Rightarrow> (if index < l then index else l, if index > r then index else r)
      | None \<Rightarrow> (index, index))"
| "call_source_range (BuildIn k n ts ps) = find_range (map (\<lambda>e. Some (loc_range e)) ps)"
| "call_source_range (Plain m n ts ps) = find_range (map (\<lambda>e. Some (loc_range e)) ps)"
| "field_range (PackField n e) = loc_range e"
| "block_source_range (Block es k) = find_range (map (\<lambda>e. Some (loc_range e)) es)"

section \<open>Encode\<close>

definition INDENT :: nat where
  "INDENT = 4"

definition encode_op :: "op \<Rightarrow> string" where
  "encode_op s = (case s of
      OpAdd \<Rightarrow> '' + '' | OpSub \<Rightarrow> '' - '' | OpMul \<Rightarrow> '' * '' | OpMod \<Rightarrow> '' % '' | OpDiv \<Rightarrow> '' / ''
    | OpBitOr \<Rightarrow> '' | '' | OpBitAnd \<Rightarrow> '' & '' | OpXor \<Rightarrow> '' ^ '' | OpOr \<Rightarrow> '' || '' | OpAnd \<Rightarrow> '' && ''
    | OpEq \<Rightarrow> '' == '' | OpNeq \<Rightarrow> '' != '' | OpLt \<Rightarrow> '' < '' | OpGt \<Rightarrow> '' > '' | OpLe \<Rightarrow> '' <= ''
    | OpGe \<Rightarrow> '' >= '' | OpShl \<Rightarrow> '' << '' | OpShr \<Rightarrow> '' >> '')"

definition encode_cast_type :: "cast_type \<Rightarrow> string" where
  "encode_cast_type t =
     (case t of CastToU8 \<Rightarrow> ''u8'' | CastToU64 \<Rightarrow> ''u64'' | CastToU128 \<Rightarrow> ''u128'')"

definition encode_bool :: "bool \<Rightarrow> string" where
  "encode_bool b = (if b then ''true'' else ''false'')"

definition encode_ld :: "vendor \<Rightarrow> ld \<Rightarrow> string" where
  "encode_ld v l = (case l of
      LdU8 n \<Rightarrow> show_nat (unat n) @ ''u8''
    | LdU64 n \<Rightarrow> show_nat (unat n)
    | LdU128 n \<Rightarrow> show_nat (unat n) @ ''u128''
    | LdBool b \<Rightarrow> encode_bool b
    | LdAddress a \<Rightarrow> ''0x'' @ v_addr_display v a
    | LdVector bs \<Rightarrow> ''x'' @ [CHR 0x22] @ v_hex_encode v bs @ [CHR 0x22])"

definition encode_loc_access :: "loc_access \<Rightarrow> string" where
  "encode_loc_access a = (case a of AccessMove \<Rightarrow> ''move'' | AccessCopy \<Rightarrow> ''copy'')"

definition encode_local :: "store \<Rightarrow> bool \<Rightarrow> loc_access \<Rightarrow> local_var \<Rightarrow> string" where
  "encode_local used explicit_keyword access l =
     (if explicit_keyword then ''('' @ encode_loc_access access @ '' '' else []) @
     local_write_name used l @
     (if explicit_keyword then '')'' else [])"

definition parameters_count :: "build_in \<Rightarrow> nat" where
  "parameters_count k = (case k of
      BiExists \<Rightarrow> 1 | BiMoveFrom \<Rightarrow> 1 | BiMoveTo \<Rightarrow> 2 | BiBorrowGlobal \<Rightarrow> 1 | BiBorrowGlobalMut \<Rightarrow> 1)"

definition encode_build_in :: "build_in \<Rightarrow> string" where
  "encode_build_in k = (case k of
      BiExists \<Rightarrow> ''exists'' | BiMoveFrom \<Rightarrow> ''move_from'' | BiMoveTo \<Rightarrow> ''move_to''
    | BiBorrowGlobal \<Rightarrow> ''borrow_global'' | BiBorrowGlobalMut \<Rightarrow> ''borrow_global_mut'')"

definition encode_struct_name :: "struct_name \<Rightarrow> string" where
  "encode_struct_name n =
     (case sn_import n of Some i \<Rightarrow> encode_import_name i | None \<Rightarrow> []) @ sn_name n"

definition encode_module_prefix :: "import_name option \<Rightarrow> string" where
  "encode_module_prefix m = (case m of Some i \<Rightarrow> encode_import_name i @ ''::'' | None \<Rightarrow> [])"

definition encode_type_args :: "ftype list \<Rightarrow> string" where
  "encode_type_args ts =
     (if ts \<noteq> [] then write_array ''<'' '', '' (map encode_ftype ts) ''>'' else [])"

text \<open>The separators that \<open>Block::encode\<close> writes around one expression.\<close>

definition line_break_before :: "exp \<Rightarrow> string" where
  "line_break_before e =
     (case e of Ret rs explicit \<Rightarrow> (if rs \<noteq> [] \<or> explicit then nl else []) | _ \<Rightarrow> nl)"

definition semicolon_after :: "exp \<Rightarrow> exp_loc list \<Rightarrow> string" where
  "semicolon_after e rest =
     (case e of
        Ret _ _ \<Rightarrow> [] | Abort _ \<Rightarrow> [] | Break \<Rightarrow> []
      | Loop _ \<Rightarrow> (case rest of [] \<Rightarrow> []
                   | x # _ \<Rightarrow> (case loc_exp x of Ret rs _ \<Rightarrow> (if rs \<noteq> [] then '';'' else []) | _ \<Rightarrow> '';''))
      | IfElse _ _ _ \<Rightarrow> (case rest of [] \<Rightarrow> []
                   | x # _ \<Rightarrow> (case loc_exp x of Ret rs _ \<Rightarrow> (if rs \<noteq> [] then '';'' else []) | _ \<Rightarrow> '';''))
      | _ \<Rightarrow> '';'')"

definition field_ref_prefix :: "bool \<Rightarrow> exp \<Rightarrow> string" where
  "field_ref_prefix is_mut inst =
     (case inst of Ref _ _ \<Rightarrow> [] | _ \<Rightarrow> ''&'' @ (if is_mut then ''mut '' else []))"

text \<open>The body of \<open>Block::encode\<close>: each expression with its own encoding, \<open>Nop\<close> skipped.\<close>

fun encode_items :: "exp_loc list \<Rightarrow> string list \<Rightarrow> string" where
  "encode_items (x # rest) (s # ss) =
     (if is_nop (loc_exp x) then []
      else line_break_before (loc_exp x) @ s @ semicolon_after (loc_exp x) rest) @
     encode_items rest ss"
| "encode_items _ _ = []"

text \<open>The \<open>Encode\<close> implementation of each construct, over its already encoded children.\<close>

definition encode_abort :: "string \<Rightarrow> string" where
  "encode_abort e = ''abort '' @ e"

definition encode_not :: "string \<Rightarrow> string" where
  "encode_not e = ''!'' @ e"

definition encode_cast :: "string \<Rightarrow> cast_type \<Rightarrow> string" where
  "encode_cast e ty = ''('' @ e @ '' as '' @ encode_cast_type ty @ '')''"

definition encode_binary_op :: "string \<Rightarrow> op \<Rightarrow> string \<Rightarrow> string" where
  "encode_binary_op left sign right = left @ encode_op sign @ right"

definition encode_ret :: "bool \<Rightarrow> string list \<Rightarrow> string" where
  "encode_ret explicit_keyword ret_list =
     (if explicit_keyword then ''return '' else []) @
     (case ret_list of [] \<Rightarrow> [] | [s] \<Rightarrow> s | ss \<Rightarrow> write_array ''('' '', '' ss '')'')"

definition encode_let :: "store \<Rightarrow> local_var \<Rightarrow> bool \<Rightarrow> string \<Rightarrow> string" where
  "encode_let used l value_is_nop e =
     local_write_name used l @ (if \<not> value_is_nop then '' = '' @ e else [])"

definition encode_pack_field :: "string \<Rightarrow> bool \<Rightarrow> string \<Rightarrow> string" where
  "encode_pack_field name value_is_nop e = name @ '': '' @ (if value_is_nop then ''_'' else e)"

definition encode_pack ::
    "import_name option \<Rightarrow> string \<Rightarrow> ftype list \<Rightarrow> string list \<Rightarrow> string" where
  "encode_pack m name type_params fs =
     encode_module_prefix m @ name @ encode_type_args type_params @
     write_array '' { '' '', '' fs '' }''"

definition encode_unpack ::
    "import_name option \<Rightarrow> string \<Rightarrow> ftype list \<Rightarrow> string list \<Rightarrow> string \<Rightarrow> string" where
  "encode_unpack m name type_params fs source =
     encode_module_prefix m @ name @ encode_type_args type_params @
     write_array '' { '' '', '' fs '' }'' @ '' = '' @ source"

definition encode_field_ref :: "bool \<Rightarrow> string \<Rightarrow> exp \<Rightarrow> string \<Rightarrow> string" where
  "encode_field_ref is_mut field_name inst e =
     field_ref_prefix is_mut inst @ e @ ''.'' @ field_name"

definition encode_ref :: "store \<Rightarrow> bool \<Rightarrow> local_var \<Rightarrow> string" where
  "encode_ref used is_mut l = ''&'' @ (if is_mut then ''mut '' else []) @ local_write_name used l"

definition encode_deref :: "string \<Rightarrow> string" where
  "encode_deref e = ''*'' @ e"

definition encode_write_ref :: "string \<Rightarrow> string \<Rightarrow> string" where
  "encode_write_ref val val_ref = ''*'' @ val_ref @ '' = '' @ val"

lemmas encode_defs =
  encode_abort_def encode_not_def encode_cast_def encode_binary_op_def encode_ret_def
  encode_let_def encode_pack_field_def encode_pack_def encode_unpack_def encode_field_ref_def
  encode_ref_def encode_deref_def encode_write_ref_def

text \<open>\<open>Exp::encode\<close> writes the indentation, then the node.\<close>

definition indented :: "nat \<Rightarrow> string \<Rightarrow> string" where
  "indented ind s = (if ind \<noteq> 0 then pad ind else []) @ s"

primrec encode_node :: "exp \<Rightarrow> vendor \<Rightarrow> store \<Rightarrow> nat \<Rightarrow> string"
and encode_loc :: "exp_loc \<Rightarrow> vendor \<Rightarrow> store \<Rightarrow> nat \<Rightarrow> string"
and encode_call :: "fn_call \<Rightarrow> vendor \<Rightarrow> store \<Rightarrow> string"
and encode_field :: "pack_field \<Rightarrow> vendor \<Rightarrow> store \<Rightarrow> string"
and encode_block :: "block \<Rightarrow> vendor \<Rightarrow> store \<Rightarrow> nat \<Rightarrow> string" where
  "encode_node (Abort e) v u ind = encode_abort (encode_loc e v u 0)"
| "encode_node (Local k a l) v u ind = encode_local u k a l"
| "encode_node (Cast e t) v u ind = encode_cast (encode_loc e v u ind) t"
| "encode_node (FnCall c) v u ind = encode_call c v u"
| "encode_node (Ret rs explicit) v u ind = encode_ret explicit (map (\<lambda>r. encode_loc r v u 0) rs)"
| "encode_node Nop v u ind = []"
| "encode_node (Error b) v u ind = ''Err [opcode: '' @ v_bc_debug v b @ '']''"
| "encode_node (BinaryOp l s r) v u ind = encode_binary_op (encode_loc l v u 0) s (encode_loc r v u 0)"
| "encode_node (Basket e) v u ind = ''('' @ encode_loc e v u ind @ '')''"
| "encode_node (NotExp e) v u ind = encode_not (encode_loc e v u 0)"
| "encode_node (LetExp l e) v u ind = encode_let u l (is_nop (loc_exp e)) (encode_loc e v u 0)"
| "encode_node (Pack m n ts fs) v u ind =
     encode_pack m n ts (map (\<lambda>f. encode_field f v u) fs)"
| "encode_node (Unpack m n ts fs s) v u ind =
     encode_unpack m n ts (map (\<lambda>f. encode_field f v u) fs) (encode_loc s v u 0)"
| "encode_node (FieldRef is_mut n i) v u ind =
     encode_field_ref is_mut n (loc_exp i) (encode_loc i v u 0)"
| "encode_node (Loop b) v u ind = ''loop '' @ encode_block b v u ind"
| "encode_node (IfElse c t f) v u ind =
     ''if ('' @ encode_loc c v u 0 @ '') '' @ encode_block t v u ind @
     (case map_option (\<lambda>b. encode_block b v u ind) f of Some s \<Rightarrow> '' else '' @ s | None \<Rightarrow> [])"
| "encode_node Break v u ind = ''break''"
| "encode_node (While c b) v u ind =
     ''while ('' @ encode_loc c v u 0 @ '') '' @ encode_block b v u ind"
| "encode_node (Ref is_mut l) v u ind = encode_ref u is_mut l"
| "encode_node (Deref e) v u ind = encode_deref (encode_loc e v u 0)"
| "encode_node (WriteRef x r) v u ind = encode_write_ref (encode_loc x v u 0) (encode_loc r v u 0)"
| "encode_node Continue v u ind = ''continue''"
| "encode_node (Ld l) v u ind = encode_ld v l"
| "encode_loc (ExpLoc i e) v u ind = indented ind (encode_node e v u ind)"
| "encode_call (BuildIn k n ts ps) v u =
     encode_build_in k @ ''<'' @ encode_struct_name n @ encode_type_args ts @ ''>'' @
     write_array ''('' '', '' (map (\<lambda>p. encode_loc p v u 0) ps) '')''"
| "encode_call (Plain m n ts ps) v u =
     encode_module_prefix m @ n @ encode_type_args ts @
     write_array ''('' '', '' (map (\<lambda>p. encode_loc p v u 0) ps) '')''"
| "encode_field (PackField n e) v u = encode_pack_field n (is_nop (loc_exp e)) (encode_loc e v u 0)"
| "encode_block (Block es basket) v u ind =
     (if basket then ''{'' else []) @
     encode_items es (map (\<lambda>e. encode_loc e v u (ind + INDENT)) es) @
     (if basket then nl @ pad ind @ ''}'' else [])"

definition encode_exp :: "exp \<Rightarrow> vendor \<Rightarrow> store \<Rightarrow> nat \<Rightarrow> string" where
  "encode_exp e v u ind = indented ind (encode_node e v u ind)"

end
