(* ===== verification/Dis_Translator.thy ===== *)
theory Dis_Translator
  imports Dis_Exp
begin

text \<open>
  The bytecode translator: \<open>code/iter.rs\<close>, \<open>code/translator.rs\<close> and the constructors of
  the expressions in \<open>code/exp/*.rs\<close>.

  \<open>tstate\<close> is the mutable part of \<open>Translator\<close> (its expression list, the shared
  \<open>BytecodeIterator\<close>, its end offset) together with the store of \<open>used\<close> flags; \<open>tenv\<close> is
  the part it only reads. The expression constructors receive the context through the
  \<open>Context\<close> trait; \<open>translate_block\<close>, the one method that re-enters the translator, is the
  argument \<open>tb\<close> of the constructors that call it. Faults: \<open>locals.inner[index]\<close> out of
  bounds, \<open>type_params[index]\<close> out of bounds, and the \<open>usize\<close> subtractions of
  \<open>br_true\<close> and \<open>Unpack::exp\<close>, which trap in a build with overflow checks.
\<close>

section \<open>Bytecode iterator (iter.rs)\<close>

record iter =
  it_rest :: "bytecode list"
  it_idx :: "nat option"
  it_code :: "bytecode list"

definition iter_new :: "bytecode list \<Rightarrow> iter" where
  "iter_new code = \<lparr>it_rest = code, it_idx = None, it_code = code\<rparr>"

definition iter_index :: "iter \<Rightarrow> nat" where
  "iter_index it = (case it_idx it of None \<Rightarrow> 0 | Some i \<Rightarrow> i)"

definition iter_next :: "iter \<Rightarrow> bytecode option \<times> iter" where
  "iter_next it =
     (let it' = it\<lparr>it_idx := Some (case it_idx it of Some i \<Rightarrow> i + 1 | None \<Rightarrow> 0)\<rparr>
      in case it_rest it of
           [] \<Rightarrow> (None, it')
         | b # bs \<Rightarrow> (Some b, it'\<lparr>it_rest := bs\<rparr>))"

definition iter_absolute :: "iter \<Rightarrow> nat \<Rightarrow> bytecode" where
  "iter_absolute it i = (if i < length (it_code it) then it_code it ! i else BcNop)"

text \<open>\<open>offset as usize\<close> reads the \<open>isize\<close> modulo \<open>2\<^sup>6\<^sup>4\<close>.\<close>

definition iter_by_relative :: "iter \<Rightarrow> int \<Rightarrow> bytecode" where
  "iter_by_relative it offset =
     iter_absolute it (nat ((int (iter_index it) + offset) mod 2 ^ 64))"

section \<open>Translator state and context operations\<close>

record tenv =
  te_vendor :: vendor
  te_locals :: "local_var list"
  te_unit :: compiled_unit
  te_imports :: import_table
  te_type_params :: "generic list"
  te_ret_len :: nat

record tstate =
  ts_exps :: "exp_loc list"
  ts_iter :: iter
  ts_end :: nat
  ts_used :: store

type_synonym block_translator = "nat \<Rightarrow> tstate \<Rightarrow> (exp_loc list \<times> tstate) result"

definition opcode_offset :: "tstate \<Rightarrow> nat" where
  "opcode_offset s = iter_index (ts_iter s)"

definition push_exp :: "exp \<Rightarrow> tstate \<Rightarrow> tstate" where
  "push_exp e s = s\<lparr>ts_exps := ts_exps s @ [ExpLoc (opcode_offset s) e]\<rparr>"

definition pop_exp :: "tstate \<Rightarrow> exp_loc \<times> tstate" where
  "pop_exp s =
     (if ts_exps s = [] then (ExpLoc 0 Nop, s)
      else (last (ts_exps s), s\<lparr>ts_exps := butlast (ts_exps s)\<rparr>))"

definition last_exp :: "tstate \<Rightarrow> exp_loc option" where
  "last_exp s = (if ts_exps s = [] then None else Some (last (ts_exps s)))"

definition pop2_exp :: "tstate \<Rightarrow> (exp_loc \<times> exp_loc) \<times> tstate" where
  "pop2_exp s =
     (case pop_exp s of (second, s1) \<Rightarrow>
        case pop_exp s1 of (first, s2) \<Rightarrow> ((first, second), s2))"

definition pop_exp_vec :: "nat \<Rightarrow> tstate \<Rightarrow> exp_loc list \<times> tstate" where
  "pop_exp_vec exp_count s =
     (let len = length (ts_exps s)
      in if exp_count > len
         then (ts_exps s @ replicate (exp_count - len) (ExpLoc (opcode_offset s) Nop),
               s\<lparr>ts_exps := []\<rparr>)
         else (drop (len - exp_count) (ts_exps s),
               s\<lparr>ts_exps := take (len - exp_count) (ts_exps s)\<rparr>))"

definition module_import :: "tenv \<Rightarrow> module_handle \<Rightarrow> import_name option" where
  "module_import E m =
     (let module_name = ua_identifier (te_unit E) (mh_name m);
          module_address = ua_address (te_unit E) (mh_address m)
      in get_import (te_imports E) module_address module_name)"

definition extract_signature :: "tenv \<Rightarrow> nat option \<Rightarrow> ftype list result" where
  "extract_signature E type_params =
     (case type_params of
        Some index \<Rightarrow>
          mapM (\<lambda>t. extract_type_signature (te_unit E) t (te_imports E) (te_type_params E))
            (ua_signature (te_unit E) index)
      | None \<Rightarrow> Inr [])"

definition get_local_var :: "tenv \<Rightarrow> 8 word \<Rightarrow> local_var result" where
  "get_local_var E index = at_index (te_locals E) (unat index)"

definition pack_fields :: "tenv \<Rightarrow> struct_definition \<Rightarrow> tstate \<Rightarrow> pack_field list \<times> tstate" where
  "pack_fields E def s =
     (case sd_field_information def of
        Native \<Rightarrow> ([], s)
      | Declared fds \<Rightarrow>
          (case pop_exp_vec (length fds) s of
             (es, s') \<Rightarrow>
               (map (\<lambda>(e, f). PackField (ua_identifier (te_unit E) (fld_name f)) e) (zip es fds),
                s')))"

definition err_exp :: "tstate \<Rightarrow> exp" where
  "err_exp s = Error (iter_by_relative (ts_iter s) 0)"

section \<open>Expression constructors (code/exp)\<close>

definition basket :: "exp_loc \<Rightarrow> exp_loc" where
  "basket e = (case loc_exp e of BinaryOp _ _ _ \<Rightarrow> ExpLoc (loc_index e) (Basket e) | _ \<Rightarrow> e)"

definition binary_op_exp :: "op \<Rightarrow> tstate \<Rightarrow> exp \<times> tstate" where
  "binary_op_exp sign s =
     (case pop2_exp s of ((left, right), s') \<Rightarrow> (BinaryOp (basket left) sign (basket right), s'))"

definition unary_exp :: "(exp_loc \<Rightarrow> exp) \<Rightarrow> tstate \<Rightarrow> exp \<times> tstate" where
  "unary_exp mk s = (case pop_exp s of (e, s') \<Rightarrow> (mk e, s'))"

definition abort_exp :: "tstate \<Rightarrow> exp \<times> tstate" where
  "abort_exp = unary_exp Abort"

definition not_exp :: "tstate \<Rightarrow> exp \<times> tstate" where
  "not_exp = unary_exp NotExp"

definition cast_exp :: "cast_type \<Rightarrow> tstate \<Rightarrow> exp \<times> tstate" where
  "cast_exp ty = unary_exp (\<lambda>e. Cast e ty)"

definition deref_exp :: "tstate \<Rightarrow> exp \<times> tstate" where
  "deref_exp = unary_exp Deref"

definition freeze_exp :: "tstate \<Rightarrow> exp \<times> tstate" where
  "freeze_exp = unary_exp loc_exp"

definition write_ref_exp :: "tstate \<Rightarrow> exp \<times> tstate" where
  "write_ref_exp s = (case pop2_exp s of ((x, r), s') \<Rightarrow> (WriteRef x r, s'))"

primrec pop_many :: "nat \<Rightarrow> tstate \<Rightarrow> exp_loc list \<times> tstate" where
  "pop_many 0 s = ([], s)"
| "pop_many (Suc n) s =
     (case pop_exp s of (e, s1) \<Rightarrow> case pop_many n s1 of (es, s2) \<Rightarrow> (e # es, s2))"

definition ret_exp :: "nat \<Rightarrow> tstate \<Rightarrow> exp \<times> tstate" where
  "ret_exp ret_len s = (case pop_many ret_len s of (params, s') \<Rightarrow> (Ret (rev params) False, s'))"

definition ld_const :: "tenv \<Rightarrow> nat \<Rightarrow> exp" where
  "ld_const E index =
     (case v_deserialize_constant (te_vendor E) (ua_constant (te_unit E) index) of
        Some (MvAddress addr) \<Rightarrow> Ld (LdAddress addr)
      | Some (MvVector vs) \<Rightarrow>
          (case those (map (\<lambda>x. case x of MvU8 b \<Rightarrow> Some b | _ \<Rightarrow> None) vs) of
             Some bs \<Rightarrow> Ld (LdVector bs)
           | None \<Rightarrow> Error (BcLdConst index))
      | Some _ \<Rightarrow> Error (BcLdConst index)
      | None \<Rightarrow> Error (BcLdConst index))"

definition loc_exp_new ::
    "bool \<Rightarrow> loc_access \<Rightarrow> tenv \<Rightarrow> 8 word \<Rightarrow> tstate \<Rightarrow> (exp \<times> tstate) result" where
  "loc_exp_new explicit_keyword access E index s =
     rbind (get_local_var E index)
       (\<lambda>l. Inr (Local explicit_keyword access l, s\<lparr>ts_used := mark_as_used l (ts_used s)\<rparr>))"

definition ref_exp :: "bool \<Rightarrow> tenv \<Rightarrow> 8 word \<Rightarrow> tstate \<Rightarrow> (exp \<times> tstate) result" where
  "ref_exp is_mut E index s =
     rbind (get_local_var E index)
       (\<lambda>l. Inr (Ref is_mut l, s\<lparr>ts_used := mark_as_used l (ts_used s)\<rparr>))"

definition is_let :: "exp \<Rightarrow> bool" where
  "is_let e = (case e of LetExp _ _ \<Rightarrow> True | _ \<Rightarrow> False)"

definition let_exp :: "tenv \<Rightarrow> 8 word \<Rightarrow> tstate \<Rightarrow> (exp \<times> tstate) result" where
  "let_exp E index s =
     rbind (get_local_var E index)
       (\<lambda>l. case last_exp s of
              Some e \<Rightarrow>
                (if is_let (loc_exp e) then Inr (LetExp l (ExpLoc (opcode_offset s) Nop), s)
                 else case pop_exp s of (e', s') \<Rightarrow> Inr (LetExp l e', s'))
            | None \<Rightarrow> Inr (LetExp l (ExpLoc (opcode_offset s) Nop), s))"

definition fn_call_plain ::
    "tenv \<Rightarrow> nat \<Rightarrow> nat option \<Rightarrow> tstate \<Rightarrow> (exp \<times> tstate) result" where
  "fn_call_plain E f_index type_params s =
     (let u = te_unit E;
          handler = ua_function_handle u f_index;
          f_name = ua_identifier u (fh_name handler);
          params_count = length (ua_signature u (fh_parameters handler))
      in case pop_exp_vec params_count s of
           (params, s') \<Rightarrow>
             rbind (extract_signature E type_params)
               (\<lambda>tps. Inr (FnCall (Plain (module_import E (ua_module_handle u (fh_module handler)))
                                  f_name tps params), s')))"

definition fn_call_build_in ::
    "build_in \<Rightarrow> tenv \<Rightarrow> nat \<Rightarrow> nat option \<Rightarrow> tstate \<Rightarrow> (exp \<times> tstate) result" where
  "fn_call_build_in k E index type_params s =
     (let u = te_unit E
      in case ua_struct_def u index of
           Some def \<Rightarrow>
             (let struct_handler = ua_struct_handle u (sd_struct_handle def);
                  import = module_import E (ua_module_handle u (sh_module struct_handler))
              in case pop_exp_vec (parameters_count k) s of
                   (params, s') \<Rightarrow>
                     rbind (extract_signature E type_params)
                       (\<lambda>tps. Inr (FnCall (BuildIn k
                          \<lparr>sn_name = ua_identifier u (sh_name struct_handler), sn_import = import\<rparr>
                          tps params), s')))
         | None \<Rightarrow> Inr (err_exp s, s))"

definition field_ref_exp :: "bool \<Rightarrow> tenv \<Rightarrow> nat \<Rightarrow> tstate \<Rightarrow> exp \<times> tstate" where
  "field_ref_exp is_mut E index s =
     (let u = te_unit E
      in case Option.bind (ua_field_handle u index)
                (\<lambda>f. map_option (\<lambda>def. (f, def)) (ua_struct_def u (fdh_owner f))) of
           Some (f, def) \<Rightarrow>
             (case sd_field_information def of
                Declared fds \<Rightarrow>
                  (if fdh_field f < length fds
                   then (case pop_exp s of (e, s') \<Rightarrow>
                      (FieldRef is_mut (ua_identifier u (fld_name (fds ! fdh_field f))) e, s'))
                   else (Nop, s))
              | Native \<Rightarrow> (Nop, s))
         | None \<Rightarrow> (err_exp s, s))"

definition pack_exp :: "tenv \<Rightarrow> nat \<Rightarrow> nat option \<Rightarrow> tstate \<Rightarrow> (exp \<times> tstate) result" where
  "pack_exp E index type_params s =
     (let u = te_unit E
      in case ua_struct_def u index of
           Some def \<Rightarrow>
             (let struct_handler = ua_struct_handle u (sd_struct_handle def);
                  m = ua_module_handle u (sh_module struct_handler);
                  name = ua_identifier u (sh_name struct_handler)
              in case pack_fields E def s of
                   (pfs, s') \<Rightarrow>
                     rbind (extract_signature E type_params)
                       (\<lambda>tps. Inr (Pack (module_import E m) name tps pfs, s')))
         | None \<Rightarrow> Inr (Error (BcPack index), s))"

text \<open>\<open>Unpack::exp\<close> translates as many further instructions as the struct has fields and
  reads the assignments back in reverse; missing ones become \<open>Nop\<close>.\<close>

definition unpack_exp ::
    "block_translator \<Rightarrow> tenv \<Rightarrow> nat \<Rightarrow> nat option \<Rightarrow> tstate \<Rightarrow> (exp \<times> tstate) result" where
  "unpack_exp tb E index type_params s =
     (let u = te_unit E
      in case ua_struct_def u index of
           Some def \<Rightarrow>
             (let struct_handler = ua_struct_handle u (sd_struct_handle def);
                  module_handle = ua_module_handle u (sh_module struct_handler);
                  name = ua_identifier u (sh_name struct_handler)
              in rbind (extract_signature E type_params) (\<lambda>tps.
                   let names = (case sd_field_information def of
                                   Native \<Rightarrow> []
                                 | Declared fs \<Rightarrow> map (\<lambda>f. ua_identifier u (fld_name f)) fs);
                       forwards_exp = length names
                   in rbind (tb forwards_exp s) (\<lambda>(es, s1).
                      rbind (usub forwards_exp (length es)) (\<lambda>missing.
                        let expressions =
                              rev es @ replicate missing (ExpLoc (opcode_offset s1) Nop)
                        in case pop_exp s1 of
                             (source, s2) \<Rightarrow>
                               Inr (Unpack (module_import E module_handle) name tps
                                      (map (\<lambda>(n, e). PackField n e) (zip names expressions))
                                      source, s2)))))
         | None \<Rightarrow> Inr (err_exp s, s))"


section \<open>Branching (branching/mod.rs)\<close>

text \<open>What \<open>br_true\<close> does with the last expression of the translated true branch:
  it leaves the block, or makes a trailing \<open>Ret\<close> explicit, or recognises the closing
  \<open>Continue\<close> of a \<open>while\<close> whose condition starts where the loop jumps back to, or, for a
  trailing \<open>Nop\<close> before a forward jump, finds where the false branch ends.\<close>

datatype true_branch_outcome =
    TrueBranch "exp_loc list" "nat option"
  | WhileBody "exp_loc list"

definition classify_true_branch :: "vendor \<Rightarrow> exp_loc list \<Rightarrow> tstate \<Rightarrow> true_branch_outcome" where
  "classify_true_branch v blk s =
     (if blk = [] then TrueBranch blk None
      else case loc_exp (last blk) of
             Ret rs _ \<Rightarrow>
               TrueBranch (butlast blk @ [ExpLoc (loc_index (last blk)) (Ret rs True)]) None
           | Continue \<Rightarrow>
               (case v_bc_offset v (iter_absolute (ts_iter s) (opcode_offset s)) of
                  Some offset \<Rightarrow>
                    (case last_exp s of
                       Some l \<Rightarrow>
                         (if fst (loc_range l) = unat offset then WhileBody (butlast blk)
                          else TrueBranch blk None)
                     | None \<Rightarrow> TrueBranch blk None)
                | None \<Rightarrow> TrueBranch blk None)
           | Nop \<Rightarrow>
               (case iter_absolute (ts_iter s) (opcode_offset s) of
                  BcBranch offset \<Rightarrow>
                    (if unat offset > opcode_offset s then TrueBranch blk (Some (unat offset))
                     else TrueBranch blk None)
                | _ \<Rightarrow> TrueBranch blk None)
           | _ \<Rightarrow> TrueBranch blk None)"

definition some_block :: "exp_loc list \<Rightarrow> block option" where
  "some_block es = (if es = [] then None else Some (Block es True))"

text \<open>The arm for a \<open>BrTrue\<close> that no \<open>Branch\<close> follows.\<close>

definition br_true_no_branch ::
    "block_translator \<Rightarrow> nat \<Rightarrow> tstate \<Rightarrow> (exp \<times> tstate) result" where
  "br_true_no_branch tb true_offset s =
     (if opcode_offset s = ts_end s
      then (case pop_exp s of (c, s') \<Rightarrow> Inr (IfElse c (Block [] True) None, s'))
      else rbind (usub true_offset (opcode_offset s)) (\<lambda>d.
           rbind (usub d 1) (\<lambda>false_branch_len.
           rbind (tb false_branch_len s) (\<lambda>(fblk, s1).
           rbind (tb (length (it_rest (ts_iter s1))) s1) (\<lambda>(blk, s2).
             case pop_exp s2 of (c, s3) \<Rightarrow>
               Inr (IfElse c (Block blk True) (some_block fblk), s3))))))"

text \<open>The false branch, once its end is known.\<close>

definition br_true_false_branch ::
    "block_translator \<Rightarrow> nat \<Rightarrow> nat option \<Rightarrow> tstate \<Rightarrow> (block option \<times> tstate) result" where
  "br_true_false_branch tb false_offset_start false_offset_end s =
     (case false_offset_end of
        None \<Rightarrow> Inr (None, s)
      | Some fend \<Rightarrow>
          (if false_offset_start < opcode_offset s
           then Inr (Some (Block [ExpLoc (opcode_offset s) Continue] True), s)
           else rbind (usub fend false_offset_start) (\<lambda>branch_len.
                  if branch_len = 0 then Inr (None, s)
                  else rbind (tb branch_len s) (\<lambda>(blk, s'). Inr (some_block blk, s')))))"

definition br_true ::
    "vendor \<Rightarrow> block_translator \<Rightarrow> nat \<Rightarrow> tstate \<Rightarrow> (exp \<times> tstate) result" where
  "br_true v tb true_offset s =
     (case iter_by_relative (ts_iter s) 1 of
        BcBranch false_offset \<Rightarrow>
          (let s1 = s\<lparr>ts_iter := snd (iter_next (ts_iter s))\<rparr>;
               false_offset_start = unat false_offset
           in rbind
                (if true_offset < opcode_offset s1
                 then Inr (TrueBranch [ExpLoc (opcode_offset s1) Continue] None, s1)
                 else rbind (usub false_offset_start true_offset) (\<lambda>branch_len.
                      rbind (tb branch_len s1) (\<lambda>(blk, s2).
                        Inr (classify_true_branch v blk s2, s2))))
                (\<lambda>(outcome, s2).
                   case outcome of
                     WhileBody blk \<Rightarrow>
                       (case pop_exp s2 of (c, s3) \<Rightarrow> Inr (While c (Block blk True), s3))
                   | TrueBranch blk fend \<Rightarrow>
                       rbind (br_true_false_branch tb false_offset_start fend s2) (\<lambda>(fb, s3).
                         case pop_exp s3 of (c, s4) \<Rightarrow>
                           Inr (IfElse c (Block blk True) fb, s4))))
      | _ \<Rightarrow> br_true_no_branch tb true_offset s)"

text \<open>\<open>index as u16\<close> after \<open>*offset as usize\<close> is the offset itself.\<close>

definition br_false :: "nat \<Rightarrow> exp" where
  "br_false index = Error (BcBrFalse (of_nat index))"

definition br :: "nat \<Rightarrow> tstate \<Rightarrow> exp" where
  "br offset s = (if offset > opcode_offset s then Nop else Continue)"

section \<open>Translator (translator.rs)\<close>

text \<open>\<open>take_by_offset\<close> pops while the last expression starts at or after \<open>offset\<close>; it is
  unused code.\<close>

definition take_by_offset :: "nat \<Rightarrow> tstate \<Rightarrow> exp_loc list \<times> tstate" where
  "take_by_offset offset s =
     (let buffer = rev (takeWhile (\<lambda>e. loc_index e \<ge> offset) (rev (ts_exps s)))
      in (buffer, s\<lparr>ts_exps := take (length (ts_exps s) - length buffer) (ts_exps s)\<rparr>))"

definition translator_build_in ::
    "tenv \<Rightarrow> nat \<Rightarrow> build_in \<Rightarrow> bytecode \<Rightarrow> tstate \<Rightarrow> (exp \<times> tstate) result" where
  "translator_build_in E index k opcode s =
     (case ua_struct_def_instantiation (te_unit E) index of
        Some def \<Rightarrow> fn_call_build_in k E (sdi_def def) (Some (sdi_type_parameters def)) s
      | None \<Rightarrow> Inr (Error opcode, s))"

definition field_ref_generic :: "tenv \<Rightarrow> nat \<Rightarrow> bool \<Rightarrow> bytecode \<Rightarrow> tstate \<Rightarrow> exp \<times> tstate" where
  "field_ref_generic E index is_mut opcode s =
     (case ua_field_instantiation (te_unit E) index of
        Some fi \<Rightarrow> field_ref_exp is_mut E (fdi_handle fi) s
      | None \<Rightarrow> (Error opcode, s))"

definition next_exp ::
    "block_translator \<Rightarrow> tenv \<Rightarrow> bytecode \<Rightarrow> tstate \<Rightarrow> (exp \<times> tstate) result" where
  "next_exp tb E opcode s =
     (case opcode of
        BcPop \<Rightarrow> Inr (Nop, s)
      | BcNot \<Rightarrow> Inr (not_exp s)
      | BcAbort \<Rightarrow> Inr (abort_exp s)
      | BcAdd \<Rightarrow> Inr (binary_op_exp OpAdd s)
      | BcSub \<Rightarrow> Inr (binary_op_exp OpSub s)
      | BcMul \<Rightarrow> Inr (binary_op_exp OpMul s)
      | BcMod \<Rightarrow> Inr (binary_op_exp OpMod s)
      | BcDiv \<Rightarrow> Inr (binary_op_exp OpDiv s)
      | BcBitOr \<Rightarrow> Inr (binary_op_exp OpBitOr s)
      | BcBitAnd \<Rightarrow> Inr (binary_op_exp OpBitAnd s)
      | BcXor \<Rightarrow> Inr (binary_op_exp OpXor s)
      | BcOr \<Rightarrow> Inr (binary_op_exp OpOr s)
      | BcAnd \<Rightarrow> Inr (binary_op_exp OpAnd s)
      | BcEq \<Rightarrow> Inr (binary_op_exp OpEq s)
      | BcNeq \<Rightarrow> Inr (binary_op_exp OpNeq s)
      | BcLt \<Rightarrow> Inr (binary_op_exp OpLt s)
      | BcGt \<Rightarrow> Inr (binary_op_exp OpGt s)
      | BcLe \<Rightarrow> Inr (binary_op_exp OpLe s)
      | BcGe \<Rightarrow> Inr (binary_op_exp OpGe s)
      | BcShl \<Rightarrow> Inr (binary_op_exp OpShl s)
      | BcShr \<Rightarrow> Inr (binary_op_exp OpShr s)
      | BcNop \<Rightarrow> Inr (Nop, s)
      | BcRet \<Rightarrow> Inr (ret_exp (te_ret_len E) s)
      | BcCastU8 \<Rightarrow> Inr (cast_exp CastToU8 s)
      | BcCastU64 \<Rightarrow> Inr (cast_exp CastToU64 s)
      | BcCastU128 \<Rightarrow> Inr (cast_exp CastToU128 s)
      | BcLdU8 n \<Rightarrow> Inr (Ld (LdU8 n), s)
      | BcLdU64 n \<Rightarrow> Inr (Ld (LdU64 n), s)
      | BcLdU128 n \<Rightarrow> Inr (Ld (LdU128 n), s)
      | BcLdConst index \<Rightarrow> Inr (ld_const E index, s)
      | BcLdTrue \<Rightarrow> Inr (Ld (LdBool True), s)
      | BcLdFalse \<Rightarrow> Inr (Ld (LdBool False), s)
      | BcCall index \<Rightarrow> fn_call_plain E index None s
      | BcCallGeneric index \<Rightarrow>
          (let inst = ua_function_instantiation (te_unit E) index
           in fn_call_plain E (fi_handle inst) (Some (fi_type_parameters inst)) s)
      | BcExists index \<Rightarrow> fn_call_build_in BiExists E index None s
      | BcExistsGeneric index \<Rightarrow> translator_build_in E index BiExists opcode s
      | BcMoveFrom index \<Rightarrow> fn_call_build_in BiMoveFrom E index None s
      | BcMoveFromGeneric index \<Rightarrow> translator_build_in E index BiMoveFrom opcode s
      | BcMoveTo index \<Rightarrow> fn_call_build_in BiMoveTo E index None s
      | BcMoveToGeneric index \<Rightarrow> translator_build_in E index BiMoveTo opcode s
      | BcImmBorrowGlobal index \<Rightarrow> fn_call_build_in BiBorrowGlobal E index None s
      | BcImmBorrowGlobalGeneric index \<Rightarrow> translator_build_in E index BiBorrowGlobal opcode s
      | BcMutBorrowGlobal index \<Rightarrow> fn_call_build_in BiBorrowGlobalMut E index None s
      | BcMutBorrowGlobalGeneric index \<Rightarrow> translator_build_in E index BiBorrowGlobalMut opcode s
      | BcCopyLoc index \<Rightarrow> loc_exp_new False AccessCopy E index s
      | BcMoveLoc index \<Rightarrow> loc_exp_new False AccessMove E index s
      | BcStLoc index \<Rightarrow> let_exp E index s
      | BcPack index \<Rightarrow> pack_exp E index None s
      | BcPackGeneric index \<Rightarrow>
          (case ua_struct_def_instantiation (te_unit E) index of
             Some inst \<Rightarrow> pack_exp E (sdi_def inst) (Some (sdi_type_parameters inst)) s
           | None \<Rightarrow> Inr (Error opcode, s))
      | BcUnpack def \<Rightarrow> unpack_exp tb E def None s
      | BcUnpackGeneric index \<Rightarrow>
          (case ua_struct_def_instantiation (te_unit E) index of
             Some inst \<Rightarrow> unpack_exp tb E (sdi_def inst) (Some (sdi_type_parameters inst)) s
           | None \<Rightarrow> Inr (Error opcode, s))
      | BcMutBorrowField index \<Rightarrow> Inr (field_ref_exp True E index s)
      | BcMutBorrowFieldGeneric index \<Rightarrow> Inr (field_ref_generic E index True opcode s)
      | BcImmBorrowField index \<Rightarrow> Inr (field_ref_exp False E index s)
      | BcImmBorrowFieldGeneric index \<Rightarrow> Inr (field_ref_generic E index False opcode s)
      | BcFreezeRef \<Rightarrow> Inr (freeze_exp s)
      | BcMutBorrowLoc index \<Rightarrow> ref_exp True E index s
      | BcImmBorrowLoc index \<Rightarrow> ref_exp False E index s
      | BcReadRef \<Rightarrow> Inr (deref_exp s)
      | BcWriteRef \<Rightarrow> Inr (write_ref_exp s)
      | BcBrTrue true_offset \<Rightarrow> br_true (te_vendor E) tb (unat true_offset) s
      | BcBrFalse offset \<Rightarrow> Inr (br_false (unat offset), s)
      | BcBranch offset \<Rightarrow> Inr (br (unat offset) s, s))"

text \<open>\<open>Context::translate_block\<close>: a new translator on the same iterator and the same
  flags, with its own expression list and end offset; the caller keeps its own list.\<close>

definition translator_new :: "iter \<Rightarrow> nat \<Rightarrow> store \<Rightarrow> tstate" where
  "translator_new it opcodes_count used =
     \<lparr>ts_exps = [], ts_iter = it, ts_end = iter_index it + opcodes_count, ts_used = used\<rparr>"

definition translate_block :: "(tstate \<Rightarrow> tstate result) \<Rightarrow> block_translator" where
  "translate_block tr block_size s =
     rbind (tr (translator_new (ts_iter s) block_size (ts_used s)))
       (\<lambda>s'. Inr (ts_exps s', s\<lparr>ts_iter := ts_iter s', ts_used := ts_used s'\<rparr>))"

text \<open>The loop of \<open>Translator::translate\<close>. The fuel bounds the depth of turns and nested
  blocks; one more than the number of remaining instructions is always enough
  (\<open>translate_fuel\<close> in \<open>Dis_Flow\<close>).\<close>

primrec translate :: "nat \<Rightarrow> tenv \<Rightarrow> tstate \<Rightarrow> tstate result" where
  "translate 0 E s = Inl OutOfFuel"
| "translate (Suc fuel) E s =
     (if ts_end s > opcode_offset s
      then (case iter_next (ts_iter s) of
              (Some opcode, it') \<Rightarrow>
                rbind (next_exp (translate_block (translate fuel E)) E opcode (s\<lparr>ts_iter := it'\<rparr>))
                  (\<lambda>(e, s'). translate fuel E (push_exp e s'))
            | (None, it') \<Rightarrow> Inr (s\<lparr>ts_iter := it'\<rparr>))
      else Inr s)"

end
