(* ===== verification/Dis_Flow.thy ===== *)
theory Dis_Flow
  imports Dis_Translator
begin

text \<open>
  What the translator does to its state, and termination. Every constructor only consumes
  instructions and only shortens the caller's expression list (\<open>advances\<close>); a nested block
  additionally leaves that list alone and yields at most as many expressions as it was asked
  for (\<open>block_contract\<close>). From this follow the count of expressions of a block, the fuel that
  always suffices (\<open>translate_fuel\<close>) and that more fuel changes nothing
  (\<open>translate_fuel_irrelevant\<close>).
\<close>

section \<open>What a step may do to the translator state\<close>

abbreviation remaining :: "tstate \<Rightarrow> nat" where
  "remaining s \<equiv> length (it_rest (ts_iter s))"

abbreviation started :: "tstate \<Rightarrow> bool" where
  "started s \<equiv> it_idx (ts_iter s) \<noteq> None"

text \<open>Instructions are only consumed, the offset only grows, the end offset and the code stay,
  and the caller's expression list only loses elements from its end.\<close>

definition advances :: "tstate \<Rightarrow> tstate \<Rightarrow> bool" where
  "advances s s' \<longleftrightarrow>
     remaining s' \<le> remaining s \<and> opcode_offset s \<le> opcode_offset s' \<and>
     ts_end s' = ts_end s \<and> it_code (ts_iter s') = it_code (ts_iter s) \<and>
     (started s \<longrightarrow> started s') \<and> (\<exists>n. ts_exps s' = take n (ts_exps s))"

named_theorems flow \<open>steps that only advance\<close>

lemma advances_refl [simp, flow]: "advances s s"
  by (auto simp: advances_def intro: exI[of _ "length (ts_exps s)"])

lemma advances_trans: "advances s t \<Longrightarrow> advances t w \<Longrightarrow> advances s w"
  by (fastforce simp: advances_def take_take)

lemma advances_started: "advances s t \<Longrightarrow> started s \<Longrightarrow> started t"
  by (auto simp: advances_def)

lemma advances_used [simp, flow]: "advances s (s\<lparr>ts_used := w\<rparr>)"
  by (auto simp: advances_def opcode_offset_def intro: exI[of _ "length (ts_exps s)"])

lemma advances_exps: "ts_exps s' = take n (ts_exps s) \<Longrightarrow> ts_iter s' = ts_iter s \<Longrightarrow>
    ts_end s' = ts_end s \<Longrightarrow> advances s s'"
  by (auto simp: advances_def opcode_offset_def)

lemma advances_pop [flow]: "pop_exp s = (e, s') \<Longrightarrow> advances s s'"
  by (auto simp: pop_exp_def butlast_conv_take intro!: advances_exps split: if_splits)

lemma advances_pop2 [flow]: "pop2_exp s = (p, s') \<Longrightarrow> advances s s'"
  by (auto simp: pop2_exp_def split: prod.splits intro: advances_trans advances_pop)

lemma advances_pop_vec [flow]: "pop_exp_vec n s = (es, s') \<Longrightarrow> advances s s'"
  by (auto simp: pop_exp_vec_def Let_def intro!: advances_exps split: if_splits)

lemma advances_pop_many [flow]: "pop_many n s = (es, s') \<Longrightarrow> advances s s'"
  by (induction n arbitrary: s es)
     (auto split: prod.splits intro: advances_trans advances_pop)


lemma advances_unary [flow]: "unary_exp mk s = (e, s') \<Longrightarrow> advances s s'"
  by (auto simp: unary_exp_def split: prod.splits intro: flow)

lemmas unary_defs = not_exp_def abort_exp_def cast_exp_def deref_exp_def freeze_exp_def

lemma advances_binary [flow]: "binary_op_exp o1 s = (e, s') \<Longrightarrow> advances s s'"
  by (auto simp: binary_op_exp_def split: prod.splits intro: flow)

lemma advances_write_ref [flow]: "write_ref_exp s = (e, s') \<Longrightarrow> advances s s'"
  by (auto simp: write_ref_exp_def split: prod.splits intro: flow)

lemma advances_ret [flow]: "ret_exp n s = (e, s') \<Longrightarrow> advances s s'"
  by (auto simp: ret_exp_def split: prod.splits intro: flow)

lemma advances_loc [flow]: "loc_exp_new k a E i s = Inr (e, s') \<Longrightarrow> advances s s'"
  by (auto simp: loc_exp_new_def rbind_eq_Inr_iff)

lemma advances_ref [flow]: "ref_exp m E i s = Inr (e, s') \<Longrightarrow> advances s s'"
  by (auto simp: ref_exp_def rbind_eq_Inr_iff)

lemma advances_let [flow]: "let_exp E i s = Inr (e, s') \<Longrightarrow> advances s s'"
  by (auto simp: let_exp_def rbind_eq_Inr_iff split: option.splits if_splits prod.splits intro: flow)

lemma advances_call [flow]: "fn_call_plain E i t s = Inr (e, s') \<Longrightarrow> advances s s'"
  by (auto simp: fn_call_plain_def Let_def rbind_eq_Inr_iff split: prod.splits intro: flow)

lemma advances_build_in [flow]: "fn_call_build_in k E i t s = Inr (e, s') \<Longrightarrow> advances s s'"
  by (auto simp: fn_call_build_in_def Let_def rbind_eq_Inr_iff
      split: prod.splits option.splits intro: flow)

lemma advances_translator_build_in [flow]:
  "translator_build_in E i k b s = Inr (e, s') \<Longrightarrow> advances s s'"
  by (auto simp: translator_build_in_def split: option.splits intro: flow)

lemma advances_field_ref [flow]: "field_ref_exp m E i s = (e, s') \<Longrightarrow> advances s s'"
  by (auto simp: field_ref_exp_def Let_def
      split: prod.splits option.splits struct_field_information.splits if_splits intro: flow)

lemma advances_field_ref_generic [flow]:
  "field_ref_generic E i m b s = (e, s') \<Longrightarrow> advances s s'"
  by (auto simp: field_ref_generic_def split: option.splits intro: flow)

lemma advances_pack_fields [flow]: "pack_fields E d s = (fs, s') \<Longrightarrow> advances s s'"
  by (auto simp: pack_fields_def split: prod.splits struct_field_information.splits intro: flow)

lemma advances_pack [flow]: "pack_exp E i t s = Inr (e, s') \<Longrightarrow> advances s s'"
  by (auto simp: pack_exp_def Let_def rbind_eq_Inr_iff
      split: prod.splits option.splits intro: flow)

section \<open>Opcodes that re-enter the translator\<close>

definition opens_block :: "bytecode \<Rightarrow> bool" where
  "opens_block b =
     (case b of BcUnpack _ \<Rightarrow> True | BcUnpackGeneric _ \<Rightarrow> True | BcBrTrue _ \<Rightarrow> True | _ \<Rightarrow> False)"

lemma next_exp_simple: "\<not> opens_block b \<Longrightarrow> next_exp tb E b s = next_exp tb' E b s"
  by (cases b) (simp_all add: next_exp_def opens_block_def)

lemma advances_next_exp_simple:
  assumes "\<not> opens_block b" "next_exp tb E b s = Inr (e, s')"
  shows "advances s s'"
  using assms
  by (cases b)
     (auto simp: next_exp_def opens_block_def unary_defs Let_def split: option.splits intro: flow)

text \<open>What a block translation promises its caller.\<close>

definition block_contract :: "block_translator \<Rightarrow> bool" where
  "block_contract tb \<longleftrightarrow>
     (\<forall>k s es s'. started s \<longrightarrow> tb k s = Inr (es, s') \<longrightarrow>
        advances s s' \<and> ts_exps s' = ts_exps s \<and> length es \<le> k)"

lemma block_contractD:
  assumes "block_contract tb" "started s" "tb k s = Inr (es, s')"
  shows "advances s s'" "ts_exps s' = ts_exps s" "length es \<le> k" "started s'"
  using assms unfolding block_contract_def by (blast, blast, blast, blast dest: advances_started)

lemma advances_snd_pop: "advances s t \<Longrightarrow> advances s (snd (pop_exp t))"
  by (metis advances_trans advances_pop prod.collapse)

lemma advances_unpack:
  assumes "block_contract tb" "started s" "unpack_exp tb E i t s = Inr (e, s')"
  shows "advances s s'"
proof (cases "ua_struct_def (te_unit E) i")
  case None
  with assms(3) show ?thesis by (simp add: unpack_exp_def)
next
  case (Some d)
  with assms(3) obtain k es s1 where "tb k s = Inr (es, s1)" "s' = snd (pop_exp s1)"
    by (auto simp: unpack_exp_def Let_def rbind_eq_Inr_iff case_prod_unfold)
  with block_contractD(1)[OF assms(1,2)] show ?thesis by (simp add: advances_snd_pop)
qed

lemma advances_iter_next:
  "iter_next (ts_iter s) = (r, it) \<Longrightarrow> advances s (s\<lparr>ts_iter := it\<rparr>)"
  by (auto simp: advances_def iter_next_def Let_def opcode_offset_def iter_index_def
      split: list.splits option.splits intro: exI[of _ "length (ts_exps s)"])

lemma advances_iter_snd: "advances s (s\<lparr>ts_iter := snd (iter_next (ts_iter s))\<rparr>)"
  by (metis advances_iter_next prod.collapse)

lemma advances_br_no_branch:
  assumes "block_contract tb" "started s" "br_true_no_branch tb t s = Inr (e, s')"
  shows "advances s s'"
proof (cases "opcode_offset s = ts_end s")
  case True
  with assms(3) show ?thesis
    by (auto simp: br_true_no_branch_def case_prod_unfold intro: advances_snd_pop)
next
  case False
  with assms(3) obtain k es s1 j fs s2
    where b: "tb k s = Inr (es, s1)" "tb j s1 = Inr (fs, s2)" "s' = snd (pop_exp s2)"
    by (auto simp: br_true_no_branch_def rbind_eq_Inr_iff case_prod_unfold)
  have "advances s s1" by (rule block_contractD(1)[OF assms(1,2) b(1)])
  moreover have "advances s1 s2"
    by (rule block_contractD(1)[OF assms(1) block_contractD(4)[OF assms(1,2) b(1)] b(2)])
  ultimately show ?thesis using b(3) by (metis advances_trans advances_snd_pop)
qed

lemma advances_br_false_branch:
  assumes "block_contract tb" "started s" "br_true_false_branch tb f g s = Inr (e, s')"
  shows "advances s s'"
  using assms(3) block_contractD(1)[OF assms(1,2)]
  by (auto simp: br_true_false_branch_def rbind_eq_Inr_iff split: prod.splits if_splits option.splits)

text \<open>The true branch of a \<open>BrTrue\<close> followed by a \<open>Branch\<close>.\<close>

lemma br_true_cases:
  assumes "br_true v tb t s = Inr (e, s')"
  obtains (no_branch) "br_true_no_branch tb t s = Inr (e, s')"
  | (while_loop) fo s1 blk k es s2 where
      "iter_by_relative (ts_iter s) 1 = BcBranch fo"
      "s1 = s\<lparr>ts_iter := snd (iter_next (ts_iter s))\<rparr>"
      "\<not> t < opcode_offset s1" "usub (unat fo) t = Inr k" "tb k s1 = Inr (es, s2)"
      "classify_true_branch v es s2 = WhileBody blk"
      "e = While (fst (pop_exp s2)) (Block blk True)" "s' = snd (pop_exp s2)"
  | (back_jump) fo s1 fb s3 where
      "iter_by_relative (ts_iter s) 1 = BcBranch fo"
      "s1 = s\<lparr>ts_iter := snd (iter_next (ts_iter s))\<rparr>" "t < opcode_offset s1"
      "br_true_false_branch tb (unat fo) None s1 = Inr (fb, s3)"
      "e = IfElse (fst (pop_exp s3)) (Block [ExpLoc (opcode_offset s1) Continue] True) fb"
      "s' = snd (pop_exp s3)"
  | (if_else) fo s1 blk fend k es s2 fb s3 where
      "iter_by_relative (ts_iter s) 1 = BcBranch fo"
      "s1 = s\<lparr>ts_iter := snd (iter_next (ts_iter s))\<rparr>"
      "\<not> t < opcode_offset s1" "usub (unat fo) t = Inr k" "tb k s1 = Inr (es, s2)"
      "classify_true_branch v es s2 = TrueBranch blk fend"
      "br_true_false_branch tb (unat fo) fend s2 = Inr (fb, s3)"
      "e = IfElse (fst (pop_exp s3)) (Block blk True) fb" "s' = snd (pop_exp s3)"
proof (cases "\<exists>fo. iter_by_relative (ts_iter s) 1 = BcBranch fo")
  case False
  then have "br_true v tb t s = br_true_no_branch tb t s"
    by (cases "iter_by_relative (ts_iter s) 1") (simp_all add: br_true_def)
  with assms show thesis by (intro no_branch) simp
next
  case True
  then obtain fo where fo: "iter_by_relative (ts_iter s) 1 = BcBranch fo" by blast
  define s1 where "s1 = s\<lparr>ts_iter := snd (iter_next (ts_iter s))\<rparr>"
  show thesis
  proof (cases "t < opcode_offset s1")
    case True
    with assms fo show thesis
      by (auto simp: br_true_def Let_def s1_def[symmetric] rbind_eq_Inr_iff case_prod_unfold
          br_true_false_branch_def intro!: back_jump[OF fo s1_def True])
  next
    case False
    with assms fo obtain k es s2
      where b: "usub (unat fo) t = Inr k" "tb k s1 = Inr (es, s2)"
        and r: "(case classify_true_branch v es s2 of
                   WhileBody blk \<Rightarrow>
                       (case pop_exp s2 of (c, s3) \<Rightarrow> Inr (While c (Block blk True), s3))
                   | TrueBranch blk fend \<Rightarrow>
                       rbind (br_true_false_branch tb (unat fo) fend s2) (\<lambda>(fb, s3).
                         case pop_exp s3 of (c, s4) \<Rightarrow>
                           Inr (IfElse c (Block blk True) fb, s4))) = Inr (e, s')"
      by (auto simp: br_true_def Let_def s1_def[symmetric] rbind_eq_Inr_iff)
    show thesis
    proof (cases "classify_true_branch v es s2")
      case (WhileBody blk)
      with r show thesis
        by (intro while_loop[OF fo s1_def False b WhileBody]) (auto simp: case_prod_unfold)
    next
      case (TrueBranch blk fend)
      with r obtain fb s3 where "br_true_false_branch tb (unat fo) fend s2 = Inr (fb, s3)"
        "e = IfElse (fst (pop_exp s3)) (Block blk True) fb" "s' = snd (pop_exp s3)"
        by (auto simp: case_prod_unfold rbind_eq_Inr_iff)
      then show thesis by (rule if_else[OF fo s1_def False b TrueBranch])
    qed
  qed
qed

lemma advances_br_true:
  assumes c: "block_contract tb" and s: "started s" and r: "br_true v tb t s = Inr (e, s')"
  shows "advances s s'"
proof -
  have n: "advances s s1 \<and> started s1" if "s1 = s\<lparr>ts_iter := snd (iter_next (ts_iter s))\<rparr>" for s1
    using advances_iter_snd[of s] s by (auto simp: that dest: advances_started)
  from r show ?thesis
  proof (cases rule: br_true_cases)
    case no_branch
    then show ?thesis by (rule advances_br_no_branch[OF c s])
  next
    case (while_loop fo s1 blk k es s2)
    then show ?thesis
      using n[of s1] block_contractD(1)[OF c, of s1 k es s2]
      by (auto intro: advances_trans advances_snd_pop)
  next
    case (back_jump fo s1 fb s3)
    then show ?thesis
      using n[of s1] advances_br_false_branch[OF c _ back_jump(4)]
      by (auto intro: advances_trans advances_snd_pop)
  next
    case (if_else fo s1 blk fend k es s2 fb s3)
    have "advances s1 s2" "started s2"
      using n[of s1] if_else(2) block_contractD(1,4)[OF c _ if_else(5)] by blast+
    moreover have "advances s2 s3"
      by (rule advances_br_false_branch[OF c \<open>started s2\<close> if_else(7)])
    ultimately show ?thesis
      using n[of s1] if_else(2,9) by (metis advances_trans advances_snd_pop)
  qed
qed

lemma advances_next_exp:
  assumes c: "block_contract tb" and s: "started s" and r: "next_exp tb E b s = Inr (e, s')"
  shows "advances s s'"
proof (cases "opens_block b")
  case False
  from advances_next_exp_simple[OF False r] show ?thesis .
next
  case True
  with r show ?thesis
    by (cases b)
       (auto simp: opens_block_def next_exp_def split: option.splits
         intro: advances_unpack[OF c s] advances_br_true[OF c s])
qed


section \<open>The translation loop\<close>

lemma iter_next_Some:
  "iter_next it = (Some b, it') \<Longrightarrow>
     it_rest it = b # it_rest it' \<and> it_idx it' \<noteq> None \<and>
     (it_idx it \<noteq> None \<longrightarrow> iter_index it' = Suc (iter_index it))"
  by (auto simp: iter_next_def Let_def iter_index_def split: list.splits option.splits)

lemma translate_Suc_cases:
  assumes "translate (Suc fuel) E s = r"
  obtains (stop) "ts_end s \<le> opcode_offset s" "r = Inr s"
  | (exhausted) it' where "opcode_offset s < ts_end s" "iter_next (ts_iter s) = (None, it')"
      "r = Inr (s\<lparr>ts_iter := it'\<rparr>)"
  | (turn) b it' where "opcode_offset s < ts_end s" "iter_next (ts_iter s) = (Some b, it')"
      "r = rbind (next_exp (translate_block (translate fuel E)) E b (s\<lparr>ts_iter := it'\<rparr>))
             (\<lambda>(e, s'). translate fuel E (push_exp e s'))"
  using assms by (auto split: if_splits prod.splits option.splits simp: not_less)

text \<open>The list a translator builds: at most one expression per consumed offset.\<close>

definition loop_advances :: "tstate \<Rightarrow> tstate \<Rightarrow> bool" where
  "loop_advances s s' \<longleftrightarrow>
     remaining s' \<le> remaining s \<and> opcode_offset s \<le> opcode_offset s' \<and> ts_end s' = ts_end s \<and>
     it_code (ts_iter s') = it_code (ts_iter s) \<and> (started s \<longrightarrow> started s') \<and>
     (started s \<longrightarrow>
        length (ts_exps s') \<le> length (ts_exps s) + (ts_end s - opcode_offset s))"

lemma push_exp_simps [simp]:
  "ts_iter (push_exp e s) = ts_iter s" "ts_end (push_exp e s) = ts_end s"
  "opcode_offset (push_exp e s) = opcode_offset s" "ts_used (push_exp e s) = ts_used s"
  "ts_exps (push_exp e s) = ts_exps s @ [ExpLoc (opcode_offset s) e]"
  by (simp_all add: push_exp_def opcode_offset_def)

lemma loop_advances_turn:
  assumes "opcode_offset s < ts_end s" "iter_next (ts_iter s) = (Some b, it')"
    and "advances (s\<lparr>ts_iter := it'\<rparr>) s1" "loop_advances (push_exp e s1) s'"
  shows "loop_advances s s'"
proof -
  have a: "advances s (s\<lparr>ts_iter := it'\<rparr>)" by (rule advances_iter_next[OF assms(2)])
  have le: "length (ts_exps s1) \<le> length (ts_exps s)"
    using assms(3) by (auto simp: advances_def)
  have off: "started s \<Longrightarrow> Suc (opcode_offset s) \<le> opcode_offset s1"
    using assms(3) iter_next_Some[OF assms(2)] by (auto simp: advances_def opcode_offset_def)
  have cnt: "length (ts_exps s') \<le> length (ts_exps s) + (ts_end s - opcode_offset s)"
    if st: "started s"
  proof -
    have "started s1" using assms(3) iter_next_Some[OF assms(2)] by (auto simp: advances_def)
    then have "length (ts_exps s') \<le> Suc (length (ts_exps s1)) + (ts_end s1 - opcode_offset s1)"
      using assms(4) by (simp add: loop_advances_def)
    moreover have "ts_end s1 = ts_end s" using assms(3) by (simp add: advances_def)
    ultimately show ?thesis using le off[OF st] assms(1) by simp
  qed
  show ?thesis
    using assms(3,4) a cnt by (auto simp: loop_advances_def advances_def)
qed

lemma translate_block_contract:
  assumes "\<And>s s'. tr s = Inr s' \<Longrightarrow> loop_advances s s'"
  shows "block_contract (translate_block tr)"
  unfolding block_contract_def
proof (intro allI impI)
  fix k s es s'
  assume st: "started s" and r: "translate_block tr k s = Inr (es, s')"
  then obtain t where t: "tr (translator_new (ts_iter s) k (ts_used s)) = Inr t"
    "es = ts_exps t" "s' = s\<lparr>ts_iter := ts_iter t, ts_used := ts_used t\<rparr>"
    by (auto simp: translate_block_def rbind_eq_Inr_iff)
  from assms[OF t(1)] st t(2,3)
  show "advances s s' \<and> ts_exps s' = ts_exps s \<and> length es \<le> k"
    by (auto simp: loop_advances_def translator_new_def advances_def opcode_offset_def
        intro: exI[of _ "length (ts_exps s)"])
qed

lemma translate_loop_advances: "translate fuel E s = Inr s' \<Longrightarrow> loop_advances s s'"
proof (induction fuel arbitrary: s s')
  case 0
  then show ?case by simp
next
  case (Suc fuel)
  have contract: "block_contract (translate_block (translate fuel E))"
    using Suc.IH by (rule translate_block_contract)
  from Suc.prems show ?case
  proof (cases rule: translate_Suc_cases)
    case stop
    then show ?thesis by (simp add: loop_advances_def)
  next
    case (exhausted it')
    then show ?thesis using advances_iter_next[OF exhausted(2)]
      by (auto simp: loop_advances_def advances_def)
  next
    case (turn b it')
    from turn(3)[symmetric] obtain e s1
      where n: "next_exp (translate_block (translate fuel E)) E b (s\<lparr>ts_iter := it'\<rparr>) = Inr (e, s1)"
        and r: "translate fuel E (push_exp e s1) = Inr s'"
      by (auto simp: rbind_eq_Inr_iff)
    have "started (s\<lparr>ts_iter := it'\<rparr>)" using iter_next_Some[OF turn(2)] by simp
    from advances_next_exp[OF contract this n] Suc.IH[OF r]
    show ?thesis using loop_advances_turn[OF turn(1,2)] by blast
  qed
qed

section \<open>Fuel\<close>

text \<open>No operation outside the two recursive ones reports running out of fuel.\<close>

lemma extract_type_signature_fuel:
  "extract_type_signature u t im tps \<noteq> Inl OutOfFuel"
proof (induction u t im tps rule: extract_type_signature.induct)
  case (9 u si typed im tps)
  have "mapM (\<lambda>t. extract_type_signature u t im tps) ts \<noteq> Inl OutOfFuel"
    if "set ts \<subseteq> set typed" for ts
    using that 9 by (induction ts) (auto simp: rbind_eq_Inl_iff)
  from this[of typed] show ?case by (auto simp: rbind_eq_Inl_iff)
qed (auto simp: rbind_eq_Inl_iff at_index_def)

lemma mapM_fuel: "(\<And>x. f x \<noteq> Inl OutOfFuel) \<Longrightarrow> mapM f xs \<noteq> Inl OutOfFuel"
  by (induction xs) (auto simp: rbind_eq_Inl_iff)

lemma extract_signature_fuel [simp]: "extract_signature E t \<noteq> Inl OutOfFuel"
  by (auto simp: extract_signature_def split: option.splits
      dest: mapM_fuel[THEN notE, OF extract_type_signature_fuel])

lemma usub_fuel [simp]: "usub a b \<noteq> Inl OutOfFuel"
  by (simp add: usub_def)

lemma get_local_var_fuel [simp]: "get_local_var E i \<noteq> Inl OutOfFuel"
  by (simp add: get_local_var_def at_index_def)

lemma next_exp_simple_fuel:
  assumes "\<not> opens_block b"
  shows "next_exp tb E b s \<noteq> Inl OutOfFuel"
  using assms
  by (cases b)
     (auto simp: next_exp_def opens_block_def rbind_eq_Inl_iff loc_exp_new_def ref_exp_def
       let_exp_def fn_call_plain_def fn_call_build_in_def translator_build_in_def pack_exp_def Let_def
       split: option.splits prod.splits if_splits)

definition block_terminates :: "nat \<Rightarrow> block_translator \<Rightarrow> bool" where
  "block_terminates n tb \<longleftrightarrow> (\<forall>k s. remaining s < n \<longrightarrow> tb k s \<noteq> Inl OutOfFuel)"

lemma unpack_fuel:
  assumes "block_terminates n tb" "remaining s < n"
  shows "unpack_exp tb E i t s \<noteq> Inl OutOfFuel"
  using assms
  by (auto simp: unpack_exp_def Let_def rbind_eq_Inl_iff block_terminates_def
      split: option.splits prod.splits)

lemma br_no_branch_fuel:
  assumes t: "block_terminates n tb" and c: "block_contract tb" and s: "started s" "remaining s < n"
  shows "br_true_no_branch tb k s \<noteq> Inl OutOfFuel"
proof -
  have a: "tb j s \<noteq> Inl OutOfFuel" for j
    using t s(2) by (simp add: block_terminates_def)
  have "tb j s1 \<noteq> Inl OutOfFuel" if "tb m s = Inr (es, s1)" for j m es s1
    using block_contractD(1)[OF c s(1) that] t s(2)
    by (auto simp: block_terminates_def advances_def)
  with a show ?thesis
    by (auto simp: br_true_no_branch_def rbind_eq_Inl_iff split: prod.splits if_splits)
qed

lemma br_true_fuel:
  assumes t: "block_terminates n tb" and c: "block_contract tb" and s: "started s" "remaining s < n"
  shows "br_true v tb k s \<noteq> Inl OutOfFuel"
proof (cases "\<exists>fo. iter_by_relative (ts_iter s) 1 = BcBranch fo")
  case False
  then have "br_true v tb k s = br_true_no_branch tb k s"
    by (cases "iter_by_relative (ts_iter s) 1") (simp_all add: br_true_def)
  with br_no_branch_fuel[OF assms] show ?thesis by simp
next
  case True
  then obtain fo where fo: "iter_by_relative (ts_iter s) 1 = BcBranch fo" by blast
  define s1 where "s1 = s\<lparr>ts_iter := snd (iter_next (ts_iter s))\<rparr>"
  have s1: "started s1" "remaining s1 < n"
    using advances_iter_snd[of s] s unfolding s1_def by (auto simp: advances_def)
  have a: "tb j s1 \<noteq> Inl OutOfFuel" for j
    using t s1(2) by (simp add: block_terminates_def)
  have f: "br_true_false_branch tb g h s1 \<noteq> Inl OutOfFuel" for g h
    using a by (auto simp: br_true_false_branch_def rbind_eq_Inl_iff split: option.splits prod.splits)
  have g: "br_true_false_branch tb g h s2 \<noteq> Inl OutOfFuel" if "tb m s1 = Inr (es, s2)" for g h s2 m es
  proof -
    have "remaining s2 < n"
      using block_contractD(1)[OF c s1(1) that] s1(2) by (simp add: advances_def)
    with t show ?thesis
      by (auto simp: br_true_false_branch_def rbind_eq_Inl_iff block_terminates_def
          split: option.splits prod.splits)
  qed
  show ?thesis
    using fo a f g
    by (auto simp: br_true_def Let_def s1_def[symmetric] rbind_eq_Inl_iff rbind_eq_Inr_iff
        split: prod.splits true_branch_outcome.splits if_splits)
qed

lemma next_exp_fuel:
  assumes "block_terminates n tb" "block_contract tb" "started s" "remaining s < n"
  shows "next_exp tb E b s \<noteq> Inl OutOfFuel"
proof (cases "opens_block b")
  case False
  then show ?thesis by (rule next_exp_simple_fuel)
next
  case True
  then show ?thesis
    using unpack_fuel[OF assms(1,4)] br_true_fuel[OF assms]
    by (cases b) (auto simp: opens_block_def next_exp_def split: option.splits)
qed

lemma translate_contract: "block_contract (translate_block (translate fuel E))"
  by (rule translate_block_contract) (rule translate_loop_advances)

text \<open>The remaining instructions plus one are enough fuel.\<close>

lemma translate_fuel: "remaining s < fuel \<Longrightarrow> translate fuel E s \<noteq> Inl OutOfFuel"
proof (induction fuel arbitrary: s)
  case 0
  then show ?case by simp
next
  case (Suc fuel)
  let ?tb = "translate_block (translate fuel E)"
  have t: "block_terminates fuel ?tb"
    using Suc.IH
    by (auto simp: block_terminates_def translate_block_def rbind_eq_Inl_iff translator_new_def)
  show ?case
  proof
    assume "translate (Suc fuel) E s = Inl OutOfFuel"
    then show False
    proof (cases rule: translate_Suc_cases)
      case (turn b it')
      let ?s = "s\<lparr>ts_iter := it'\<rparr>"
      have s: "started ?s" "remaining ?s < fuel"
        using iter_next_Some[OF turn(2)] Suc.prems by auto
      have "next_exp ?tb E b ?s \<noteq> Inl OutOfFuel"
        by (rule next_exp_fuel[OF t translate_contract s])
      moreover have "translate fuel E (push_exp e s1) \<noteq> Inl OutOfFuel"
        if "next_exp ?tb E b ?s = Inr (e, s1)" for e s1
        using advances_next_exp[OF translate_contract s(1) that] s(2)
        by (intro Suc.IH) (simp add: advances_def)
      ultimately show False
        using turn(3)[symmetric] by (auto simp: rbind_eq_Inl_iff)
    qed simp_all
  qed
qed

section \<open>The result does not depend on the fuel\<close>

definition blocks_agree :: "nat \<Rightarrow> block_translator \<Rightarrow> block_translator \<Rightarrow> bool" where
  "blocks_agree n tb tb' \<longleftrightarrow> (\<forall>k s. remaining s < n \<longrightarrow> tb k s = tb' k s)"

lemma unpack_agree:
  assumes "blocks_agree n tb tb'" "remaining s < n"
  shows "unpack_exp tb E i t s = unpack_exp tb' E i t s"
  using assms by (simp add: unpack_exp_def blocks_agree_def cong: option.case_cong)

lemma br_no_branch_agree:
  assumes a: "blocks_agree n tb tb'" and c: "block_contract tb'" and s: "started s" "remaining s < n"
  shows "br_true_no_branch tb k s = br_true_no_branch tb' k s"
proof -
  have e: "tb j s = tb' j s" for j using a s(2) by (simp add: blocks_agree_def)
  have "tb j s1 = tb' j s1" if "tb' m s = Inr (es, s1)" for j m es s1
    using block_contractD(1)[OF c s(1) that] s(2) a by (auto simp: blocks_agree_def advances_def)
  then show ?thesis
    by (auto simp: br_true_no_branch_def e intro!: rbind_cong split: prod.splits)
qed

lemma br_false_branch_agree:
  assumes "blocks_agree n tb tb'" "remaining s < n"
  shows "br_true_false_branch tb f g s = br_true_false_branch tb' f g s"
proof -
  have e: "tb j s = tb' j s" for j using assms by (simp add: blocks_agree_def)
  show ?thesis unfolding br_true_false_branch_def e by (rule refl)
qed

lemma br_true_agree:
  assumes a: "blocks_agree n tb tb'" and c: "block_contract tb'" and s: "started s" "remaining s < n"
  shows "br_true v tb k s = br_true v tb' k s"
proof (cases "\<exists>fo. iter_by_relative (ts_iter s) 1 = BcBranch fo")
  case False
  then have "br_true v tb k s = br_true_no_branch tb k s" "br_true v tb' k s = br_true_no_branch tb' k s"
    by (cases "iter_by_relative (ts_iter s) 1"; simp add: br_true_def)+
  with br_no_branch_agree[OF assms] show ?thesis by simp
next
  case True
  then obtain fo where fo: "iter_by_relative (ts_iter s) 1 = BcBranch fo" by blast
  define s1 where "s1 = s\<lparr>ts_iter := snd (iter_next (ts_iter s))\<rparr>"
  have s1: "started s1" "remaining s1 < n"
    using advances_iter_snd[of s] s unfolding s1_def by (auto simp: advances_def)
  have e: "tb j s1 = tb' j s1" for j using a s1(2) by (simp add: blocks_agree_def)
  have r: "remaining s2 < n" if "tb' m s1 = Inr (es, s2)" for s2 m es
    using block_contractD(1)[OF c s1(1) that] s1(2) by (simp add: advances_def)
  show ?thesis
    using fo s1(2)
    by (auto simp: br_true_def Let_def s1_def[symmetric] e rbind_eq_Inr_iff
        split: true_branch_outcome.splits if_splits dest!: r
        intro!: rbind_cong br_false_branch_agree[OF a])
qed

lemma next_exp_agree:
  assumes "blocks_agree n tb tb'" "block_contract tb'" "started s" "remaining s < n"
  shows "next_exp tb E b s = next_exp tb' E b s"
proof (cases "opens_block b")
  case False
  then show ?thesis by (rule next_exp_simple)
next
  case True
  then show ?thesis
    using unpack_agree[OF assms(1,4)] br_true_agree[OF assms]
    by (cases b) (auto simp: opens_block_def next_exp_def split: option.splits)
qed

lemma translate_fuel_irrelevant:
  "remaining s < fuel \<Longrightarrow> fuel \<le> fuel' \<Longrightarrow> translate fuel' E s = translate fuel E s"
proof (induction fuel arbitrary: s fuel')
  case 0
  then show ?case by simp
next
  case (Suc fuel)
  then obtain fuel'' where f: "fuel' = Suc fuel''" "fuel \<le> fuel''" by (cases fuel') auto
  let ?tb = "\<lambda>f. translate_block (translate f E)"
  have a: "blocks_agree fuel (?tb fuel'') (?tb fuel)"
    using Suc.IH[OF _ f(2)]
    by (auto simp: blocks_agree_def translate_block_def translator_new_def intro!: rbind_cong)
  have turn: "rbind (next_exp (?tb fuel'') E b (s\<lparr>ts_iter := it\<rparr>))
        (\<lambda>(e, s'). translate fuel'' E (push_exp e s')) =
      rbind (next_exp (?tb fuel) E b (s\<lparr>ts_iter := it\<rparr>)) (\<lambda>(e, s'). translate fuel E (push_exp e s'))"
    if n: "iter_next (ts_iter s) = (Some b, it)" for b it
  proof (rule rbind_cong)
    have s: "started (s\<lparr>ts_iter := it\<rparr>)" "remaining (s\<lparr>ts_iter := it\<rparr>) < fuel"
      using iter_next_Some[OF n] Suc.prems by auto
    show "next_exp (?tb fuel'') E b (s\<lparr>ts_iter := it\<rparr>) = next_exp (?tb fuel) E b (s\<lparr>ts_iter := it\<rparr>)"
      by (rule next_exp_agree[OF a translate_contract s])
    show "(case p of (e, s') \<Rightarrow> translate fuel'' E (push_exp e s')) =
          (case p of (e, s') \<Rightarrow> translate fuel E (push_exp e s'))"
      if "next_exp (?tb fuel) E b (s\<lparr>ts_iter := it\<rparr>) = Inr p" for p
    proof (cases p)
      case (Pair e s1)
      have "remaining s1 < fuel"
        using advances_next_exp[OF translate_contract s(1) that[unfolded Pair]] s(2)
        by (simp add: advances_def)
      with Pair Suc.IH[OF _ f(2)] show ?thesis by simp
    qed
  qed
  show ?case
    unfolding f(1) by (auto simp: turn split: prod.splits option.splits)
qed

end
