(* ===== verification/Dis_Unit.thy ===== *)
theory Dis_Unit
  imports Dis_Flow
begin

text \<open>
  The declarations of a unit and the entry points of the disassembler: \<open>code/locals.rs\<close>,
  \<open>code/body.rs\<close>, \<open>code/exp/block.rs\<close> (\<open>mock\<close>), \<open>functions.rs\<close>, \<open>structs.rs\<close>,
  \<open>module.rs\<close>, \<open>script.rs\<close>, \<open>unit.rs\<close> (\<open>SourceUnit\<close>) and \<open>lib.rs\<close>.

  The flags of a function's parameters and variables are the cells \<open>0, 1, \<dots>\<close> of a store of
  its own: parameters first, then variables; \<open>fn_used\<close> is that store after translation.
\<close>

section \<open>Locals and bodies (locals.rs, body.rs)\<close>

definition locals_new ::
    "param list \<Rightarrow> compiled_unit \<Rightarrow> import_table \<Rightarrow> generic list \<Rightarrow> signature_token list \<Rightarrow>
     local_var list result" where
  "locals_new params u im tps sign =
     rbind (mapM (\<lambda>t. extract_type_signature u t im tps) sign) (\<lambda>ts.
       Inr (map LParam params @
            map (\<lambda>(index, t). LVar \<lparr>var_cell = length params + index, var_index = index, var_type = t\<rparr>)
              (enumerate 0 ts)))"

record body =
  bd_block :: block
  bd_locals :: "local_var list"

definition block_mock :: block where
  "block_mock = Block [ExpLoc 1 (Abort (ExpLoc 0 (Ld (LdU64 1))))] False"

definition body_mock :: body where
  "body_mock = \<lparr>bd_block = block_mock, bd_locals = []\<rparr>"

definition body_new ::
    "vendor \<Rightarrow> code_unit \<Rightarrow> nat \<Rightarrow> compiled_unit \<Rightarrow> param list \<Rightarrow> import_table \<Rightarrow> generic list \<Rightarrow>
     (body \<times> store) result" where
  "body_new v code ret_len u params im tps =
     rbind (locals_new params u im tps (ua_signature u (cu_locals code))) (\<lambda>ls.
       rbind (translate (Suc (length (cu_code code)))
                \<lparr>te_vendor = v, te_locals = ls, te_unit = u, te_imports = im,
                 te_type_params = tps, te_ret_len = ret_len\<rparr>
                (translator_new (iter_new (cu_code code)) (length (cu_code code)) (\<lambda>_. False)))
         (\<lambda>s. Inr (\<lparr>bd_block = Block (ts_exps s) False, bd_locals = ls\<rparr>, ts_used s)))"

definition encode_let_line :: "store \<Rightarrow> nat \<Rightarrow> local_var \<Rightarrow> string" where
  "encode_let_line used indent l =
     (case l of
        LVar x \<Rightarrow> nl @ pad (indent + INDENT) @ ''let '' @ encode_var used x @ '';''
      | LParam _ \<Rightarrow> [])"

definition is_var :: "local_var \<Rightarrow> bool" where
  "is_var l = (case l of LVar _ \<Rightarrow> True | LParam _ \<Rightarrow> False)"

definition encode_body :: "vendor \<Rightarrow> store \<Rightarrow> body \<Rightarrow> nat \<Rightarrow> string" where
  "encode_body v used b indent =
     concat (map (encode_let_line used indent) (bd_locals b)) @
     (if list_ex is_var (bd_locals b) then nl else []) @
     encode_block (bd_block b) v used indent"

section \<open>Functions (functions.rs)\<close>

record functions_def =
  fn_is_public :: bool
  fn_is_native :: bool
  fn_name :: string
  fn_type_params :: "generic list"
  fn_ret :: "ftype list"
  fn_params :: "param list"
  fn_acquires :: "full_struct_name list"
  fn_body :: "body option"
  fn_used :: store

definition functions_ret ::
    "compiled_unit \<Rightarrow> import_table \<Rightarrow> signature_token list \<Rightarrow> generic list \<Rightarrow> ftype list result" where
  "functions_ret u im sign tps = mapM (\<lambda>t. extract_type_signature u t im tps) sign"

definition functions_params ::
    "compiled_unit \<Rightarrow> import_table \<Rightarrow> signature_token list \<Rightarrow> generic list \<Rightarrow> param list result" where
  "functions_params u im sign tps =
     mapM (\<lambda>(index, t). rbind (extract_type_signature u t im tps)
             (\<lambda>ty. Inr \<lparr>prm_cell = index, prm_index = index, prm_type = ty\<rparr>))
       (enumerate 0 sign)"

definition functions_new ::
    "vendor \<Rightarrow> function_definition \<Rightarrow> compiled_unit \<Rightarrow> generic_prefix \<Rightarrow> import_table \<Rightarrow> bool \<Rightarrow>
     functions_def result" where
  "functions_new v def u generics im light_version =
     (let handler = ua_function_handle u (fd_function def);
          name = ua_identifier u (fh_name handler);
          type_params = extract_type_params (fh_type_parameters handler) generics
      in rbind (functions_ret u im (ua_signature u (fh_return handler)) type_params) (\<lambda>ret.
         rbind (functions_params u im (ua_signature u (fh_parameters handler)) type_params) (\<lambda>params.
           if light_version then
             Inr \<lparr>fn_is_public = fd_is_public def, fn_is_native = fd_is_native def, fn_name = name,
                  fn_type_params = type_params, fn_ret = ret, fn_params = params,
                  fn_acquires = [], fn_body = Some body_mock, fn_used = (\<lambda>_. False)\<rparr>
           else
             rbind (case fd_code def of
                      None \<Rightarrow> Inr (None, \<lambda>_. False)
                    | Some code \<Rightarrow>
                        rbind (body_new v code (length ret) u params im type_params)
                          (\<lambda>(b, used). Inr (Some b, used)))
               (\<lambda>(body, used).
                  Inr \<lparr>fn_is_public = fd_is_public def, fn_is_native = fd_is_native def,
                       fn_name = name, fn_type_params = type_params, fn_ret = ret,
                       fn_params = params,
                       fn_acquires = map (\<lambda>sd. extract_struct_name u (sd_struct_handle sd) im)
                         (List.map_filter (ua_struct_def u) (fd_acquires_global_resources def)),
                       fn_body = body, fn_used = used\<rparr>))))"

definition functions_script ::
    "vendor \<Rightarrow> compiled_unit \<Rightarrow> import_table \<Rightarrow> generic_prefix \<Rightarrow> functions_def result" where
  "functions_script v u im generics =
     rbind (case ua_script_info u of
              Some (code, type_parameters, params) \<Rightarrow>
                (let type_params = extract_type_params type_parameters generics
                 in rbind (functions_params u im (ua_signature u params) type_params) (\<lambda>ps.
                    rbind (body_new v code 0 u ps im type_params) (\<lambda>(b, used).
                      Inr (type_params, ps, Some b, used))))
            | None \<Rightarrow> Inr ([], [], None, \<lambda>_. False))
       (\<lambda>(type_params, params, body, used).
          Inr \<lparr>fn_is_public = False, fn_is_native = False, fn_name = ''main'',
               fn_type_params = type_params, fn_ret = [], fn_params = params,
               fn_acquires = [], fn_body = body, fn_used = used\<rparr>)"

definition encode_function :: "vendor \<Rightarrow> functions_def \<Rightarrow> nat \<Rightarrow> string" where
  "encode_function v f indent =
     pad indent @ (if fn_is_native f then ''native '' else []) @
     (if fn_is_public f then ''public '' else []) @ ''fun '' @ fn_name f @
     write_type_parameters (fn_type_params f) @
     write_array ''('' '', '' (map (encode_param (fn_used f)) (fn_params f)) '')'' @
     (if fn_ret f = [] then []
      else '': '' @ (if length (fn_ret f) = 1 then encode_ftype (fn_ret f ! 0)
                     else write_array ''('' '', '' (map encode_ftype (fn_ret f)) '')'')) @
     (if fn_acquires f = [] then []
      else write_array '' acquires '' '', '' (map encode_full_struct_name (fn_acquires f)) '' '') @
     (if fn_is_native f then '';''
      else '' {'' @
           (case fn_body f of Some b \<Rightarrow> encode_body v (fn_used f) b indent | None \<Rightarrow> []) @
           nl @ pad indent @ ''}'')"

section \<open>Structs (structs.rs)\<close>

record struct_field =
  sf_name :: string
  sf_type :: ftype

record struct_def =
  sd_is_nominal_resource :: bool
  sd_is_native :: bool
  sd_name :: string
  sd_type_params :: "generic list"
  sd_fields :: "struct_field list"

definition extract_fields ::
    "compiled_unit \<Rightarrow> struct_field_information \<Rightarrow> import_table \<Rightarrow> generic list \<Rightarrow>
     struct_field list result" where
  "extract_fields u info im tps =
     (case info of
        Declared fds \<Rightarrow>
          mapM (\<lambda>def. rbind (extract_type_signature u (fld_signature def) im tps)
                  (\<lambda>t. Inr \<lparr>sf_name = ua_identifier u (fld_name def), sf_type = t\<rparr>)) fds
      | Native \<Rightarrow> Inr [])"

definition struct_new ::
    "struct_definition \<Rightarrow> compiled_unit \<Rightarrow> generic_prefix \<Rightarrow> import_table \<Rightarrow> struct_def result" where
  "struct_new def u generic im =
     (let handler = ua_struct_handle u (sd_struct_handle def);
          name = ua_identifier u (sh_name handler);
          type_params = extract_type_params (sh_type_parameters handler) generic
      in rbind (extract_fields u (sd_field_information def) im type_params) (\<lambda>flds.
           Inr \<lparr>sd_is_nominal_resource = sh_is_nominal_resource handler,
                sd_is_native = (sd_field_information def = Native),
                sd_name = name, sd_type_params = type_params, sd_fields = flds\<rparr>))"

definition encode_struct_field :: "nat \<Rightarrow> struct_field \<Rightarrow> string" where
  "encode_struct_field indent f = pad indent @ sf_name f @ '': '' @ encode_ftype (sf_type f)"

fun encode_fields_from :: "nat \<Rightarrow> nat \<Rightarrow> nat \<Rightarrow> struct_field list \<Rightarrow> string" where
  "encode_fields_from indent index len [] = []"
| "encode_fields_from indent index len (f # fs) =
     encode_struct_field (indent + INDENT) f @
     (if int index \<noteq> int len - 1 then '','' @ nl else nl) @
     encode_fields_from indent (Suc index) len fs"

definition encode_struct :: "struct_def \<Rightarrow> nat \<Rightarrow> string" where
  "encode_struct d indent =
     (let nominal_name = (if sd_is_nominal_resource d then ''resource struct''
                          else if sd_is_native d then ''native struct'' else ''struct'')
      in if sd_is_native d
         then pad indent @ nominal_name @ '' '' @ sd_name d @
              write_type_parameters (sd_type_params d) @ '';''
         else pad indent @ nominal_name @ '' '' @ sd_name d @
              write_type_parameters (sd_type_params d) @ '' {'' @ nl @
              encode_fields_from indent 0 (length (sd_fields d)) (sd_fields d) @
              pad indent @ ''}'')"

section \<open>Modules, scripts and source units (module.rs, script.rs, unit.rs)\<close>

record module_ast =
  md_address :: "account_address option"
  md_name :: string
  md_structs :: "struct_def list"
  md_functions :: "functions_def list"
  md_imports :: import_table

definition module_new ::
    "vendor \<Rightarrow> compiled_unit \<Rightarrow> import_table \<Rightarrow> generic_prefix \<Rightarrow> bool \<Rightarrow> module_ast result" where
  "module_new v u im generics light_version =
     rbind (mapM (\<lambda>def. struct_new def u generics im) (ua_struct_defs u)) (\<lambda>structs.
     rbind (mapM (\<lambda>def. functions_new v def u generics im light_version) (ua_function_defs u))
       (\<lambda>functions.
          Inr \<lparr>md_address = None, md_name = mid_name (ua_self_id (v_core_code_address v) u),
               md_structs = structs, md_functions = functions, md_imports = im\<rparr>))"

definition encode_module :: "vendor \<Rightarrow> module_ast \<Rightarrow> string" where
  "encode_module v m =
     (case md_address m of
        Some address \<Rightarrow> ''address 0x'' @ v_addr_display v address @ '' { '' @ nl
      | None \<Rightarrow> []) @
     ''module '' @ md_name m @ '' {'' @ nl @
     encode_imports v (md_imports m) INDENT @ nl @
     concat (map (\<lambda>d. encode_struct d INDENT @ nl @ nl) (md_structs m)) @
     concat (map (\<lambda>f. encode_function v f INDENT @ nl @ nl) (md_functions m)) @
     ''}'' @ nl @
     (if md_address m \<noteq> None then ''}'' @ nl else [])"

record script_ast =
  sc_imports :: import_table
  sc_function :: functions_def

definition script_new ::
    "vendor \<Rightarrow> compiled_unit \<Rightarrow> import_table \<Rightarrow> generic_prefix \<Rightarrow> script_ast result" where
  "script_new v u im generics =
     rbind (functions_script v u im generics) (\<lambda>main.
       Inr \<lparr>sc_imports = im, sc_function = main\<rparr>)"

definition encode_script :: "vendor \<Rightarrow> script_ast \<Rightarrow> string" where
  "encode_script v s =
     ''script {'' @ nl @ encode_imports v (sc_imports s) INDENT @
     (if \<not> imports_is_empty (sc_imports s) then nl else []) @
     encode_function v (sc_function s) INDENT @ ''}'' @ nl"

datatype source_unit = SuScript script_ast | SuModule module_ast

definition write_code :: "vendor \<Rightarrow> source_unit \<Rightarrow> string" where
  "write_code v su = (case su of SuScript s \<Rightarrow> encode_script v s | SuModule m \<Rightarrow> encode_module v m)"

section \<open>Entry points (lib.rs)\<close>

record disassembler =
  da_unit :: compiled_unit
  da_imports :: import_table
  da_generics :: generic_prefix
  da_light_version :: bool

definition disassembler_new :: "16 word \<Rightarrow> compiled_unit \<Rightarrow> bool \<Rightarrow> disassembler" where
  "disassembler_new rand u light_version =
     \<lparr>da_unit = u, da_imports = imports_new u, da_generics = generics_new rand u,
      da_light_version = light_version\<rparr>"

definition make_source_unit :: "vendor \<Rightarrow> disassembler \<Rightarrow> source_unit result" where
  "make_source_unit v d =
     (if ua_is_script (da_unit d)
      then rbind (script_new v (da_unit d) (da_imports d) (da_generics d)) (\<lambda>s. Inr (SuScript s))
      else rbind (module_new v (da_unit d) (da_imports d) (da_generics d) (da_light_version d))
             (\<lambda>m. Inr (SuModule m)))"

text \<open>\<open>disasm_str\<close>; \<open>disasm\<close> writes the same text to a writer of the caller. The outer sum is
  the \<open>Result\<close> of the code, the inner one its faults.\<close>

definition disasm ::
    "vendor \<Rightarrow> ('b \<Rightarrow> 'e + script_access) \<Rightarrow> ('b \<Rightarrow> 'e + module_access) \<Rightarrow> 16 word \<Rightarrow> 'b \<Rightarrow> bool \<Rightarrow>
     'e + string result" where
  "disasm v deser_script deser_module rand bytes light_version =
     (case compiled_unit_new deser_script deser_module bytes of
        Inl e \<Rightarrow> Inl e
      | Inr u \<Rightarrow>
          Inr (rbind (make_source_unit v (disassembler_new rand u light_version))
                 (\<lambda>ast. Inr (write_code v ast))))"

end
