(* ===== verification/Dis_Naming.thy ===== *)
theory Dis_Naming
  imports Dis_Unit
begin

text \<open>
  Correctness of the naming layer: the \<open>use\<close> table of \<open>imports.rs\<close> (every foreign module
  gets an import, two addresses of one module name never share one), the type-parameter
  names of \<open>generics.rs\<close>, and the names of parameters and variables.

  The counting scheme of \<open>Imports::new\<close> is proved once, over any map interface
  (\<open>counting_map\<close>); the interpretation discharges its laws for the model's \<open>BTreeMap\<close>.
\<close>

section \<open>Numbering by the size of a map\<close>

locale counting_map =
  fixes ok :: "'m \<Rightarrow> bool"
    and get :: "'m \<Rightarrow> 'k \<Rightarrow> 'v option"
    and size_of :: "'m \<Rightarrow> nat"
    and add_new :: "'k \<Rightarrow> 'v \<Rightarrow> 'm \<Rightarrow> 'm"
    and number :: "'v \<Rightarrow> nat"
  assumes get_add: "ok m \<Longrightarrow> get (add_new k v m) j =
      (if j = k then (case get m k of None \<Rightarrow> Some v | Some w \<Rightarrow> Some w) else get m j)"
    and ok_add: "ok m \<Longrightarrow> ok (add_new k v m)"
    and size_add: "ok m \<Longrightarrow> size_of (add_new k v m) =
      (if get m k = None then Suc (size_of m) else size_of m)"
begin

definition numbered :: "'m \<Rightarrow> bool" where
  "numbered m \<longleftrightarrow> ok m \<and>
     (\<forall>k v. get m k = Some v \<longrightarrow> number v < size_of m) \<and>
     (\<forall>k k' v v'. get m k = Some v \<longrightarrow> get m k' = Some v' \<longrightarrow> number v = number v' \<longrightarrow> k = k')"

lemma numbered_inj:
  "numbered m \<Longrightarrow> get m k = Some v \<Longrightarrow> get m k' = Some v' \<Longrightarrow> number v = number v' \<Longrightarrow> k = k'"
  by (auto simp: numbered_def)

lemma numbered_ok: "numbered m \<Longrightarrow> ok m"
  by (simp add: numbered_def)

lemma numbered_add:
  assumes m: "numbered m" and v: "number v = size_of m"
  shows "numbered (add_new k v m)"
proof (cases "get m k")
  case (Some w)
  have "get (add_new k v m) = get m"
    using numbered_ok[OF m] Some by (auto simp: get_add)
  with m Some show ?thesis by (simp add: numbered_def ok_add size_add)
next
  case None
  have o: "ok m" by (rule numbered_ok[OF m])
  have lt: "number w < size_of m" if "get m j = Some w" for j w
    using m that by (auto simp: numbered_def)
  have ne: "number w \<noteq> number v" if "get m j = Some w" for j w
    using lt[OF that] v by simp
  show ?thesis
    unfolding numbered_def
    using o None v lt ne ne[symmetric] numbered_inj[OF m]
    by (auto simp: get_add ok_add size_add less_Suc_eq split: if_splits)
qed

end

section \<open>Imports\<close>

text \<open>The number of an import is its alias suffix; the plain name counts as 0.\<close>

definition import_number :: "import_name \<Rightarrow> nat" where
  "import_number i = (case i of ImportName _ \<Rightarrow> 0 | ImportAlias _ n \<Rightarrow> n)"

definition import_stem :: "import_name \<Rightarrow> string" where
  "import_stem i = (case i of ImportName n \<Rightarrow> n | ImportAlias n _ \<Rightarrow> n)"

interpretation names: counting_map
  btree_ok btree_get length entry_or_insert import_number
  by unfold_locales
     (simp_all add: btree_get_entry_or_insert btree_ok_entry_or_insert length_entry_or_insert)

definition import_entry_ok :: "string \<Rightarrow> (account_address, import_name) btree \<Rightarrow> bool" where
  "import_entry_ok n m \<longleftrightarrow> names.numbered m \<and>
     (\<forall>a i. btree_get m a = Some i \<longrightarrow>
        i = (if import_number i = 0 then ImportName n else ImportAlias n (import_number i)))"

definition imports_ok :: "import_table \<Rightarrow> bool" where
  "imports_ok t \<longleftrightarrow> btree_ok t \<and> (\<forall>n m. btree_get t n = Some m \<longrightarrow> import_entry_ok n m)"

lemma import_entry_ok_Nil: "import_entry_ok n []"
  by (simp add: import_entry_ok_def names.numbered_def)

lemma import_entry_ok_add:
  assumes "import_entry_ok n m"
  shows "import_entry_ok n (entry_or_insert a
     (if length m = 0 then ImportName n else ImportAlias n (length m)) m)" (is "import_entry_ok n ?m")
proof -
  let ?v = "if length m = 0 then ImportName n else ImportAlias n (length m)"
  have v: "import_number ?v = length m" by (simp add: import_number_def)
  have "names.numbered ?m"
    using assms v by (intro names.numbered_add) (auto simp: import_entry_ok_def)
  moreover have "btree_ok m" using assms by (simp add: import_entry_ok_def names.numbered_def)
  moreover have "i = (if import_number i = 0 then ImportName n else ImportAlias n (import_number i))"
    if g: "btree_get ?m b = Some i" for b i
  proof (cases "i = ?v")
    case True
    then show ?thesis by (simp add: import_number_def)
  next
    case False
    with g \<open>btree_ok m\<close> have "btree_get m b = Some i"
      by (auto simp: btree_get_entry_or_insert simp del: length_0_conv split: if_splits option.splits)
    with assms show ?thesis by (simp only: import_entry_ok_def)
  qed
  ultimately show ?thesis
    unfolding import_entry_ok_def by blast
qed

text \<open>The table entry a module name has, empty when it is unknown.\<close>

abbreviation entry_of :: "import_table \<Rightarrow> string \<Rightarrow> (account_address, import_name) btree" where
  "entry_of t n \<equiv> (case btree_get t n of None \<Rightarrow> [] | Some m \<Rightarrow> m)"

lemma imports_ok_entry: "imports_ok t \<Longrightarrow> import_entry_ok n (entry_of t n)"
  by (auto simp: imports_ok_def import_entry_ok_Nil split: option.splits)

lemma get_import_entry: "get_import t a n = btree_get (entry_of t n) a"
  by (cases "btree_get t n") (simp_all add: get_import_def)

lemma imports_step_unfold:
  "imports_step u si (i, h) t =
     (if si = Some i then t
      else let n = ua_identifier u (mh_name h);
               m = entry_of t n
           in btree_insert n (entry_or_insert (ua_address u (mh_address h))
                (if length m = 0 then ImportName n else ImportAlias n (length m)) m) t)"
  by (simp add: imports_step_def Let_def)

lemma imports_step_ok:
  assumes t: "imports_ok t"
  shows "imports_ok (imports_step u si ih t)"
proof -
  obtain i h where ih: "ih = (i, h)" by (cases ih)
  have o: "btree_ok t" "\<And>n m. btree_get t n = Some m \<Longrightarrow> import_entry_ok n m"
    using t by (auto simp: imports_ok_def)
  have "import_entry_ok n (entry_or_insert a
      (if length (entry_of t n) = 0 then ImportName n else ImportAlias n (length (entry_of t n)))
      (entry_of t n))" for n a
    by (rule import_entry_ok_add[OF imports_ok_entry[OF t]])
  note new = this[of "ua_identifier u (mh_name h)" "ua_address u (mh_address h)"]
  show ?thesis
    unfolding ih imports_step_unfold Let_def
    using t new o by (simp only: imports_ok_def btree_get_insert btree_ok_insert split: if_splits) auto
qed

text \<open>One turn registers the module of its handle and keeps what was registered.\<close>

lemma imports_step_get:
  assumes "imports_ok t"
  shows "get_import (imports_step u si (i, h) t) a n =
     (if si \<noteq> Some i \<and> n = ua_identifier u (mh_name h) \<and> a = ua_address u (mh_address h) \<and>
         get_import t a n = None
      then Some (if length (entry_of t n) = 0 then ImportName n
                 else ImportAlias n (length (entry_of t n)))
      else get_import t a n)"
proof -
  have "btree_ok t" "btree_ok (entry_of t n)" for n
    using assms imports_ok_entry[OF assms, of n]
    by (auto simp: imports_ok_def import_entry_ok_def names.numbered_def)
  then show ?thesis
    by (auto simp: imports_step_def Let_def get_import_entry btree_get_insert
        btree_get_entry_or_insert split: option.splits)
qed

lemma imports_ok_fold: "imports_ok t \<Longrightarrow> imports_ok (fold (imports_step u si) ihs t)"
  by (induction ihs arbitrary: t) (auto intro: imports_step_ok)

lemma imports_new_ok: "imports_ok (imports_new u)"
  unfolding imports_new_def by (rule imports_ok_fold) (simp add: imports_ok_def)

lemma fold_imports_keep:
  "imports_ok t \<Longrightarrow> get_import t a n \<noteq> None \<Longrightarrow>
     get_import (fold (imports_step u si) ihs t) a n = get_import t a n"
proof (induction ihs arbitrary: t)
  case (Cons ih ihs)
  obtain i h where ih: "ih = (i, h)" by (cases ih)
  have "get_import (imports_step u si ih t) a n = get_import t a n"
    using Cons.prems by (auto simp: ih imports_step_get)
  with Cons show ?case by (simp add: imports_step_ok)
qed simp

lemma fold_imports_covers:
  assumes "imports_ok t" "(i, h) \<in> set ihs" "si \<noteq> Some i"
  shows "get_import (fold (imports_step u si) ihs t)
           (ua_address u (mh_address h)) (ua_identifier u (mh_name h)) \<noteq> None"
  using assms
proof (induction ihs arbitrary: t)
  case (Cons ih ihs)
  show ?case
  proof (cases "ih = (i, h)")
    case True
    have ok: "imports_ok (imports_step u si (i, h) t)"
      by (rule imports_step_ok[OF Cons.prems(1)])
    have "get_import (imports_step u si (i, h) t)
        (ua_address u (mh_address h)) (ua_identifier u (mh_name h)) \<noteq> None"
      using Cons.prems(1,3) by (simp add: imports_step_get)
    from this fold_imports_keep[OF ok this] True show ?thesis by simp
  next
    case False
    with Cons show ?thesis by (auto simp: imports_step_ok)
  qed
qed simp

lemma get_import_inj:
  assumes "imports_ok t" "get_import t a n = Some i" "get_import t b n = Some j"
    and "import_number i = import_number j"
  shows "a = b"
  using assms imports_ok_entry[OF assms(1), of n]
  by (auto simp: get_import_entry import_entry_ok_def intro: names.numbered_inj)

lemma get_import_shape:
  assumes "imports_ok t" "get_import t a n = Some i"
  shows "i = (if import_number i = 0 then ImportName n else ImportAlias n (import_number i))"
  using assms imports_ok_entry[OF assms(1), of n]
  by (auto simp: get_import_entry import_entry_ok_def)

lemma encode_import_inj:
  assumes "imports_ok t" "get_import t a n = Some i" "get_import t b n = Some j"
    and e: "encode_import_name i = encode_import_name j"
  shows "import_number i = import_number j"
proof -
  have s: "x = (if import_number x = 0 then ImportName n else ImportAlias n (import_number x))"
    if "x = i \<or> x = j" for x
    using get_import_shape[OF assms(1)] assms(2,3) that by blast
  have "encode_import_name x =
      n @ (if import_number x = 0 then [] else ''_'' @ show_nat (import_number x))"
    if "x = i \<or> x = j" for x
    by (subst s[OF that]) (simp add: encode_import_name_def)
  from this[of i] this[of j] e show ?thesis by (auto split: if_splits)
qed

section \<open>Generic names\<close>

lemma encode_generic_name_inj:
  "g_prefix g = g_prefix h \<Longrightarrow> encode_generic_name g = encode_generic_name h \<Longrightarrow>
     g_index g = g_index h"
  by (auto simp: encode_generic_name_def split: if_splits)

section \<open>Local names\<close>

definition local_name_key :: "local_var \<Rightarrow> bool \<times> nat" where
  "local_name_key l = (case l of LParam p \<Rightarrow> (True, prm_index p) | LVar x \<Rightarrow> (False, var_index x))"

lemma local_write_name_inj:
  assumes "local_write_name used l = local_write_name used l'"
  shows "local_name_key l = local_name_key l'"
proof -
  have name: "local_write_name used k =
      (if \<not> used (local_cell k) then ''_'' else []) @
      (if fst (local_name_key k) then ''arg'' else ''var'') @
      (if snd (local_name_key k) \<noteq> 0 then show_nat (snd (local_name_key k)) else [])" for k
    by (cases k) (simp_all add: local_write_name_def param_write_name_def var_write_name_def
        local_name_key_def local_cell_def)
  show ?thesis
    using assms[unfolded name]
    by (intro prod_eqI) (auto split: if_splits)
qed

lemma functions_params_nth:
  assumes "functions_params u im sign tps = Inr ps"
  shows "length ps = length sign" "i < length sign \<Longrightarrow> prm_index (ps ! i) = i \<and> prm_cell (ps ! i) = i"
proof -
  show "length ps = length sign"
    using mapM_Inr_length[OF assms[unfolded functions_params_def]] by simp
  show "prm_index (ps ! i) = i \<and> prm_cell (ps ! i) = i" if "i < length sign"
    using mapM_Inr_nth[OF assms[unfolded functions_params_def], of i] that
    by (auto simp: nth_enumerate_eq rbind_eq_Inr_iff eq_commute[of _ "ps ! i"])
qed

lemma locals_new_nth:
  assumes "locals_new ps u im tps sign = Inr ls"
  shows "length ls = length ps + length sign"
    "i < length ps \<Longrightarrow> ls ! i = LParam (ps ! i)"
    "i < length sign \<Longrightarrow> \<exists>t. ls ! (length ps + i) =
       LVar \<lparr>var_cell = length ps + i, var_index = i, var_type = t\<rparr>"
  using assms
  by (auto simp: locals_new_def rbind_eq_Inr_iff nth_append nth_enumerate_eq
      dest!: mapM_Inr_length)


section \<open>A concrete unit\<close>

text \<open>A script that uses two modules called \<open>A\<close>, one called \<open>A_1\<close>, and four locals.\<close>

definition sample_script :: script_access where
  "sample_script =
     \<lparr>sa_code = \<lparr>cu_locals = 1, cu_code = [BcLdU64 7, BcStLoc 2, BcCopyLoc 2, BcMoveLoc 0, BcAdd, BcRet]\<rparr>,
      sa_type_parameters = [KAll, KResource], sa_parameters = 0,
      sa_module_handles = [\<lparr>mh_name = 0, mh_address = 0\<rparr>, \<lparr>mh_name = 0, mh_address = 1\<rparr>,
                           \<lparr>mh_name = 1, mh_address = 0\<rparr>],
      sa_module_handle_at = (\<lambda>i. \<lparr>mh_name = 0, mh_address = i\<rparr>),
      sa_identifiers = [''A'', ''A_1'', ''T''],
      sa_identifier_at = (\<lambda>i. if i = 0 then ''A'' else if i = 1 then ''A_1'' else ''T''),
      sa_address_identifier_at = (\<lambda>i. if i = 0 then [1] else [2]),
      sa_function_handle_at = (\<lambda>_. \<lparr>fh_module = 0, fh_name = 2, fh_parameters = 0, fh_return = 0,
                                     fh_type_parameters = []\<rparr>),
      sa_function_instantiation_at = (\<lambda>_. \<lparr>fi_handle = 0, fi_type_parameters = 2\<rparr>),
      sa_signature_at = (\<lambda>i. if i = 0 then [TkU64, TkU64] else [TkU64, TkBool]),
      sa_struct_handle_at = (\<lambda>_. \<lparr>sh_module = 0, sh_name = 2, sh_is_nominal_resource = False,
                                   sh_type_parameters = []\<rparr>),
      sa_constant_at = (\<lambda>_. [])\<rparr>"

section \<open>Properties\<close>

text \<open>C7: every module handle of a unit other than the unit itself has an import after
  \<open>Imports::new\<close>: the plain module name for the first address of that name, and an alias made
  of the module name and a positive number for every other.\<close>

theorem imports_complete:
  assumes "i < length (ua_module_handles u)" "ua_self_module_handle_idx u \<noteq> Some i"
  shows "\<exists>imp. get_import (imports_new u) (ua_address u (mh_address (ua_module_handles u ! i)))
             (ua_identifier u (mh_name (ua_module_handles u ! i))) = Some imp \<and>
         (imp = ImportName (ua_identifier u (mh_name (ua_module_handles u ! i))) \<or>
          (\<exists>k. k > 0 \<and> imp = ImportAlias (ua_identifier u (mh_name (ua_module_handles u ! i))) k))"
proof -
  let ?h = "ua_module_handles u ! i"
  have "(i, ?h) \<in> set (enumerate 0 (ua_module_handles u))"
    using assms(1) by (simp add: in_set_enumerate_eq)
  from fold_imports_covers[OF _ this assms(2), of "[]" u]
  obtain imp where g: "get_import (imports_new u) (ua_address u (mh_address ?h))
      (ua_identifier u (mh_name ?h)) = Some imp"
    by (auto simp: imports_new_def imports_ok_def)
  with get_import_shape[OF imports_new_ok g] show ?thesis by (auto split: if_splits)
qed

theorem imports_complete_witness:
  "\<exists>imp. get_import (imports_new (Script sample_script)) [2] ''A'' = Some imp \<and>
     (imp = ImportName ''A'' \<or> (\<exists>k. k > 0 \<and> imp = ImportAlias ''A'' k))"
  using imports_complete[of 1 "Script sample_script"] by (simp add: ua_defs sample_script_def)

text \<open>C8: two addresses registered under the same module name never share an import: their
  printed names differ, so a \<open>use\<close> line of one cannot capture the references to the other.\<close>

theorem imports_distinct:
  assumes "get_import (imports_new u) a n = Some i" "get_import (imports_new u) b n = Some j"
    and "encode_import_name i = encode_import_name j"
  shows "a = b"
  using get_import_inj[OF imports_new_ok assms(1,2)] encode_import_inj[OF imports_new_ok assms]
  by blast

theorem imports_distinct_witness:
  "get_import (imports_new (Script sample_script)) [2] ''A'' = Some (ImportAlias ''A'' 1) \<and> [2] = [2::8 word]"
proof -
  have g: "get_import (imports_new (Script sample_script)) [2] ''A'' = Some (ImportAlias ''A'' 1)"
    by code_simp
  with imports_distinct[OF g g refl] show ?thesis by simp
qed

text \<open>The alias of one module can be the name of another: with modules \<open>A\<close> at two
  addresses and a module \<open>A_1\<close>, two imports print as \<open>A_1\<close>, and the disassembled source no
  longer says which module a call goes to.\<close>

theorem imports_alias_collision:
  "\<exists>i j. get_import (imports_new (Script sample_script)) [2] ''A'' = Some i \<and>
         get_import (imports_new (Script sample_script)) [1] ''A_1'' = Some j \<and>
         i \<noteq> j \<and> encode_import_name i = encode_import_name j"
proof (intro exI conjI)
  show "get_import (imports_new (Script sample_script)) [2] ''A'' = Some (ImportAlias ''A'' 1)"
    "get_import (imports_new (Script sample_script)) [1] ''A_1'' = Some (ImportName ''A_1'')"
    by code_simp+
  show "encode_import_name (ImportAlias ''A'' 1) = encode_import_name (ImportName ''A_1'')"
    by code_simp
qed simp

text \<open>C9: the type parameters of one declaration are printed under pairwise different names,
  and a simple prefix is never itself an identifier of the unit.\<close>

theorem generics_fresh:
  "distinct (map encode_generic_name (extract_type_params ks (generics_new rand u))) \<and>
   (\<forall>p. generics_new rand u = SimplePrefix p \<longrightarrow> p \<notin> set (ua_identifiers u))"
proof (intro conjI allI impI)
  let ?ps = "extract_type_params ks (generics_new rand u)"
  have ix: "i < length ks \<Longrightarrow> g_index (?ps ! i) = i \<and> g_prefix (?ps ! i) = generics_new rand u" for i
    by (simp add: extract_type_params_def create_generic_def nth_enumerate_eq)
  show "distinct (map encode_generic_name ?ps)"
    unfolding distinct_conv_nth
  proof (intro allI impI)
    fix i j assume ij: "i < length (map encode_generic_name ?ps)"
      "j < length (map encode_generic_name ?ps)" "i \<noteq> j"
    have l: "length ?ps = length ks" by (simp add: extract_type_params_def)
    show "map encode_generic_name ?ps ! i \<noteq> map encode_generic_name ?ps ! j"
      using ij ix[of i] ix[of j] encode_generic_name_inj[of "?ps ! i" "?ps ! j"] by (auto simp: l)
  qed
  show "p \<notin> set (ua_identifiers u)" if "generics_new rand u = SimplePrefix p" for p
    using that
    by (auto simp: generics_new_def find_Some_iff split: option.splits)
qed

theorem generics_fresh_witness:
  "distinct (map encode_generic_name
     (extract_type_params [KAll, KResource] (generics_new 5 (Script sample_script)))) \<and>
   ''G'' \<notin> set (ua_identifiers (Script sample_script))"
proof -
  have "generics_new 5 (Script sample_script) = SimplePrefix ''G''" by code_simp
  with generics_fresh[of "[KAll, KResource]" 5 "Script sample_script"] show ?thesis by simp
qed

text \<open>C10: the parameters and variables of a function have pairwise different names, whatever
  the flags say about which of them are used.\<close>

theorem local_names_distinct:
  assumes "functions_params u im psign tps = Inr ps" "locals_new ps u im tps sign = Inr ls"
  shows "distinct (map (local_write_name used) ls)"
proof -
  note n = locals_new_nth[OF assms(2)] and p = functions_params_nth[OF assms(1)]
  have key: "local_name_key (ls ! i) =
      (if i < length ps then (True, i) else (False, i - length ps))" if "i < length ls" for i
  proof (cases "i < length ps")
    case True
    then show ?thesis using n(2) p by (simp add: local_name_key_def)
  next
    case False
    then have "i - length ps < length sign" using that n(1) by simp
    from n(3)[OF this] False show ?thesis by (auto simp: local_name_key_def)
  qed
  show ?thesis
    unfolding distinct_conv_nth
  proof (intro allI impI notI)
    fix i j assume ij: "i < length (map (local_write_name used) ls)"
      "j < length (map (local_write_name used) ls)" "i \<noteq> j"
      "map (local_write_name used) ls ! i = map (local_write_name used) ls ! j"
    then have "local_name_key (ls ! i) = local_name_key (ls ! j)"
      by (intro local_write_name_inj) simp
    with ij key[of i] key[of j] show False by (auto split: if_splits)
  qed
qed

theorem local_names_distinct_witness:
  "distinct (map (local_write_name (\<lambda>c. c = 1))
     [LParam \<lparr>prm_cell = 0, prm_index = 0, prm_type = FPrimitive ''u64''\<rparr>,
      LParam \<lparr>prm_cell = 1, prm_index = 1, prm_type = FPrimitive ''u64''\<rparr>,
      LVar \<lparr>var_cell = 2, var_index = 0, var_type = FPrimitive ''bool''\<rparr>])"
proof -
  have "functions_params (Script sample_script) [] [TkU64, TkU64] [] =
      Inr [\<lparr>prm_cell = 0, prm_index = 0, prm_type = FPrimitive ''u64''\<rparr>,
           \<lparr>prm_cell = 1, prm_index = 1, prm_type = FPrimitive ''u64''\<rparr>]"
    by (simp add: functions_params_def)
  moreover have "locals_new [\<lparr>prm_cell = 0, prm_index = 0, prm_type = FPrimitive ''u64''\<rparr>,
      \<lparr>prm_cell = 1, prm_index = 1, prm_type = FPrimitive ''u64''\<rparr>]
      (Script sample_script) [] [] [TkBool] =
    Inr [LParam \<lparr>prm_cell = 0, prm_index = 0, prm_type = FPrimitive ''u64''\<rparr>,
      LParam \<lparr>prm_cell = 1, prm_index = 1, prm_type = FPrimitive ''u64''\<rparr>,
      LVar \<lparr>var_cell = 2, var_index = 0, var_type = FPrimitive ''bool''\<rparr>]"
    by (simp add: locals_new_def)
  ultimately show ?thesis by (rule local_names_distinct)
qed

end
