(* ===== verification/Dis_Meaning.thy ===== *)
theory Dis_Meaning
  imports Dis_Naming
begin

text \<open>
  The meaning of code and of expressions, over an arbitrary interpretation of the operations
  (\<open>algebra\<close>, with a state that calls, loads and stores may change): a stack machine runs the
  instructions, \<open>eval_exp\<close> and \<open>run_stmts\<close> run the expressions the translator builds from them.
  The machine accepts code in the discipline the compiler emits: a statement (assignment, drop,
  write, unit call, return, abort) consumes the whole operand stack. \<open>value_step\<close> says that the
  expression of one instruction has the value the machine pushes; \<open>Dis_Straight\<close> goes on to
  straight-line code and \<open>Dis_Structured\<close> to code with jumps.
\<close>

section \<open>Interpretations\<close>

record ('v, 's) algebra =
  al_ld :: "ld \<Rightarrow> 'v"
  al_binary :: "op \<Rightarrow> 'v \<Rightarrow> 'v \<Rightarrow> 's \<Rightarrow> 'v \<times> 's"
  al_not :: "'v \<Rightarrow> 's \<Rightarrow> 'v \<times> 's"
  al_cast :: "cast_type \<Rightarrow> 'v \<Rightarrow> 's \<Rightarrow> 'v \<times> 's"
  al_load :: "local_var \<Rightarrow> 's \<Rightarrow> 'v \<times> 's"
  al_borrow :: "bool \<Rightarrow> local_var \<Rightarrow> 's \<Rightarrow> 'v \<times> 's"
  al_field :: "bool \<Rightarrow> string \<Rightarrow> 'v \<Rightarrow> 's \<Rightarrow> 'v \<times> 's"
  al_read :: "'v \<Rightarrow> 's \<Rightarrow> 'v \<times> 's"
  al_call :: "import_name option \<Rightarrow> string \<Rightarrow> ftype list \<Rightarrow> 'v list \<Rightarrow> 's \<Rightarrow> 'v \<times> 's"
  al_build_in :: "build_in \<Rightarrow> struct_name \<Rightarrow> ftype list \<Rightarrow> 'v list \<Rightarrow> 's \<Rightarrow> 'v \<times> 's"
  al_pack :: "import_name option \<Rightarrow> string \<Rightarrow> ftype list \<Rightarrow> (string \<times> 'v) list \<Rightarrow> 's \<Rightarrow> 'v \<times> 's"
  al_store :: "local_var \<Rightarrow> 'v \<Rightarrow> 's \<Rightarrow> 's"
  al_write :: "'v \<Rightarrow> 'v \<Rightarrow> 's \<Rightarrow> 's"

section \<open>Meaning of expressions\<close>

text \<open>Left to right, threading the state.\<close>

primrec in_sequence :: "('s \<Rightarrow> ('v \<times> 's) option) list \<Rightarrow> 's \<Rightarrow> ('v list \<times> 's) option" where
  "in_sequence [] s = Some ([], s)"
| "in_sequence (f # fs) s =
     (case f s of None \<Rightarrow> None
      | Some (v, s1) \<Rightarrow> map_option (\<lambda>(vs, s2). (v # vs, s2)) (in_sequence fs s1))"

definition and_then :: "('a \<times> 's) option \<Rightarrow> ('a \<Rightarrow> 's \<Rightarrow> 'b) \<Rightarrow> 'b option" where
  "and_then m f = map_option (\<lambda>(a, s). f a s) m"

lemma and_then_Some [simp]: "and_then (Some (a, s)) f = Some (f a s)"
  by (simp add: and_then_def)

primrec eval_exp :: "exp \<Rightarrow> ('v, 's) algebra \<Rightarrow> 's \<Rightarrow> ('v \<times> 's) option"
and eval_loc :: "exp_loc \<Rightarrow> ('v, 's) algebra \<Rightarrow> 's \<Rightarrow> ('v \<times> 's) option"
and eval_call :: "fn_call \<Rightarrow> ('v, 's) algebra \<Rightarrow> 's \<Rightarrow> ('v \<times> 's) option"
and eval_field :: "pack_field \<Rightarrow> ('v, 's) algebra \<Rightarrow> 's \<Rightarrow> ('v \<times> 's) option" where
  "eval_exp (Ld l) A s = Some (al_ld A l, s)"
| "eval_exp (Local k a l) A s = Some (al_load A l s)"
| "eval_exp (Cast e t) A s = and_then (eval_loc e A s) (al_cast A t)"
| "eval_exp (BinaryOp l b r) A s =
     Option.bind (eval_loc l A s) (\<lambda>(x, s1). and_then (eval_loc r A s1) (al_binary A b x))"
| "eval_exp (Basket e) A s = eval_loc e A s"
| "eval_exp (NotExp e) A s = and_then (eval_loc e A s) (al_not A)"
| "eval_exp (FnCall c) A s = eval_call c A s"
| "eval_exp (Pack m n ts fs) A s =
     and_then (in_sequence (map (\<lambda>f. eval_field f A) fs) s)
       (\<lambda>vs. al_pack A m n ts (zip (map pf_name fs) vs))"
| "eval_exp (FieldRef is_mut n e) A s = and_then (eval_loc e A s) (al_field A is_mut n)"
| "eval_exp (Ref is_mut l) A s = Some (al_borrow A is_mut l s)"
| "eval_exp (Deref e) A s = and_then (eval_loc e A s) (al_read A)"
| "eval_exp (Abort e) A s = None"
| "eval_exp (Error b) A s = None"
| "eval_exp (LetExp l e) A s = None"
| "eval_exp (Unpack m n ts fs e) A s = None"
| "eval_exp (Ret rs k) A s = None"
| "eval_exp (WriteRef x r) A s = None"
| "eval_exp (Loop b) A s = None"
| "eval_exp (While e b) A s = None"
| "eval_exp (IfElse e t f) A s = None"
| "eval_exp Break A s = None"
| "eval_exp Continue A s = None"
| "eval_exp Nop A s = None"
| "eval_loc (ExpLoc i e) A s = eval_exp e A s"
| "eval_call (BuildIn k n ts ps) A s =
     and_then (in_sequence (map (\<lambda>e. eval_loc e A) ps) s) (al_build_in A k n ts)"
| "eval_call (Plain m n ts ps) A s =
     and_then (in_sequence (map (\<lambda>e. eval_loc e A) ps) s) (al_call A m n ts)"
| "eval_field (PackField n e) A s = eval_loc e A s"

datatype 'v outcome = Running | Returned "'v list" | Aborted 'v

text \<open>A block as a sequence of statements; an expression in statement position is evaluated
  and dropped.\<close>

fun run_stmts :: "('v, 's) algebra \<Rightarrow> exp_loc list \<Rightarrow> 's \<Rightarrow> ('v outcome \<times> 's) option" where
  "run_stmts A [] s = Some (Running, s)"
| "run_stmts A (ExpLoc i Nop # xs) s = run_stmts A xs s"
| "run_stmts A (ExpLoc i (LetExp l e) # xs) s =
     Option.bind (eval_loc e A s) (\<lambda>(v, s1). run_stmts A xs (al_store A l v s1))"
| "run_stmts A (ExpLoc i (WriteRef x r) # xs) s =
     Option.bind (eval_loc x A s) (\<lambda>(v, s1).
       Option.bind (eval_loc r A s1) (\<lambda>(w, s2). run_stmts A xs (al_write A v w s2)))"
| "run_stmts A (ExpLoc i (Ret rs k) # xs) s =
     map_option (\<lambda>(vs, s1). (Returned vs, s1)) (in_sequence (map (\<lambda>e. eval_loc e A) rs) s)"
| "run_stmts A (ExpLoc i (Abort e) # xs) s =
     map_option (\<lambda>(v, s1). (Aborted v, s1)) (eval_loc e A s)"
| "run_stmts A (ExpLoc i e # xs) s =
     Option.bind (eval_exp e A s) (\<lambda>(_, s1). run_stmts A xs s1)"

section \<open>The stack machine\<close>

definition binary_operator :: "bytecode \<Rightarrow> op option" where
  "binary_operator b =
     (case b of
        BcAdd \<Rightarrow> Some OpAdd | BcSub \<Rightarrow> Some OpSub | BcMul \<Rightarrow> Some OpMul | BcMod \<Rightarrow> Some OpMod
      | BcDiv \<Rightarrow> Some OpDiv | BcBitOr \<Rightarrow> Some OpBitOr | BcBitAnd \<Rightarrow> Some OpBitAnd
      | BcXor \<Rightarrow> Some OpXor | BcOr \<Rightarrow> Some OpOr | BcAnd \<Rightarrow> Some OpAnd | BcEq \<Rightarrow> Some OpEq
      | BcNeq \<Rightarrow> Some OpNeq | BcLt \<Rightarrow> Some OpLt | BcGt \<Rightarrow> Some OpGt | BcLe \<Rightarrow> Some OpLe
      | BcGe \<Rightarrow> Some OpGe | BcShl \<Rightarrow> Some OpShl | BcShr \<Rightarrow> Some OpShr | _ \<Rightarrow> None)"

text \<open>What a call instruction calls: the callee, its type arguments, the number of its
  parameters and the number of its results.\<close>

definition called_function :: "tenv \<Rightarrow> bytecode \<Rightarrow> (nat \<times> nat option) option" where
  "called_function E b =
     (case b of
        BcCall f \<Rightarrow> Some (f, None)
      | BcCallGeneric i \<Rightarrow>
          (let inst = ua_function_instantiation (te_unit E) i
           in Some (fi_handle inst, Some (fi_type_parameters inst)))
      | _ \<Rightarrow> None)"

definition parameters_of :: "tenv \<Rightarrow> nat \<Rightarrow> nat" where
  "parameters_of E f = length (ua_signature (te_unit E) (fh_parameters (ua_function_handle (te_unit E) f)))"

definition results_of :: "tenv \<Rightarrow> nat \<Rightarrow> nat" where
  "results_of E f = length (ua_signature (te_unit E) (fh_return (ua_function_handle (te_unit E) f)))"

definition vm_call :: "('v, 's) algebra \<Rightarrow> tenv \<Rightarrow> nat \<Rightarrow> nat option \<Rightarrow> 'v list \<Rightarrow> 's \<Rightarrow> ('v \<times> 's) option" where
  "vm_call A E f tps args s =
     (let u = te_unit E; h = ua_function_handle u f
      in if length args = parameters_of E f
         then (case extract_signature E tps of
                 Inr ts \<Rightarrow> Some (al_call A (module_import E (ua_module_handle u (fh_module h)))
                                    (ua_identifier u (fh_name h)) ts args s)
               | Inl _ \<Rightarrow> None)
         else None)"

definition called_build_in :: "tenv \<Rightarrow> bytecode \<Rightarrow> (build_in \<times> nat \<times> nat option) option" where
  "called_build_in E b =
     (let generic = (\<lambda>k i. map_option (\<lambda>d. (k, sdi_def d, Some (sdi_type_parameters d)))
                             (ua_struct_def_instantiation (te_unit E) i))
      in case b of
        BcExists i \<Rightarrow> Some (BiExists, i, None) | BcExistsGeneric i \<Rightarrow> generic BiExists i
      | BcMoveFrom i \<Rightarrow> Some (BiMoveFrom, i, None) | BcMoveFromGeneric i \<Rightarrow> generic BiMoveFrom i
      | BcMoveTo i \<Rightarrow> Some (BiMoveTo, i, None) | BcMoveToGeneric i \<Rightarrow> generic BiMoveTo i
      | BcImmBorrowGlobal i \<Rightarrow> Some (BiBorrowGlobal, i, None)
      | BcImmBorrowGlobalGeneric i \<Rightarrow> generic BiBorrowGlobal i
      | BcMutBorrowGlobal i \<Rightarrow> Some (BiBorrowGlobalMut, i, None)
      | BcMutBorrowGlobalGeneric i \<Rightarrow> generic BiBorrowGlobalMut i
      | _ \<Rightarrow> None)"

definition vm_build_in ::
    "('v, 's) algebra \<Rightarrow> tenv \<Rightarrow> build_in \<Rightarrow> nat \<Rightarrow> nat option \<Rightarrow> 'v list \<Rightarrow> 's \<Rightarrow> ('v \<times> 's) option" where
  "vm_build_in A E k i tps args s =
     (let u = te_unit E
      in case (ua_struct_def u i, extract_signature E tps) of
           (Some d, Inr ts) \<Rightarrow>
             (let h = ua_struct_handle u (sd_struct_handle d)
              in if length args = parameters_count k
                 then Some (al_build_in A k
                        \<lparr>sn_name = ua_identifier u (sh_name h),
                         sn_import = module_import E (ua_module_handle u (sh_module h))\<rparr> ts args s)
                 else None)
         | _ \<Rightarrow> None)"

definition packed_struct :: "tenv \<Rightarrow> bytecode \<Rightarrow> (nat \<times> nat option) option" where
  "packed_struct E b =
     (case b of
        BcPack i \<Rightarrow> Some (i, None)
      | BcPackGeneric i \<Rightarrow> map_option (\<lambda>d. (sdi_def d, Some (sdi_type_parameters d)))
                            (ua_struct_def_instantiation (te_unit E) i)
      | _ \<Rightarrow> None)"

definition field_names :: "tenv \<Rightarrow> nat \<Rightarrow> string list option" where
  "field_names E i =
     (case map_option sd_field_information (ua_struct_def (te_unit E) i) of
        Some (Declared fds) \<Rightarrow> Some (map (\<lambda>f. ua_identifier (te_unit E) (fld_name f)) fds)
      | _ \<Rightarrow> None)"

definition vm_pack ::
    "('v, 's) algebra \<Rightarrow> tenv \<Rightarrow> nat \<Rightarrow> nat option \<Rightarrow> 'v list \<Rightarrow> 's \<Rightarrow> ('v \<times> 's) option" where
  "vm_pack A E i tps args s =
     (let u = te_unit E
      in case (ua_struct_def u i, field_names E i, extract_signature E tps) of
           (Some d, Some names, Inr ts) \<Rightarrow>
             (let h = ua_struct_handle u (sd_struct_handle d)
              in if length args = length names
                 then Some (al_pack A (module_import E (ua_module_handle u (sh_module h)))
                        (ua_identifier u (sh_name h)) ts (zip names args) s)
                 else None)
         | _ \<Rightarrow> None)"

definition borrowed_field :: "tenv \<Rightarrow> bytecode \<Rightarrow> (bool \<times> string) option" where
  "borrowed_field E b =
     (let u = te_unit E;
          fname = (\<lambda>m i. Option.bind (ua_field_handle u i) (\<lambda>f.
                     Option.bind (field_names E (fdh_owner f)) (\<lambda>ns.
                       if fdh_field f < length ns then Some (m, ns ! fdh_field f) else None)));
          generic = (\<lambda>m i. Option.bind (ua_field_instantiation u i) (\<lambda>fi. fname m (fdi_handle fi)))
      in case b of
           BcMutBorrowField i \<Rightarrow> fname True i
         | BcImmBorrowField i \<Rightarrow> fname False i
         | BcMutBorrowFieldGeneric i \<Rightarrow> generic True i
         | BcImmBorrowFieldGeneric i \<Rightarrow> generic False i
         | _ \<Rightarrow> None)"

definition one_operand :: "('v \<Rightarrow> 's \<Rightarrow> 'v \<times> 's) \<Rightarrow> 'v list \<Rightarrow> 's \<Rightarrow> ('v \<times> 's) option" where
  "one_operand f args s = (case args of [x] \<Rightarrow> Some (f x s) | _ \<Rightarrow> None)"

definition no_operand :: "('v \<times> 's) option \<Rightarrow> 'v list \<Rightarrow> ('v \<times> 's) option" where
  "no_operand r args = (if args = [] then r else None)"

definition with_local :: "tenv \<Rightarrow> 8 word \<Rightarrow> (local_var \<Rightarrow> 'a) \<Rightarrow> 'a option" where
  "with_local E i f =
     (if unat i < length (te_locals E) then Some (f (te_locals E ! unat i)) else None)"

text \<open>Instructions that push one value, given their operands in push order.\<close>

definition vm_value ::
    "('v, 's) algebra \<Rightarrow> tenv \<Rightarrow> bytecode \<Rightarrow> 'v list \<Rightarrow> 's \<Rightarrow> ('v \<times> 's) option" where
  "vm_value A E b args s =
     (case b of
        BcNot \<Rightarrow> one_operand (al_not A) args s
      | BcCastU8 \<Rightarrow> one_operand (al_cast A CastToU8) args s
      | BcCastU64 \<Rightarrow> one_operand (al_cast A CastToU64) args s
      | BcCastU128 \<Rightarrow> one_operand (al_cast A CastToU128) args s
      | BcReadRef \<Rightarrow> one_operand (al_read A) args s
      | BcFreezeRef \<Rightarrow> one_operand (\<lambda>v s. (v, s)) args s
      | BcLdU8 n \<Rightarrow> no_operand (Some (al_ld A (LdU8 n), s)) args
      | BcLdU64 n \<Rightarrow> no_operand (Some (al_ld A (LdU64 n), s)) args
      | BcLdU128 n \<Rightarrow> no_operand (Some (al_ld A (LdU128 n), s)) args
      | BcLdTrue \<Rightarrow> no_operand (Some (al_ld A (LdBool True), s)) args
      | BcLdFalse \<Rightarrow> no_operand (Some (al_ld A (LdBool False), s)) args
      | BcLdConst i \<Rightarrow>
          no_operand (case ld_const E i of Ld l \<Rightarrow> Some (al_ld A l, s) | _ \<Rightarrow> None) args
      | BcCopyLoc i \<Rightarrow> no_operand (with_local E i (\<lambda>l. al_load A l s)) args
      | BcMoveLoc i \<Rightarrow> no_operand (with_local E i (\<lambda>l. al_load A l s)) args
      | BcMutBorrowLoc i \<Rightarrow> no_operand (with_local E i (\<lambda>l. al_borrow A True l s)) args
      | BcImmBorrowLoc i \<Rightarrow> no_operand (with_local E i (\<lambda>l. al_borrow A False l s)) args
      | _ \<Rightarrow>
        (case (binary_operator b, called_function E b, called_build_in E b, packed_struct E b,
               borrowed_field E b) of
           (Some p, _) \<Rightarrow> (case args of [x, y] \<Rightarrow> Some (al_binary A p x y s) | _ \<Rightarrow> None)
         | (None, Some (f, tps), _) \<Rightarrow> vm_call A E f tps args s
         | (None, None, Some (k, i, tps), _) \<Rightarrow> vm_build_in A E k i tps args s
         | (None, None, None, Some (i, tps), _) \<Rightarrow> vm_pack A E i tps args s
         | (None, None, None, None, Some (m, n)) \<Rightarrow> one_operand (al_field A m n) args s
         | _ \<Rightarrow> None))"

text \<open>How many operands an instruction takes.\<close>

definition vm_operands :: "tenv \<Rightarrow> bytecode \<Rightarrow> nat" where
  "vm_operands E b =
     (case (binary_operator b, called_function E b, called_build_in E b, packed_struct E b,
            borrowed_field E b) of
        (Some p, _) \<Rightarrow> 2
      | (None, Some (f, tps), _) \<Rightarrow> parameters_of E f
      | (None, None, Some (k, i, tps), _) \<Rightarrow> parameters_count k
      | (None, None, None, Some (i, tps), _) \<Rightarrow>
          (case field_names E i of Some ns \<Rightarrow> length ns | None \<Rightarrow> 0)
      | (None, None, None, None, Some _) \<Rightarrow> 1
      | _ \<Rightarrow>
        (if b \<in> {BcNot, BcCastU8, BcCastU64, BcCastU128, BcReadRef, BcFreezeRef} then 1 else 0))"

text \<open>Does the value of the instruction stay on the stack? Not for calls without results and
  for \<open>MoveTo\<close>.\<close>

definition pushes_value :: "tenv \<Rightarrow> bytecode \<Rightarrow> bool" where
  "pushes_value E b =
     (case (called_function E b, called_build_in E b) of
        (Some (f, _), _) \<Rightarrow> results_of E f = 1
      | (None, Some (k, _)) \<Rightarrow> k \<noteq> BiMoveTo
      | _ \<Rightarrow> True)"

definition unit_call :: "tenv \<Rightarrow> bytecode \<Rightarrow> bool" where
  "unit_call E b =
     (case (called_function E b, called_build_in E b) of
        (Some (f, _), _) \<Rightarrow> results_of E f = 0
      | (None, Some (k, _)) \<Rightarrow> k = BiMoveTo
      | _ \<Rightarrow> False)"

text \<open>The stack has its top at the end. \<open>None\<close>: the code leaves the straight-line
  discipline.\<close>

primrec vm_run ::
    "('v, 's) algebra \<Rightarrow> tenv \<Rightarrow> bytecode list \<Rightarrow> 'v list \<times> 's \<Rightarrow> ('v outcome \<times> 's) option" where
  "vm_run A E [] c = (if fst c = [] then Some (Running, snd c) else None)"
| "vm_run A E (b # bs) c =
     (case c of (stk, s) \<Rightarrow>
        case b of
          BcNop \<Rightarrow> (if stk = [] then vm_run A E bs ([], s) else None)
        | BcPop \<Rightarrow> (case stk of [v] \<Rightarrow> vm_run A E bs ([], s) | _ \<Rightarrow> None)
        | BcStLoc i \<Rightarrow>
            (case stk of
               [v] \<Rightarrow> Option.bind (with_local E i (\<lambda>l. al_store A l v s))
                        (\<lambda>s'. vm_run A E bs ([], s'))
             | _ \<Rightarrow> None)
        | BcWriteRef \<Rightarrow> (case stk of [x, r] \<Rightarrow> vm_run A E bs ([], al_write A x r s) | _ \<Rightarrow> None)
        | BcRet \<Rightarrow>
            (if length stk = te_ret_len E \<and> bs = [] then Some (Returned stk, s) else None)
        | BcAbort \<Rightarrow> (case stk of [v] \<Rightarrow> (if bs = [] then Some (Aborted v, s) else None) | _ \<Rightarrow> None)
        | _ \<Rightarrow>
            (let n = length stk - vm_operands E b
             in case vm_value A E b (drop n stk) s of
                  None \<Rightarrow> None
                | Some (v, s') \<Rightarrow>
                    if pushes_value E b then vm_run A E bs (take n stk @ [v], s')
                    else if unit_call E b \<and> take n stk = [] then vm_run A E bs ([], s')
                    else None))"

section \<open>One instruction\<close>

abbreviation evals :: "('v, 's) algebra \<Rightarrow> exp_loc list \<Rightarrow> 's \<Rightarrow> ('v list \<times> 's) option" where
  "evals A ps s \<equiv> in_sequence (map (\<lambda>e. eval_loc e A) ps) s"

lemma in_sequence_length: "in_sequence fs s = Some (vs, s') \<Longrightarrow> length vs = length fs"
  by (induction fs arbitrary: s vs) (auto split: option.splits)

lemma in_sequence_append:
  "in_sequence (fs @ gs) s =
     (case in_sequence fs s of None \<Rightarrow> None
      | Some (vs, s1) \<Rightarrow> map_option (\<lambda>(ws, s2). (vs @ ws, s2)) (in_sequence gs s1))"
  by (induction fs arbitrary: s)
     (auto split: option.splits simp: option.map_comp option.map_ident comp_def case_prod_unfold)

text \<open>The translator has dropped its operands and nothing else.\<close>

definition dropped :: "exp_loc list \<Rightarrow> tstate \<Rightarrow> tstate \<Rightarrow> bool" where
  "dropped xs t t' \<longleftrightarrow>
     ts_exps t' = xs \<and> ts_iter t' = ts_iter t \<and> ts_end t' = ts_end t"

lemma dropped_self: "ts_exps t = xs \<Longrightarrow> dropped xs t t" "ts_exps t = xs \<Longrightarrow> dropped xs t (t\<lparr>ts_used := w\<rparr>)"
  by (simp_all add: dropped_def)

lemma pop_exp_snoc: "ts_exps t = xs @ [a] \<Longrightarrow> pop_exp t = (a, t\<lparr>ts_exps := xs\<rparr>)"
  by (simp add: pop_exp_def)

lemma pop2_exp_snoc: "ts_exps t = xs @ [a, b] \<Longrightarrow> pop2_exp t = ((a, b), t\<lparr>ts_exps := xs\<rparr>)"
  by (simp add: pop2_exp_def pop_exp_def butlast_append)

lemma pop_exp_vec_append:
  "ts_exps t = xs @ ps \<Longrightarrow> length ps = n \<Longrightarrow> pop_exp_vec n t = (ps, t\<lparr>ts_exps := xs\<rparr>)"
  by (simp add: pop_exp_vec_def Let_def)

lemma eval_basket [simp]: "eval_loc (basket e) A s = eval_loc e A s"
  by (cases e; cases "loc_exp e") (simp_all add: basket_def)

lemma evals_one: "evals A ps s = Some ([x], s1) \<Longrightarrow> \<exists>a. ps = [a] \<and> eval_loc a A s = Some (x, s1)"
  by (cases ps; frule in_sequence_length) (auto split: option.splits)

lemma evals_two:
  "evals A ps s = Some ([x, y], s2) \<Longrightarrow>
     \<exists>a b s1. ps = [a, b] \<and> eval_loc a A s = Some (x, s1) \<and> eval_loc b A s1 = Some (y, s2)"
  by (cases ps) (auto split: option.splits dest!: evals_one)

lemma evals_none: "evals A ps s = Some ([], s1) \<Longrightarrow> ps = [] \<and> s1 = s"
  by (cases ps) (auto split: option.splits)

text \<open>The instruction groups of the machine are the dispatch of \<open>next_exp\<close>.\<close>

lemma next_exp_binary:
  "binary_operator b = Some p \<Longrightarrow> next_exp tb E b t = Inr (binary_op_exp p t)"
  by (cases b) (simp_all add: binary_operator_def next_exp_def)

lemma next_exp_call:
  "called_function E b = Some (f, tps) \<Longrightarrow> next_exp tb E b t = fn_call_plain E f tps t"
  by (cases b) (simp_all add: called_function_def next_exp_def Let_def)

lemma next_exp_build_in:
  "called_build_in E b = Some (k, i, tps) \<Longrightarrow> next_exp tb E b t = fn_call_build_in k E i tps t"
  by (cases b) (auto simp: called_build_in_def next_exp_def translator_build_in_def Let_def)

lemma next_exp_pack:
  "packed_struct E b = Some (i, tps) \<Longrightarrow> next_exp tb E b t = pack_exp E i tps t"
  by (cases b) (auto simp: packed_struct_def next_exp_def)

lemma field_names_Some:
  "field_names E i = Some ns \<Longrightarrow>
     \<exists>d fds. ua_struct_def (te_unit E) i = Some d \<and> sd_field_information d = Declared fds \<and>
       ns = map (\<lambda>f. ua_identifier (te_unit E) (fld_name f)) fds"
  by (auto simp: field_names_def split: option.splits struct_field_information.splits)

lemma next_exp_field:
  assumes "borrowed_field E b = Some (m, n)"
  shows "next_exp tb E b t = Inr (case pop_exp t of (e, t') \<Rightarrow> (FieldRef m n e, t'))"
proof -
  let ?u = "te_unit E"
  have one: "field_ref_exp m' E i t = (case pop_exp t of (e, t') \<Rightarrow> (FieldRef m n e, t'))"
    if "Option.bind (ua_field_handle ?u i) (\<lambda>f. Option.bind (field_names E (fdh_owner f)) (\<lambda>ns.
          if fdh_field f < length ns then Some (m', ns ! fdh_field f) else None)) = Some (m, n)"
    for i m'
    using that
    by (auto simp: field_ref_exp_def Let_def Option.bind_eq_Some_conv dest!: field_names_Some
        split: if_splits)
  from assms one show ?thesis
    by (cases b)
       (auto simp: borrowed_field_def next_exp_def field_ref_generic_def Let_def
          Option.bind_eq_Some_conv)
qed

lemma binary_step:
  assumes "ts_exps t = xs @ ps" "evals A ps s = Some ([x, y], s1)"
  shows "\<exists>e t'. binary_op_exp p t = (e, t') \<and> dropped xs t t' \<and>
           eval_exp e A s = Some (al_binary A p x y s1)"
  using assms evals_two[OF assms(2)]
  by (auto simp: binary_op_exp_def pop2_exp_snoc dropped_def)

lemma unary_step:
  assumes "ts_exps t = xs @ ps" "evals A ps s = Some ([x], s1)"
  shows "\<exists>a. unary_exp mk t = (mk a, t\<lparr>ts_exps := xs\<rparr>) \<and> pop_exp t = (a, t\<lparr>ts_exps := xs\<rparr>) \<and>
           eval_loc a A s = Some (x, s1)"
  using assms evals_one[OF assms(2)] by (auto simp: unary_exp_def pop_exp_snoc)

lemma call_step:
  assumes "ts_exps t = xs @ ps" "evals A ps s = Some (args, s1)" "vm_call A E f tps args s1 = Some r"
  shows "\<exists>e t'. fn_call_plain E f tps t = Inr (e, t') \<and> dropped xs t t' \<and> eval_exp e A s = Some r \<and>
           (\<exists>c. e = FnCall c)"
  using assms in_sequence_length[OF assms(2)]
  by (auto simp: vm_call_def fn_call_plain_def Let_def parameters_of_def pop_exp_vec_append
      dropped_def split: if_splits sum.splits)

lemma build_in_step:
  assumes "ts_exps t = xs @ ps" "evals A ps s = Some (args, s1)"
    and "vm_build_in A E k i tps args s1 = Some r"
  shows "\<exists>e t'. fn_call_build_in k E i tps t = Inr (e, t') \<and> dropped xs t t' \<and>
           eval_exp e A s = Some r \<and> (\<exists>c. e = FnCall c)"
  using assms in_sequence_length[OF assms(2)]
  by (auto simp: vm_build_in_def fn_call_build_in_def Let_def pop_exp_vec_append
      dropped_def split: if_splits sum.splits option.splits)

lemma pack_names: "length ns = length ps \<Longrightarrow>
    map pf_name (map (\<lambda>(e, n). PackField n e) (zip ps ns)) = ns"
  by (induction ns ps rule: list_induct2) auto

lemma pack_evals: "length ns = length ps \<Longrightarrow>
    map (\<lambda>f. eval_field f A) (map (\<lambda>(e, n). PackField n e) (zip ps ns)) =
    map (\<lambda>e. eval_loc e A) ps"
proof (induction ns ps rule: list_induct2)
  case (Cons n ns e ps)
  have "eval_field (PackField n e) A = eval_loc e A" by (rule ext) simp
  with Cons show ?case by simp
qed simp

lemma pack_step:
  assumes t: "ts_exps t = xs @ ps" and e: "evals A ps s = Some (args, s1)"
    and r: "vm_pack A E i tps args s1 = Some r"
  shows "\<exists>e t'. pack_exp E i tps t = Inr (e, t') \<and> dropped xs t t' \<and> eval_exp e A s = Some r"
proof -
  let ?u = "te_unit E"
  from r obtain d ns ts where d: "ua_struct_def ?u i = Some d" "field_names E i = Some ns"
      "extract_signature E tps = Inr ts" "length args = length ns"
      "r = al_pack A (module_import E (ua_module_handle ?u (sh_module (ua_struct_handle ?u (sd_struct_handle d)))))
             (ua_identifier ?u (sh_name (ua_struct_handle ?u (sd_struct_handle d)))) ts (zip ns args) s1"
    by (auto simp: vm_pack_def Let_def split: option.splits sum.splits if_splits)
  from field_names_Some[OF d(2)] d(1) obtain fds where f: "sd_field_information d = Declared fds"
      "ns = map (\<lambda>f. ua_identifier ?u (fld_name f)) fds" by auto
  have l: "length ps = length ns" using in_sequence_length[OF e] d(4) by simp
  have pf: "pack_fields E d t =
      (map (\<lambda>(e, n). PackField n e) (zip ps ns), t\<lparr>ts_exps := xs\<rparr>)"
    using l by (simp add: pack_fields_def f pop_exp_vec_append[OF t] zip_map2 case_prod_unfold)
  have "eval_exp (Pack m n ts' (map (\<lambda>(e, n). PackField n e) (zip ps ns))) A s =
      Some (al_pack A m n ts' (zip ns args) s1)" for m n ts'
    unfolding eval_exp.simps pack_evals[OF l[symmetric]] pack_names[OF l[symmetric]] e by simp
  with d pf show ?thesis by (simp add: pack_exp_def Let_def dropped_def)
qed

lemma field_step:
  assumes "ts_exps t = xs @ ps" "evals A ps s = Some (args, s1)"
    and "borrowed_field E b = Some (m, n)" "one_operand (al_field A m n) args s1 = Some r"
  shows "\<exists>e t'. next_exp tb E b t = Inr (e, t') \<and> dropped xs t t' \<and> eval_exp e A s = Some r"
proof -
  from assms(4) obtain x where x: "args = [x]" "r = al_field A m n x s1"
    by (auto simp: one_operand_def split: list.splits)
  with unary_step[OF assms(1), where A = A and s = s and x = x and ?s1.0 = s1 and mk = Deref] assms(2) show ?thesis
    by (auto simp: next_exp_field[OF assms(3)] dropped_def)
qed

lemma load_step:
  assumes "ts_exps t = xs @ ps" "evals A ps s = Some (args, s1)"
    and "no_operand r args = Some w" "r = Some w \<Longrightarrow> eval_exp e A s1 = Some w"
  shows "dropped xs t t" "dropped xs t (t\<lparr>ts_used := u\<rparr>)" "eval_exp e A s = Some w"
  using assms evals_none[of A ps s s1] by (auto simp: no_operand_def dropped_def split: if_splits)

lemma with_local_Some:
  "with_local E i f = Some r \<Longrightarrow> \<exists>l. get_local_var E i = Inr l \<and> l = te_locals E ! unat i \<and> r = f l"
  by (auto simp: with_local_def get_local_var_def split: if_splits)


lemmas group_defs = binary_operator_def called_function_def called_build_in_def packed_struct_def
  borrowed_field_def

lemma vm_value_binary: "binary_operator b = Some p \<Longrightarrow>
    vm_value A E b args s = (case args of [x, y] \<Rightarrow> Some (al_binary A p x y s) | _ \<Rightarrow> None)"
  by (cases b) (auto simp: vm_value_def group_defs)

lemma vm_value_call: "called_function E b = Some (f, tps) \<Longrightarrow>
    vm_value A E b args s = vm_call A E f tps args s"
  by (cases b) (auto simp: vm_value_def group_defs Let_def)

lemma vm_value_build_in: "called_build_in E b = Some (k, i, tps) \<Longrightarrow>
    vm_value A E b args s = vm_build_in A E k i tps args s"
  by (cases b) (auto simp: vm_value_def group_defs Let_def)

lemma vm_value_pack: "packed_struct E b = Some (i, tps) \<Longrightarrow>
    vm_value A E b args s = vm_pack A E i tps args s"
  by (cases b) (auto simp: vm_value_def group_defs Let_def)

lemma vm_value_field: "borrowed_field E b = Some (m, n) \<Longrightarrow>
    vm_value A E b args s = one_operand (al_field A m n) args s"
  by (cases b) (auto simp: vm_value_def group_defs Let_def)

lemma one_operand_Some: "one_operand f args s = Some r \<Longrightarrow> \<exists>x. args = [x] \<and> r = f x s"
  by (auto simp: one_operand_def split: list.splits)

lemma no_operand_Some: "no_operand w args = Some r \<Longrightarrow> args = [] \<and> w = Some r"
  by (auto simp: no_operand_def split: if_splits)

text \<open>The instructions outside the groups.\<close>

lemma single_step:
  assumes t: "ts_exps t = xs @ ps" and e: "evals A ps s = Some (args, s1)"
    and v: "vm_value A E b args s1 = Some r"
    and g: "binary_operator b = None" "called_function E b = None" "called_build_in E b = None"
      "packed_struct E b = None" "borrowed_field E b = None"
  shows "\<exists>e t'. next_exp tb E b t = Inr (e, t') \<and> dropped xs t t' \<and> eval_exp e A s = Some r"
proof (cases "b \<in> {BcNot, BcCastU8, BcCastU64, BcCastU128, BcReadRef, BcFreezeRef}")
  case True
  then obtain f where "one_operand f args s1 = Some r" using v by (auto simp: vm_value_def)
  from one_operand_Some[OF this] obtain x where x: "args = [x]" by blast
  have u: "\<exists>a. unary_exp mk t = (mk a, t\<lparr>ts_exps := xs\<rparr>) \<and> eval_loc a A s = Some (x, s1)" for mk
    using unary_step[OF t, of A s x s1 mk] e x by blast
  have ev: "eval_exp (loc_exp a) A = eval_loc a A" for a by (cases a; rule ext) simp
  from True v x show ?thesis
    using u[of NotExp] u[of "\<lambda>e. Cast e CastToU8"] u[of "\<lambda>e. Cast e CastToU64"]
      u[of "\<lambda>e. Cast e CastToU128"] u[of Deref] u[of loc_exp]
    by (auto simp: vm_value_def next_exp_def not_exp_def cast_exp_def deref_exp_def freeze_exp_def
        dropped_def one_operand_def ev)
next
  case False
  then obtain w where "no_operand w args = Some r"
    using v g by (cases b) (auto simp: vm_value_def)
  then have args: "args = []" by (simp add: no_operand_Some)
  with e have "ps = [] \<and> s1 = s" by (intro evals_none) simp
  with args have a: "ps = []" "s1 = s" "args = []" by simp_all
  have l: "dropped xs t t" "dropped xs t (t\<lparr>ts_used := u\<rparr>)" for u
    using t a(1) by (simp_all add: dropped_def)
  show ?thesis
  proof (cases "\<exists>i. b = BcLdConst i")
    case True
    with v a obtain i where i: "b = BcLdConst i"
      "(case ld_const E i of Ld l \<Rightarrow> Some (al_ld A l, s) | _ \<Rightarrow> None) = Some r"
      by (auto simp: vm_value_def no_operand_def)
    then obtain c where "ld_const E i = Ld c" "r = (al_ld A c, s)" by (cases "ld_const E i") auto
    with i l show ?thesis by (simp add: next_exp_def)
  next
    case nc: False
    consider (loc) i where "b \<in> {BcCopyLoc i, BcMoveLoc i, BcMutBorrowLoc i, BcImmBorrowLoc i}"
      | (lit) n m k where "b \<in> {BcLdU8 n, BcLdU64 m, BcLdU128 k, BcLdTrue, BcLdFalse}"
      using v g False nc by (cases b) (auto simp: vm_value_def)
    then show ?thesis
    proof cases
      case loc
      then obtain f where "with_local E i f = Some r"
        using v a by (auto simp: vm_value_def no_operand_def)
      from with_local_Some[OF this] loc v a l show ?thesis
        by (auto simp: vm_value_def no_operand_def next_exp_def loc_exp_new_def ref_exp_def
            with_local_def split: if_splits)
    next
      case lit
      with v a l show ?thesis by (auto simp: vm_value_def no_operand_def next_exp_def)
    qed
  qed
qed

lemma value_step:
  assumes t: "ts_exps t = xs @ ps" and e: "evals A ps s = Some (args, s1)"
    and v: "vm_value A E b args s1 = Some r"
  shows "\<exists>e t'. next_exp tb E b t = Inr (e, t') \<and> dropped xs t t' \<and> eval_exp e A s = Some r"
proof -
  consider (bin) p where "binary_operator b = Some p"
    | (call) f tps where "called_function E b = Some (f, tps)"
    | (build_in) k i tps where "called_build_in E b = Some (k, i, tps)"
    | (pack) i tps where "packed_struct E b = Some (i, tps)"
    | (field) m n where "borrowed_field E b = Some (m, n)"
    | (single) "binary_operator b = None" "called_function E b = None" "called_build_in E b = None"
      "packed_struct E b = None" "borrowed_field E b = None"
    by fastforce
  then show ?thesis
  proof cases
    case (bin p)
    with v obtain x y where "args = [x, y]" "r = al_binary A p x y s1"
      by (auto simp: vm_value_binary split: list.splits)
    with binary_step[OF t, of A s x y s1 p] e show ?thesis by (auto simp: next_exp_binary[OF bin])
  next
    case (call f tps)
    from call_step[OF t e, of E f tps r] v show ?thesis
      by (simp add: vm_value_call[OF call] next_exp_call[OF call]) blast
  next
    case (build_in k i tps)
    from build_in_step[OF t e, of E k i tps r] v show ?thesis
      by (simp add: vm_value_build_in[OF build_in] next_exp_build_in[OF build_in]) blast
  next
    case (pack i tps)
    from pack_step[OF t e, of E i tps r] v show ?thesis
      by (simp add: vm_value_pack[OF pack] next_exp_pack[OF pack])
  next
    case (field m n)
    from field_step[OF t e field, of r] v show ?thesis by (simp add: vm_value_field[OF field])
  next
    case single
    show ?thesis by (rule single_step[OF t e v single])
  qed
qed

lemma pop_many_append:
  "ts_exps t = xs @ ps \<Longrightarrow> pop_many (length ps) t = (rev ps, t\<lparr>ts_exps := xs\<rparr>)"
proof (induction ps arbitrary: t rule: rev_induct)
  case Nil
  then show ?case by simp
next
  case (snoc p ps)
  then have "pop_exp t = (p, t\<lparr>ts_exps := xs @ ps\<rparr>)" by (intro pop_exp_snoc) simp
  with snoc.IH[of "t\<lparr>ts_exps := xs @ ps\<rparr>"] show ?case by simp
qed

lemma ret_step:
  assumes "ts_exps t = xs @ ps" "evals A ps s = Some (vs, s1)" "length vs = n"
  shows "\<exists>t'. ret_exp n t = (Ret ps False, t') \<and> dropped xs t t'"
  using assms in_sequence_length[OF assms(2)] pop_many_append[OF assms(1)]
  by (simp add: ret_exp_def dropped_def)

lemma value_not_let: "eval_loc a A s = Some r \<Longrightarrow> \<not> is_let (loc_exp a)"
  by (cases a; cases "loc_exp a") (simp_all add: is_let_def)

lemma let_step:
  assumes "ts_exps t = xs @ [a]" "eval_loc a A s = Some r" "with_local E i f = Some w"
  shows "\<exists>t'. let_exp E i t = Inr (LetExp (te_locals E ! unat i) a, t') \<and> dropped xs t t' \<and>
           w = f (te_locals E ! unat i)"
  using assms value_not_let[OF assms(2)] with_local_Some[OF assms(3)] pop_exp_snoc[OF assms(1)]
  by (auto simp: let_exp_def last_exp_def dropped_def)

end
