(* ===== verification/Dis_Straight.thy ===== *)
theory Dis_Straight
  imports Dis_Meaning
begin

text \<open>
  The translator on code without jumps. The locale \<open>statement_runner\<close> is what the proofs need of
  a meaning of statements; the list of expressions that the translator has made is, at every
  turn, a prefix that has been executed and one pending expression for each value on the stack
  (\<open>simulates\<close>). \<open>plain_turn\<close> is one turn of the loop on an instruction that does not re-enter it.
\<close>

section \<open>One instruction of the machine\<close>

text \<open>An instruction that neither jumps nor ends the code, and one that ends it.\<close>

definition vm_step ::
    "('v, 's) algebra \<Rightarrow> tenv \<Rightarrow> bytecode \<Rightarrow> 'v list \<times> 's \<Rightarrow> ('v list \<times> 's) option" where
  "vm_step A E b c =
     (case c of (stk, s) \<Rightarrow>
        case b of
          BcNop \<Rightarrow> (if stk = [] then Some ([], s) else None)
        | BcPop \<Rightarrow> (case stk of [v] \<Rightarrow> Some ([], s) | _ \<Rightarrow> None)
        | BcStLoc i \<Rightarrow>
            (case stk of
               [v] \<Rightarrow> map_option (\<lambda>s'. ([], s')) (with_local E i (\<lambda>l. al_store A l v s))
             | _ \<Rightarrow> None)
        | BcWriteRef \<Rightarrow> (case stk of [x, r] \<Rightarrow> Some ([], al_write A x r s) | _ \<Rightarrow> None)
        | _ \<Rightarrow>
            (let n = length stk - vm_operands E b
             in case vm_value A E b (drop n stk) s of
                  None \<Rightarrow> None
                | Some (v, s') \<Rightarrow>
                    if pushes_value E b then Some (take n stk @ [v], s')
                    else if unit_call E b \<and> take n stk = [] then Some ([], s')
                    else None))"

definition vm_final ::
    "tenv \<Rightarrow> bytecode \<Rightarrow> 'v list \<times> 's \<Rightarrow> ('v outcome \<times> 's) option" where
  "vm_final E b c =
     (case c of (stk, s) \<Rightarrow>
        case b of
          BcRet \<Rightarrow> (if length stk = te_ret_len E then Some (Returned stk, s) else None)
        | BcAbort \<Rightarrow> (case stk of [v] \<Rightarrow> Some (Aborted v, s) | _ \<Rightarrow> None)
        | _ \<Rightarrow> None)"

primrec vm_steps ::
    "('v, 's) algebra \<Rightarrow> tenv \<Rightarrow> bytecode list \<Rightarrow> 'v list \<times> 's \<Rightarrow> ('v list \<times> 's) option" where
  "vm_steps A E [] c = Some c"
| "vm_steps A E (b # bs) c = Option.bind (vm_step A E b c) (vm_steps A E bs)"

definition plain_op :: "bytecode \<Rightarrow> bool" where
  "plain_op b = (case b of BcBranch _ \<Rightarrow> False | BcBrTrue _ \<Rightarrow> False | BcBrFalse _ \<Rightarrow> False
                 | BcRet \<Rightarrow> False | BcAbort \<Rightarrow> False | BcUnpack _ \<Rightarrow> False | BcUnpackGeneric _ \<Rightarrow> False
                 | _ \<Rightarrow> True)"

lemma vm_step_plain: "vm_step A E b c = Some c' \<Longrightarrow> plain_op b"
  by (cases b)
     (auto simp: vm_step_def plain_op_def vm_value_def group_defs split: prod.splits)

lemma vm_steps_plain: "vm_steps A E bs c = Some c' \<Longrightarrow> \<forall>b\<in>set bs. plain_op b"
  by (induction bs arbitrary: c) (auto simp: Option.bind_eq_Some_conv dest: vm_step_plain)

text \<open>Instructions that end a statement.\<close>

definition statement_op :: "bytecode \<Rightarrow> bool" where
  "statement_op b \<longleftrightarrow>
     (case b of BcNop \<Rightarrow> True | BcPop \<Rightarrow> True | BcStLoc _ \<Rightarrow> True | BcWriteRef \<Rightarrow> True
              | BcRet \<Rightarrow> True | BcAbort \<Rightarrow> True | _ \<Rightarrow> False)"

lemma vm_step_value:
  assumes "\<not> statement_op b"
  shows "vm_step A E b (stk, s) =
     (let n = length stk - vm_operands E b
      in case vm_value A E b (drop n stk) s of
           None \<Rightarrow> None
         | Some (v, s') \<Rightarrow>
             if pushes_value E b then Some (take n stk @ [v], s')
             else if unit_call E b \<and> take n stk = [] then Some ([], s') else None)"
  using assms by (cases b; hypsubst; simp add: statement_op_def vm_step_def)

lemma vm_run_step:
  "vm_run A E (b # bs) c =
     (if b = BcRet \<or> b = BcAbort then (if bs = [] then vm_final E b c else None)
      else Option.bind (vm_step A E b c) (vm_run A E bs))"
proof (cases c)
  case (Pair stk s)
  show ?thesis
  proof (cases "statement_op b")
    case True
    then consider "b = BcNop" | "b = BcPop" | i where "b = BcStLoc i" | "b = BcWriteRef" | "b = BcRet" | "b = BcAbort"
      by (cases b) (simp_all add: statement_op_def)
    then show ?thesis
      by cases (simp_all add: Pair vm_step_def vm_final_def bind_map_option comp_def split: list.split)
  next
    case False
    moreover have "vm_run A E (b # bs) (stk, s) =
       (let n = length stk - vm_operands E b
        in case vm_value A E b (drop n stk) s of
             None \<Rightarrow> None
           | Some (v, s') \<Rightarrow>
               if pushes_value E b then vm_run A E bs (take n stk @ [v], s')
               else if unit_call E b \<and> take n stk = [] then vm_run A E bs ([], s')
               else None)"
      using False by (cases b; hypsubst; simp add: statement_op_def)
    moreover have "b \<noteq> BcRet" "b \<noteq> BcAbort" using False by (auto simp: statement_op_def)
    ultimately show ?thesis
      unfolding Pair by (auto simp: vm_step_value Let_def simp del: vm_run.simps split: option.split prod.split)
  qed
qed

section \<open>Meanings of statements\<close>

locale statement_runner =
  fixes A :: "('v, 's) algebra" and run :: "exp_loc list \<Rightarrow> 's \<Rightarrow> ('v outcome \<times> 's) option"
  assumes run_nop: "run (ExpLoc i Nop # xs) s = run xs s"
    and run_let: "eval_loc e A s = Some (v, s1) \<Longrightarrow>
      run (ExpLoc i (LetExp l e) # xs) s = run xs (al_store A l v s1)"
    and run_write: "eval_loc x A s = Some (v, s1) \<Longrightarrow> eval_loc r A s1 = Some (w, s2) \<Longrightarrow>
      run (ExpLoc i (WriteRef x r) # xs) s = run xs (al_write A v w s2)"
    and run_value: "eval_exp expr A s = Some (v, s1) \<Longrightarrow> run (ExpLoc i expr # xs) s = run xs s1"
    and run_ret: "evals A rs s = Some (vs, s1) \<Longrightarrow> run (ExpLoc i (Ret rs k) # xs) s = Some (Returned vs, s1)"
    and run_abort: "eval_loc e A s = Some (v, s1) \<Longrightarrow> run (ExpLoc i (Abort e) # xs) s = Some (Aborted v, s1)"
begin

text \<open>The statements \<open>xs\<close> take the state \<open>s0\<close> to \<open>s1\<close>.\<close>

definition reaches :: "exp_loc list \<Rightarrow> 's \<Rightarrow> 's \<Rightarrow> bool" where
  "reaches xs s0 s1 \<longleftrightarrow> (\<forall>rest. run (xs @ rest) s0 = run rest s1)"

lemma reaches_Nil: "reaches [] s s"
  by (simp add: reaches_def)

lemma reaches_append: "reaches xs s0 s1 \<Longrightarrow> reaches ys s1 s2 \<Longrightarrow> reaches (xs @ ys) s0 s2"
  by (simp add: reaches_def)

lemma reaches_value: "eval_loc a A s = Some (v, s1) \<Longrightarrow> reaches [a] s s1"
  by (cases a) (simp add: reaches_def run_value)

lemma reaches_nop: "reaches [ExpLoc k Nop] s s"
  by (simp add: reaches_def run_nop)

lemma reaches_let: "eval_loc a A s = Some (v, s1) \<Longrightarrow> reaches [ExpLoc k (LetExp l a)] s (al_store A l v s1)"
  by (simp add: reaches_def run_let)

lemma reaches_write: "eval_loc a A s = Some (x, s1) \<Longrightarrow> eval_loc b A s1 = Some (r, s2) \<Longrightarrow>
    reaches [ExpLoc k (WriteRef a b)] s (al_write A x r s2)"
  by (simp add: reaches_def run_write)

text \<open>The expressions behind \<open>base\<close>: statements that have been executed, then one pending
  expression for each value of the stack.\<close>

definition simulates :: "exp_loc list \<Rightarrow> 's \<Rightarrow> 'v list \<times> 's \<Rightarrow> exp_loc list \<Rightarrow> bool" where
  "simulates base s0 c xs \<longleftrightarrow>
     (\<exists>dn pend s1. xs = base @ dn @ pend \<and> reaches dn s0 s1 \<and> evals A pend s1 = Some c)"

lemma simulatesI:
  "xs = base @ dn @ pend \<Longrightarrow> reaches dn s0 s1 \<Longrightarrow> evals A pend s1 = Some c \<Longrightarrow> simulates base s0 c xs"
  unfolding simulates_def by blast

lemma simulates_start: "simulates base s ([], s) base"
  by (rule simulatesI[of _ _ "[]" "[]"]) (simp_all add: reaches_Nil)

lemma simulates_emptyD:
  assumes "simulates base s0 ([], s) xs"
  shows "\<exists>dn. xs = base @ dn \<and> reaches dn s0 s"
proof -
  from assms obtain dn pend s1 where "xs = base @ dn @ pend" "reaches dn s0 s1" "evals A pend s1 = Some ([], s)"
    by (auto simp: simulates_def)
  with evals_none[OF this(3)] show ?thesis by auto
qed

lemma value_simulated:
  assumes b: "\<not> statement_op b" and st: "vm_step A E b (stk, s) = Some c'"
    and sim: "simulates base s0 (stk, s) (ts_exps t)"
  shows "\<exists>e t1. next_exp tb E b t = Inr (e, t1) \<and> ts_iter t1 = ts_iter t \<and> ts_end t1 = ts_end t \<and>
     length base \<le> length (ts_exps t1) \<and> e \<noteq> Continue \<and>
     (\<forall>k. simulates base s0 c' (ts_exps t1 @ [ExpLoc k e]))"
proof -
  from sim obtain dn pend s1 where ex: "ts_exps t = base @ dn @ pend" and dn: "reaches dn s0 s1"
    and ev: "evals A pend s1 = Some (stk, s)" by (auto simp: simulates_def)
  define n where "n = length stk - vm_operands E b"
  let ?ps = "take n pend" and ?qs = "drop n pend"
  from st[unfolded vm_step_value[OF b]] obtain v s' where
    v: "vm_value A E b (drop n stk) s = Some (v, s')"
    and after: "(if pushes_value E b then Some (take n stk @ [v], s')
        else if unit_call E b \<and> take n stk = [] then Some ([], s') else None) = Some c'"
    by (auto simp: n_def[symmetric] Let_def split: option.splits prod.splits)
  have "evals A (?ps @ ?qs) s1 = Some (stk, s)" using ev by simp
  then obtain vs ws sm where m: "evals A ?ps s1 = Some (vs, sm)" "evals A ?qs sm = Some (ws, s)"
    "stk = vs @ ws"
    unfolding map_append in_sequence_append by (auto split: option.splits)
  have "length pend = length stk" using in_sequence_length[OF ev] by simp
  then have "n \<le> length pend" by (simp add: n_def)
  then have vw: "vs = take n stk" "ws = drop n stk" using in_sequence_length[OF m(1)] m(3) by simp_all
  have "ts_exps t = (base @ dn @ ?ps) @ ?qs" using ex by simp
  from value_step[OF this m(2)[unfolded vw] v] obtain e t1 where e: "next_exp tb E b t = Inr (e, t1)"
    "dropped (base @ dn @ ?ps) t t1" "eval_exp e A sm = Some (v, s')" by blast
  have "simulates base s0 c' (ts_exps t1 @ [ExpLoc k e])" for k
  proof (cases "pushes_value E b")
    case True
    have "evals A (?ps @ [ExpLoc k e]) s1 = Some (vs @ [v], s')"
      unfolding map_append in_sequence_append using m(1) e(3) by simp
    with True after vw e(2) dn show ?thesis
      by (intro simulatesI[of _ _ dn "?ps @ [ExpLoc k e]"]) (auto simp: dropped_def)
  next
    case False
    with after have u: "take n stk = []" "c' = ([], s')" by (auto split: if_splits)
    then have ps: "?ps = []" "sm = s1" using m(1) vw evals_none[of A ?ps s1 sm] by simp_all
    then have "reaches (dn @ [ExpLoc k e]) s0 s'"
      using e(3) by (intro reaches_append[OF dn] reaches_value) simp
    then show ?thesis
      using e(2) ps u by (intro simulatesI[of _ _ "dn @ [ExpLoc k e]" "[]"]) (auto simp: dropped_def)
  qed
  moreover have "e \<noteq> Continue" using e(3) by auto
  ultimately show ?thesis using e by (auto simp: dropped_def)
qed

text \<open>A statement turns all pending expressions into \<open>e\<close>, after which nothing is pending.\<close>

lemma statement_simulates:
  assumes "dropped (base @ xs) t t1" "reaches (xs @ [ExpLoc k e]) s0 s2"
  shows "simulates base s0 ([], s2) (ts_exps t1 @ [ExpLoc k e])"
  using assms by (intro simulatesI[of _ _ "xs @ [ExpLoc k e]" "[]"]) (auto simp: dropped_def)

lemma statement_simulated:
  assumes b: "b = BcNop \<or> b = BcPop \<or> (\<exists>i. b = BcStLoc i) \<or> b = BcWriteRef"
    and st: "vm_step A E b (stk, s) = Some c'" and sim: "simulates base s0 (stk, s) (ts_exps t)"
  shows "\<exists>e t1. next_exp tb E b t = Inr (e, t1) \<and> ts_iter t1 = ts_iter t \<and> ts_end t1 = ts_end t \<and>
     length base \<le> length (ts_exps t1) \<and> e \<noteq> Continue \<and>
     (\<forall>k. simulates base s0 c' (ts_exps t1 @ [ExpLoc k e]))"
proof -
  from sim obtain dn pend s1 where ex: "ts_exps t = base @ dn @ pend" and dn: "reaches dn s0 s1"
    and ev: "evals A pend s1 = Some (stk, s)" by (auto simp: simulates_def)
  have done_by: ?thesis if "next_exp tb E b t = Inr (e, t1)" "dropped (base @ xs) t t1"
    "\<And>k. reaches (xs @ [ExpLoc k e]) s0 s2" "c' = ([], s2)" "e \<noteq> Continue" for e t1 xs s2
    using that statement_simulates[OF that(2,3)] by (auto simp: dropped_def)
  consider (nop) "b = BcNop" | (pop) "b = BcPop" | (st) i where "b = BcStLoc i"
    | (wr) "b = BcWriteRef" using b by blast
  then show ?thesis
  proof cases
    case nop
    with st have k: "stk = []" "c' = ([], s)" by (auto simp: vm_step_def split: if_splits)
    with ev have p: "pend = []" "s1 = s" using evals_none[of A pend s1 s] by simp_all
    show ?thesis
      by (rule done_by[OF _ _ reaches_append[OF dn[unfolded p(2)] reaches_nop] k(2)])
         (use nop p ex in \<open>simp_all add: next_exp_def dropped_def\<close>)
  next
    case pop
    with st obtain v where k: "stk = [v]" "c' = ([], s)" by (auto simp: vm_step_def split: list.splits)
    with ev obtain a where a: "pend = [a]" "eval_loc a A s1 = Some (v, s)"
      using evals_one[of A pend s1 v s] by auto
    show ?thesis
      by (rule done_by[OF _ _ reaches_append[OF reaches_append[OF dn reaches_value[OF a(2)]] reaches_nop] k(2)])
         (use pop a ex in \<open>simp_all add: next_exp_def dropped_def\<close>)
  next
    case (st i)
    with \<open>vm_step A E b (stk, s) = Some c'\<close> obtain v s2 where
      k: "stk = [v]" "with_local E i (\<lambda>l. al_store A l v s) = Some s2" "c' = ([], s2)"
      by (auto simp: vm_step_def split: list.splits)
    with ev obtain a where a: "pend = [a]" "eval_loc a A s1 = Some (v, s)"
      using evals_one[of A pend s1 v s] by auto
    let ?l = "te_locals E ! unat i"
    have "ts_exps t = (base @ dn) @ [a]" using ex a(1) by simp
    from let_step[OF this a(2) k(2)] obtain t1 where t1: "let_exp E i t = Inr (LetExp ?l a, t1)"
      "dropped (base @ dn) t t1" "s2 = al_store A ?l v s" by auto
    show ?thesis
      by (rule done_by[OF _ t1(2) reaches_append[OF dn reaches_let[OF a(2)]]])
         (use st t1 k in \<open>simp_all add: next_exp_def\<close>)
  next
    case wr
    with st obtain x y where k: "stk = [x, y]" "c' = ([], al_write A x y s)"
      by (auto simp: vm_step_def split: list.splits)
    with ev obtain a c sm where a: "pend = [a, c]" "eval_loc a A s1 = Some (x, sm)"
      "eval_loc c A sm = Some (y, s)" using evals_two[of A pend s1 x y s] by auto
    have "ts_exps t = (base @ dn) @ [a, c]" using ex a(1) by simp
    then have "next_exp tb E b t = Inr (WriteRef a c, t\<lparr>ts_exps := base @ dn\<rparr>)"
      using wr by (simp add: next_exp_def write_ref_exp_def pop2_exp_snoc)
    then show ?thesis
      by (rule done_by[OF _ _ reaches_append[OF dn reaches_write[OF a(2,3)]] k(2)]) (simp_all add: dropped_def)
  qed
qed

lemma plain_simulated:
  assumes "vm_step A E b c = Some c'" "simulates base s0 c (ts_exps t)"
  shows "\<exists>e t1. next_exp tb E b t = Inr (e, t1) \<and> ts_iter t1 = ts_iter t \<and> ts_end t1 = ts_end t \<and>
     length base \<le> length (ts_exps t1) \<and> e \<noteq> Continue \<and>
     (\<forall>k. simulates base s0 c' (ts_exps t1 @ [ExpLoc k e]))"
proof -
  obtain stk s where c: "c = (stk, s)" by (cases c)
  consider "\<not> statement_op b" | "b = BcNop \<or> b = BcPop \<or> (\<exists>i. b = BcStLoc i) \<or> b = BcWriteRef"
    using vm_step_plain[OF assms(1)] by (cases b) (simp_all add: statement_op_def plain_op_def)
  then show ?thesis
  proof cases
    case 1
    from value_simulated[OF 1 assms[unfolded c]] show ?thesis .
  next
    case 2
    from statement_simulated[OF 2 assms[unfolded c]] show ?thesis .
  qed
qed

text \<open>\<open>Ret\<close> and \<open>Abort\<close> end the code.\<close>

lemma final_simulated:
  assumes "vm_final E b c = Some r" "simulates base s0 c (ts_exps t)"
  shows "\<exists>e t1. next_exp tb E b t = Inr (e, t1) \<and> ts_iter t1 = ts_iter t \<and> ts_end t1 = ts_end t \<and> e \<noteq> Continue \<and>
     (\<exists>dn. ts_exps t1 = base @ dn \<and> (\<forall>k rest. run (dn @ ExpLoc k e # rest) s0 = Some r))"
proof -
  obtain stk s where c: "c = (stk, s)" by (cases c)
  from assms(2) obtain dn pend s1 where ex: "ts_exps t = base @ dn @ pend" and dn: "reaches dn s0 s1"
    and ev: "evals A pend s1 = Some (stk, s)" by (auto simp: simulates_def c)
  have "b = BcRet \<or> b = BcAbort" using assms(1) by (cases b) (auto simp: vm_final_def c)
  then show ?thesis
  proof
    assume b: "b = BcRet"
    with assms(1) have k: "length stk = te_ret_len E" "r = (Returned stk, s)"
      by (auto simp: vm_final_def c split: if_splits)
    have "ts_exps t = (base @ dn) @ pend" using ex by simp
    from ret_step[OF this ev k(1)] obtain t1 where "ret_exp (te_ret_len E) t = (Ret pend False, t1)"
      "dropped (base @ dn) t t1" by blast
    with b k(2) dn ev show ?thesis
      by (auto simp: next_exp_def dropped_def reaches_def run_ret)
  next
    assume b: "b = BcAbort"
    with assms(1) obtain v where k: "stk = [v]" "r = (Aborted v, s)"
      by (auto simp: vm_final_def c split: list.splits)
    with ev obtain a where a: "pend = [a]" "eval_loc a A s1 = Some (v, s)"
      using evals_one[of A pend s1 v s] by auto
    with b k(2) dn ex show ?thesis
      by (auto simp: next_exp_def abort_exp_def unary_exp_def pop_exp_snoc[of t "base @ dn" a] reaches_def run_abort)
  qed
qed

end

interpretation straight: statement_runner A "run_stmts A"
proof unfold_locales
  fix i e xs s v s1
  assume "eval_exp e A s = Some (v, s1)"
  then show "run_stmts A (ExpLoc i e # xs) s = run_stmts A xs s1" by (cases e) simp_all
qed simp_all

section \<open>Turns of the translator\<close>

lemma plain_not_block: "plain_op b \<Longrightarrow> \<not> opens_block b"
  by (cases b) (simp_all add: plain_op_def opens_block_def)

text \<open>A turn on an instruction that does not re-enter the translator.\<close>

definition plain_turn :: "tenv \<Rightarrow> tstate \<Rightarrow> tstate result" where
  "plain_turn E t =
     (case iter_next (ts_iter t) of
        (Some b, it) \<Rightarrow>
          rbind (next_exp (\<lambda>_ _. Inl OutOfFuel) E b (t\<lparr>ts_iter := it\<rparr>)) (\<lambda>(e, s). Inr (push_exp e s))
      | (None, it) \<Rightarrow> Inl OutOfFuel)"

primrec plain_turns :: "tenv \<Rightarrow> nat \<Rightarrow> tstate \<Rightarrow> tstate result" where
  "plain_turns E 0 t = Inr t"
| "plain_turns E (Suc n) t = rbind (plain_turn E t) (plain_turns E n)"

text \<open>The translator gets from \<open>t\<close> to \<open>t'\<close>, with any fuel that is enough.\<close>

definition leads :: "tenv \<Rightarrow> tstate \<Rightarrow> tstate \<Rightarrow> bool" where
  "leads E t t' \<longleftrightarrow> remaining t' \<le> remaining t \<and>
     (\<forall>f>remaining t. translate f E t = translate f E t')"

lemma leads_refl: "leads E t t"
  by (simp add: leads_def)

lemma leads_trans: "leads E t u \<Longrightarrow> leads E u w \<Longrightarrow> leads E t w"
  by (auto simp: leads_def)

lemma leads_turn:
  assumes "iter_next (ts_iter t) = (Some b, it)" "opcode_offset t < ts_end t"
    and "\<And>f. length (it_rest it) < f \<Longrightarrow>
      next_exp (translate_block (translate f E)) E b (t\<lparr>ts_iter := it\<rparr>) = Inr (e, t1)"
    and "remaining t1 \<le> length (it_rest it)"
  shows "leads E t (push_exp e t1)"
proof -
  have r: "remaining t = Suc (length (it_rest it))" using iter_next_Some[OF assms(1)] by simp
  have "translate f E t = translate f E (push_exp e t1)" if "remaining t < f" for f
  proof -
    from that r obtain g where g: "f = Suc g" "length (it_rest it) < g" by (cases f) auto
    then have "translate f E t = translate g E (push_exp e t1)"
      using assms(1,2) assms(3)[OF g(2)] by simp
    also have "\<dots> = translate f E (push_exp e t1)"
      using assms(4) g by (intro translate_fuel_irrelevant[symmetric]) simp_all
    finally show ?thesis .
  qed
  with r assms(4) show ?thesis by (simp add: leads_def)
qed

lemma turn_leads:
  assumes "plain_turn E t = Inr t'" "it_rest (ts_iter t) = b # rest" "\<not> opens_block b" "opcode_offset t < ts_end t"
  shows "leads E t t'"
proof -
  obtain it where it: "iter_next (ts_iter t) = (Some b, it)" "it_rest it = rest"
    using assms(2) by (simp add: iter_next_def Let_def)
  with assms(1) obtain e t1 where e: "next_exp (\<lambda>_ _. Inl OutOfFuel) E b (t\<lparr>ts_iter := it\<rparr>) = Inr (e, t1)"
    "t' = push_exp e t1" by (auto simp: plain_turn_def rbind_eq_Inr_iff)
  have n: "next_exp tb E b (t\<lparr>ts_iter := it\<rparr>) = Inr (e, t1)" for tb
    using next_exp_simple[OF assms(3)] e(1) by metis
  have "advances (t\<lparr>ts_iter := it\<rparr>) t1" by (rule advances_next_exp_simple[OF assms(3) e(1)])
  then have "remaining t1 \<le> length (it_rest it)" by (simp add: advances_def)
  from leads_turn[OF it(1) assms(4) n this] e(2) show ?thesis by simp
qed

text \<open>Something has been pushed behind \<open>base\<close>, and it is not a jump back.\<close>

definition grown :: "exp_loc list \<Rightarrow> exp_loc list \<Rightarrow> bool" where
  "grown base xs \<longleftrightarrow> length base < length xs \<and> loc_exp (last xs) \<noteq> Continue"

text \<open>The iterator of \<open>t\<close> stands before position \<open>pc\<close>.\<close>

definition stands :: "bytecode list \<Rightarrow> nat \<Rightarrow> tstate \<Rightarrow> bool" where
  "stands code pc t \<longleftrightarrow>
     pc \<le> length code \<and>
     ts_iter t = \<lparr>it_rest = drop pc code, it_idx = (if pc = 0 then None else Some (pc - 1)), it_code = code\<rparr>"

lemma stands_offset: "stands code pc t \<Longrightarrow> opcode_offset t = pc - 1"
  by (simp add: stands_def opcode_offset_def iter_index_def)

lemma stands_next:
  assumes "stands code pc t" "drop pc code = b # rest"
  shows "\<exists>it. iter_next (ts_iter t) = (Some b, it) \<and> (\<forall>xs u. stands code (Suc pc) (t\<lparr>ts_iter := it, ts_exps := xs, ts_used := u\<rparr>)) \<and>
     it_rest it = rest \<and> iter_index it = pc \<and> stands code (Suc pc) (t\<lparr>ts_iter := it\<rparr>)"
proof -
  have "pc < length code" using assms(2) by (metis drop_all leI list.distinct(1))
  moreover have "drop (Suc pc) code = rest" using assms(2) by (metis drop_Suc list.sel(3) tl_drop)
  ultimately show ?thesis
    using assms by (auto simp: stands_def iter_next_def Let_def iter_index_def)
qed

lemma stands_iter: "stands code pc t \<Longrightarrow> ts_iter t' = ts_iter t \<Longrightarrow> stands code pc t'"
  by (simp add: stands_def)

context statement_runner
begin

lemma turn_simulates:
  assumes "stands code pc t" "drop pc code = b # rest" "vm_step A E b c = Some c'"
    and "simulates base s0 c (ts_exps t)"
  shows "\<exists>t'. plain_turn E t = Inr t' \<and> stands code (Suc pc) t' \<and> ts_end t' = ts_end t \<and>
     simulates base s0 c' (ts_exps t') \<and> grown base (ts_exps t') \<and> (pc \<le> ts_end t \<and> 0 < ts_end t \<longrightarrow> leads E t t')"
proof -
  from stands_next[OF assms(1,2)] obtain it where it: "iter_next (ts_iter t) = (Some b, it)"
    "stands code (Suc pc) (t\<lparr>ts_iter := it\<rparr>)" by blast
  have "simulates base s0 c (ts_exps (t\<lparr>ts_iter := it\<rparr>))" using assms(4) by simp
  from plain_simulated[OF assms(3) this, of "\<lambda>_ _. Inl OutOfFuel"] obtain e t1 where
    t1: "next_exp (\<lambda>_ _. Inl OutOfFuel) E b (t\<lparr>ts_iter := it\<rparr>) = Inr (e, t1)" "ts_iter t1 = it"
    "ts_end t1 = ts_end t" "\<forall>k. simulates base s0 c' (ts_exps t1 @ [ExpLoc k e])"
    "length base \<le> length (ts_exps t1)" "e \<noteq> Continue" by auto
  have tn: "plain_turn E t = Inr (push_exp e t1)" using it t1 by (simp add: plain_turn_def)
  have "leads E t (push_exp e t1)" if "pc \<le> ts_end t" "0 < ts_end t"
  proof (rule turn_leads[OF tn])
    show "it_rest (ts_iter t) = b # rest" using assms(1,2) by (simp add: stands_def)
    show "\<not> opens_block b" by (rule plain_not_block[OF vm_step_plain[OF assms(3)]])
    show "opcode_offset t < ts_end t" using that by (simp add: stands_offset[OF assms(1)])
  qed
  with tn t1 stands_iter[OF it(2), of "push_exp e t1"] show ?thesis by (auto simp: grown_def)
qed

lemma turns_simulate:
  assumes "stands code pc t" "drop pc code = bs @ rest" "vm_steps A E bs c = Some c'"
    and "simulates base s0 c (ts_exps t)"
  shows "\<exists>t'. plain_turns E (length bs) t = Inr t' \<and> stands code (pc + length bs) t' \<and> ts_end t' = ts_end t \<and>
     simulates base s0 c' (ts_exps t') \<and> (bs \<noteq> [] \<longrightarrow> grown base (ts_exps t')) \<and>
     (pc + length bs \<le> Suc (ts_end t) \<and> 0 < ts_end t \<longrightarrow> leads E t t')"
  using assms
proof (induction bs arbitrary: pc c t)
  case (Cons b bs)
  from Cons.prems(3) obtain c1 where c1: "vm_step A E b c = Some c1" "vm_steps A E bs c1 = Some c'"
    by (auto simp: Option.bind_eq_Some_conv)
  have d: "drop pc code = b # (bs @ rest)" using Cons.prems(2) by simp
  from turn_simulates[OF Cons.prems(1) d c1(1) Cons.prems(4)] obtain t1 where t1: "plain_turn E t = Inr t1"
    "stands code (Suc pc) t1" "ts_end t1 = ts_end t" "simulates base s0 c1 (ts_exps t1)"
    "grown base (ts_exps t1)" "pc \<le> ts_end t \<and> 0 < ts_end t \<longrightarrow> leads E t t1" by blast
  have "drop (Suc pc) code = bs @ rest" using d by (metis drop_Suc list.sel(3) tl_drop)
  from Cons.IH[OF t1(2) this c1(2) t1(4)] obtain t2 where t2: "plain_turns E (length bs) t1 = Inr t2"
    "stands code (Suc pc + length bs) t2" "ts_end t2 = ts_end t1" "simulates base s0 c' (ts_exps t2)"
    "bs \<noteq> [] \<longrightarrow> grown base (ts_exps t2)" "bs = [] \<longrightarrow> t2 = t1"
    "Suc pc + length bs \<le> Suc (ts_end t1) \<and> 0 < ts_end t1 \<longrightarrow> leads E t1 t2" by (cases "bs = []") auto
  have "leads E t t2" if "pc + length (b # bs) \<le> Suc (ts_end t) \<and> 0 < ts_end t"
    using that t1(3,6) t2(7) leads_trans[of E t t1 t2] by auto
  moreover have "grown base (ts_exps t2)" using t1(5) t2(5,6) by (cases "bs = []") simp_all
  ultimately show ?case using t1(1) t2(1-4) t1(3) by auto
qed (auto simp: leads_refl)

lemma final_turn:
  assumes "stands code pc t" "drop pc code = b # rest" "vm_final E b c = Some r"
    and "simulates base s0 c (ts_exps t)"
  shows "\<exists>t'. plain_turn E t = Inr t' \<and> stands code (Suc pc) t' \<and> ts_end t' = ts_end t \<and>
     (\<exists>xs. ts_exps t' = base @ xs \<and> grown [] xs \<and> (\<forall>more. run (xs @ more) s0 = Some r)) \<and>
     (pc \<le> ts_end t \<and> 0 < ts_end t \<longrightarrow> leads E t t')"
proof -
  from stands_next[OF assms(1,2)] obtain it where it: "iter_next (ts_iter t) = (Some b, it)"
    "stands code (Suc pc) (t\<lparr>ts_iter := it\<rparr>)" by blast
  have "simulates base s0 c (ts_exps (t\<lparr>ts_iter := it\<rparr>))" using assms(4) by simp
  from final_simulated[OF assms(3) this, of "\<lambda>_ _. Inl OutOfFuel"] obtain e t1 dn where
    t1: "next_exp (\<lambda>_ _. Inl OutOfFuel) E b (t\<lparr>ts_iter := it\<rparr>) = Inr (e, t1)" "ts_iter t1 = it"
    "ts_end t1 = ts_end t" "ts_exps t1 = base @ dn" "\<forall>k more. run (dn @ ExpLoc k e # more) s0 = Some r"
    "e \<noteq> Continue" by auto
  have tn: "plain_turn E t = Inr (push_exp e t1)" using it t1 by (simp add: plain_turn_def)
  have "leads E t (push_exp e t1)" if "pc \<le> ts_end t" "0 < ts_end t"
  proof (rule turn_leads[OF tn])
    show "it_rest (ts_iter t) = b # rest" using assms(1,2) by (simp add: stands_def)
    show "\<not> opens_block b"
      using assms(3) by (cases b) (auto simp: vm_final_def opens_block_def split: prod.splits)
    show "opcode_offset t < ts_end t" using that by (simp add: stands_offset[OF assms(1)])
  qed
  with tn t1 stands_iter[OF it(2), of "push_exp e t1"] show ?thesis by (auto simp: push_exp_def grown_def)
qed

end

section \<open>Straight-line code\<close>

lemma vm_run_steps:
  assumes "vm_run A E bs c = Some r"
  shows "(\<exists>s. vm_steps A E bs c = Some ([], s) \<and> r = (Running, s)) \<or>
     (\<exists>front b c1. bs = front @ [b] \<and> vm_steps A E front c = Some c1 \<and> vm_final E b c1 = Some r)"
  using assms
proof (induction bs arbitrary: c)
  case Nil
  then show ?case by (cases c) (auto split: if_splits)
next
  case (Cons b bs)
  note run = Cons.prems[unfolded vm_run_step]
  show ?case
  proof (cases "b = BcRet \<or> b = BcAbort")
    case True
    with run have "bs = []" "vm_final E b c = Some r" by (auto split: if_splits)
    then show ?thesis by (intro disjI2 exI[of _ "[]"]) simp
  next
    case False
    with run obtain c1 where c1: "vm_step A E b c = Some c1" "vm_run A E bs c1 = Some r"
      by (auto simp: Option.bind_eq_Some_conv)
    from Cons.IH[OF c1(2)] show ?thesis
    proof (elim disjE exE conjE)
      fix front b' c2
      assume "bs = front @ [b']" "vm_steps A E front c1 = Some c2" "vm_final E b' c2 = Some r"
      with c1(1) show ?thesis by (intro disjI2 exI[of _ "b # front"]) simp
    qed (use c1(1) in simp)
  qed
qed

lemma translate_at_end:
  assumes "stands code (length code) t"
  shows "\<exists>t'. translate (Suc f) E t = Inr t' \<and> ts_exps t' = ts_exps t"
  using assms by (auto simp: stands_def iter_next_def Let_def)

lemma stands_start: "stands code 0 (translator_new (iter_new code) n used)"
  by (simp add: stands_def translator_new_def iter_new_def)

lemma whole_code:
  assumes "leads E (translator_new (iter_new code) (length code) used) t" "stands code (length code) t"
  shows "\<exists>t'. translate (Suc (length code)) E (translator_new (iter_new code) (length code) used) = Inr t' \<and>
     ts_exps t' = ts_exps t"
proof -
  have "remaining (translator_new (iter_new code) (length code) used) < Suc (length code)"
    by (simp add: translator_new_def iter_new_def)
  with assms(1) have "translate (Suc (length code)) E (translator_new (iter_new code) (length code) used) =
      translate (Suc (length code)) E t" by (simp add: leads_def del: translate.simps)
  with translate_at_end[OF assms(2), of "length code" E] show ?thesis by simp
qed

lemma straight_line:
  assumes "vm_run A E code ([], s) = Some r"
  shows "\<exists>t'. translate (Suc (length code)) E (translator_new (iter_new code) (length code) used) = Inr t' \<and>
     run_stmts A (ts_exps t') s = Some r"
proof -
  let ?t = "translator_new (iter_new code) (length code) used"
  have t: "ts_exps ?t = []" "ts_end ?t = length code" by (simp_all add: translator_new_def iter_new_def iter_index_def)
  have sim: "straight.simulates A [] s ([], s) (ts_exps ?t)" by (simp add: t straight.simulates_start)
  from vm_run_steps[OF assms] show ?thesis
  proof (elim disjE exE conjE)
    fix s1
    assume v: "vm_steps A E code ([], s) = Some ([], s1)" and r: "r = (Running, s1)"
    have d: "drop 0 code = code @ []" by simp
    show ?thesis
    proof (cases "code = []")
      case True
      with v r show ?thesis by (simp add: translator_new_def iter_new_def opcode_offset_def iter_index_def)
    next
      case False
      with straight.turns_simulate[OF stands_start d v sim] t obtain t1 where t1:
        "stands code (length code) t1" "leads E ?t t1" "straight.simulates A [] s ([], s1) (ts_exps t1)" by auto
      from straight.simulates_emptyD[OF t1(3)] have "run_stmts A (ts_exps t1) s = Some (Running, s1)"
        unfolding straight.reaches_def by (metis append_Nil append_Nil2 run_stmts.simps(1))
      with whole_code[OF t1(2,1)] r show ?thesis by auto
    qed
  next
    fix front b c1
    assume c: "code = front @ [b]" and v: "vm_steps A E front ([], s) = Some c1" "vm_final E b c1 = Some r"
    have d: "drop 0 code = front @ [b]" using c by simp
    from straight.turns_simulate[OF stands_start d v(1) sim] t c obtain t1 where t1:
      "stands code (length front) t1" "leads E ?t t1" "straight.simulates A [] s c1 (ts_exps t1)"
      "ts_end t1 = length code" by auto
    have "drop (length front) code = b # []" using c by simp
    from straight.final_turn[OF t1(1) this v(2) t1(3)] t1(4) c obtain t2 xs where t2:
      "stands code (length code) t2" "ts_exps t2 = xs" "\<forall>more. run_stmts A (xs @ more) s = Some r"
      "leads E t1 t2" by auto
    have "run_stmts A xs s = Some r" using t2(3)[rule_format, of "[]"] by simp
    with whole_code[OF leads_trans[OF t1(2) t2(4)] t2(1)] t2(2) show ?thesis by auto
  qed
qed

end
