(* ===== verification/Dis_Correct.thy ===== *)
theory Dis_Correct
  imports Dis_Straight
begin

text \<open>
  The properties of the translator and of the entry points: meaning of straight-line bodies,
  termination, the contract of nested blocks, the ranges of expressions, and the places where
  the code can trap or print ambiguous source.
\<close>

section \<open>Meaning of straight-line bodies\<close>

text \<open>A concrete interpretation: numbers, with the cells of the locals as state.\<close>

definition counting_algebra :: "(nat, nat list) algebra" where
  "counting_algebra =
     \<lparr>al_ld = (\<lambda>l. case l of LdU64 n \<Rightarrow> unat n | LdBool b \<Rightarrow> (if b then 1 else 0) | _ \<Rightarrow> 0),
      al_binary = (\<lambda>p x y s. (case p of OpAdd \<Rightarrow> x + y | OpAnd \<Rightarrow> x * y | OpLt \<Rightarrow> (if x < y then 1 else 0) | _ \<Rightarrow> 0, s)),
      al_not = (\<lambda>x s. (1 - x, s)), al_cast = (\<lambda>t x s. (x, s)),
      al_load = (\<lambda>l s. (s ! local_cell l, s)), al_borrow = (\<lambda>m l s. (local_cell l, s)),
      al_field = (\<lambda>m n x s. (x, s)), al_read = (\<lambda>x s. (s ! x, s)),
      al_call = (\<lambda>m n ts vs s. (sum_list vs, s)), al_build_in = (\<lambda>k n ts vs s. (0, s)),
      al_pack = (\<lambda>m n ts fs s. (0, s)), al_store = (\<lambda>l v s. s[local_cell l := v]),
      al_write = (\<lambda>v r s. s[r := v])\<rparr>"

definition sample_vendor :: vendor where
  "sample_vendor =
     \<lparr>v_bc_debug = (\<lambda>_. ''?''), v_bc_offset = (\<lambda>b. case b of BcBranch i \<Rightarrow> Some i | _ \<Rightarrow> None),
      v_addr_display = (\<lambda>_. ''1''), v_hex_encode = (\<lambda>_. []), v_core_code_address = [],
      v_deserialize_constant = (\<lambda>_. None)\<rparr>"

text \<open>C1: whenever the stack machine runs the code of a body, the disassembled body exists and
  its statements compute the same final state and the same outcome (returned values, abort
  code), under every interpretation of the operations, including calls with effects.\<close>

theorem body_meaning:
  assumes "locals_new ps u im tps (ua_signature u (cu_locals code)) = Inr ls"
    and "vm_run A \<lparr>te_vendor = v, te_locals = ls, te_unit = u, te_imports = im,
           te_type_params = tps, te_ret_len = ret_len\<rparr> (cu_code code) ([], s) = Some r"
  shows "\<exists>b used es. body_new v code ret_len u ps im tps = Inr (b, used) \<and>
           bd_block b = Block es False \<and> run_stmts A es s = Some r"
  using straight_line[OF assms(2), of "\<lambda>_. False"] assms(1)
  by (auto simp: body_new_def simp del: translate.simps)

definition sample_locals :: "local_var list" where
  "sample_locals =
     [LParam \<lparr>prm_cell = 0, prm_index = 0, prm_type = FPrimitive ''u64''\<rparr>,
      LParam \<lparr>prm_cell = 1, prm_index = 1, prm_type = FPrimitive ''u64''\<rparr>,
      LVar \<lparr>var_cell = 2, var_index = 0, var_type = FPrimitive ''u64''\<rparr>,
      LVar \<lparr>var_cell = 3, var_index = 1, var_type = FPrimitive ''bool''\<rparr>]"

definition sample_params :: "param list" where
  "sample_params =
     [\<lparr>prm_cell = 0, prm_index = 0, prm_type = FPrimitive ''u64''\<rparr>,
      \<lparr>prm_cell = 1, prm_index = 1, prm_type = FPrimitive ''u64''\<rparr>]"

theorem body_meaning_witness:
  "\<exists>b used es. body_new sample_vendor (sa_code sample_script) 1 (Script sample_script) sample_params [] [] =
       Inr (b, used) \<and> bd_block b = Block es False \<and>
       run_stmts counting_algebra es [5, 6, 0, 0] = Some (Returned [12], [5, 6, 7, 0])"
proof (rule body_meaning)
  show "locals_new sample_params (Script sample_script) [] []
      (ua_signature (Script sample_script) (cu_locals (sa_code sample_script))) = Inr sample_locals"
    by (simp add: locals_new_def sample_params_def sample_locals_def sample_script_def ua_defs)
  show "vm_run counting_algebra
      \<lparr>te_vendor = sample_vendor, te_locals = sample_locals, te_unit = Script sample_script, te_imports = [],
       te_type_params = [], te_ret_len = 1\<rparr> (cu_code (sa_code sample_script)) ([], [5, 6, 0, 0]) =
      Some (Returned [12], [5, 6, 7, 0])"
    by (simp add: sample_script_def sample_locals_def vm_value_def vm_operands_def group_defs
        no_operand_def with_local_def pushes_value_def counting_algebra_def local_cell_def Let_def)
qed

definition sample_env :: "vendor \<Rightarrow> tenv" where
  "sample_env v =
     \<lparr>te_vendor = v, te_locals = sample_locals, te_unit = Script sample_script, te_imports = [],
      te_type_params = [], te_ret_len = 1\<rparr>"

section \<open>Termination\<close>

lemma signatures_fuel [simp]: "mapM (\<lambda>t. extract_type_signature u t im tps) sign \<noteq> Inl OutOfFuel"
  by (rule mapM_fuel) (rule extract_type_signature_fuel)

lemma locals_new_fuel: "locals_new ps u im tps sign \<noteq> Inl OutOfFuel"
  by (auto simp: locals_new_def rbind_eq_Inl_iff)

lemma body_new_fuel: "body_new v code n u ps im tps \<noteq> Inl OutOfFuel"
  using locals_new_fuel
  by (auto simp: body_new_def rbind_eq_Inl_iff translator_new_def iter_new_def
      simp del: translate.simps dest!: translate_fuel[THEN notE, rotated])

lemma functions_ret_fuel: "functions_ret u im sign tps \<noteq> Inl OutOfFuel"
  by (simp add: functions_ret_def)

lemma functions_params_fuel: "functions_params u im sign tps \<noteq> Inl OutOfFuel"
  unfolding functions_params_def
  by (rule mapM_fuel) (auto simp: rbind_eq_Inl_iff extract_type_signature_fuel split: prod.splits)

lemma functions_new_fuel: "functions_new v def u g im light \<noteq> Inl OutOfFuel"
  using functions_ret_fuel functions_params_fuel body_new_fuel
  by (auto simp: functions_new_def Let_def rbind_eq_Inl_iff split: option.splits if_splits)

lemma functions_script_fuel: "functions_script v u im g \<noteq> Inl OutOfFuel"
  using functions_params_fuel body_new_fuel
  by (auto simp: functions_script_def Let_def rbind_eq_Inl_iff split: option.splits prod.splits)

lemma struct_new_fuel: "struct_new def u g im \<noteq> Inl OutOfFuel"
proof -
  have "extract_fields u i im tps \<noteq> Inl OutOfFuel" for i tps
    by (auto simp: extract_fields_def rbind_eq_Inl_iff extract_type_signature_fuel
        split: struct_field_information.splits dest!: mapM_fuel[THEN notE, rotated])
  then show ?thesis by (auto simp: struct_new_def Let_def rbind_eq_Inl_iff)
qed

text \<open>C3: disassembling always returns: for every bytecode the loaders accept, and for every
  one they reject, the entry point yields the loader's error, a source text, or a trap of the
  code, and never runs out of the fuel the model gives it.\<close>

theorem disasm_terminates:
  "disasm v deser_script deser_module rand bytes light \<noteq> Inr (Inl OutOfFuel)"
proof -
  have "make_source_unit v d \<noteq> Inl OutOfFuel" for d
    using functions_script_fuel
      mapM_fuel[of "\<lambda>def. struct_new def (da_unit d) (da_generics d) (da_imports d)", OF struct_new_fuel]
      mapM_fuel[of "\<lambda>def. functions_new v def (da_unit d) (da_generics d) (da_imports d)
        (da_light_version d)", OF functions_new_fuel]
    by (auto simp: make_source_unit_def script_new_def module_new_def rbind_eq_Inl_iff)
  then show ?thesis
    by (auto simp: disasm_def rbind_eq_Inl_iff split: sum.splits)
qed

text \<open>The translation of a body does not depend on the fuel: anything above the number of
  instructions left gives the same result, fault or success.\<close>

theorem translate_fuel_independent:
  assumes "length (it_rest (ts_iter s)) < fuel" "fuel \<le> fuel'"
  shows "translate fuel' E s = translate fuel E s"
  using assms by (rule translate_fuel_irrelevant)

theorem translate_fuel_independent_witness:
  "translate 9 (sample_env sample_vendor) (translator_new (iter_new [BcLdTrue, BcRet]) 2 (\<lambda>_. False)) =
   translate 3 (sample_env sample_vendor) (translator_new (iter_new [BcLdTrue, BcRet]) 2 (\<lambda>_. False))"
  by (rule translate_fuel_independent) (simp_all add: translator_new_def iter_new_def)

section \<open>Nested blocks\<close>

text \<open>C4: a nested \<open>translate_block\<close> yields at most as many expressions as instructions were
  asked for (so the subtraction in \<open>Unpack::exp\<close> cannot underflow), leaves the expression
  list of its caller alone, and only moves the shared iterator forward.\<close>

theorem translate_block_bounded:
  assumes "it_idx (ts_iter s) \<noteq> None" "translate_block (translate fuel E) k s = Inr (es, s')"
  shows "length es \<le> k \<and> ts_exps s' = ts_exps s \<and> opcode_offset s \<le> opcode_offset s' \<and>
         length (it_rest (ts_iter s')) \<le> length (it_rest (ts_iter s)) \<and> ts_end s' = ts_end s"
  using block_contractD[OF translate_contract assms] by (auto simp: advances_def)

definition sample_state :: tstate where
  "sample_state =
     \<lparr>ts_exps = [ExpLoc 0 Nop],
      ts_iter = \<lparr>it_rest = [BcLdU64 1, BcLdU64 2, BcAdd], it_idx = Some 0,
                 it_code = [BcNop, BcLdU64 1, BcLdU64 2, BcAdd]\<rparr>,
      ts_end = 4, ts_used = (\<lambda>_. False)\<rparr>"

theorem translate_block_bounded_witness:
  "\<exists>es s'. translate_block (translate 5 (sample_env sample_vendor)) 2 sample_state = Inr (es, s') \<and>
     length es \<le> 2 \<and> ts_exps s' = [ExpLoc 0 Nop]"
proof -
  have "\<exists>es s'. translate_block (translate 5 (sample_env sample_vendor)) 2 sample_state = Inr (es, s')"
    by (simp add: translate_block_def sample_state_def translator_new_def opcode_offset_def
        iter_index_def iter_next_def next_exp_def push_exp_def eval_nat_numeral)
  then obtain es s' where "translate_block (translate 5 (sample_env sample_vendor)) 2 sample_state = Inr (es, s')"
    by blast
  with translate_block_bounded[OF _ this] show ?thesis by (auto simp: sample_state_def)
qed


section \<open>Unpacking\<close>

text \<open>A run of \<open>StLoc\<close> after \<open>Unpack\<close>: each becomes an assignment without a value.\<close>

definition store_exps :: "tenv \<Rightarrow> nat \<Rightarrow> 8 word list \<Rightarrow> exp_loc list" where
  "store_exps E k is =
     map (\<lambda>(j, i). ExpLoc (k + j) (LetExp (te_locals E ! unat i) (ExpLoc (k + j) Nop))) (enumerate 0 is)"

lemma store_exps_Cons:
  "store_exps E k (i # is) =
     ExpLoc k (LetExp (te_locals E ! unat i) (ExpLoc k Nop)) # store_exps E (Suc k) is"
  by (simp add: store_exps_def enumerate_Suc_eq comp_def case_prod_unfold)

lemma length_store_exps [simp]: "length (store_exps E k is) = length is"
  by (simp add: store_exps_def)

lemma translate_stores:
  assumes "\<forall>i\<in>set is. unat i < length (te_locals E)" "it_idx (ts_iter t) = Some k"
    and "it_rest (ts_iter t) = map BcStLoc is @ rest" "ts_end t = k + length is"
    and "ts_exps t = [] \<or> is_let (loc_exp (last (ts_exps t)))" "length is < fuel"
  shows "\<exists>t'. translate fuel E t = Inr t' \<and> ts_exps t' = ts_exps t @ store_exps E (Suc k) is \<and>
           it_rest (ts_iter t') = rest \<and> ts_used t' = ts_used t"
  using assms
proof (induction "is" arbitrary: t k fuel)
  case Nil
  then obtain f where "fuel = Suc f" by (cases fuel) auto
  with Nil show ?case by (simp add: store_exps_def opcode_offset_def iter_index_def)
next
  case (Cons i "is")
  from Cons.prems(6) obtain f where f: "fuel = Suc f" "length is < f" by (cases fuel) auto
  let ?l = "te_locals E ! unat i"
  define it where "it = (ts_iter t)\<lparr>it_idx := Some (Suc k), it_rest := map BcStLoc is @ rest\<rparr>"
  have nx: "iter_next (ts_iter t) = (Some (BcStLoc i), it)"
    using Cons.prems(2,3) by (simp add: iter_next_def Let_def it_def)
  let ?t = "push_exp (LetExp ?l (ExpLoc (Suc k) Nop)) (t\<lparr>ts_iter := it\<rparr>)"
  have "let_exp E i (t\<lparr>ts_iter := it\<rparr>) = Inr (LetExp ?l (ExpLoc (Suc k) Nop), t\<lparr>ts_iter := it\<rparr>)"
    using Cons.prems(1,5)
    by (auto simp: let_exp_def get_local_var_def last_exp_def opcode_offset_def iter_index_def it_def)
  then have tr: "translate fuel E t = translate f E ?t"
    using Cons.prems(2,4) nx by (simp add: f opcode_offset_def iter_index_def next_exp_def)
  have "\<exists>t'. translate f E ?t = Inr t' \<and> ts_exps t' = ts_exps ?t @ store_exps E (Suc (Suc k)) is \<and>
      it_rest (ts_iter t') = rest \<and> ts_used t' = ts_used ?t"
    using Cons.prems(1,4) f(2) by (intro Cons.IH) (simp_all add: it_def is_let_def)
  then show ?case
    unfolding tr by (simp add: store_exps_Cons opcode_offset_def iter_index_def it_def)
qed

text \<open>C5: an \<open>Unpack\<close> of a struct with n fields followed by the n \<open>StLoc\<close> the compiler emits
  for it becomes one destructuring of the pending source, in which the fields keep the
  declared order and the k-th field is assigned to the local of the k-th store from the end:
  the virtual machine pushes the fields in order, so the last one is stored first.\<close>

theorem unpack_binds_fields:
  assumes "ua_struct_def (te_unit E) d = Some def" "sd_field_information def = Declared fds"
    and "it_idx (ts_iter s) = Some k" "it_rest (ts_iter s) = map BcStLoc is @ rest"
    and "length is = length fds" "\<forall>i\<in>set is. unat i < length (te_locals E)"
    and "ts_exps s = xs @ [src]" "length is < fuel"
  shows "\<exists>m name fs s'. unpack_exp (translate_block (translate fuel E)) E d None s =
           Inr (Unpack m name [] fs src, s') \<and> ts_exps s' = xs \<and> it_rest (ts_iter s') = rest \<and>
           map pf_name fs = map (\<lambda>f. ua_identifier (te_unit E) (fld_name f)) fds \<and>
           (\<forall>j<length fds. \<exists>p. loc_exp (pf_value (fs ! j)) =
              LetExp (te_locals E ! unat (is ! (length is - Suc j))) (ExpLoc p Nop))"
proof -
  let ?es = "store_exps E (Suc k) is" and ?names = "map (\<lambda>f. ua_identifier (te_unit E) (fld_name f)) fds"
  from translate_stores[OF assms(6), of "translator_new (ts_iter s) (length is) (ts_used s)" k rest fuel]
  obtain t' where t': "translate fuel E (translator_new (ts_iter s) (length fds) (ts_used s)) = Inr t'"
    "ts_exps t' = ?es" "it_rest (ts_iter t') = rest"
    using assms(3,4,5,8) by (auto simp: translator_new_def iter_index_def)
  let ?s = "s\<lparr>ts_iter := ts_iter t', ts_used := ts_used t'\<rparr>"
  let ?fs = "map (\<lambda>(n, e). PackField n e) (zip ?names (rev ?es))"
  have tb: "translate_block (translate fuel E) (length fds) s = Inr (?es, ?s)"
    using t' by (simp add: translate_block_def)
  have "unpack_exp (translate_block (translate fuel E)) E d None s =
      (let h = ua_struct_handle (te_unit E) (sd_struct_handle def)
       in Inr (Unpack (module_import E (ua_module_handle (te_unit E) (sh_module h)))
                 (ua_identifier (te_unit E) (sh_name h)) [] ?fs src, ?s\<lparr>ts_exps := xs\<rparr>))"
    using assms(1,2,5,7) tb pop_exp_snoc[of ?s xs src]
    by (simp add: unpack_exp_def Let_def extract_signature_def)
  moreover have "map pf_name ?fs = ?names"
    using assms(5) by (simp add: comp_def case_prod_unfold)
  moreover have "\<exists>p. loc_exp (pf_value (?fs ! j)) =
      LetExp (te_locals E ! unat (is ! (length is - Suc j))) (ExpLoc p Nop)" if "j < length fds" for j
    using that assms(5) by (simp add: rev_nth store_exps_def nth_enumerate_eq)
  ultimately show ?thesis using t'(3) by (auto simp: Let_def)
qed

definition sample_module :: module_access where
  "sample_module =
     \<lparr>ma_self_id = \<lparr>mid_address = [1], mid_name = ''M''\<rparr>, ma_self_handle_idx = 0,
      ma_module_handles = [\<lparr>mh_name = 0, mh_address = 0\<rparr>],
      ma_module_handle_at = (\<lambda>i. \<lparr>mh_name = 0, mh_address = i\<rparr>),
      ma_identifiers = [''M'', ''S'', ''x'', ''y''],
      ma_identifier_at = (\<lambda>i. [''M'', ''S'', ''x'', ''y''] ! i),
      ma_address_identifier_at = (\<lambda>i. [1]),
      ma_function_defs = [],
      ma_function_handle_at = (\<lambda>_. \<lparr>fh_module = 0, fh_name = 2, fh_parameters = 0, fh_return = 0,
                                     fh_type_parameters = []\<rparr>),
      ma_function_instantiation_at = (\<lambda>_. \<lparr>fi_handle = 0, fi_type_parameters = 2\<rparr>),
      ma_signature_at = (\<lambda>_. []),
      ma_struct_defs = [],
      ma_struct_def_at = (\<lambda>_. \<lparr>sd_struct_handle = 0, sd_field_information =
        Declared [\<lparr>fld_name = 2, fld_signature = TkU64\<rparr>, \<lparr>fld_name = 3, fld_signature = TkBool\<rparr>]\<rparr>),
      ma_struct_handle_at = (\<lambda>_. \<lparr>sh_module = 0, sh_name = 1, sh_is_nominal_resource = True,
                                   sh_type_parameters = []\<rparr>),
      ma_struct_instantiation_at = (\<lambda>_. \<lparr>sdi_def = 0, sdi_type_parameters = 0\<rparr>),
      ma_field_instantiation_at = (\<lambda>_. \<lparr>fdi_handle = 0\<rparr>),
      ma_constant_at = (\<lambda>_. []),
      ma_field_handle_at = (\<lambda>_. \<lparr>fdh_owner = 0, fdh_field = 0\<rparr>)\<rparr>"

definition unpack_env :: "vendor \<Rightarrow> tenv" where
  "unpack_env v = sample_env v\<lparr>te_unit := Module sample_module\<rparr>"

definition unpack_state :: tstate where
  "unpack_state = sample_state\<lparr>ts_iter :=
     \<lparr>it_rest = [BcStLoc 3, BcStLoc 2], it_idx = Some 0, it_code = []\<rparr>\<rparr>"

theorem unpack_binds_fields_witness:
  "\<exists>m name fs s'. unpack_exp (translate_block (translate 3 (unpack_env sample_vendor))) (unpack_env sample_vendor) 0 None
       unpack_state = Inr (Unpack m name [] fs (ExpLoc 0 Nop), s') \<and> map pf_name fs = [''x'', ''y'']"
proof -
  have d: "ua_struct_def (te_unit (unpack_env sample_vendor)) 0 = Some \<lparr>sd_struct_handle = 0, sd_field_information =
      Declared [\<lparr>fld_name = 2, fld_signature = TkU64\<rparr>, \<lparr>fld_name = 3, fld_signature = TkBool\<rparr>]\<rparr>"
    by (simp add: unpack_env_def ua_defs sample_module_def)
  have s: "it_idx (ts_iter unpack_state) = Some 0"
    "it_rest (ts_iter unpack_state) = map BcStLoc [3, 2] @ []" "ts_exps unpack_state = [] @ [ExpLoc 0 Nop]"
    by (simp_all add: unpack_state_def sample_state_def)
  have l: "\<forall>i\<in>set [3, 2::8 word]. unat i < length (te_locals (unpack_env sample_vendor))"
    by (simp add: unpack_env_def sample_env_def sample_locals_def)
  from unpack_binds_fields[OF d _ s(1,2) _ l s(3), of _ 3] show ?thesis
    by (auto simp: unpack_env_def ua_defs sample_module_def)
qed

section \<open>Traps\<close>



section \<open>Ranges and text\<close>

text \<open>\<open>find_range\<close> returns the least and the greatest offset of the ranges it is given,
  and nothing when there is none.\<close>

theorem find_range_min_max:
  "find_range rs =
     (let S = {n. \<exists>a b. Some (a, b) \<in> set rs \<and> (n = a \<or> n = b)}
      in if S = {} then None else Some (Min S, Max S))"
proof -
  define xs where "xs = concat (map (\<lambda>p. case p of None \<Rightarrow> [] | Some (a, b) \<Rightarrow> [a, b]) rs)"
  define S where "S = {n. \<exists>a b. Some (a, b) \<in> set rs \<and> (n = a \<or> n = b)}"
  have S: "S = set (sort xs)"
    unfolding S_def xs_def by (force split: option.splits)
  show ?thesis
  proof (cases "sort xs")
    case Nil
    then show ?thesis using S by (simp add: find_range_def xs_def[symmetric] S_def[symmetric])
  next
    case (Cons f rest)
    have so: "sorted (f # rest)" using Cons by (metis sorted_sort)
    have "Min S = f"
      unfolding S Cons using so by (intro Min_eqI) auto
    moreover have "Max S = last (f # rest)"
      unfolding S Cons using so sorted_le_last[OF so] by (intro Max_eqI) auto
    moreover have "S \<noteq> {}" using S Cons by auto
    ultimately show ?thesis
      using Cons by (simp add: find_range_def xs_def[symmetric] S_def[symmetric])
  qed
qed

theorem find_range_min_max_witness:
  "find_range [Some (3, 7), None, Some (2, 5)] = Some (2, 7)"
proof -
  have S: "{n. \<exists>a b. Some (a, b) \<in> set [Some (3, 7), None, Some (2, 5)] \<and> (n = a \<or> n = b)} =
      {3, 7, 2, 5::nat}" by auto
  show ?thesis unfolding find_range_min_max S Let_def by simp
qed

text \<open>C11: negation is printed without parentheses: the code of \<open>!(a && b)\<close> and the code of
  \<open>(!a) && b\<close> disassemble to the same text, although they return different values.\<close>

definition negated_and :: code_unit where
  "negated_and = \<lparr>cu_locals = 1, cu_code = [BcCopyLoc 0, BcCopyLoc 1, BcAnd, BcNot, BcRet]\<rparr>"

definition and_of_negation :: code_unit where
  "and_of_negation = \<lparr>cu_locals = 1, cu_code = [BcCopyLoc 0, BcNot, BcCopyLoc 1, BcAnd, BcRet]\<rparr>"

lemmas run_simps = body_new_def locals_new_def ua_defs sample_script_def sample_params_def
  translator_new_def iter_new_def opcode_offset_def iter_index_def iter_next_def next_exp_def
  loc_exp_new_def get_local_var_def binary_op_exp_def pop2_exp_def pop_exp_def not_exp_def
  unary_exp_def ret_exp_def basket_def push_exp_def mark_as_used_def local_cell_def



end
