(* ===== verification/Dis_Ranges.thy ===== *)
theory Dis_Ranges
  imports Dis_Straight
begin

text \<open>
  Where an expression begins. The translator recognises a loop by the position its condition
  starts at (\<open>source_range\<close> in \<open>code/mod.rs\<close> and \<open>code/exp/*.rs\<close>); the expression that code
  without statements leaves behind starts where the code starts (\<open>condition_starts\<close>).
\<close>

section \<open>Ranges\<close>

abbreviation start_of :: "exp_loc \<Rightarrow> nat" where
  "start_of x \<equiv> fst (loc_range x)"

lemma sorted_hd_last: "sorted (f # rest) \<Longrightarrow> f \<le> last (f # rest)"
  by (cases rest) (simp_all add: last_in_set)

lemma find_range_ordered: "find_range rs = Some (l, r) \<Longrightarrow> l \<le> r"
  by (auto simp: find_range_def split: list.splits dest!: arg_cong[where f = sorted] intro: sorted_hd_last)

lemma loc_range_ordered: "\<forall>l r. exp_source_range e = Some (l, r) \<longrightarrow> l \<le> r"
  "fst (loc_range x) \<le> snd (loc_range x)"
  "\<forall>l r. call_source_range c = Some (l, r) \<longrightarrow> l \<le> r"
  "fst (field_range fd) \<le> snd (field_range fd)"
  "\<forall>l r. block_source_range b = Some (l, r) \<longrightarrow> l \<le> r"
  by (induction e and x and c and fd and b)
    (auto intro: find_range_ordered split: option.split)

lemma start_le_index: "start_of x \<le> loc_index x"
  by (cases x) (auto split: option.split)

lemma find_range_start:
  assumes "sorted (map start_of xs)" "xs \<noteq> []"
  shows "\<exists>r. find_range (map (\<lambda>x. Some (loc_range x)) xs) = Some (start_of (hd xs), r)"
proof -
  define ends where "ends = concat (map (\<lambda>x. [start_of x, snd (loc_range x)]) xs)"
  have e: "concat (map (\<lambda>p. case p of None \<Rightarrow> [] | Some (a, b) \<Rightarrow> [a, b]) (map (\<lambda>x. Some (loc_range x)) xs)) = ends"
    by (simp add: ends_def comp_def case_prod_unfold)
  have s: "set ends = (\<Union>x\<in>set xs. {start_of x, snd (loc_range x)})" by (auto simp: ends_def)
  have "ends \<noteq> []" using assms(2) by (cases xs) (simp_all add: ends_def)
  then obtain f rest where f: "sort ends = f # rest" by (cases "sort ends") (auto simp flip: set_empty)
  have least: "f \<in> set ends" "\<forall>y\<in>set ends. f \<le> y"
    using f by (metis list.set_intros(1) set_sort, metis f set_ConsD set_sort sorted_sort sorted_simps(2) order_refl)
  have hd: "start_of (hd xs) \<in> set ends" "\<forall>x\<in>set xs. start_of (hd xs) \<le> start_of x"
    using assms by (cases xs; auto simp: s)+
  from hd(2) have "\<forall>y\<in>set ends. start_of (hd xs) \<le> y"
    using loc_range_ordered(2) by (fastforce simp: s intro: order_trans)
  with least hd(1) have "f = start_of (hd xs)" by (meson antisym)
  then show ?thesis unfolding find_range_def e f by simp
qed

section \<open>Operands\<close>

fun operands :: "exp \<Rightarrow> exp_loc list" where
  "operands (Cast e t) = [e]"
| "operands (FnCall (BuildIn k n ts ps)) = ps"
| "operands (FnCall (Plain m n ts ps)) = ps"
| "operands (BinaryOp l p r) = [l, r]"
| "operands (Basket e) = [e]"
| "operands (NotExp e) = [e]"
| "operands (Pack m n ts fs) = map pf_value fs"
| "operands (FieldRef m n e) = [e]"
| "operands (Deref e) = [e]"
| "operands e = []"

lemma field_range_value: "field_range f = loc_range (pf_value f)"
  by (cases f) simp

lemma find_range_one: "find_range [Some (loc_range e)] = Some (loc_range e)"
  using loc_range_ordered(2)[of e] by (cases "loc_range e") (simp add: find_range_def)

text \<open>Expressions without statements inside.\<close>

definition value_exp :: "exp \<Rightarrow> bool" where
  "value_exp e \<longleftrightarrow> exp_source_range e = find_range (map (\<lambda>x. Some (loc_range x)) (operands e))"

lemma value_exp_call [simp]: "value_exp (FnCall c)"
  by (cases c) (simp_all add: value_exp_def)

lemma value_exp_simps [simp]:
  "value_exp (Cast e t)" "value_exp (BinaryOp x p y)" "value_exp (Basket e)"
  "value_exp (NotExp e)" "value_exp (Pack m n ts fs)" "value_exp (FieldRef q n e)" "value_exp (Deref e)"
  "value_exp (Ld v)" "value_exp (Local k a l)" "value_exp (Ref q l)"
  by (simp_all add: value_exp_def find_range_one field_range_value comp_def, simp_all add: find_range_def)

lemma value_exp_start:
  assumes "value_exp e" "sorted (map start_of (operands e) @ [k])"
  shows "start_of (ExpLoc k e) = hd (map start_of (operands e) @ [k])"
proof (cases "operands e")
  case Nil
  with assms(1) show ?thesis by (simp add: value_exp_def find_range_def)
next
  case (Cons x xs)
  from assms(2) have s: "sorted (map start_of (operands e))" "start_of x \<le> k" by (simp_all add: Cons sorted_append)
  from find_range_start[OF s(1)] Cons obtain r where
    "find_range (map (\<lambda>x. Some (loc_range x)) (operands e)) = Some (start_of x, r)" by auto
  with assms(1) s(2) Cons show ?thesis by (simp add: value_exp_def)
qed

lemma start_basket: "start_of (basket e) = start_of e"
  using start_le_index[of e] by (cases e; cases "loc_exp e") (simp_all add: basket_def split: option.split prod.split)

text \<open>What an instruction leaves behind: the operands of the expression start where the last
  pending expressions start.\<close>

definition takes :: "exp_loc list \<Rightarrow> exp_loc list \<Rightarrow> tstate \<Rightarrow> exp \<Rightarrow> tstate \<Rightarrow> bool" where
  "takes xs ps t e t' \<longleftrightarrow>
     dropped xs t t' \<and> value_exp e \<and> map start_of (operands e) = map start_of ps"

lemma takes_unary:
  assumes "ts_exps t = xs @ ps" "length ps = 1" "unary_exp mk t = (e, t')"
    and "\<And>a. value_exp (mk a)" "\<And>a. operands (mk a) = [a]"
  shows "takes xs ps t e t'"
  using assms
  by (cases ps) (auto simp: unary_exp_def takes_def dropped_def pop_exp_snoc)

lemma takes_binary:
  assumes "ts_exps t = xs @ ps" "length ps = 2" "binary_op_exp p t = (e, t')"
  shows "takes xs ps t e t'"
proof -
  obtain a b where "ps = [a, b]" using assms(2) by (cases ps; cases "tl ps") auto
  with assms show ?thesis by (auto simp: binary_op_exp_def takes_def dropped_def pop2_exp_snoc start_basket)
qed

lemma takes_call:
  assumes "ts_exps t = xs @ ps" "length ps = parameters_of E f" "fn_call_plain E f tps t = Inr (e, t')"
  shows "takes xs ps t e t'"
  using assms pop_exp_vec_append[OF assms(1,2)]
  by (auto simp: fn_call_plain_def parameters_of_def Let_def rbind_eq_Inr_iff takes_def dropped_def)

lemma takes_build_in:
  assumes "ts_exps t = xs @ ps" "length ps = parameters_count k" "fn_call_build_in k E i tps t = Inr (e, t')"
    and "ua_struct_def (te_unit E) i = Some d"
  shows "takes xs ps t e t'"
  using assms pop_exp_vec_append[OF assms(1,2)]
  by (auto simp: fn_call_build_in_def Let_def rbind_eq_Inr_iff takes_def dropped_def)

lemma takes_pack:
  assumes "ts_exps t = xs @ ps" "field_names E i = Some ns" "length ps = length ns" "pack_exp E i tps t = Inr (e, t')"
  shows "takes xs ps t e t'"
proof -
  from field_names_Some[OF assms(2)] obtain d fds where d: "ua_struct_def (te_unit E) i = Some d"
    "sd_field_information d = Declared fds" "ns = map (\<lambda>f. ua_identifier (te_unit E) (fld_name f)) fds" by blast
  have l: "length ps = length fds" using assms(3) d(3) by simp
  have v: "map pf_value (map (\<lambda>(e, f). PackField (ua_identifier (te_unit E) (fld_name f)) e) (zip ps fds)) = ps"
    using l by (induction ps fds rule: list_induct2) auto
  from assms(4) d pop_exp_vec_append[OF assms(1) l] v show ?thesis
    by (auto simp: pack_exp_def pack_fields_def Let_def rbind_eq_Inr_iff takes_def dropped_def)
qed

lemma takes_single:
  assumes "ts_exps t = xs @ ps" "next_exp tb E b t = Inr (e, t')" "vm_value A E b args s = Some r"
    and "length args = length ps" "b \<noteq> BcFreezeRef"
    and g: "binary_operator b = None" "called_function E b = None" "called_build_in E b = None"
      "packed_struct E b = None" "borrowed_field E b = None"
  shows "takes xs ps t e t'"
proof (cases "b \<in> {BcNot, BcCastU8, BcCastU64, BcCastU128, BcReadRef}")
  case True
  then obtain f where "one_operand f args s = Some r" using assms(3) by (auto simp: vm_value_def)
  from one_operand_Some[OF this] assms(4) have l: "length ps = 1" by auto
  from True assms(2) obtain mk where "unary_exp mk t = (e, t')" "\<And>a. value_exp (mk a)" "\<And>a. operands (mk a) = [a]"
    by (auto simp: next_exp_def not_exp_def cast_exp_def deref_exp_def)
  from takes_unary[OF assms(1) l this] show ?thesis .
next
  case False
  then obtain w where "no_operand w args = Some r"
    using assms(3,5) g by (cases b) (auto simp: vm_value_def)
  with assms(4) have p: "ps = []" "args = []" by (auto dest: no_operand_Some)
  from False assms(2,3,5) g have "dropped (ts_exps t) t t' \<and> value_exp e \<and> operands e = []"
    by (cases b)
      (auto simp: vm_value_def next_exp_def loc_exp_new_def ref_exp_def rbind_eq_Inr_iff dropped_def
        no_operand_def split: if_splits exp.splits)
  with p assms(1) show ?thesis by (simp add: takes_def)
qed

lemma value_takes:
  assumes "ts_exps t = xs @ ps" "next_exp tb E b t = Inr (e, t')" "vm_value A E b args s = Some r"
    and "length args = length ps" "b \<noteq> BcFreezeRef"
  shows "takes xs ps t e t'"
proof -
  consider (bin) p where "binary_operator b = Some p"
    | (call) f tps where "called_function E b = Some (f, tps)"
    | (build_in) k i tps where "called_build_in E b = Some (k, i, tps)"
    | (pack) i tps where "packed_struct E b = Some (i, tps)"
    | (field) m n where "borrowed_field E b = Some (m, n)"
    | (single) "binary_operator b = None" "called_function E b = None" "called_build_in E b = None"
      "packed_struct E b = None" "borrowed_field E b = None"
    by fastforce
  then show ?thesis
  proof cases
    case (bin p)
    with assms(2,3,4) show ?thesis
      by (intro takes_binary[OF assms(1)]) (auto simp: vm_value_binary next_exp_binary[OF bin] split: list.splits)
  next
    case (call f tps)
    with assms(2,3,4) show ?thesis
      by (intro takes_call[OF assms(1)])
        (auto simp: vm_value_call[OF call] vm_call_def Let_def next_exp_call[OF call] split: if_splits)
  next
    case (build_in k i tps)
    from assms(3) obtain d where "ua_struct_def (te_unit E) i = Some d" "length args = parameters_count k"
      by (auto simp: vm_value_build_in[OF build_in] vm_build_in_def Let_def split: if_splits option.splits sum.splits)
    with assms(2,4) show ?thesis by (intro takes_build_in[OF assms(1)]) (simp_all add: next_exp_build_in[OF build_in])
  next
    case (pack i tps)
    from assms(3) obtain ns where "field_names E i = Some ns" "length args = length ns"
      by (auto simp: vm_value_pack[OF pack] vm_pack_def Let_def split: if_splits option.splits sum.splits)
    with assms(2,4) takes_pack[OF assms(1)] show ?thesis by (simp add: next_exp_pack[OF pack])
  next
    case (field m n)
    from assms(3,4) have l: "length ps = 1"
      by (auto simp: vm_value_field[OF field] dest: one_operand_Some)
    have u: "unary_exp (FieldRef m n) t = (e, t')"
      using assms(2) by (simp add: next_exp_field[OF field] unary_exp_def)
    show ?thesis by (rule takes_unary[OF assms(1) l u]) simp_all
  next
    case single
    show ?thesis by (rule takes_single[OF assms single])
  qed
qed

section \<open>The code of a condition\<close>

text \<open>The condition of a loop is an expression: no statement and no call without a result. A
  \<open>FreezeRef\<close> keeps the expression of its operand, but not where that starts.\<close>

definition expression_code :: "tenv \<Rightarrow> bytecode list \<Rightarrow> bool" where
  "expression_code E c = (\<forall>b\<in>set c. \<not> statement_op b \<and> pushes_value E b \<and> b \<noteq> BcFreezeRef)"

text \<open>Pending expressions of the code from \<open>o'\<close> up to \<open>pc\<close>.\<close>

definition ordered_from :: "nat \<Rightarrow> nat \<Rightarrow> exp_loc list \<Rightarrow> bool" where
  "ordered_from o' pc ps \<longleftrightarrow>
     sorted (map start_of ps) \<and> (\<forall>p\<in>set ps. start_of p < pc) \<and>
     (if ps = [] then pc = o' else start_of (hd ps) = o')"

lemma ordered_from_step:
  assumes "ordered_from o' pc (ps @ qs)" "value_exp e" "map start_of (operands e) = map start_of qs"
  shows "ordered_from o' (Suc pc) (ps @ [ExpLoc pc e])"
proof -
  have s: "sorted (map start_of qs @ [pc])" using assms(1) by (auto simp: ordered_from_def sorted_append less_imp_le)
  have e: "start_of (ExpLoc pc e) = hd (map start_of qs @ [pc])"
    using value_exp_start[OF assms(2), of pc] s assms(3) by simp
  have "\<forall>p\<in>set ps. start_of p \<le> hd (map start_of qs @ [pc])"
    using assms(1) by (cases qs) (auto simp: ordered_from_def sorted_append)
  moreover have "hd (map start_of qs @ [pc]) < Suc pc"
    using assms(1) by (cases qs) (auto simp: ordered_from_def)
  moreover have "ps = [] \<Longrightarrow> hd (map start_of qs @ [pc]) = o'"
    using assms(1) by (cases qs) (auto simp: ordered_from_def)
  ultimately show ?thesis
    using assms(1) e by (cases ps) (auto simp: ordered_from_def sorted_append simp del: loc_range.simps)
qed

lemma turn_ordered:
  assumes "plain_turn E t = Inr t'" "stands code pc t" "drop pc code = b # rest"
    and "vm_step A E b (stk, s) = Some (stk', s')" "\<not> statement_op b" "pushes_value E b" "b \<noteq> BcFreezeRef"
    and "ts_exps t = base @ ps" "length ps = length stk" "ordered_from o' pc ps"
  shows "\<exists>ps'. ts_exps t' = base @ ps' \<and> length ps' = length stk' \<and> ordered_from o' (Suc pc) ps' \<and>
     stands code (Suc pc) t'"
proof -
  from stands_next[OF assms(2,3)] obtain it where it: "iter_next (ts_iter t) = (Some b, it)" "iter_index it = pc"
    "stands code (Suc pc) (t\<lparr>ts_iter := it\<rparr>)" by blast
  with assms(1) obtain e t1 where e: "next_exp (\<lambda>_ _. Inl OutOfFuel) E b (t\<lparr>ts_iter := it\<rparr>) = Inr (e, t1)"
    "t' = push_exp e t1" by (auto simp: plain_turn_def rbind_eq_Inr_iff)
  define n where "n = length stk - vm_operands E b"
  from assms(4)[unfolded vm_step_value[OF assms(5)]] assms(6) obtain v where
    v: "vm_value A E b (drop n stk) s = Some (v, s')" "stk' = take n stk @ [v]"
    by (auto simp: n_def[symmetric] Let_def split: option.splits prod.splits)
  have "ts_exps (t\<lparr>ts_iter := it\<rparr>) = (base @ take n ps) @ drop n ps" using assms(8) by simp
  from value_takes[OF this e(1) v(1) _ assms(7)] assms(9) have
    k: "takes (base @ take n ps) (drop n ps) (t\<lparr>ts_iter := it\<rparr>) e t1" by simp
  then have i: "ts_iter t1 = it" "ts_exps t1 = base @ take n ps" by (simp_all add: takes_def dropped_def)
  have "ordered_from o' (Suc pc) (take n ps @ [ExpLoc pc e])"
    using k assms(10) by (intro ordered_from_step[of o' pc _ "drop n ps"]) (simp_all add: takes_def)
  with e(2) i it v(2) assms(9) show ?thesis
    by (auto simp: push_exp_def opcode_offset_def stands_def)
qed

lemma turns_ordered:
  assumes "plain_turns E (length bs) t = Inr t'" "stands code pc t" "drop pc code = bs @ rest"
    and "vm_steps A E bs (stk, s) = Some (stk', s')" "expression_code E bs"
    and "ts_exps t = base @ ps" "length ps = length stk" "ordered_from o' pc ps"
  shows "\<exists>ps'. ts_exps t' = base @ ps' \<and> length ps' = length stk' \<and> ordered_from o' (pc + length bs) ps'"
  using assms
proof (induction bs arbitrary: pc t stk s ps)
  case (Cons b bs)
  from Cons.prems(1) obtain t1 where t1: "plain_turn E t = Inr t1" "plain_turns E (length bs) t1 = Inr t'"
    by (auto simp: rbind_eq_Inr_iff)
  from Cons.prems(4) obtain stk1 s1 where v: "vm_step A E b (stk, s) = Some (stk1, s1)"
    "vm_steps A E bs (stk1, s1) = Some (stk', s')" by (auto simp: Option.bind_eq_Some_conv)
  have d: "drop pc code = b # (bs @ rest)" using Cons.prems(3) by simp
  have b: "\<not> statement_op b" "pushes_value E b" "b \<noteq> BcFreezeRef" "expression_code E bs"
    using Cons.prems(5) by (auto simp: expression_code_def)
  from turn_ordered[OF t1(1) Cons.prems(2) d v(1) b(1-3) Cons.prems(6-8)] obtain ps1 where
    p: "ts_exps t1 = base @ ps1" "length ps1 = length stk1" "ordered_from o' (Suc pc) ps1"
    "stands code (Suc pc) t1" by blast
  have "drop (Suc pc) code = bs @ rest" using d by (metis drop_Suc list.sel(3) tl_drop)
  from Cons.IH[OF t1(2) p(4) this v(2) b(4) p(1-3)] show ?case by simp
qed auto

text \<open>The expression of a condition starts where its code starts.\<close>

lemma condition_starts:
  assumes "plain_turns E (length c) t = Inr t'" "stands code o' t" "drop o' code = c @ rest"
    and "vm_steps A E c ([], s) = Some ([v], s')" "expression_code E c"
  shows "\<exists>e. ts_exps t' = ts_exps t @ [e] \<and> start_of e = o'"
proof -
  have "ordered_from o' o' []" by (simp add: ordered_from_def)
  from turns_ordered[OF assms _ _ this, of "ts_exps t"] obtain ps where
    "ts_exps t' = ts_exps t @ ps" "length ps = 1" "ordered_from o' (o' + length c) ps" by auto
  then show ?thesis by (cases ps) (auto simp: ordered_from_def)
qed

end
