(* ===== verification/Dis_Jumps.thy ===== *)
theory Dis_Jumps
  imports Dis_Ranges
begin

text \<open>
  Code with jumps. \<open>vm_exec\<close> is the stack machine of \<open>Dis_Meaning\<close> with a program counter;
  \<open>assemble\<close> lays out conditionals and loops the way the Move compiler does; \<open>run_pieces\<close> runs
  such a program by its structure, which is what the machine does (\<open>machine_iff_pieces\<close>).
\<close>

section \<open>Sequencing and loops\<close>

definition then_run ::
    "('v outcome \<times> 's) option \<Rightarrow> ('s \<Rightarrow> ('v outcome \<times> 's) option) \<Rightarrow> ('v outcome \<times> 's) option" where
  "then_run m f = (case m of Some (Running, s) \<Rightarrow> f s | _ \<Rightarrow> m)"

text \<open>The fuel bounds the turns of the loop.\<close>

primrec while_run ::
    "nat \<Rightarrow> ('s \<Rightarrow> (bool \<times> 's) option) \<Rightarrow> ('s \<Rightarrow> ('v outcome \<times> 's) option) \<Rightarrow> 's \<Rightarrow>
     ('v outcome \<times> 's) option" where
  "while_run 0 c b s = None"
| "while_run (Suc n) c b s =
     Option.bind (c s) (\<lambda>(t, s1).
       if t then then_run (b s1) (while_run n c b) else Some (Running, s1))"

lemma then_run_simps [simp]:
  "then_run None f = None"
  "then_run (Some (Running, s)) f = f s"
  "o' \<noteq> Running \<Longrightarrow> then_run (Some (o', s)) f = Some (o', s)"
  by (cases o'; simp add: then_run_def)+

lemma then_run_assoc: "then_run (then_run m f) g = then_run m (\<lambda>s. then_run (f s) g)"
  by (simp add: then_run_def split: option.split outcome.split)

lemma then_run_Some:
  "then_run m f = Some r \<longleftrightarrow>
     (\<exists>s. m = Some (Running, s) \<and> f s = Some r) \<or> (fst r \<noteq> Running \<and> m = Some r)"
  by (auto simp: then_run_def split: option.splits prod.splits outcome.splits)

section \<open>The machine\<close>

text \<open>The machine from position \<open>pc\<close> of \<open>code\<close>: a conditional jump takes the only value on the
  stack, \<open>T\<close> tells which values are true. The fuel bounds the instructions executed.\<close>

primrec vm_exec ::
    "nat \<Rightarrow> ('v, 's) algebra \<Rightarrow> ('v \<Rightarrow> bool) \<Rightarrow> tenv \<Rightarrow> bytecode list \<Rightarrow> nat \<Rightarrow> 'v list \<times> 's \<Rightarrow>
     ('v outcome \<times> 's) option" where
  "vm_exec 0 A T E code pc c = None"
| "vm_exec (Suc n) A T E code pc c =
     (if length code \<le> pc
      then (if pc = length code \<and> fst c = [] then Some (Running, snd c) else None)
      else case code ! pc of
             BcBranch t \<Rightarrow> (if fst c = [] then vm_exec n A T E code (unat t) c else None)
           | BcBrTrue t \<Rightarrow>
               (case fst c of
                  [v] \<Rightarrow> vm_exec n A T E code (if T v then unat t else Suc pc) ([], snd c)
                | _ \<Rightarrow> None)
           | BcRet \<Rightarrow> vm_final E BcRet c
           | BcAbort \<Rightarrow> vm_final E BcAbort c
           | b \<Rightarrow> Option.bind (vm_step A E b c) (vm_exec n A T E code (Suc pc)))"

declare vm_exec.simps(2) [simp del]

lemma vm_exec_plain:
  assumes "plain_op b" "drop pc code = b # rest"
  shows "vm_exec (Suc n) A T E code pc c = Option.bind (vm_step A E b c) (vm_exec n A T E code (Suc pc))"
proof -
  have "pc < length code" "code ! pc = b"
    using assms(2) by (auto simp: drop_Cons' nth_via_drop intro: ccontr)
  with assms(1) show ?thesis by (cases b) (simp_all add: plain_op_def vm_exec.simps(2))
qed

lemma drop_Suc_eq: "drop pc code = b # rest \<Longrightarrow> drop (Suc pc) code = rest"
  by (metis drop_Suc list.sel(3) tl_drop)

lemma vm_exec_steps:
  assumes "\<forall>b\<in>set bs. plain_op b" "drop pc code = bs @ rest"
  shows "vm_exec (length bs + n) A T E code pc c =
     Option.bind (vm_steps A E bs c) (vm_exec n A T E code (pc + length bs))"
  using assms
proof (induction bs arbitrary: pc c)
  case (Cons b bs)
  then have "vm_exec (length bs + n) A T E code (Suc pc) =
      (\<lambda>c'. Option.bind (vm_steps A E bs c') (vm_exec n A T E code (Suc pc + length bs)))"
    by (intro ext Cons.IH) (auto dest: drop_Suc_eq)
  moreover have "vm_exec (Suc (length bs + n)) A T E code pc c =
      Option.bind (vm_step A E b c) (vm_exec (length bs + n) A T E code (Suc pc))"
    using Cons.prems by (intro vm_exec_plain[of b pc code "bs @ rest"]) simp_all
  ultimately show ?case by simp
qed simp

lemma vm_exec_steps_fuel:
  assumes "\<forall>b\<in>set bs. plain_op b" "drop pc code = bs @ rest" "vm_exec m A T E code pc c = Some r"
  shows "length bs \<le> m"
  using assms
proof (induction bs arbitrary: pc c m)
  case (Cons b bs)
  then obtain m' where m: "m = Suc m'" by (cases m) auto
  have "vm_exec (Suc m') A T E code pc c = Option.bind (vm_step A E b c) (vm_exec m' A T E code (Suc pc))"
    using Cons.prems(1,2) by (intro vm_exec_plain[of b pc code "bs @ rest"]) simp_all
  with Cons.prems(3) m obtain c' where "vm_exec m' A T E code (Suc pc) c' = Some r"
    by (auto simp: Option.bind_eq_Some_conv)
  with Cons.IH[of "Suc pc" m' c'] Cons.prems(1,2) m show ?case by (auto dest: drop_Suc_eq)
qed simp

section \<open>The stack discipline\<close>

text \<open>Whether an instruction runs depends on the height of the stack only, so that code is
  checked on the algebra with one value.\<close>

definition unit_algebra :: "(unit, unit) algebra" where
  "unit_algebra =
     \<lparr>al_ld = \<lambda>_. (), al_binary = \<lambda>_ _ _ s. ((), s), al_not = \<lambda>_ s. ((), s), al_cast = \<lambda>_ _ s. ((), s),
      al_load = \<lambda>_ s. ((), s), al_borrow = \<lambda>_ _ s. ((), s), al_field = \<lambda>_ _ _ s. ((), s),
      al_read = \<lambda>_ s. ((), s), al_call = \<lambda>_ _ _ _ s. ((), s), al_build_in = \<lambda>_ _ _ _ s. ((), s),
      al_pack = \<lambda>_ _ _ _ s. ((), s), al_store = \<lambda>_ _ s. s, al_write = \<lambda>_ _ s. s\<rparr>"

definition leaves :: "tenv \<Rightarrow> bytecode list \<Rightarrow> nat \<Rightarrow> bool" where
  "leaves E bs h = (map_option (length \<circ> fst) (vm_steps unit_algebra E bs ([], ())) = Some h)"

lemma vm_value_defined:
  "vm_value A E b args s \<noteq> None \<longleftrightarrow> vm_value B E b (map f args) s' \<noteq> None"
proof -
  have l: "length (map f args) = length args" by simp
  have one: "one_operand g args s \<noteq> None \<longleftrightarrow> one_operand g' (map f args) s' \<noteq> None" for g g'
    by (cases args; cases "tl args") (auto simp: one_operand_def)
  show ?thesis
  proof (cases "binary_operator b")
    case (Some p)
    then show ?thesis by (cases args; cases "tl args"; cases "tl (tl args)") (auto simp: vm_value_binary)
  next
    case None
    show ?thesis
    proof (cases b)
    qed (use None one in \<open>auto simp: vm_value_def group_defs no_operand_def with_local_def vm_call_def
      vm_build_in_def vm_pack_def Let_def split: option.splits sum.splits exp.splits\<close>)
  qed
qed

lemma vm_step_height:
  "map_option (length \<circ> fst) (vm_step A E b (stk, s)) =
   map_option (length \<circ> fst) (vm_step unit_algebra E b (map (\<lambda>_. ()) stk, ()))"
proof (cases "statement_op b")
  case True
  then consider "b = BcNop" | "b = BcPop" | i where "b = BcStLoc i" | "b = BcWriteRef" | "b = BcRet" | "b = BcAbort"
    by (cases b) (simp_all add: statement_op_def)
  then show ?thesis
    by cases (cases stk; cases "tl stk"; cases "tl (tl stk)";
      simp add: vm_step_def with_local_def vm_value_def group_defs Let_def)+
next
  case False
  let ?n = "length stk - vm_operands E b"
  have step: "vm_step B E b (xs, t) =
      (case vm_value B E b (drop (length xs - vm_operands E b) xs) t of
         None \<Rightarrow> None
       | Some (v, t') \<Rightarrow>
           if pushes_value E b then Some (take (length xs - vm_operands E b) xs @ [v], t')
           else if unit_call E b \<and> take (length xs - vm_operands E b) xs = [] then Some ([], t') else None)"
    for B :: "('x, 'y) algebra" and xs t
    by (simp add: vm_step_value[OF False] Let_def)
  have "vm_value A E b (drop ?n stk) s \<noteq> None \<longleftrightarrow>
      vm_value unit_algebra E b (map (\<lambda>_. ()) (drop ?n stk)) () \<noteq> None"
    by (rule vm_value_defined)
  then show ?thesis
    unfolding step by (auto simp: drop_map split: option.splits)
qed

lemma unit_list_eq: "length xs = length ys \<Longrightarrow> map (\<lambda>_. ()) ys = (xs :: unit list)"
  by (induction xs ys rule: list_induct2) simp_all

lemma vm_steps_height:
  "map_option (length \<circ> fst) (vm_steps A E bs (stk, s)) =
   map_option (length \<circ> fst) (vm_steps unit_algebra E bs (map (\<lambda>_. ()) stk, ()))"
proof (induction bs arbitrary: stk s)
  case (Cons b bs)
  show ?case
  proof (cases "vm_step A E b (stk, s)")
    case None
    with vm_step_height[of A E b stk s] show ?thesis by simp
  next
    case (Some c)
    obtain stk' s' where c: "c = (stk', s')" by (cases c)
    from vm_step_height[of A E b stk s] Some c obtain us where
      u: "vm_step unit_algebra E b (map (\<lambda>_. ()) stk, ()) = Some (us, ())" "length us = length stk'"
      by (cases "vm_step unit_algebra E b (map (\<lambda>_. ()) stk, ())") auto
    have "map (\<lambda>_. ()) stk' = us" using unit_list_eq[of us stk'] u(2) by simp
    with Some c u(1) Cons.IH[of stk' s'] show ?thesis by simp
  qed
qed simp

lemma leaves_runs:
  assumes "leaves E bs h"
  shows "\<exists>stk s'. vm_steps A E bs ([], s) = Some (stk, s') \<and> length stk = h"
  using assms vm_steps_height[of A E bs "[]" s] by (auto simp: leaves_def)

lemma leaves_plain: "leaves E bs h \<Longrightarrow> \<forall>b\<in>set bs. plain_op b"
  by (auto simp: leaves_def dest: vm_steps_plain)

section \<open>Programs with conditionals and loops\<close>

text \<open>The code of a condition pushes one value; \<open>Leave\<close> ends a program with \<open>Ret\<close> or \<open>Abort\<close>.\<close>

datatype piece =
    Line "bytecode list"
  | Leave "bytecode list" bytecode
  | IfThen "bytecode list" "piece list"
  | IfThenElse "bytecode list" "piece list" "piece list"
  | WhileDo "bytecode list" "piece list"

fun code_size :: "piece list \<Rightarrow> nat" where
  "code_size [] = 0"
| "code_size (Line bs # ps) = length bs + code_size ps"
| "code_size (Leave bs b # ps) = length bs + 1 + code_size ps"
| "code_size (IfThen c t # ps) = length c + 2 + code_size t + code_size ps"
| "code_size (IfThenElse c t f # ps) = length c + 2 + code_size t + 1 + code_size f + code_size ps"
| "code_size (WhileDo c t # ps) = length c + 2 + code_size t + 1 + code_size ps"

text \<open>The code of a program at position \<open>o\<close>, with absolute jumps: a condition is followed by a
  jump to the code behind the next instruction and a jump to the code for the other case.\<close>

definition branch_to :: "nat \<Rightarrow> bytecode" where
  "branch_to n = BcBranch (of_nat n)"

definition test_jumps :: "nat \<Rightarrow> nat \<Rightarrow> bytecode list" where
  "test_jumps t f = [BcBrTrue (of_nat t), branch_to f]"

fun assemble :: "nat \<Rightarrow> piece list \<Rightarrow> bytecode list" where
  "assemble o' [] = []"
| "assemble o' (Line bs # ps) = bs @ assemble (o' + length bs) ps"
| "assemble o' (Leave bs b # ps) = bs @ [b] @ assemble (o' + length bs + 1) ps"
| "assemble o' (IfThen c t # ps) =
     (let m = o' + length c + 2; e = m + code_size t
      in c @ test_jumps m e @ assemble m t @ assemble e ps)"
| "assemble o' (IfThenElse c t f # ps) =
     (let m = o' + length c + 2; n = m + code_size t + 1; e = n + code_size f
      in c @ test_jumps m n @ assemble m t @ [branch_to e] @ assemble n f @ assemble e ps)"
| "assemble o' (WhileDo c t # ps) =
     (let m = o' + length c + 2; e = m + code_size t + 1
      in c @ test_jumps m e @ assemble m t @ [branch_to o'] @ assemble e ps)"

lemma length_assemble [simp]: "length (assemble o' ps) = code_size ps"
  by (induction o' ps rule: assemble.induct) (simp_all add: Let_def test_jumps_def)

fun well_formed :: "tenv \<Rightarrow> piece list \<Rightarrow> bool" where
  "well_formed E [] = True"
| "well_formed E (Line bs # ps) = (bs \<noteq> [] \<and> leaves E bs 0 \<and> well_formed E ps)"
| "well_formed E (Leave bs b # ps) =
     (ps = [] \<and> (b = BcRet \<and> leaves E bs (te_ret_len E) \<or> b = BcAbort \<and> leaves E bs 1))"
| "well_formed E (IfThen c t # ps) = (leaves E c 1 \<and> well_formed E t \<and> well_formed E ps)"
| "well_formed E (IfThenElse c t f # ps) =
     (leaves E c 1 \<and> well_formed E t \<and> well_formed E f \<and> well_formed E ps)"
| "well_formed E (WhileDo c t # ps) =
     (leaves E c 1 \<and> expression_code E c \<and> well_formed E t \<and> well_formed E ps)"

text \<open>Running a program by its structure.\<close>

definition run_condition ::
    "('v, 's) algebra \<Rightarrow> ('v \<Rightarrow> bool) \<Rightarrow> tenv \<Rightarrow> bytecode list \<Rightarrow> 's \<Rightarrow> (bool \<times> 's) option" where
  "run_condition A T E c s =
     (case vm_steps A E c ([], s) of Some ([v], s1) \<Rightarrow> Some (T v, s1) | _ \<Rightarrow> None)"

fun run_pieces ::
    "nat \<Rightarrow> ('v, 's) algebra \<Rightarrow> ('v \<Rightarrow> bool) \<Rightarrow> tenv \<Rightarrow> piece list \<Rightarrow> 's \<Rightarrow> ('v outcome \<times> 's) option" where
  "run_pieces n A T E [] s = Some (Running, s)"
| "run_pieces n A T E (Line bs # ps) s =
     Option.bind (vm_steps A E bs ([], s)) (\<lambda>(_, s1). run_pieces n A T E ps s1)"
| "run_pieces n A T E (Leave bs b # ps) s = Option.bind (vm_steps A E bs ([], s)) (vm_final E b)"
| "run_pieces n A T E (IfThen c t # ps) s =
     Option.bind (run_condition A T E c s) (\<lambda>(v, s1).
       then_run (if v then run_pieces n A T E t s1 else Some (Running, s1)) (run_pieces n A T E ps))"
| "run_pieces n A T E (IfThenElse c t f # ps) s =
     Option.bind (run_condition A T E c s) (\<lambda>(v, s1).
       then_run (if v then run_pieces n A T E t s1 else run_pieces n A T E f s1) (run_pieces n A T E ps))"
| "run_pieces n A T E (WhileDo c t # ps) s =
     then_run (while_run n (run_condition A T E c) (run_pieces n A T E t) s) (run_pieces n A T E ps)"

section \<open>Fuel\<close>

lemma while_run_mono:
  assumes "while_run n c b s = Some r" "n \<le> n'" "\<And>s x. b s = Some x \<Longrightarrow> b' s = Some x"
  shows "while_run n' c b' s = Some r"
  using assms(1,2)
proof (induction n arbitrary: s n')
  case (Suc n)
  then obtain n'' where n: "n' = Suc n''" "n \<le> n''" by (cases n') auto
  from Suc.prems(1) obtain t s1 where c: "c s = Some (t, s1)" by (auto simp: Option.bind_eq_Some_conv)
  show ?case
  proof (cases t)
    case True
    with Suc.prems(1) c have "then_run (b s1) (while_run n c b) = Some r" by simp
    then have "then_run (b' s1) (while_run n'' c b') = Some r"
      using Suc.IH[OF _ n(2)] assms(3)[of s1] by (cases r) (auto simp: then_run_Some)
    with c True n(1) show ?thesis by simp
  qed (use Suc.prems(1) c n(1) in simp)
qed simp

lemma run_pieces_mono:
  "run_pieces n A T E ps s = Some r \<Longrightarrow> n \<le> n' \<Longrightarrow> run_pieces n' A T E ps s = Some r"
proof (induction n A T E ps s arbitrary: r rule: run_pieces.induct)
  case (6 n A T E c t ps s)
  from 6(3) consider (go) s1 where "while_run n (run_condition A T E c) (run_pieces n A T E t) s = Some (Running, s1)"
      "run_pieces n A T E ps s1 = Some r"
    | (out) "fst r \<noteq> Running" "while_run n (run_condition A T E c) (run_pieces n A T E t) s = Some r"
    by (auto simp: then_run_Some)
  then show ?case
  proof cases
    case go
    from while_run_mono[OF go(1) 6(4), of "run_pieces n' A T E t"] 6(1)[OF _ 6(4)] 6(2)[OF go(2) 6(4)]
    show ?thesis by (simp add: then_run_Some)
  next
    case out
    from while_run_mono[OF out(2) 6(4), of "run_pieces n' A T E t"] 6(1)[OF _ 6(4)] out(1)
    show ?thesis by (simp add: then_run_Some)
  qed
qed (auto simp: Option.bind_eq_Some_conv then_run_Some split: if_splits)

section \<open>The machine runs a program by its structure\<close>

lemma leaves_test:
  assumes "leaves E c 1"
  shows "\<exists>v s1. vm_steps A E c ([], s) = Some ([v], s1) \<and> run_condition A T E c s = Some (T v, s1)"
proof -
  from leaves_runs[OF assms, of A s] obtain stk s1 where
    "vm_steps A E c ([], s) = Some (stk, s1)" "length stk = 1" by blast
  then show ?thesis by (cases stk) (simp_all add: run_condition_def)
qed

lemma leaves_none:
  assumes "leaves E c 0"
  shows "\<exists>s1. vm_steps A E c ([], s) = Some ([], s1)"
  using leaves_runs[OF assms, of A s] by auto

lemma drop_at: "drop o' code = bs @ rest \<Longrightarrow> drop (o' + length bs) code = rest"
  by (metis add.commute append_eq_conv_conj drop_drop)

lemma exec_branch:
  assumes "drop pc code = branch_to e # rest" "e < 2 ^ 16"
  shows "vm_exec (Suc n) A T E code pc ([], s) = vm_exec n A T E code e ([], s)"
proof -
  have "pc < length code" "code ! pc = branch_to e"
    using assms(1) by (auto simp: nth_via_drop intro: ccontr)
  with assms(2) show ?thesis
    by (simp add: vm_exec.simps(2) branch_to_def unat_of_nat take_bit_nat_eq_self)
qed

lemma exec_test:
  assumes "leaves E c 1" "drop o' code = c @ test_jumps m f @ rest" "m < 2 ^ 16" "f < 2 ^ 16"
    and "run_condition A T E c s = Some (t, s1)"
  shows "t \<Longrightarrow> vm_exec (length c + 1 + n) A T E code o' ([], s) = vm_exec n A T E code m ([], s1)"
    and "\<not> t \<Longrightarrow> vm_exec (length c + 2 + n) A T E code o' ([], s) = vm_exec n A T E code f ([], s1)"
proof -
  from leaves_test[OF assms(1), of A s T] assms(5) obtain v where
    v: "vm_steps A E c ([], s) = Some ([v], s1)" "t = T v" by auto
  let ?p = "o' + length c"
  have d: "drop ?p code = BcBrTrue (of_nat m) # branch_to f # rest"
    using drop_at[OF assms(2)] by (simp add: test_jumps_def)
  then have p: "?p < length code" "code ! ?p = BcBrTrue (of_nat m)"
    by (auto simp: nth_via_drop intro: ccontr)
  have br: "vm_exec (Suc n) A T E code ?p ([v], s1) =
      vm_exec n A T E code (if t then m else Suc ?p) ([], s1)" for n
    using p v(2) assms(3) by (simp add: vm_exec.simps(2) unat_of_nat take_bit_nat_eq_self)
  have c: "vm_exec (length c + n) A T E code o' ([], s) = vm_exec n A T E code ?p ([v], s1)" for n
    by (simp add: vm_exec_steps[OF leaves_plain[OF assms(1)] assms(2)] v(1))
  show "vm_exec (length c + 1 + n) A T E code o' ([], s) = vm_exec n A T E code m ([], s1)" if t
    using c[of "Suc n"] br[of n] that by simp
  show "vm_exec (length c + 2 + n) A T E code o' ([], s) = vm_exec n A T E code f ([], s1)" if "\<not> t"
    using c[of "Suc (Suc n)"] br[of "Suc n"] exec_branch[OF drop_Suc_eq[OF d] assms(4)] that by simp
qed

text \<open>From \<open>o\<close>, the machine arrives at \<open>e\<close> with the state of the outcome, or ends with it.\<close>

definition goes ::
    "('v, 's) algebra \<Rightarrow> ('v \<Rightarrow> bool) \<Rightarrow> tenv \<Rightarrow> bytecode list \<Rightarrow> nat \<Rightarrow> 's \<Rightarrow> 'v outcome \<times> 's \<Rightarrow> nat \<Rightarrow> bool" where
  "goes A T E code o' s x e \<longleftrightarrow>
     (\<exists>k. \<forall>n. vm_exec (k + n) A T E code o' ([], s) =
        (if fst x = Running then vm_exec n A T E code e ([], snd x) else Some x))"

lemma goes_trans:
  assumes "goes A T E code o' s (Running, s1) e" "goes A T E code e s1 x f"
  shows "goes A T E code o' s x f"
proof -
  from assms obtain j k where
    "\<And>n. vm_exec (j + n) A T E code o' ([], s) = vm_exec n A T E code e ([], s1)"
    "\<And>n. vm_exec (k + n) A T E code e ([], s1) =
        (if fst x = Running then vm_exec n A T E code f ([], snd x) else Some x)"
    by (auto simp: goes_def)
  then show ?thesis by (auto simp: goes_def intro!: exI[of _ "j + k"] simp: add.assoc)
qed

lemma goes_out: "goes A T E code o' s x e \<Longrightarrow> fst x \<noteq> Running \<Longrightarrow> goes A T E code o' s x f"
  by (simp add: goes_def)

lemma goes_self: "goes A T E code o' s (Running, s) o'"
  by (auto simp: goes_def intro: exI[of _ 0])

lemma goes_then:
  assumes "then_run m f = Some x" "\<And>y. m = Some y \<Longrightarrow> goes A T E code o' s y e"
    and "\<And>s'. f s' = Some x \<Longrightarrow> goes A T E code e s' x g"
  shows "goes A T E code o' s x g"
proof -
  from assms(1) consider (go) s' where "m = Some (Running, s')" "f s' = Some x"
    | (out) "fst x \<noteq> Running" "m = Some x" by (auto simp: then_run_Some)
  then show ?thesis
  proof cases
    case go
    show ?thesis by (rule goes_trans[OF assms(2)[OF go(1)] assms(3)[OF go(2)]])
  next
    case out
    show ?thesis by (rule goes_out[OF assms(2)[OF out(2)] out(1)])
  qed
qed

lemma goes_test:
  assumes "leaves E c 1" "drop o' code = c @ test_jumps m f @ rest" "m < 2 ^ 16" "f < 2 ^ 16"
    and "run_condition A T E c s = Some (t, s1)"
  shows "goes A T E code o' s (Running, s1) (if t then m else f)"
proof (cases t)
  case True
  with exec_test(1)[OF assms] show ?thesis by (auto simp: goes_def intro!: exI[of _ "length c + 1"])
next
  case False
  with exec_test(2)[OF assms] show ?thesis by (auto simp: goes_def intro!: exI[of _ "length c + 2"])
qed

lemma goes_branch: "drop pc code = branch_to e # rest \<Longrightarrow> e < 2 ^ 16 \<Longrightarrow> goes A T E code pc s (Running, s) e"
  using exec_branch by (auto simp: goes_def intro!: exI[of _ 1])

lemma goes_jump:
  assumes "goes A T E code o' s x b" "drop b code = branch_to e # rest" "e < 2 ^ 16"
  shows "goes A T E code o' s x e"
proof (cases "fst x = Running")
  case True
  then have x: "x = (Running, snd x)" by (cases x) simp
  with assms(1) have "goes A T E code o' s (Running, snd x) b" by metis
  from goes_trans[OF this goes_branch[OF assms(2,3)]] x show ?thesis by metis
qed (rule goes_out[OF assms(1)])

lemma goes_line:
  assumes "leaves E bs 0" "drop o' code = bs @ rest" "vm_steps A E bs ([], s) = Some (stk, s1)"
  shows "goes A T E code o' s (Running, s1) (o' + length bs)"
proof -
  have "stk = []" using assms(3) leaves_none[OF assms(1), of A s] by auto
  with assms(3) show ?thesis
    by (auto simp: goes_def vm_exec_steps[OF leaves_plain[OF assms(1)] assms(2)] intro!: exI[of _ "length bs"])
qed

lemma goes_leave:
  assumes "leaves E bs h" "drop o' code = bs @ b # rest" "b = BcRet \<or> b = BcAbort"
    and "Option.bind (vm_steps A E bs ([], s)) (vm_final E b) = Some x"
  shows "goes A T E code o' s x e"
proof -
  from assms(4) obtain c where c: "vm_steps A E bs ([], s) = Some c" "vm_final E b c = Some x"
    by (auto simp: Option.bind_eq_Some_conv)
  have d: "drop (o' + length bs) code = b # rest" using drop_at[OF assms(2)] .
  then have p: "o' + length bs < length code" "code ! (o' + length bs) = b"
    by (auto simp: nth_via_drop intro: ccontr)
  have "vm_exec (length bs + Suc n) A T E code o' ([], s) = Some x" for n
    unfolding vm_exec_steps[OF leaves_plain[OF assms(1)] assms(2)] c(1)
    using assms(3) p c(2) by (auto simp: vm_exec.simps(2))
  moreover have "fst x \<noteq> Running"
    using c(2) assms(3) by (auto simp: vm_final_def split: prod.splits if_splits list.splits)
  ultimately show ?thesis by (auto simp: goes_def intro!: exI[of _ "Suc (length bs)"])
qed

lemma while_goes:
  assumes "while_run n (run_condition A T E c) body s = Some x" "leaves E c 1"
    and "drop o' code = c @ test_jumps m e @ rest" "m < 2 ^ 16" "e < 2 ^ 16" "o' < 2 ^ 16"
    and "\<And>s y. body s = Some y \<Longrightarrow> goes A T E code m s y b"
    and "drop b code = branch_to o' # rest'"
  shows "goes A T E code o' s x e"
  using assms(1)
proof (induction n arbitrary: s)
  case (Suc n)
  then obtain t s1 where t: "run_condition A T E c s = Some (t, s1)"
    "(if t then then_run (body s1) (while_run n (run_condition A T E c) body) else Some (Running, s1)) = Some x"
    by (auto simp: Option.bind_eq_Some_conv)
  note test = goes_test[OF assms(2-5) t(1)]
  show ?case
  proof (cases t)
    case True
    have "goes A T E code m s1 x e"
    proof (rule goes_then[of "body s1" "while_run n (run_condition A T E c) body" x A T E code m s1 o'])
      show "goes A T E code m s1 y o'" if "body s1 = Some y" for y
        by (rule goes_jump[OF assms(7)[OF that] assms(8,6)])
    qed (use True t(2) Suc.IH in auto)
    with test True show ?thesis by (auto intro: goes_trans)
  qed (use test t(2) in simp)
qed simp

text \<open>Where the parts of a conditional and of a loop are.\<close>

lemma drop_test:
  "drop o' code = c @ test_jumps m e @ rest \<Longrightarrow> drop (o' + length c + 2) code = rest"
  using drop_at[of o' code "c @ test_jumps m e" rest] by (simp add: test_jumps_def)

lemma drop_assemble: "drop o' code = assemble n ps @ rest \<Longrightarrow> drop (o' + code_size ps) code = rest"
  using drop_at[of o' code "assemble n ps" rest] by simp

lemma drop_jump: "drop o' code = assemble n ps @ [b] @ rest \<Longrightarrow>
    drop (o' + code_size ps) code = b # rest \<and> drop (o' + code_size ps + 1) code = rest"
  using drop_at[of o' code "assemble n ps @ [b]" rest] drop_at[of o' code "assemble n ps" "[b] @ rest"] by simp

lemma layout_if:
  assumes "drop o' code = assemble o' (IfThen c t # ps) @ rest" "m = o' + length c + 2" "e = m + code_size t"
  shows "drop o' code = c @ test_jumps m e @ assemble m t @ assemble e ps @ rest"
    and "drop m code = assemble m t @ assemble e ps @ rest" and "drop e code = assemble e ps @ rest"
proof -
  show d: "drop o' code = c @ test_jumps m e @ assemble m t @ assemble e ps @ rest"
    using assms by (simp add: Let_def)
  show dt: "drop m code = assemble m t @ assemble e ps @ rest" using drop_test[OF d] assms(2) by simp
  show "drop e code = assemble e ps @ rest" using drop_assemble[OF dt] assms(3) by simp
qed

lemma layout_if_else:
  assumes "drop o' code = assemble o' (IfThenElse c t f # ps) @ rest" "m = o' + length c + 2"
    and "k = m + code_size t + 1" "e = k + code_size f"
  shows "drop o' code =
      c @ test_jumps m k @ assemble m t @ [branch_to e] @ assemble k f @ assemble e ps @ rest"
    and "drop m code = assemble m t @ [branch_to e] @ assemble k f @ assemble e ps @ rest"
    and "drop (m + code_size t) code = branch_to e # assemble k f @ assemble e ps @ rest"
    and "drop k code = assemble k f @ assemble e ps @ rest" and "drop e code = assemble e ps @ rest"
proof -
  show d: "drop o' code =
      c @ test_jumps m k @ assemble m t @ [branch_to e] @ assemble k f @ assemble e ps @ rest"
    using assms by (simp add: Let_def)
  show dt: "drop m code = assemble m t @ [branch_to e] @ assemble k f @ assemble e ps @ rest"
    using drop_test[OF d] assms(2) by simp
  show "drop (m + code_size t) code = branch_to e # assemble k f @ assemble e ps @ rest"
    using drop_jump[OF dt] by simp
  show df: "drop k code = assemble k f @ assemble e ps @ rest" using drop_jump[OF dt] assms(3) by simp
  show "drop e code = assemble e ps @ rest" using drop_assemble[OF df] assms(4) by simp
qed

lemma layout_while:
  assumes "drop o' code = assemble o' (WhileDo c t # ps) @ rest" "m = o' + length c + 2"
    and "e = m + code_size t + 1"
  shows "drop o' code = c @ test_jumps m e @ assemble m t @ [branch_to o'] @ assemble e ps @ rest"
    and "drop m code = assemble m t @ [branch_to o'] @ assemble e ps @ rest"
    and "drop (m + code_size t) code = branch_to o' # assemble e ps @ rest"
    and "drop e code = assemble e ps @ rest"
proof -
  show d: "drop o' code = c @ test_jumps m e @ assemble m t @ [branch_to o'] @ assemble e ps @ rest"
    using assms by (simp add: Let_def)
  show dt: "drop m code = assemble m t @ [branch_to o'] @ assemble e ps @ rest"
    using drop_test[OF d] assms(2) by simp
  show "drop (m + code_size t) code = branch_to o' # assemble e ps @ rest" "drop e code = assemble e ps @ rest"
    using drop_jump[OF dt] assms(3) by simp_all
qed

lemma pieces_go:
  assumes "run_pieces n A T E ps s = Some x" "drop o' code = assemble o' ps @ rest" "well_formed E ps"
    and "o' + code_size ps < 2 ^ 16"
  shows "goes A T E code o' s x (o' + code_size ps)"
  using assms
proof (induction o' ps arbitrary: s x rest rule: assemble.induct)
  case (1 o')
  then show ?case by (auto intro: goes_self)
next
  case (2 o' bs ps)
  from 2(2) obtain stk s1 where r: "vm_steps A E bs ([], s) = Some (stk, s1)" "run_pieces n A T E ps s1 = Some x"
    by (auto simp: Option.bind_eq_Some_conv)
  have d: "drop o' code = bs @ assemble (o' + length bs) ps @ rest" using 2(3) by simp
  have "goes A T E code (o' + length bs) s1 x (o' + length bs + code_size ps)"
    using r(2) drop_at[OF d] 2(4,5) by (intro 2(1)) simp_all
  moreover have "goes A T E code o' s (Running, s1) (o' + length bs)"
    using 2(4) r(1) by (intro goes_line[OF _ d]) simp_all
  ultimately show ?case by (auto intro: goes_trans simp: add.assoc)
next
  case (3 o' bs b ps)
  have d: "drop o' code = bs @ b # assemble (o' + length bs + 1) ps @ rest" using 3(3) by simp
  from 3(4) obtain h where "leaves E bs h" "b = BcRet \<or> b = BcAbort" by auto
  with goes_leave[OF _ d] 3(2) show ?case by simp
next
  case (4 o' c t ps)
  define m where "m = o' + length c + 2"
  define e where "e = m + code_size t"
  note d = layout_if[OF 4(4) m_def e_def]
  have w: "leaves E c 1" "well_formed E t" "well_formed E ps" "m < 2 ^ 16" "e < 2 ^ 16"
    "m + code_size t < 2 ^ 16" "e + code_size ps < 2 ^ 16" "e + code_size ps = o' + code_size (IfThen c t # ps)"
    using 4(5,6) by (simp_all add: m_def e_def)
  from 4(3) obtain v s1 where v: "run_condition A T E c s = Some (v, s1)"
    "then_run (if v then run_pieces n A T E t s1 else Some (Running, s1)) (run_pieces n A T E ps) = Some x"
    by (auto simp: Option.bind_eq_Some_conv)
  have "goes A T E code (if v then m else e) s1 x (e + code_size ps)"
  proof (rule goes_then[OF v(2)])
    show "goes A T E code (if v then m else e) s1 y e"
      if "(if v then run_pieces n A T E t s1 else Some (Running, s1)) = Some y" for y
      using that 4(1)[OF m_def e_def _ d(2) w(2,6)] by (auto simp: e_def intro: goes_self split: if_splits)
    show "goes A T E code e s' x (e + code_size ps)" if "run_pieces n A T E ps s' = Some x" for s'
      by (rule 4(2)[OF m_def e_def that d(3) w(3,7)])
  qed
  from goes_trans[OF goes_test[OF w(1) d(1) w(4,5) v(1)] this] show ?case by (simp only: w(8))
next
  case (5 o' c t f ps)
  define m where "m = o' + length c + 2"
  define k where "k = m + code_size t + 1"
  define e where "e = k + code_size f"
  note d = layout_if_else[OF 5(5) m_def k_def e_def]
  have w: "leaves E c 1" "well_formed E t" "well_formed E f" "well_formed E ps" "m < 2 ^ 16" "k < 2 ^ 16"
    "e < 2 ^ 16" "m + code_size t < 2 ^ 16" "k + code_size f < 2 ^ 16" "e + code_size ps < 2 ^ 16"
    "e + code_size ps = o' + code_size (IfThenElse c t f # ps)"
    using 5(6,7) by (simp_all add: m_def k_def e_def)
  from 5(4) obtain v s1 where v: "run_condition A T E c s = Some (v, s1)"
    "then_run (if v then run_pieces n A T E t s1 else run_pieces n A T E f s1) (run_pieces n A T E ps) = Some x"
    by (auto simp: Option.bind_eq_Some_conv)
  have "goes A T E code (if v then m else k) s1 x (e + code_size ps)"
  proof (rule goes_then[OF v(2)])
    fix y assume y: "(if v then run_pieces n A T E t s1 else run_pieces n A T E f s1) = Some y"
    show "goes A T E code (if v then m else k) s1 y e"
    proof (cases v)
      case True
      with y 5(1)[OF m_def k_def e_def _ d(2) w(2,8)] have "goes A T E code m s1 y (m + code_size t)" by simp
      then have "goes A T E code m s1 y e" by (rule goes_jump[OF _ d(3) w(7)])
      with True show ?thesis by simp
    next
      case False
      with y 5(2)[OF m_def k_def e_def _ d(4) w(3,9)] show ?thesis by (simp add: e_def)
    qed
  next
    show "goes A T E code e s' x (e + code_size ps)" if "run_pieces n A T E ps s' = Some x" for s'
      by (rule 5(3)[OF m_def k_def e_def that d(5) w(4,10)])
  qed
  from goes_trans[OF goes_test[OF w(1) d(1) w(5,6) v(1)] this] show ?case by (simp only: w(11))
next
  case (6 o' c t ps)
  define m where "m = o' + length c + 2"
  define e where "e = m + code_size t + 1"
  note d = layout_while[OF 6(4) m_def e_def]
  have w: "leaves E c 1" "well_formed E t" "well_formed E ps" "m < 2 ^ 16" "e < 2 ^ 16" "o' < 2 ^ 16"
    "m + code_size t < 2 ^ 16" "e + code_size ps < 2 ^ 16" "e + code_size ps = o' + code_size (WhileDo c t # ps)"
    using 6(5,6) by (simp_all add: m_def e_def)
  have run: "then_run (while_run n (run_condition A T E c) (run_pieces n A T E t) s) (run_pieces n A T E ps) = Some x"
    using 6(3) by simp
  have "goes A T E code o' s x (e + code_size ps)"
  proof (rule goes_then[OF run])
    show "goes A T E code o' s y e"
      if "while_run n (run_condition A T E c) (run_pieces n A T E t) s = Some y" for y
      by (rule while_goes[OF that w(1) d(1) w(4-6) _ d(3)])
        (rule 6(1)[OF m_def e_def _ d(2) w(2,7)])
    show "goes A T E code e s' x (e + code_size ps)" if "run_pieces n A T E ps s' = Some x" for s'
      by (rule 6(2)[OF m_def e_def that d(4) w(3,8)])
  qed
  then show ?case by (simp only: w(9))
qed

lemma vm_exec_mono: "vm_exec n A T E code pc c = Some r \<Longrightarrow> n \<le> n' \<Longrightarrow> vm_exec n' A T E code pc c = Some r"
proof (induction n arbitrary: pc c n')
  case (Suc n)
  then obtain n'' where n: "n' = Suc n''" "n \<le> n''" by (cases n') auto
  note IH = Suc.IH[OF _ n(2)]
  from Suc.prems(1) IH show ?case
    by (cases "code ! pc")
       (auto simp: n(1) vm_exec.simps(2) Option.bind_eq_Some_conv split: if_splits list.splits)
qed simp

lemma goes_back:
  assumes "goes A T E code o' s x e" "vm_exec m A T E code o' ([], s) = Some r"
  shows "if fst x = Running then vm_exec m A T E code e ([], snd x) = Some r else x = r"
proof -
  from assms(1) obtain k where
    "vm_exec (k + m) A T E code o' ([], s) =
        (if fst x = Running then vm_exec m A T E code e ([], snd x) else Some x)"
    by (auto simp: goes_def)
  with vm_exec_mono[OF assms(2), of "k + m"] show ?thesis by (auto split: if_splits)
qed

lemma goes_none:
  assumes "goes A T E code o' s (Running, s1) e" "vm_exec m A T E code e ([], s1) = None"
  shows "vm_exec m A T E code o' ([], s) = None"
  using goes_back[OF assms(1)] assms(2) by (cases "vm_exec m A T E code o' ([], s)") auto

lemma then_run_None:
  "then_run m f = None \<longleftrightarrow> m = None \<or> (\<exists>s. m = Some (Running, s) \<and> f s = None)"
  by (auto simp: then_run_def split: option.splits prod.splits outcome.splits)

lemma exec_test_fuel:
  assumes "leaves E c 1" "drop o' code = c @ test_jumps m f @ rest" "m < 2 ^ 16" "f < 2 ^ 16"
    and "run_condition A T E c s = Some (t, s1)" "vm_exec k A T E code o' ([], s) = Some r"
  shows "\<exists>k'<k. vm_exec k' A T E code (if t then m else f) ([], s1) = Some r"
proof -
  from leaves_test[OF assms(1), of A s T] assms(5) obtain v where
    v: "vm_steps A E c ([], s) = Some ([v], s1)" by auto
  from vm_exec_steps_fuel[OF leaves_plain[OF assms(1)] assms(2,6)] obtain j where j: "k = length c + j"
    by (metis le_add_diff_inverse)
  with assms(6) have "vm_exec j A T E code (o' + length c) ([v], s1) = Some r"
    using v by (simp add: vm_exec_steps[OF leaves_plain[OF assms(1)] assms(2)])
  then obtain i where i: "j = Suc i" by (cases j) auto
  have "vm_exec i A T E code m ([], s1) = Some r" if t
    using exec_test(1)[OF assms(1-5) that, of i] assms(6) j i by simp
  moreover have "vm_exec i A T E code f ([], s1) = Some r" if "\<not> t"
  proof -
    from exec_test(2)[OF assms(1-5) that, of i] vm_exec_mono[OF assms(6), of "length c + 2 + i"] j i
    show ?thesis by simp
  qed
  ultimately show ?thesis using j i by (intro exI[of _ i]) auto
qed

text \<open>A loop that has not ended within its fuel has not ended on the machine either.\<close>

lemma while_none:
  assumes "while_run n (run_condition A T E c) body s = None" "m \<le> n" "m \<le> n'" "leaves E c 1"
    and "drop o' code = c @ test_jumps p e @ rest" "p < 2 ^ 16" "e < 2 ^ 16" "o' < 2 ^ 16"
    and "\<And>s y. body s = Some y \<Longrightarrow> goes A T E code p s y b"
    and "\<And>s m. body s = None \<Longrightarrow> m \<le> n' \<Longrightarrow> vm_exec m A T E code p ([], s) = None"
    and "drop b code = branch_to o' # rest'"
  shows "vm_exec m A T E code o' ([], s) = None"
  using assms(1-3)
proof (induction n arbitrary: s m)
  case (Suc n)
  show ?case
  proof (rule ccontr)
    assume "vm_exec m A T E code o' ([], s) \<noteq> None"
    then obtain r where r: "vm_exec m A T E code o' ([], s) = Some r" by auto
    from leaves_test[OF assms(4), of A s T] obtain v s1 where t: "run_condition A T E c s = Some (T v, s1)" by blast
    from Suc.prems(1) t have w: "T v" "then_run (body s1) (while_run n (run_condition A T E c) body) = None"
      by (auto split: if_splits)
    from exec_test_fuel[OF assms(4-7) t r] w(1) obtain m' where
      m': "m' < m" "vm_exec m' A T E code p ([], s1) = Some r" by auto
    from w(2) consider "body s1 = None" | s2 where "body s1 = Some (Running, s2)"
        "while_run n (run_condition A T E c) body s2 = None" by (auto simp: then_run_None)
    then show False
    proof cases
      case 1
      with assms(10)[OF 1, of m'] m' Suc.prems(3) show False by simp
    next
      case 2
      have "goes A T E code p s1 (Running, s2) o'" by (rule goes_jump[OF assms(9)[OF 2(1)] assms(11,8)])
      from goes_back[OF this m'(2)] have "vm_exec m' A T E code o' ([], s2) = Some r" by simp
      with Suc.IH[OF 2(2), of m'] m'(1) Suc.prems(2,3) show False by simp
    qed
  qed
qed simp

lemma pieces_none:
  assumes "run_pieces n A T E ps s = None" "drop o' code = assemble o' ps @ rest" "well_formed E ps"
    and "o' + code_size ps < 2 ^ 16" "m \<le> n"
  shows "vm_exec m A T E code o' ([], s) = None"
  using assms
proof (induction o' ps arbitrary: s rest m rule: assemble.induct)
  case (1 o')
  then show ?case by simp
next
  case (2 o' bs ps)
  have d: "drop o' code = bs @ assemble (o' + length bs) ps @ rest" using 2(3) by simp
  from 2(4) leaves_none[of E bs A s] obtain s1 where r: "vm_steps A E bs ([], s) = Some ([], s1)" by auto
  have "vm_exec m A T E code (o' + length bs) ([], s1) = None"
    using 2(2) r drop_at[OF d] 2(4,5,6) by (intro 2(1)) simp_all
  with goes_none[OF goes_line[OF _ d r]] 2(4) show ?case by simp
next
  case (3 o' bs b ps)
  then show ?case
    using leaves_runs[of E bs _ A s]
    by (auto simp: vm_final_def Option.bind_eq_None_conv split: list.splits dest!: leaves_runs[where A = A and s = s])
next
  case (4 o' c t ps)
  define p where "p = o' + length c + 2"
  define e where "e = p + code_size t"
  note d = layout_if[OF 4(4) p_def e_def]
  have w: "leaves E c 1" "well_formed E t" "well_formed E ps" "p < 2 ^ 16" "e < 2 ^ 16"
    "p + code_size t < 2 ^ 16" "e + code_size ps < 2 ^ 16"
    using 4(5,6) by (simp_all add: p_def e_def)
  from leaves_test[OF w(1), of A s T] obtain v s1 where t: "run_condition A T E c s = Some (T v, s1)" by blast
  have "vm_exec m A T E code (if T v then p else e) ([], s1) = None"
  proof (cases "T v")
    case True
    with 4(3) t consider "run_pieces n A T E t s1 = None"
      | s2 where "run_pieces n A T E t s1 = Some (Running, s2)" "run_pieces n A T E ps s2 = None"
      by (auto simp: then_run_None)
    then show ?thesis
    proof cases
      case 1
      with 4(1)[OF p_def e_def 1 d(2) w(2,6) 4(7)] True show ?thesis by simp
    next
      case 2
      from goes_none[OF pieces_go[OF 2(1) d(2) w(2,6)], folded e_def, OF 4(2)[OF p_def e_def 2(2) d(3) w(3,7) 4(7)]]
      show ?thesis using True by simp
    qed
  next
    case False
    with 4(3) t have "run_pieces n A T E ps s1 = None" by simp
    from 4(2)[OF p_def e_def this d(3) w(3,7) 4(7)] False show ?thesis by simp
  qed
  from goes_none[OF goes_test[OF w(1) d(1) w(4,5) t] this] show ?case .
next
  case (5 o' c t f ps)
  define p where "p = o' + length c + 2"
  define k where "k = p + code_size t + 1"
  define e where "e = k + code_size f"
  note d = layout_if_else[OF 5(5) p_def k_def e_def]
  have w: "leaves E c 1" "well_formed E t" "well_formed E f" "well_formed E ps" "p < 2 ^ 16" "k < 2 ^ 16"
    "e < 2 ^ 16" "p + code_size t < 2 ^ 16" "k + code_size f < 2 ^ 16" "e + code_size ps < 2 ^ 16"
    using 5(6,7) by (simp_all add: p_def k_def e_def)
  from leaves_test[OF w(1), of A s T] obtain v s1 where t: "run_condition A T E c s = Some (T v, s1)" by blast
  note rest = 5(3)[OF p_def k_def e_def _ d(5) w(4,10) 5(8)]
  have "vm_exec m A T E code (if T v then p else k) ([], s1) = None"
  proof (cases "T v")
    case True
    with 5(4) t consider "run_pieces n A T E t s1 = None"
      | s2 where "run_pieces n A T E t s1 = Some (Running, s2)" "run_pieces n A T E ps s2 = None"
      by (auto simp: then_run_None)
    then show ?thesis
    proof cases
      case 1
      with 5(1)[OF p_def k_def e_def 1 d(2) w(2,8) 5(8)] True show ?thesis by simp
    next
      case 2
      from goes_none[OF goes_jump[OF pieces_go[OF 2(1) d(2) w(2,8)] d(3) w(7)] rest[OF 2(2)]]
      show ?thesis using True by simp
    qed
  next
    case False
    with 5(4) t consider "run_pieces n A T E f s1 = None"
      | s2 where "run_pieces n A T E f s1 = Some (Running, s2)" "run_pieces n A T E ps s2 = None"
      by (auto simp: then_run_None)
    then show ?thesis
    proof cases
      case 1
      with 5(2)[OF p_def k_def e_def 1 d(4) w(3,9) 5(8)] False show ?thesis by simp
    next
      case 2
      from goes_none[OF pieces_go[OF 2(1) d(4) w(3,9)], folded e_def, OF rest[OF 2(2)]]
      show ?thesis using False by simp
    qed
  qed
  from goes_none[OF goes_test[OF w(1) d(1) w(5,6) t] this] show ?case .
next
  case (6 o' c t ps)
  define p where "p = o' + length c + 2"
  define e where "e = p + code_size t + 1"
  note d = layout_while[OF 6(4) p_def e_def]
  have w: "leaves E c 1" "well_formed E t" "well_formed E ps" "p < 2 ^ 16" "e < 2 ^ 16" "o' < 2 ^ 16"
    "p + code_size t < 2 ^ 16" "e + code_size ps < 2 ^ 16"
    using 6(5,6) by (simp_all add: p_def e_def)
  note body = pieces_go[where n = n, OF _ d(2) w(2,7)]
  from 6(3) consider
    "while_run n (run_condition A T E c) (run_pieces n A T E t) s = None"
    | s1 where "while_run n (run_condition A T E c) (run_pieces n A T E t) s = Some (Running, s1)"
      "run_pieces n A T E ps s1 = None"
    by (auto simp: then_run_None)
  then show ?case
  proof cases
    case 1
    show ?thesis
      by (rule while_none[OF 1 6(7) 6(7) w(1) d(1) w(4-6) _ _ d(3)])
        (rule body, assumption, rule 6(1)[OF p_def e_def _ d(2) w(2,7)])
  next
    case 2
    show ?thesis
      by (rule goes_none[OF while_goes[OF 2(1) w(1) d(1) w(4-6) body d(3)]
            6(2)[OF p_def e_def 2(2) d(4) w(3,8) 6(7)]])
  qed
qed

text \<open>The machine ends with an outcome exactly when the structure does.\<close>

theorem machine_iff_pieces:
  assumes "well_formed E ps" "code_size ps < 2 ^ 16"
  shows "(\<exists>k. vm_exec k A T E (assemble 0 ps) 0 ([], s) = Some r) \<longleftrightarrow>
     (\<exists>n. run_pieces n A T E ps s = Some r)"
proof -
  let ?code = "assemble 0 ps"
  have d: "drop 0 ?code = assemble 0 ps @ []" by simp
  have b: "0 + code_size ps < 2 ^ 16" using assms(2) by simp
  have e: "vm_exec (Suc n) A T E ?code (code_size ps) ([], s') = Some (Running, s')" for n s'
    by (simp add: vm_exec.simps(2))
  have ends: "\<exists>k. \<forall>n. vm_exec (k + Suc n) A T E ?code 0 ([], s) = Some x"
    if r: "run_pieces n A T E ps s = Some x" for n x
  proof -
    from pieces_go[OF r d assms(1) b] obtain k where k: "\<And>n. vm_exec (k + n) A T E ?code 0 ([], s) =
        (if fst x = Running then vm_exec n A T E ?code (code_size ps) ([], snd x) else Some x)"
      by (auto simp: goes_def)
    have "vm_exec (k + Suc n) A T E ?code 0 ([], s) = Some x" for n
      unfolding k e by (cases x) simp
    then show ?thesis by blast
  qed
  show ?thesis
  proof
    assume "\<exists>k. vm_exec k A T E ?code 0 ([], s) = Some r"
    then obtain k where k: "vm_exec k A T E ?code 0 ([], s) = Some r" ..
    have "run_pieces k A T E ps s \<noteq> None" using pieces_none[OF _ d assms(1) b order_refl] k by force
    then obtain x where x: "run_pieces k A T E ps s = Some x" by blast
    from ends[OF x] obtain j where "vm_exec (j + Suc k) A T E ?code 0 ([], s) = Some x" by blast
    with vm_exec_mono[OF k, of "j + Suc k"] x show "\<exists>n. run_pieces n A T E ps s = Some r" by auto
  next
    assume "\<exists>n. run_pieces n A T E ps s = Some r"
    with ends show "\<exists>k. vm_exec k A T E ?code 0 ([], s) = Some r" by blast
  qed
qed

end
