(* ===== verification/Dis_Structured.thy ===== *)
theory Dis_Structured
  imports Dis_Jumps Dis_Correct
begin

text \<open>
  The disassembled form of code with conditionals and loops. \<open>run_block\<close> gives the meaning of
  the statements of a block, nested blocks included; the translator rebuilds the structure that
  \<open>assemble\<close> has laid out (\<open>pieces_translated\<close>), so that the disassembled body computes what
  the machine computes (\<open>structured_meaning\<close>).
\<close>

section \<open>Blocks\<close>

definition eval_test ::
    "('v, 's) algebra \<Rightarrow> ('v \<Rightarrow> bool) \<Rightarrow> exp_loc \<Rightarrow> 's \<Rightarrow> (bool \<times> 's) option" where
  "eval_test A T e s = map_option (\<lambda>(v, s1). (T v, s1)) (eval_loc e A s)"

text \<open>The fuel bounds the turns of each loop.\<close>

fun run_block ::
    "nat \<Rightarrow> ('v, 's) algebra \<Rightarrow> ('v \<Rightarrow> bool) \<Rightarrow> exp_loc list \<Rightarrow> 's \<Rightarrow> ('v outcome \<times> 's) option" where
  "run_block n A T [] s = Some (Running, s)"
| "run_block n A T (ExpLoc i Nop # xs) s = run_block n A T xs s"
| "run_block n A T (ExpLoc i (LetExp l e) # xs) s =
     Option.bind (eval_loc e A s) (\<lambda>(v, s1). run_block n A T xs (al_store A l v s1))"
| "run_block n A T (ExpLoc i (WriteRef x r) # xs) s =
     Option.bind (eval_loc x A s) (\<lambda>(v, s1).
       Option.bind (eval_loc r A s1) (\<lambda>(w, s2). run_block n A T xs (al_write A v w s2)))"
| "run_block n A T (ExpLoc i (Ret rs k) # xs) s =
     map_option (\<lambda>(vs, s1). (Returned vs, s1)) (in_sequence (map (\<lambda>e. eval_loc e A) rs) s)"
| "run_block n A T (ExpLoc i (Abort e) # xs) s =
     map_option (\<lambda>(v, s1). (Aborted v, s1)) (eval_loc e A s)"
| "run_block n A T (ExpLoc i (IfElse c (Block ts k) None) # xs) s =
     Option.bind (eval_test A T c s) (\<lambda>(t, s1).
       then_run (if t then run_block n A T ts s1 else Some (Running, s1)) (run_block n A T xs))"
| "run_block n A T (ExpLoc i (IfElse c (Block ts k) (Some (Block fs k'))) # xs) s =
     Option.bind (eval_test A T c s) (\<lambda>(t, s1).
       then_run (if t then run_block n A T ts s1 else run_block n A T fs s1) (run_block n A T xs))"
| "run_block n A T (ExpLoc i (While c (Block ts k)) # xs) s =
     then_run (while_run n (eval_test A T c) (run_block n A T ts) s) (run_block n A T xs)"
| "run_block n A T (ExpLoc i e # xs) s =
     Option.bind (eval_exp e A s) (\<lambda>(_, s1). run_block n A T xs s1)"

interpretation block: statement_runner A "run_block n A T" for A n T
proof unfold_locales
  fix i e xs s v s1
  assume "eval_exp e A s = Some (v, s1)"
  then show "run_block n A T (ExpLoc i e # xs) s = run_block n A T xs s1" by (cases e) simp_all
qed simp_all

lemma then_run_running [simp]: "then_run m (\<lambda>s. Some (Running, s)) = m"
  by (auto simp: then_run_def split: option.split outcome.split)

lemma then_run_bind: "then_run (Option.bind m f) g = Option.bind m (\<lambda>x. then_run (f x) g)"
  by (cases m) simp_all

lemma then_run_over [simp]:
  "then_run (map_option (\<lambda>p. (Returned (fst p), snd p)) m) f = map_option (\<lambda>p. (Returned (fst p), snd p)) m"
  "then_run (map_option (\<lambda>p. (Aborted (fst p), snd p)) m') f = map_option (\<lambda>p. (Aborted (fst p), snd p)) m'"
  by (cases m; auto) (cases m'; auto)

lemma run_block_append_fun:
  "run_block n A T (xs @ ys) = (\<lambda>s. then_run (run_block n A T xs s) (run_block n A T ys))"
proof (induction xs)
  case (Cons x xs)
  obtain i e where x: "x = ExpLoc i e" by (cases x)
  show ?case
  proof (rule ext)
    fix s
    show "run_block n A T ((x # xs) @ ys) s = then_run (run_block n A T (x # xs) s) (run_block n A T ys)"
    proof (cases e)
      case (IfElse c b f)
      obtain ts k where b: "b = Block ts k" by (cases b)
      show ?thesis
      proof (cases f)
        case (Some d)
        obtain fs k' where "d = Block fs k'" by (cases d)
        with Some IfElse x b Cons show ?thesis by (simp add: then_run_bind then_run_assoc case_prod_unfold)
      qed (use IfElse x b Cons in \<open>simp add: then_run_bind then_run_assoc case_prod_unfold\<close>)
    next
      case (While c b)
      obtain ts k where "b = Block ts k" by (cases b)
      with While x Cons show ?thesis by (simp add: then_run_assoc)
    qed (use x Cons in \<open>simp_all add: then_run_bind case_prod_unfold del: eval_exp.simps\<close>)
  qed
qed simp

lemma run_block_append: "run_block n A T (xs @ ys) s = then_run (run_block n A T xs s) (run_block n A T ys)"
  by (simp add: run_block_append_fun)

text \<open>A trailing \<open>Ret\<close> may be made explicit.\<close>

lemma run_block_explicit:
  "run_block n A T (xs @ [ExpLoc i (Ret rs True)]) = run_block n A T (xs @ [ExpLoc i (Ret rs k)])"
  unfolding run_block_append_fun by (simp add: fun_eq_iff then_run_def split: option.split outcome.split)

section \<open>The translator on jumps\<close>

lemma stands_remaining: "stands code pc t \<Longrightarrow> length (it_rest (ts_iter t)) = length code - pc"
  by (simp add: stands_def)

lemma stands_absolute: "stands code pc t \<Longrightarrow> iter_absolute (ts_iter t) i = (if i < length code then code ! i else BcNop)"
  by (simp add: stands_def iter_absolute_def)

lemma stands_fields [simp]:
  "stands code pc (t\<lparr>ts_exps := xs\<rparr>) = stands code pc t"
  "stands code pc (t\<lparr>ts_used := w\<rparr>) = stands code pc t"
  "stands code pc (t\<lparr>ts_iter := ts_iter u\<rparr>) = stands code pc u"
  "stands code pc (push_exp e t) = stands code pc t"
  by (simp_all add: stands_def push_exp_def)

lemma stands_nested:
  assumes "stands code pc t"
  shows "stands code pc (translator_new (ts_iter t) k used)" "ts_exps (translator_new (ts_iter t) k used) = []"
    "ts_end (translator_new (ts_iter t) k used) = pc - 1 + k"
  using assms by (simp_all add: stands_def translator_new_def iter_index_def)

lemma drop_nth: "drop pc code = b # rest \<Longrightarrow> pc < length code \<and> code ! pc = b"
  by (metis drop_all leI list.distinct(1) nth_via_drop)

lemma word16 [simp]: "n < 2 ^ 16 \<Longrightarrow> unat (of_nat n :: 16 word) = n"
  by (simp add: unat_of_nat take_bit_nat_eq_self)

text \<open>A block that is translated to its end.\<close>

lemma nested_block:
  assumes "leads E (translator_new (ts_iter s) k (ts_used s)) u" "stands code e u" "ts_end u = e - 1"
    and "length (it_rest (ts_iter s)) < g"
  shows "translate_block (translate g E) k s = Inr (ts_exps u, s\<lparr>ts_iter := ts_iter u, ts_used := ts_used u\<rparr>)"
proof -
  have "translate g E (translator_new (ts_iter s) k (ts_used s)) = translate g E u"
    using assms(1,4) by (simp add: leads_def translator_new_def del: translate.simps)
  moreover obtain g' where "g = Suc g'" using assms(4) by (cases g) auto
  moreover have "\<not> opcode_offset u < ts_end u" using stands_offset[OF assms(2)] assms(3) by simp
  ultimately show ?thesis by (simp add: translate_block_def)
qed

text \<open>A jump at the end of a block leaves \<open>Nop\<close> when it goes forward, else \<open>Continue\<close>.\<close>

lemma branch_turn:
  assumes "stands code pc t" "drop pc code = branch_to e # rest" "e < 2 ^ 16" "pc \<le> ts_end t" "0 < ts_end t"
  shows "\<exists>t'. leads E t t' \<and> stands code (Suc pc) t' \<and> ts_end t' = ts_end t \<and>
     ts_exps t' = ts_exps t @ [ExpLoc pc (if e > pc then Nop else Continue)]"
proof -
  from stands_next[OF assms(1,2)] obtain it where it: "iter_next (ts_iter t) = (Some (branch_to e), it)"
    "iter_index it = pc" "stands code (Suc pc) (t\<lparr>ts_iter := it\<rparr>)" by blast
  let ?t = "push_exp (if e > pc then Nop else Continue) (t\<lparr>ts_iter := it\<rparr>)"
  have "plain_turn E t = Inr ?t"
    using it assms(3) by (simp add: plain_turn_def next_exp_def branch_to_def br_def opcode_offset_def)
  then have "leads E t ?t"
  proof (rule turn_leads)
    show "it_rest (ts_iter t) = branch_to e # rest" using assms(1,2) by (simp add: stands_def)
    show "\<not> opens_block (branch_to e)" by (simp add: opens_block_def branch_to_def)
    show "opcode_offset t < ts_end t" using assms(4,5) by (simp add: stands_offset[OF assms(1)])
  qed
  moreover have "stands code (Suc pc) ?t" "ts_end ?t = ts_end t" using it(3) by simp_all
  moreover have "ts_exps ?t = ts_exps t @ [ExpLoc pc (if e > pc then Nop else Continue)]"
    using it(2) by (simp add: push_exp_def opcode_offset_def)
  ultimately show ?thesis by blast
qed

text \<open>What \<open>br_true\<close> does once the block of the true case is translated.\<close>

definition after_true ::
    "vendor \<Rightarrow> block_translator \<Rightarrow> nat \<Rightarrow> exp_loc list \<Rightarrow> tstate \<Rightarrow> (exp \<times> tstate) result" where
  "after_true v tb f blk s =
     (case classify_true_branch v blk s of
        WhileBody blk \<Rightarrow> (case pop_exp s of (c, s3) \<Rightarrow> Inr (While c (Block blk True), s3))
      | TrueBranch blk fend \<Rightarrow>
          rbind (br_true_false_branch tb f fend s) (\<lambda>(fb, s3).
            case pop_exp s3 of (c, s4) \<Rightarrow> Inr (IfElse c (Block blk True) fb, s4)))"

text \<open>Once the block from \<open>m\<close> to \<open>f\<close> has been translated into \<open>u\<close>, the turn ends as \<open>after_true\<close>
  says.\<close>

definition test_completes :: "tenv \<Rightarrow> bytecode list \<Rightarrow> nat \<Rightarrow> nat \<Rightarrow> tstate \<Rightarrow> tstate \<Rightarrow> bool" where
  "test_completes E code m f s1 t \<longleftrightarrow>
     (\<forall>u e s2. leads E (translator_new (ts_iter s1) (f - m) (ts_used s1)) u \<longrightarrow> stands code f u \<longrightarrow>
        ts_end u = f - 1 \<longrightarrow>
        (\<forall>g. length code - m < g \<longrightarrow>
           after_true (te_vendor E) (translate_block (translate g E)) f (ts_exps u)
             (s1\<lparr>ts_iter := ts_iter u, ts_used := ts_used u\<rparr>) = Inr (e, s2)) \<longrightarrow>
        length (it_rest (ts_iter s2)) \<le> length code - m \<longrightarrow>
        leads E t (push_exp e s2))"

lemma test_turn:
  assumes "stands code p t" "drop p code = test_jumps m f @ rest" "m = p + 2" "m \<le> f" "f < 2 ^ 16"
    and "p \<le> ts_end t" "0 < ts_end t"
  shows "\<exists>s1. stands code m s1 \<and> ts_exps s1 = ts_exps t \<and> ts_end s1 = ts_end t \<and>
     test_completes E code m f s1 t"
proof -
  have d: "drop p code = BcBrTrue (of_nat m) # (branch_to f # rest)" using assms(2) by (simp add: test_jumps_def)
  from stands_next[OF assms(1) d] obtain it where it: "iter_next (ts_iter t) = (Some (BcBrTrue (of_nat m)), it)"
    "it_rest it = branch_to f # rest" "iter_index it = p" "stands code (Suc p) (t\<lparr>ts_iter := it\<rparr>)" by blast
  have d': "drop (Suc p) code = branch_to f # rest" by (rule drop_Suc_eq[OF d])
  from stands_next[OF it(4) d'] obtain it2 where it2: "iter_next it = (Some (branch_to f), it2)" "it_rest it2 = rest"
    "iter_index it2 = Suc p" "stands code (Suc (Suc p)) (t\<lparr>ts_iter := it2\<rparr>)" by auto
  define s1 where "s1 = t\<lparr>ts_iter := it2\<rparr>"
  have s1: "stands code m s1" "ts_exps s1 = ts_exps t" "ts_end s1 = ts_end t" using it2(4) assms(3) by (simp_all add: s1_def)
  have m16: "m < 2 ^ 16" using assms(4,5) by simp
  have rel: "iter_by_relative it 1 = BcBranch (of_nat f)"
  proof -
    have "nat ((int p + 1) mod 2 ^ 64) = Suc p" using m16 assms(3) by (simp add: nat_add_distrib)
    moreover have "iter_absolute it (Suc p) = branch_to f"
      using stands_absolute[OF it(4), of "Suc p"] drop_nth[OF d'] by simp
    ultimately show ?thesis by (simp only: iter_by_relative_def it(3) branch_to_def of_nat_1)
  qed
  have "\<not> m < opcode_offset s1" using stands_offset[OF s1(1)] by simp
  have len: "length (it_rest it) = Suc (length code - m)"
    using drop_nth[OF d'] it(2) it2(2) stands_remaining[OF s1(1)] by (simp add: s1_def)
  have "leads E t (push_exp e s2)"
    if u: "leads E (translator_new (ts_iter s1) (f - m) (ts_used s1)) u" "stands code f u" "ts_end u = f - 1"
      and e: "\<forall>g. length code - m < g \<longrightarrow>
           after_true (te_vendor E) (translate_block (translate g E)) f (ts_exps u)
             (s1\<lparr>ts_iter := ts_iter u, ts_used := ts_used u\<rparr>) = Inr (e, s2)"
      and r: "length (it_rest (ts_iter s2)) \<le> length code - m" for u e s2
  proof (rule leads_turn[OF it(1)])
    show "opcode_offset t < ts_end t" using assms(6,7) by (simp add: stands_offset[OF assms(1)])
    show "length (it_rest (ts_iter s2)) \<le> length (it_rest it)" using r len by simp
    fix g assume g: "length (it_rest it) < g"
    have tb: "translate_block (translate g E) (f - m) s1 = Inr (ts_exps u, s1\<lparr>ts_iter := ts_iter u, ts_used := ts_used u\<rparr>)"
      using g len stands_remaining[OF s1(1)] by (intro nested_block[OF u]) simp
    have "next_exp (translate_block (translate g E)) E (BcBrTrue (of_nat m)) (t\<lparr>ts_iter := it\<rparr>) =
        after_true (te_vendor E) (translate_block (translate g E)) f (ts_exps u)
          (s1\<lparr>ts_iter := ts_iter u, ts_used := ts_used u\<rparr>)"
      using rel tb assms(4) word16[OF m16] word16[OF assms(5)] it2(1) \<open>\<not> m < opcode_offset s1\<close>
      by (simp add: next_exp_def br_true_def Let_def usub_def after_true_def s1_def[symmetric] del: word16
        split: true_branch_outcome.split)
    with e g len show "next_exp (translate_block (translate g E)) E (BcBrTrue (of_nat m)) (t\<lparr>ts_iter := it\<rparr>) = Inr (e, s2)"
      by simp
  qed
  with s1 show ?thesis unfolding test_completes_def by blast
qed

section \<open>Code between jumps\<close>

abbreviation simulating ::
    "nat \<Rightarrow> ('v, 's) algebra \<Rightarrow> ('v \<Rightarrow> bool) \<Rightarrow> exp_loc list \<Rightarrow> 's \<Rightarrow> 'v list \<times> 's \<Rightarrow> exp_loc list \<Rightarrow> bool" where
  "simulating n A T \<equiv> statement_runner.simulates A (run_block n A T)"

text \<open>The code of a condition leaves statements \<open>dn\<close> and one pending expression \<open>a\<close>.\<close>

lemma one_pending:
  assumes "simulating n A T base s ([v], s1) xs"
  shows "\<exists>dn a s0. xs = base @ dn @ [a] \<and> (\<forall>more. run_block n A T (dn @ more) s = run_block n A T more s0) \<and>
     eval_loc a A s0 = Some (v, s1)"
proof -
  from assms obtain dn pend s0 where "xs = base @ dn @ pend" "evals A pend s0 = Some ([v], s1)"
    "\<forall>more. run_block n A T (dn @ more) s = run_block n A T more s0"
    unfolding block.simulates_def block.reaches_def by blast
  with evals_one[OF this(2)] show ?thesis by blast
qed

lemma condition_translated:
  assumes "stands code o' t" "drop o' code = c @ rest" "leaves E c 1"
    and "o' + length c \<le> Suc (ts_end t)" "0 < ts_end t"
  shows "\<exists>t1 dn a. leads E t t1 \<and> stands code (o' + length c) t1 \<and> ts_end t1 = ts_end t \<and>
     ts_exps t1 = ts_exps t @ dn @ [a] \<and> (expression_code E c \<longrightarrow> dn = [] \<and> start_of a = o') \<and>
     (\<forall>s. \<exists>s0. (\<forall>more. run_block n A T (dn @ more) s = run_block n A T more s0) \<and>
        eval_test A T a s0 = run_condition A T E c s)"
proof -
  have sim: "\<exists>t1 v s'. plain_turns E (length c) t = Inr t1 \<and> stands code (o' + length c) t1 \<and> ts_end t1 = ts_end t \<and>
      simulating n A T (ts_exps t) s ([v], s') (ts_exps t1) \<and> leads E t t1 \<and>
      vm_steps A E c ([], s) = Some ([v], s') \<and> run_condition A T E c s = Some (T v, s')" for s
  proof -
    from leaves_test[OF assms(3), of A s T] obtain v s' where
      v: "vm_steps A E c ([], s) = Some ([v], s')" "run_condition A T E c s = Some (T v, s')" by blast
    from block.turns_simulate[OF assms(1,2) v(1) block.simulates_start, of n T] v assms(4,5) show ?thesis by blast
  qed
  from sim[of undefined] obtain t1 v s1 where t1: "plain_turns E (length c) t = Inr t1" "stands code (o' + length c) t1"
    "ts_end t1 = ts_end t" "leads E t t1" "vm_steps A E c ([], undefined) = Some ([v], s1)"
    "simulating n A T (ts_exps t) undefined ([v], s1) (ts_exps t1)" by blast
  from one_pending[OF t1(6)] obtain dn a where x: "ts_exps t1 = ts_exps t @ dn @ [a]" by blast
  have "expression_code E c \<longrightarrow> dn = [] \<and> start_of a = o'"
    using condition_starts[OF t1(1) assms(1,2) t1(5)] x by auto
  moreover have "\<exists>s0. (\<forall>more. run_block n A T (dn @ more) s = run_block n A T more s0) \<and>
      eval_test A T a s0 = run_condition A T E c s" for s
  proof -
    from sim[of s] t1(1) obtain w s2 where w: "simulating n A T (ts_exps t) s ([w], s2) (ts_exps t1)"
      "run_condition A T E c s = Some (T w, s2)" by auto
    from one_pending[OF w(1)] x w(2) show ?thesis by (auto simp: eval_test_def)
  qed
  ultimately show ?thesis using t1 x by blast
qed

text \<open>The code from \<open>o'\<close> to \<open>e\<close>, which runs as \<open>R\<close>, is translated into the statements \<open>es\<close>. What
  these end with tells \<open>br_true\<close> that the code does not end in a jump.\<close>

definition becomes ::
    "tenv \<Rightarrow> bytecode list \<Rightarrow> nat \<Rightarrow> ('v, 's) algebra \<Rightarrow> ('v \<Rightarrow> bool) \<Rightarrow> nat \<Rightarrow> nat \<Rightarrow>
     ('s \<Rightarrow> ('v outcome \<times> 's) option) \<Rightarrow> tstate \<Rightarrow> tstate \<Rightarrow> exp_loc list \<Rightarrow> bool" where
  "becomes E code n A T o' e R t t' es \<longleftrightarrow>
     leads E t t' \<and> stands code e t' \<and> ts_end t' = ts_end t \<and> ts_exps t' = ts_exps t @ es \<and>
     (es = [] \<longrightarrow> e = o') \<and>
     (es \<noteq> [] \<longrightarrow> loc_exp (last es) \<noteq> Continue \<and>
        (loc_exp (last es) = Nop \<longrightarrow> (\<forall>i. code ! (e - 1) \<noteq> BcBranch i))) \<and>
     (\<forall>s more. run_block n A T (es @ more) s = then_run (R s) (run_block n A T more))"

lemma becomes_runs: "becomes E code n A T o' e R t t' es \<Longrightarrow> run_block n A T es = R"
  unfolding becomes_def by (metis append_Nil2 ext run_block.simps(1) then_run_running)

lemma becomes_nothing: "stands code o' t \<Longrightarrow> becomes E code n A T o' o' (\<lambda>s. Some (Running, s)) t t []"
  by (simp add: becomes_def leads_refl)

lemma becomes_then:
  assumes "becomes E code n A T o' m R t t1 xs" "becomes E code n A T m e Q t1 t2 ys"
  shows "becomes E code n A T o' e (\<lambda>s. then_run (R s) Q) t t2 (xs @ ys)"
proof -
  have "run_block n A T ((xs @ ys) @ more) s = then_run (then_run (R s) Q) (run_block n A T more)" for s more
  proof -
    have "run_block n A T (ys @ more) = (\<lambda>s. then_run (Q s) (run_block n A T more))"
      using assms(2) by (auto simp: becomes_def)
    with assms(1) show ?thesis by (simp add: becomes_def then_run_assoc)
  qed
  with assms show ?thesis
    unfolding becomes_def by (cases "ys = []") (auto intro: leads_trans simp: last_append)
qed

lemma becomes_line:
  assumes "stands code o' t" "drop o' code = bs @ rest" "leaves E bs 0" "bs \<noteq> []"
    and "o' + length bs \<le> Suc (ts_end t)" "0 < ts_end t"
  shows "\<exists>t1 es. becomes E code n A T o' (o' + length bs)
     (\<lambda>s. map_option (\<lambda>(_, s1). (Running, s1)) (vm_steps A E bs ([], s))) t t1 es"
proof -
  have sim: "\<exists>t1 s'. plain_turns E (length bs) t = Inr t1 \<and> stands code (o' + length bs) t1 \<and> ts_end t1 = ts_end t \<and>
      simulating n A T (ts_exps t) s ([], s') (ts_exps t1) \<and> grown (ts_exps t) (ts_exps t1) \<and> leads E t t1 \<and>
      vm_steps A E bs ([], s) = Some ([], s')" for s
  proof -
    from leaves_none[OF assms(3), of A s] obtain s' where v: "vm_steps A E bs ([], s) = Some ([], s')" by blast
    from block.turns_simulate[OF assms(1,2) v block.simulates_start, of n T] v assms(4-6) show ?thesis by blast
  qed
  from sim[of undefined] obtain t1 s1 where t1: "plain_turns E (length bs) t = Inr t1" "stands code (o' + length bs) t1"
    "ts_end t1 = ts_end t" "leads E t t1" "grown (ts_exps t) (ts_exps t1)"
    "simulating n A T (ts_exps t) undefined ([], s1) (ts_exps t1)" by blast
  from block.simulates_emptyD[OF t1(6)] obtain es where x: "ts_exps t1 = ts_exps t @ es" by blast
  have r: "run_block n A T (es @ more) s =
      then_run (map_option (\<lambda>(_, s1). (Running, s1)) (vm_steps A E bs ([], s))) (run_block n A T more)" for s more
  proof -
    from sim[of s] t1(1) obtain s2 where w: "simulating n A T (ts_exps t) s ([], s2) (ts_exps t1)"
      "vm_steps A E bs ([], s) = Some ([], s2)" by auto
    from block.simulates_emptyD[OF w(1)] x w(2) show ?thesis by (auto simp: block.reaches_def)
  qed
  have "bs = butlast bs @ [last bs]" using assms(4) by simp
  then have "drop o' code = butlast bs @ last bs # rest" using assms(2) by (metis append_Cons append_Nil append_assoc)
  moreover have "o' + length bs - 1 = o' + length (butlast bs)" using assms(4) by (cases bs) simp_all
  ultimately have "code ! (o' + length bs - 1) = last bs" using drop_nth[OF drop_at] by metis
  moreover have "plain_op (last bs)" using leaves_plain[OF assms(3)] assms(4) by simp
  ultimately have "\<forall>i. code ! (o' + length bs - 1) \<noteq> BcBranch i" by (auto simp: plain_op_def)
  with t1 x r show ?thesis by (intro exI[of _ t1] exI[of _ es]) (auto simp: becomes_def grown_def)
qed

lemma becomes_leave:
  assumes "stands code o' t" "drop o' code = bs @ [b] @ rest"
    and "b = BcRet \<and> leaves E bs (te_ret_len E) \<or> b = BcAbort \<and> leaves E bs 1"
    and "o' + length bs + 1 \<le> Suc (ts_end t)" "0 < ts_end t"
  shows "\<exists>t1 es. becomes E code n A T o' (o' + length bs + 1)
     (\<lambda>s. Option.bind (vm_steps A E bs ([], s)) (vm_final E b)) t t1 es"
proof -
  have d: "drop o' code = bs @ (b # rest)" using assms(2) by simp
  have sim: "\<exists>t1 t2 es c r. plain_turns E (length bs) t = Inr t1 \<and> plain_turn E t1 = Inr t2 \<and> stands code (o' + length bs + 1) t2 \<and>
      ts_end t2 = ts_end t \<and> leads E t t2 \<and> ts_exps t2 = ts_exps t @ es \<and> grown [] es \<and>
      (\<forall>more. run_block n A T (es @ more) s = Some r) \<and> fst r \<noteq> Running \<and>
      vm_steps A E bs ([], s) = Some c \<and> vm_final E b c = Some r" for s
  proof -
    from assms(3) obtain c r where c: "vm_steps A E bs ([], s) = Some c" "vm_final E b c = Some r" "fst r \<noteq> Running"
      using leaves_runs[of E bs _ A s] by (auto simp: vm_final_def length_Suc_conv dest!: leaves_runs[where A = A and s = s])
    from block.turns_simulate[OF assms(1) d c(1) block.simulates_start, of n T] assms(4,5) obtain t1 where
      t1: "plain_turns E (length bs) t = Inr t1" "stands code (o' + length bs) t1" "ts_end t1 = ts_end t"
      "simulating n A T (ts_exps t) s c (ts_exps t1)" "leads E t t1" by auto
    from block.final_turn[OF t1(2) drop_at[OF d] c(2) t1(4)] t1(3) assms(4,5) obtain t2 es where
      "plain_turn E t1 = Inr t2" "stands code (o' + length bs + 1) t2" "ts_end t2 = ts_end t" "leads E t1 t2"
      "ts_exps t2 = ts_exps t @ es" "grown [] es" "\<forall>more. run_block n A T (es @ more) s = Some r" by auto
    with t1 c leads_trans[OF t1(5)] show ?thesis by blast
  qed
  from sim[of undefined] obtain t1 t2 es where t: "plain_turns E (length bs) t = Inr t1" "plain_turn E t1 = Inr t2"
    "stands code (o' + length bs + 1) t2" "ts_end t2 = ts_end t" "leads E t t2" "ts_exps t2 = ts_exps t @ es"
    "grown [] es" by blast
  have r: "run_block n A T (es @ more) s =
      then_run (Option.bind (vm_steps A E bs ([], s)) (vm_final E b)) (run_block n A T more)" for s more
  proof -
    from sim[of s] t(1,2,6) obtain c r where w: "\<forall>more. run_block n A T (es @ more) s = Some r" "fst r \<noteq> Running"
      "vm_steps A E bs ([], s) = Some c" "vm_final E b c = Some r" by auto
    then show ?thesis by (cases r) simp
  qed
  have "code ! (o' + length bs) = b" using drop_nth[OF drop_at[OF d]] by simp
  then have "\<forall>i. code ! (o' + length bs + 1 - 1) \<noteq> BcBranch i" using assms(3) by auto
  with t r show ?thesis by (intro exI[of _ t2] exI[of _ es]) (auto simp: becomes_def grown_def)
qed

section \<open>Conditionals and loops\<close>

text \<open>A condition and its jumps: what remains to be shown is what \<open>br_true\<close> makes of the blocks.\<close>

lemma test_translated:
  assumes "stands code o' t" "drop o' code = c @ test_jumps m f @ rest" "leaves E c 1" "m = o' + length c + 2"
    and "m \<le> f" "f < 2 ^ 16" "m \<le> Suc (ts_end t)" "0 < ts_end t"
  shows "\<exists>s1 dn a. stands code m s1 \<and> ts_exps s1 = ts_exps t @ dn @ [a] \<and> ts_end s1 = ts_end t \<and>
     (expression_code E c \<longrightarrow> dn = [] \<and> start_of a = o') \<and>
     (\<forall>s. \<exists>s0. (\<forall>more. run_block n A T (dn @ more) s = run_block n A T more s0) \<and>
        eval_test A T a s0 = run_condition A T E c s) \<and>
     test_completes E code m f s1 t"
proof -
  have b: "o' + length c \<le> Suc (ts_end t)" "o' + length c \<le> ts_end t" using assms(4,7) by simp_all
  from condition_translated[OF assms(1,2,3) b(1) assms(8), of n A T] obtain t1 dn a where
    t1: "leads E t t1" "stands code (o' + length c) t1" "ts_end t1 = ts_end t" "ts_exps t1 = ts_exps t @ dn @ [a]"
    "expression_code E c \<longrightarrow> dn = [] \<and> start_of a = o'"
    "\<forall>s. \<exists>s0. (\<forall>more. run_block n A T (dn @ more) s = run_block n A T more s0) \<and>
        eval_test A T a s0 = run_condition A T E c s" by blast
  have e: "o' + length c \<le> ts_end t1" "0 < ts_end t1" using t1(3) b(2) assms(8) by simp_all
  have m: "m = (o' + length c) + 2" using assms(4) by simp
  from test_turn[OF t1(2) drop_at[OF assms(2)] m assms(5,6) e, of E] obtain s1 where
    s1: "stands code m s1" "ts_exps s1 = ts_exps t1" "ts_end s1 = ts_end t1" "test_completes E code m f s1 t1" by blast
  have "test_completes E code m f s1 t"
    using s1(4) leads_trans[OF t1(1)] unfolding test_completes_def by blast
  with s1(1-3) t1(3-6) show ?thesis
    by (intro exI[of _ s1] exI[of _ dn] exI[of _ a]) simp
qed

text \<open>The statement that replaces the condition and its blocks.\<close>

lemma becomes_test:
  assumes "leads E t (push_exp x s2)" "stands code e s2" "ts_end s2 = ts_end t" "ts_exps s2 = ts_exps t @ dn"
    and "x \<noteq> Nop" "x \<noteq> Continue"
    and "\<forall>s. \<exists>s0. (\<forall>more. run_block n A T (dn @ more) s = run_block n A T more s0) \<and>
        eval_test A T a s0 = run_condition A T E c s"
    and "\<And>k s more. run_block n A T (ExpLoc k x # more) s =
        Option.bind (eval_test A T a s) (\<lambda>(v, s1). then_run (B v s1) (run_block n A T more))"
  shows "\<exists>t' es. becomes E code n A T o' e (\<lambda>s. Option.bind (run_condition A T E c s) (\<lambda>(v, s1). B v s1)) t t' es"
proof -
  have "run_block n A T ((dn @ [ExpLoc k x]) @ more) s =
      then_run (Option.bind (run_condition A T E c s) (\<lambda>(v, s1). B v s1)) (run_block n A T more)" for k s more
  proof -
    from assms(7) obtain s0 where "run_block n A T (dn @ ExpLoc k x # more) s = run_block n A T (ExpLoc k x # more) s0"
      "eval_test A T a s0 = run_condition A T E c s" by blast
    then show ?thesis by (simp add: assms(8) then_run_bind case_prod_unfold)
  qed
  with assms(1-6) show ?thesis
    by (intro exI[of _ "push_exp x s2"] exI[of _ "dn @ [ExpLoc (opcode_offset s2) x]"])
      (simp add: becomes_def push_exp_def)
qed

text \<open>The block of a conditional without alternative.\<close>

lemma classify_closed:
  assumes "stands code e s" "e \<noteq> 0"
    and "es \<noteq> [] \<longrightarrow> loc_exp (last es) \<noteq> Continue \<and>
        (loc_exp (last es) = Nop \<longrightarrow> (\<forall>i. code ! (e - 1) \<noteq> BcBranch i))"
  shows "\<exists>blk. classify_true_branch v es s = TrueBranch blk None \<and> run_block n A T blk = run_block n A T es"
proof (cases "\<exists>rs k. es \<noteq> [] \<and> loc_exp (last es) = Ret rs k")
  case True
  then obtain rs k where r: "es \<noteq> []" "loc_exp (last es) = Ret rs k" by blast
  obtain i where l: "last es = ExpLoc i (Ret rs k)" using r(2) by (cases "last es") auto
  then have "es = butlast es @ [ExpLoc i (Ret rs k)]" using r(1) by (metis append_butlast_last_id)
  then have "run_block n A T (butlast es @ [ExpLoc i (Ret rs True)]) = run_block n A T es"
    using run_block_explicit by metis
  with r l show ?thesis by (simp add: classify_true_branch_def)
next
  case False
  have o: "opcode_offset s = e - 1" "iter_absolute (ts_iter s) (e - 1) = code ! (e - 1) \<or> iter_absolute (ts_iter s) (e - 1) = BcNop"
    using stands_offset[OF assms(1)] stands_absolute[OF assms(1)] by auto
  have "classify_true_branch v es s = TrueBranch es None"
  proof (cases "es = []")
    case ne: False
    show ?thesis
    proof (cases "loc_exp (last es) = Nop")
      case True
      with ne assms(3) o have "\<forall>i. iter_absolute (ts_iter s) (e - 1) \<noteq> BcBranch i" by auto
      with True ne o(1) show ?thesis by (simp add: classify_true_branch_def split: bytecode.split)
    qed (use ne False assms(3) in \<open>simp add: classify_true_branch_def split: exp.split\<close>)
  qed (simp add: classify_true_branch_def)
  then show ?thesis by simp
qed

text \<open>The code from \<open>m\<close> to \<open>e\<close> is translated wherever a translator gets to it.\<close>

definition block_becomes ::
    "tenv \<Rightarrow> bytecode list \<Rightarrow> nat \<Rightarrow> ('v, 's) algebra \<Rightarrow> ('v \<Rightarrow> bool) \<Rightarrow> nat \<Rightarrow> nat \<Rightarrow>
     ('s \<Rightarrow> ('v outcome \<times> 's) option) \<Rightarrow> bool" where
  "block_becomes E code n A T m e R \<longleftrightarrow>
     (\<forall>t. stands code m t \<longrightarrow> e \<le> Suc (ts_end t) \<longrightarrow> 0 < ts_end t \<longrightarrow>
        (\<exists>t' es. becomes E code n A T m e R t t' es))"

lemma nested_becomes:
  assumes "block_becomes E code n A T m e R" "stands code m s" "m \<le> e" "e \<le> f" "2 \<le> m"
  shows "\<exists>u es. becomes E code n A T m e R (translator_new (ts_iter s) (f - m) used) u es \<and>
     leads E (translator_new (ts_iter s) (f - m) used) u \<and> stands code e u \<and> ts_end u = f - 1 \<and> ts_exps u = es"
proof -
  note n = stands_nested[OF assms(2), where k = "f - m" and used = used]
  have "ts_end (translator_new (ts_iter s) (f - m) used) = f - 1" using n(3) assms(3-5) by simp
  with assms(1,3-5) n(1,2) show ?thesis unfolding block_becomes_def becomes_def by fastforce
qed

lemma becomes_if:
  assumes "stands code o' t" "drop o' code = c @ test_jumps m e @ rest" "leaves E c 1" "m = o' + length c + 2"
    and "m \<le> e" "e < 2 ^ 16" "e \<le> Suc (ts_end t)" "0 < ts_end t" "block_becomes E code n A T m e R"
  shows "\<exists>t' es. becomes E code n A T o' e
     (\<lambda>s. Option.bind (run_condition A T E c s) (\<lambda>(v, s1). if v then R s1 else Some (Running, s1))) t t' es"
proof -
  have b: "m \<le> Suc (ts_end t)" "2 \<le> m" using assms(4,5,7) by simp_all
  from test_translated[OF assms(1-6) b(1) assms(8), of n A T] obtain s1 dn a where
    s1: "stands code m s1" "ts_exps s1 = ts_exps t @ dn @ [a]" "ts_end s1 = ts_end t"
    "\<forall>s. \<exists>s0. (\<forall>more. run_block n A T (dn @ more) s = run_block n A T more s0) \<and>
        eval_test A T a s0 = run_condition A T E c s"
    "test_completes E code m e s1 t" by blast
  from nested_becomes[OF assms(9) s1(1) assms(5) order_refl b(2)] obtain u es where
    u: "becomes E code n A T m e R (translator_new (ts_iter s1) (e - m) (ts_used s1)) u es"
    "leads E (translator_new (ts_iter s1) (e - m) (ts_used s1)) u" "stands code e u" "ts_end u = e - 1"
    "ts_exps u = es" by blast
  define s where "s = s1\<lparr>ts_iter := ts_iter u, ts_used := ts_used u\<rparr>"
  have s: "stands code e s" "ts_exps s = (ts_exps t @ dn) @ [a]" "ts_end s = ts_end t" using u(3) s1(2,3) by (simp_all add: s_def)
  have "e \<noteq> 0" using b(2) assms(5) by simp
  from classify_closed[OF s(1) this, of es "te_vendor E" n A T] u(1) obtain blk where
    blk: "classify_true_branch (te_vendor E) es s = TrueBranch blk None" "run_block n A T blk = run_block n A T es"
    unfolding becomes_def by blast
  let ?x = "IfElse a (Block blk True) None"
  let ?s = "s\<lparr>ts_exps := ts_exps t @ dn\<rparr>"
  have "after_true (te_vendor E) (translate_block (translate g E)) e (ts_exps u) s = Inr (?x, ?s)" for g
    using blk(1) pop_exp_snoc[OF s(2)] u(5) by (simp add: after_true_def br_true_false_branch_def)
  moreover have "length (it_rest (ts_iter ?s)) \<le> length code - m"
    using stands_remaining[OF s(1)] assms(5) by simp
  ultimately have l: "leads E t (push_exp ?x ?s)"
    using s1(5) u(2-4) unfolding test_completes_def s_def by blast
  have "run_block n A T (ExpLoc k ?x # more) q = Option.bind (eval_test A T a q)
      (\<lambda>(v, s1). then_run (if v then R s1 else Some (Running, s1)) (run_block n A T more))" for k q more
    using blk(2) becomes_runs[OF u(1)] by (simp cong: if_cong)
  from becomes_test[OF l _ _ _ _ _ s1(4) this, where e = e and o' = o'] s show ?thesis by simp
qed

lemma run_some_block:
  "run_block n A T (ExpLoc k (IfElse a (Block ts b) (some_block fs)) # zs) s =
     Option.bind (eval_test A T a s) (\<lambda>(v, s1).
       then_run (if v then run_block n A T ts s1 else run_block n A T fs s1) (run_block n A T zs))"
  by (cases fs) (simp_all add: some_block_def cong: if_cong)

text \<open>A block that ends in a jump.\<close>

lemma jump_becomes:
  assumes "block_becomes E code n A T m j R" "stands code m s" "m \<le> j" "2 \<le> m"
    and "drop j code = branch_to e # rest" "e < 2 ^ 16"
  shows "\<exists>u es. leads E (translator_new (ts_iter s) (Suc j - m) used) u \<and> stands code (Suc j) u \<and> ts_end u = j \<and>
     ts_exps u = es @ [ExpLoc j (if e > j then Nop else Continue)] \<and> run_block n A T es = R"
proof -
  have "j \<le> Suc j" by simp
  from nested_becomes[OF assms(1,2,3) this assms(4), of used] obtain u es where
    u: "becomes E code n A T m j R (translator_new (ts_iter s) (Suc j - m) used) u es"
    "leads E (translator_new (ts_iter s) (Suc j - m) used) u" "stands code j u" "ts_end u = j" "ts_exps u = es" by auto
  from branch_turn[OF u(3) assms(5,6)] u(4) assms(3,4) obtain u' where
    "leads E u u'" "stands code (Suc j) u'" "ts_end u' = j"
    "ts_exps u' = es @ [ExpLoc j (if e > j then Nop else Continue)]" using u(5) by auto
  with u(1,2) leads_trans becomes_runs show ?thesis by blast
qed

text \<open>The false branch: the code from \<open>k\<close> to \<open>e\<close> is a block of its own.\<close>

definition block_leads ::
    "tenv \<Rightarrow> bytecode list \<Rightarrow> nat \<Rightarrow> ('v, 's) algebra \<Rightarrow> ('v \<Rightarrow> bool) \<Rightarrow> nat \<Rightarrow> nat \<Rightarrow>
     ('s \<Rightarrow> ('v outcome \<times> 's) option) \<Rightarrow> bool" where
  "block_leads E code n A T k e Q \<longleftrightarrow>
     (\<forall>s used. stands code k s \<longrightarrow>
        (\<exists>u. leads E (translator_new (ts_iter s) (e - k) used) u \<and> stands code e u \<and> ts_end u = e - 1 \<and>
           run_block n A T (ts_exps u) = Q))"

lemma becomes_leads: "block_becomes E code n A T k e Q \<Longrightarrow> k \<le> e \<Longrightarrow> 2 \<le> k \<Longrightarrow> block_leads E code n A T k e Q"
  unfolding block_leads_def using nested_becomes becomes_runs by (metis order_refl)

lemma false_branch_translated:
  assumes "stands code k s" "k \<le> e" "2 \<le> k" "block_leads E code n A T k e Q"
    and "e = k \<Longrightarrow> Q = (\<lambda>s. Some (Running, s))"
  shows "\<exists>s3 fs. (\<forall>g. length code - k < g \<longrightarrow>
        br_true_false_branch (translate_block (translate g E)) k (Some e) s = Inr (some_block fs, s3)) \<and>
      stands code e s3 \<and> ts_exps s3 = ts_exps s \<and> ts_end s3 = ts_end s \<and> run_block n A T fs = Q"
proof (cases "e = k")
  case True
  then have "br_true_false_branch tb k (Some e) s = Inr (some_block [], s)" for tb
    using stands_offset[OF assms(1)] assms(3) by (simp add: br_true_false_branch_def usub_def some_block_def)
  moreover have "run_block n A T [] = Q" using assms(5)[OF True] by (simp add: fun_eq_iff)
  ultimately show ?thesis using assms(1) True by blast
next
  case False
  from assms(1,4) obtain w where
    w: "leads E (translator_new (ts_iter s) (e - k) (ts_used s)) w" "stands code e w" "ts_end w = e - 1"
    "run_block n A T (ts_exps w) = Q" unfolding block_leads_def by blast
  let ?s = "s\<lparr>ts_iter := ts_iter w, ts_used := ts_used w\<rparr>"
  have "br_true_false_branch (translate_block (translate g E)) k (Some e) s = Inr (some_block (ts_exps w), ?s)"
    if "length code - k < g" for g
  proof -
    have "length (it_rest (ts_iter s)) < g" using that stands_remaining[OF assms(1)] by simp
    moreover have "\<not> k < opcode_offset s" using stands_offset[OF assms(1)] by simp
    ultimately show ?thesis
      using False assms(2) nested_block[OF w(1,2,3)] by (simp add: br_true_false_branch_def usub_def)
  qed
  moreover have "stands code e ?s" using w(2) by simp
  ultimately show ?thesis using w(4) by (intro exI[of _ ?s] exI[of _ "ts_exps w"]) simp
qed

lemma becomes_if_else:
  assumes "stands code o' t" "drop o' code = c @ test_jumps m (Suc j) @ rest" "leaves E c 1" "m = o' + length c + 2"
    and "m \<le> j" "j < e" "e < 2 ^ 16" "e \<le> Suc (ts_end t)" "0 < ts_end t"
    and "block_becomes E code n A T m j R" "drop j code = branch_to e # rest'"
    and "block_leads E code n A T (Suc j) e Q" "e = Suc j \<Longrightarrow> Q = (\<lambda>s. Some (Running, s))"
  shows "\<exists>t' es. becomes E code n A T o' e
     (\<lambda>s. Option.bind (run_condition A T E c s) (\<lambda>(v, s1). if v then R s1 else Q s1)) t t' es"
proof -
  let ?f = "Suc j"
  have b: "m \<le> ?f" "?f < 2 ^ 16" "m \<le> Suc (ts_end t)" "2 \<le> m" "2 \<le> ?f" "?f \<le> e" "e > j" using assms(4-8) by simp_all
  from test_translated[OF assms(1-4) b(1,2,3) assms(9), of n A T] obtain s1 dn a where
    s1: "stands code m s1" "ts_exps s1 = ts_exps t @ dn @ [a]" "ts_end s1 = ts_end t"
    "\<forall>s. \<exists>s0. (\<forall>more. run_block n A T (dn @ more) s = run_block n A T more s0) \<and>
        eval_test A T a s0 = run_condition A T E c s"
    "test_completes E code m ?f s1 t" by blast
  from jump_becomes[OF assms(10) s1(1) assms(5) b(4) assms(11,7), of "ts_used s1"] b(7) obtain u es where
    u: "leads E (translator_new (ts_iter s1) (?f - m) (ts_used s1)) u" "stands code ?f u" "ts_end u = ?f - 1"
    "ts_exps u = es @ [ExpLoc j Nop]" "run_block n A T es = R" by auto
  define s where "s = s1\<lparr>ts_iter := ts_iter u, ts_used := ts_used u\<rparr>"
  have s: "stands code ?f s" "ts_exps s = (ts_exps t @ dn) @ [a]" "ts_end s = ts_end t" using u(2) s1(2,3) by (simp_all add: s_def)
  have off: "opcode_offset s = j" using stands_offset[OF s(1)] by simp
  have "iter_absolute (ts_iter s) j = branch_to e"
    using stands_absolute[OF s(1), of j] drop_nth[OF assms(11)] by simp
  then have cl: "classify_true_branch (te_vendor E) (ts_exps u) s = TrueBranch (ts_exps u) (Some e)"
    using off u(4) b(7) assms(7) by (simp add: classify_true_branch_def branch_to_def)
  have "length code - ?f < g" if "length code - m < g" for g using that assms(5) by simp
  with false_branch_translated[OF s(1) b(6,5) assms(12,13)] s(2,3) obtain s3 fs where
    s3: "\<And>g. length code - m < g \<Longrightarrow>
        br_true_false_branch (translate_block (translate g E)) ?f (Some e) s = Inr (some_block fs, s3)"
      "stands code e s3" "ts_exps s3 = (ts_exps t @ dn) @ [a]" "ts_end s3 = ts_end t" "run_block n A T fs = Q"
    by auto
  let ?x = "IfElse a (Block (ts_exps u) True) (some_block fs)"
  let ?s = "s3\<lparr>ts_exps := ts_exps t @ dn\<rparr>"
  have "after_true (te_vendor E) (translate_block (translate g E)) ?f (ts_exps u) s = Inr (?x, ?s)"
    if "length code - m < g" for g
    using cl s3(1)[OF that] pop_exp_snoc[OF s3(3)] by (simp add: after_true_def)
  moreover have "length (it_rest (ts_iter ?s)) \<le> length code - m"
    using stands_remaining[OF s3(2)] assms(5,6) by simp
  ultimately have l: "leads E t (push_exp ?x ?s)"
    using s1(5) u(1-3) unfolding test_completes_def s_def by blast
  have "run_block n A T (ts_exps u) = R"
  proof -
    have "run_block n A T [ExpLoc j Nop] = (\<lambda>s. Some (Running, s))" by (simp add: fun_eq_iff)
    then show ?thesis using u(4,5) by (simp add: run_block_append_fun)
  qed
  then have "run_block n A T (ExpLoc k ?x # more) q = Option.bind (eval_test A T a q)
      (\<lambda>(v, s1). then_run (if v then R s1 else Q s1) (run_block n A T more))" for k q more
    using s3(5) by (simp add: run_some_block cong: if_cong)
  from becomes_test[OF l _ _ _ _ _ s1(4) this, where e = e and o' = o'] s3(2,4) show ?thesis by simp
qed

lemma becomes_while:
  assumes "stands code o' t" "drop o' code = c @ test_jumps m (Suc j) @ rest" "leaves E c 1" "m = o' + length c + 2"
    and "m \<le> j" "Suc j < 2 ^ 16" "Suc j \<le> Suc (ts_end t)" "0 < ts_end t"
    and "block_becomes E code n A T m j R" "drop j code = branch_to o' # rest'" "expression_code E c"
    and "\<And>i. v_bc_offset (te_vendor E) (BcBranch i) = Some i"
  shows "\<exists>t' es. becomes E code n A T o' (Suc j) (while_run n (run_condition A T E c) R) t t' es"
proof -
  let ?f = "Suc j"
  have b: "m \<le> ?f" "m \<le> Suc (ts_end t)" "2 \<le> m" "o' < 2 ^ 16" "\<not> o' > j" using assms(4-7) by simp_all
  from test_translated[OF assms(1-4) b(1) assms(6) b(2) assms(8), of n A T] assms(11) obtain s1 a where
    s1: "stands code m s1" "ts_exps s1 = ts_exps t @ [a]" "ts_end s1 = ts_end t" "start_of a = o'"
    "\<forall>s. \<exists>s0. (\<forall>more. run_block n A T more s = run_block n A T more s0) \<and>
        eval_test A T a s0 = run_condition A T E c s"
    "test_completes E code m ?f s1 t" by auto
  have test: "eval_test A T a = run_condition A T E c"
  proof (rule ext)
    fix q
    from s1(5) obtain s0 where "run_block n A T [] q = run_block n A T [] s0" "eval_test A T a s0 = run_condition A T E c q"
      by blast
    then show "eval_test A T a q = run_condition A T E c q" by simp
  qed
  from jump_becomes[OF assms(9) s1(1) assms(5) b(3) assms(10) b(4), of "ts_used s1"] b(5) obtain u es where
    u: "leads E (translator_new (ts_iter s1) (?f - m) (ts_used s1)) u" "stands code ?f u" "ts_end u = ?f - 1"
    "ts_exps u = es @ [ExpLoc j Continue]" "run_block n A T es = R" by auto
  define s where "s = s1\<lparr>ts_iter := ts_iter u, ts_used := ts_used u\<rparr>"
  have s: "stands code ?f s" "ts_exps s = ts_exps t @ [a]" "ts_end s = ts_end t" using u(2) s1(2,3) by (simp_all add: s_def)
  have off: "opcode_offset s = j" using stands_offset[OF s(1)] by simp
  have "iter_absolute (ts_iter s) j = branch_to o'"
    using stands_absolute[OF s(1), of j] drop_nth[OF assms(10)] by simp
  then have cl: "classify_true_branch (te_vendor E) (ts_exps u) s = WhileBody es"
    using off u(4) s(2) s1(4) b(4) assms(12) by (simp add: classify_true_branch_def branch_to_def last_exp_def)
  let ?x = "While a (Block es True)"
  let ?s = "s\<lparr>ts_exps := ts_exps t\<rparr>"
  have "after_true (te_vendor E) (translate_block (translate g E)) ?f (ts_exps u) s = Inr (?x, ?s)" for g
    using cl pop_exp_snoc[OF s(2)] by (simp add: after_true_def)
  moreover have "length (it_rest (ts_iter ?s)) \<le> length code - m"
    using stands_remaining[OF s(1)] assms(5) by simp
  ultimately have l: "leads E t (push_exp ?x ?s)"
    using s1(6) u(1-3) unfolding test_completes_def s_def by blast
  with s test u(5) show ?thesis
    by (intro exI[of _ "push_exp ?x ?s"] exI[of _ "[ExpLoc (opcode_offset ?s) ?x]"])
      (simp add: becomes_def push_exp_def)
qed

section \<open>Programs\<close>

lemma sizeless: "well_formed E ps \<Longrightarrow> code_size ps = 0 \<Longrightarrow> ps = []"
  by (induction ps rule: code_size.induct) simp_all

lemma block_becomesD:
  "block_becomes E code n A T m e R \<Longrightarrow> stands code m t \<Longrightarrow> e \<le> Suc (ts_end t) \<Longrightarrow> 0 < ts_end t \<Longrightarrow>
     \<exists>t' es. becomes E code n A T m e R t t' es"
  by (auto simp: block_becomes_def)

text \<open>One piece, then the rest.\<close>

lemma block_then:
  assumes "\<And>t. stands code o' t \<Longrightarrow> m \<le> Suc (ts_end t) \<Longrightarrow> 0 < ts_end t \<Longrightarrow>
      \<exists>t' es. becomes E code n A T o' m R t t' es"
    and "block_becomes E code n A T m e Q" "m \<le> e" "\<And>s. P s = then_run (R s) Q"
  shows "block_becomes E code n A T o' e P"
  unfolding block_becomes_def
proof (intro allI impI)
  fix t assume t: "stands code o' t" "e \<le> Suc (ts_end t)" "0 < ts_end t"
  then have "m \<le> Suc (ts_end t)" using assms(3) by simp
  from assms(1)[OF t(1) this t(3)] obtain t1 es where x: "becomes E code n A T o' m R t t1 es" by blast
  then have "stands code m t1" "ts_end t1 = ts_end t" by (simp_all add: becomes_def)
  with block_becomesD[OF assms(2), of t1] t obtain t2 fs where "becomes E code n A T m e Q t1 t2 fs" by auto
  from becomes_then[OF x this] have "becomes E code n A T o' e P t t2 (es @ fs)" by (simp add: assms(4)[symmetric])
  then show "\<exists>t' es. becomes E code n A T o' e P t t' es" by blast
qed

lemma pieces_become:
  assumes "drop o' code = assemble o' ps @ rest" "well_formed E ps" "o' + code_size ps < 2 ^ 16"
    and "\<And>i. v_bc_offset (te_vendor E) (BcBranch i) = Some i"
  shows "block_becomes E code n A T o' (o' + code_size ps) (run_pieces n A T E ps)"
  using assms(1-3)
proof (induction o' ps arbitrary: rest rule: assemble.induct)
  case (1 o')
  have "run_pieces n A T E [] = (\<lambda>s. Some (Running, s))" by (simp add: fun_eq_iff)
  then show ?case using becomes_nothing by (fastforce simp: block_becomes_def)
next
  case (2 o' bs ps)
  have d: "drop o' code = bs @ (assemble (o' + length bs) ps @ rest)" using 2(2) by simp
  have w: "leaves E bs 0" "bs \<noteq> []" "well_formed E ps" "o' + length bs + code_size ps < 2 ^ 16"
    using 2(3,4) by simp_all
  have "block_becomes E code n A T o' (o' + length bs + code_size ps) (run_pieces n A T E (Line bs # ps))"
  proof (rule block_then[OF becomes_line[OF _ d w(1,2)] 2(1)[OF drop_at[OF d] w(3,4)]])
    show "run_pieces n A T E (Line bs # ps) s = then_run
        (map_option (\<lambda>(_, s1). (Running, s1)) (vm_steps A E bs ([], s))) (run_pieces n A T E ps)" for s
      by (cases "vm_steps A E bs ([], s)") auto
  qed simp_all
  then show ?case by (simp only: code_size.simps add.assoc)
next
  case (3 o' bs b ps)
  have w: "ps = []" "b = BcRet \<and> leaves E bs (te_ret_len E) \<or> b = BcAbort \<and> leaves E bs 1"
    using 3(3) by simp_all
  have d: "drop o' code = bs @ [b] @ rest" using 3(2) w(1) by simp
  have "run_pieces n A T E [Leave bs b] = (\<lambda>s. Option.bind (vm_steps A E bs ([], s)) (vm_final E b))"
    by (simp add: fun_eq_iff)
  then show ?case using becomes_leave[OF _ d w(2), where n = n and A = A and T = T] w(1) by (simp add: block_becomes_def add.assoc)
next
  case (4 o' c t ps)
  define m where "m = o' + length c + 2"
  define e where "e = m + code_size t"
  note d = layout_if[OF 4(3) m_def e_def]
  have w: "leaves E c 1" "well_formed E t" "well_formed E ps" "m \<le> e" "e < 2 ^ 16" "m + code_size t < 2 ^ 16"
    "e + code_size ps < 2 ^ 16" "e + code_size ps = o' + code_size (IfThen c t # ps)"
    using 4(4,5) by (simp_all add: m_def e_def)
  note t = 4(1)[OF m_def e_def d(2) w(2,6), folded e_def]
  have "block_becomes E code n A T o' (e + code_size ps) (run_pieces n A T E (IfThen c t # ps))"
    by (rule block_then[OF becomes_if[OF _ d(1) w(1) m_def w(4,5) _ _ t] 4(2)[OF m_def e_def d(3) w(3,7)]])
      (simp_all add: then_run_bind case_prod_unfold)
  then show ?case by (simp only: w(8))
next
  case (5 o' c t f ps)
  define m where "m = o' + length c + 2"
  define k where "k = m + code_size t + 1"
  define e where "e = k + code_size f"
  define j where "j = m + code_size t"
  note d = layout_if_else[OF 5(4) m_def k_def e_def]
  have w: "leaves E c 1" "well_formed E t" "well_formed E f" "well_formed E ps" "m \<le> j" "j < e" "e < 2 ^ 16"
    "m + code_size t < 2 ^ 16" "k + code_size f < 2 ^ 16" "e + code_size ps < 2 ^ 16" "k = Suc j"
    "e + code_size ps = o' + code_size (IfThenElse c t f # ps)"
    using 5(5,6) by (simp_all add: m_def k_def e_def j_def)
  note t = 5(1)[OF m_def k_def e_def d(2) w(2,8), folded j_def]
  note f = 5(2)[OF m_def k_def e_def d(4) w(3,9), folded e_def]
  have q: "run_pieces n A T E f = (\<lambda>s. Some (Running, s))" if "e = Suc j"
    using sizeless[OF w(3)] that by (simp add: e_def w(11) fun_eq_iff)
  have "block_becomes E code n A T o' (e + code_size ps) (run_pieces n A T E (IfThenElse c t f # ps))"
    by (rule block_then[OF becomes_if_else[OF _ d(1)[unfolded w(11)] w(1) m_def w(5,6,7) _ _ t d(3)[folded j_def]
          becomes_leads[OF f[unfolded w(11)]] q] 5(3)[OF m_def k_def e_def d(5) w(4,10)]])
      (use w(5,6) m_def in \<open>simp_all add: then_run_bind case_prod_unfold\<close>)
  then show ?case by (simp only: w(12))
next
  case (6 o' c t ps)
  define m where "m = o' + length c + 2"
  define e where "e = m + code_size t + 1"
  define j where "j = m + code_size t"
  note d = layout_while[OF 6(3) m_def e_def]
  have w: "leaves E c 1" "expression_code E c" "well_formed E t" "well_formed E ps" "m \<le> j" "Suc j < 2 ^ 16"
    "m + code_size t < 2 ^ 16" "e + code_size ps < 2 ^ 16" "e = Suc j"
    "e + code_size ps = o' + code_size (WhileDo c t # ps)"
    using 6(4,5) by (simp_all add: m_def e_def j_def)
  note t = 6(1)[OF m_def e_def d(2) w(3,7), folded j_def]
  have "block_becomes E code n A T o' (e + code_size ps) (run_pieces n A T E (WhileDo c t # ps))"
    by (rule block_then[OF becomes_while[OF _ d(1)[unfolded w(9)] w(1) m_def w(5,6) _ _ t d(3)[folded j_def] w(2)
          assms(4), folded w(9)] 6(2)[OF m_def e_def d(4) w(4,8)]]) simp_all
  then show ?case by (simp only: w(10))
qed

section \<open>Structured bodies\<close>

text \<open>The disassembled body of a well-formed program.\<close>

lemma body_becomes:
  assumes "locals_new params u im tps (ua_signature u (cu_locals code)) = Inr ls"
    and "E = \<lparr>te_vendor = v, te_locals = ls, te_unit = u, te_imports = im, te_type_params = tps, te_ret_len = ret_len\<rparr>"
    and "block_becomes E (cu_code code) n A T 0 (length (cu_code code)) R" "cu_code code \<noteq> []"
  shows "\<exists>b used es. body_new v code ret_len u params im tps = Inr (b, used) \<and> bd_block b = Block es False \<and>
     run_block n A T es = R"
proof -
  let ?code = "cu_code code"
  let ?t = "translator_new (iter_new ?code) (length ?code) (\<lambda>_. False)"
  have "length ?code \<le> Suc (ts_end ?t)" "0 < ts_end ?t"
    using assms(4) by (simp_all add: translator_new_def iter_new_def)
  from block_becomesD[OF assms(3) stands_start this] obtain t1 es where
    t1: "becomes E ?code n A T 0 (length ?code) R ?t t1 es" by blast
  then have w: "leads E ?t t1" "stands ?code (length ?code) t1" "ts_exps t1 = es"
    by (simp_all add: becomes_def translator_new_def)
  from whole_code[OF w(1,2)] w(3) becomes_runs[OF t1] assms(1,2) show ?thesis
    by (auto simp: body_new_def simp del: translate.simps)
qed

lemma body_translated:
  assumes "locals_new params u im tps (ua_signature u (cu_locals code)) = Inr ls"
    and "E = \<lparr>te_vendor = v, te_locals = ls, te_unit = u, te_imports = im, te_type_params = tps, te_ret_len = ret_len\<rparr>"
    and "cu_code code = assemble 0 ps" "well_formed E ps" "code_size ps < 2 ^ 16"
    and "\<And>i. v_bc_offset v (BcBranch i) = Some i"
  shows "\<exists>b used es. body_new v code ret_len u params im tps = Inr (b, used) \<and> bd_block b = Block es False \<and>
     run_block n A T es = run_pieces n A T E ps"
proof (cases "code_size ps = 0")
  case True
  then have "ps = []" by (rule sizeless[OF assms(4)])
  with assms(1,3) show ?thesis
    by (auto simp: body_new_def translator_new_def iter_new_def opcode_offset_def iter_index_def fun_eq_iff)
next
  case False
  have vb: "\<And>i. v_bc_offset (te_vendor E) (BcBranch i) = Some i" using assms(2,6) by simp
  have d: "drop 0 (cu_code code) = assemble 0 ps @ []" and b: "0 + code_size ps < 2 ^ 16" using assms(3,5) by simp_all
  have "block_becomes E (cu_code code) n A T 0 (length (cu_code code)) (run_pieces n A T E ps)"
    using pieces_become[OF d assms(4) b vb] by (simp add: assms(3))
  moreover have "cu_code code \<noteq> []" using False assms(3) by (metis length_0_conv length_assemble)
  ultimately show ?thesis by (rule body_becomes[OF assms(1,2)])
qed


section \<open>A loop\<close>

text \<open>Counting up to the first parameter, by one and then by two.\<close>

definition sample_loop :: "piece list" where
  "sample_loop =
     [WhileDo [BcCopyLoc 2, BcCopyLoc 0, BcLt]
        [IfThenElse [BcCopyLoc 3]
           [Line [BcCopyLoc 2, BcLdU64 2, BcAdd, BcStLoc 2]]
           [Line [BcCopyLoc 2, BcLdU64 1, BcAdd, BcStLoc 2]],
         Line [BcLdTrue, BcStLoc 3]],
      Leave [BcCopyLoc 2] BcRet]"

lemma vm_step_local:
  "unat i < length (te_locals E) \<Longrightarrow> vm_step A E (BcCopyLoc i) (stk, s) =
     Some (case al_load A (te_locals E ! unat i) s of (v, s') \<Rightarrow> (stk @ [v], s'))"
  "unat i < length (te_locals E) \<Longrightarrow> vm_step A E (BcStLoc i) ([v], s) = Some ([], al_store A (te_locals E ! unat i) v s)"
  by (simp_all add: vm_step_def vm_value_def vm_operands_def group_defs no_operand_def with_local_def
    pushes_value_def split: prod.split)

lemma vm_step_literal:
  "vm_step A E (BcLdU64 n) (stk, s) = Some (stk @ [al_ld A (LdU64 n)], s)"
  "vm_step A E BcLdTrue (stk, s) = Some (stk @ [al_ld A (LdBool True)], s)"
  by (simp_all add: vm_step_def vm_value_def vm_operands_def group_defs no_operand_def pushes_value_def)

lemma vm_step_binary:
  "binary_operator b = Some p \<Longrightarrow> vm_step A E b ([x, y], s) = Some (case al_binary A p x y s of (v, s') \<Rightarrow> ([v], s'))"
  by (cases b)
    (simp_all add: vm_step_def vm_value_def vm_operands_def group_defs pushes_value_def split: prod.split)

lemmas vm_step_rules = vm_step_local vm_step_literal vm_step_binary

lemma sample_env_fields [simp]: "te_locals (sample_env v) = sample_locals" "te_ret_len (sample_env v) = 1"
  by (simp_all add: sample_env_def)

lemma sample_locals_nth [simp]:
  "length sample_locals = 4"
  "local_cell (sample_locals ! 0) = 0" "local_cell (sample_locals ! 2) = 2" "local_cell (sample_locals ! 3) = 3"
  by (simp_all add: sample_locals_def local_cell_def)

lemma sample_loop_well_formed: "well_formed (sample_env v) sample_loop" "code_size sample_loop < 2 ^ 16"
  by (simp_all add: sample_loop_def leaves_def vm_step_rules binary_operator_def unit_algebra_def
    expression_code_def statement_op_def pushes_value_def group_defs)

lemma counting_algebra_fields [simp]:
  "al_load counting_algebra l s = (s ! local_cell l, s)"
  "al_store counting_algebra l v s = s[local_cell l := v]"
  "al_ld counting_algebra (LdU64 n) = unat n" "al_ld counting_algebra (LdBool True) = 1"
  "al_binary counting_algebra OpAdd x y s = (x + y, s)"
  "al_binary counting_algebra OpLt x y s = ((if x < y then 1 else 0), s)"
  by (simp_all add: counting_algebra_def)

lemma update_rules: "(a # b # c # xs)[2 := v] = a # b # v # xs" "(a # b # c # d # xs)[3 := v] = a # b # c # v # xs"
  by (simp_all add: eval_nat_numeral)

lemma sample_loop_runs:
  "run_pieces (Suc (Suc (Suc (Suc 0)))) counting_algebra (\<lambda>v. v \<noteq> 0) (sample_env v) sample_loop [4, 9, 0, 0] =
     Some (Returned [5], [4, 9, 5, 1])"
  by (simp add: sample_loop_def vm_step_rules binary_operator_def run_condition_def vm_final_def update_rules)


end
