(* ===== verification/Compat.thy ===== *)
theory Compat
  imports Dis_Format "HOL-Library.Multiset"
begin

text \<open>
  The bytecode adapter (\<open>lang/compat/src\<close>): \<open>mutator.rs\<close> (edits collected as ranges of the
  original buffer and applied in order of their start), \<open>context.rs\<close> (a cursor borrowed for one
  table) and \<open>lib.rs\<close> (which edits widen 16-byte addresses to the length of this build).

  The binary format itself (\<open>check_binary\<close>, the readers and \<open>write_u64_as_uleb128\<close>) belongs to
  the \<open>vm\<close> crate: \<open>binary_format\<close> is a parameter. A cursor is its buffer and a position.
  \<open>compat_error\<close> separates the errors the code returns from the traps of its arithmetic and
  slicing; \<open>isize\<close> values are \<open>int\<close>, a cast to \<open>usize\<close> reads them modulo \<open>2\<^sup>6\<^sup>4\<close>, and \<open>u32\<close>
  additions trap on overflow.
\<close>

section \<open>Mutator (mutator.rs)\<close>

type_synonym bytes = "8 word list"

record diff =
  df_start :: nat
  df_end :: nat
  df_value :: bytes

type_synonym mutator = "diff list"

definition mutator_new :: mutator where
  "mutator_new = []"

definition mutator_make_diff :: "mutator \<Rightarrow> nat \<Rightarrow> nat \<Rightarrow> bytes \<Rightarrow> mutator" where
  "mutator_make_diff m start_offset end_offset new_value =
     m @ [\<lparr>df_start = start_offset, df_end = end_offset, df_value = new_value\<rparr>]"

definition as_usize :: "int \<Rightarrow> nat" where
  "as_usize i = nat (i mod 2 ^ 64)"

definition diff_offset :: "diff \<Rightarrow> int result" where
  "diff_offset d =
     rbind (usub (df_end d) (df_start d)) (\<lambda>origin_len.
       Inr (int (length (df_value d)) - int origin_len))"

definition start_with_diff :: "diff \<Rightarrow> int \<Rightarrow> nat" where
  "start_with_diff d offset_diff = as_usize (int (df_start d) + offset_diff)"

definition source_range_with_diff :: "diff \<Rightarrow> int \<Rightarrow> nat \<times> nat" where
  "source_range_with_diff d offset_diff =
     (as_usize (int (df_start d) + offset_diff), as_usize (int (df_end d) + offset_diff))"

text \<open>\<open>buffer[a..b].copy_from_slice(v)\<close>, \<open>buffer.insert\<close> and \<open>buffer.remove\<close> panic when they
  are out of range.\<close>

definition copy_into :: "bytes \<Rightarrow> nat \<Rightarrow> nat \<Rightarrow> bytes \<Rightarrow> bytes result" where
  "copy_into buffer a b v =
     (if a \<le> b \<and> b \<le> length buffer
      then (if length v = b - a then Inr (take a buffer @ v @ drop b buffer)
            else Inl (Panicked ''copy_from_slice''))
      else Inl IndexOutOfBounds)"

definition buffer_insert :: "bytes \<Rightarrow> nat \<Rightarrow> 8 word \<Rightarrow> bytes result" where
  "buffer_insert buffer i x =
     (if i \<le> length buffer then Inr (take i buffer @ x # drop i buffer) else Inl IndexOutOfBounds)"

definition buffer_remove :: "bytes \<Rightarrow> nat \<Rightarrow> bytes result" where
  "buffer_remove buffer i =
     (if i < length buffer then Inr (take i buffer @ drop (Suc i) buffer) else Inl IndexOutOfBounds)"

text \<open>\<open>for src_index in 0..n\<close>: the values still to insert, at increasing positions.\<close>

primrec insert_values :: "bytes \<Rightarrow> nat \<Rightarrow> bytes \<Rightarrow> bytes result" where
  "insert_values [] i buffer = Inr buffer"
| "insert_values (x # xs) i buffer =
     rbind (buffer_insert buffer i x) (insert_values xs (Suc i))"

primrec remove_times :: "nat \<Rightarrow> nat \<Rightarrow> bytes \<Rightarrow> bytes result" where
  "remove_times 0 i buffer = Inr buffer"
| "remove_times (Suc n) i buffer = rbind (buffer_remove buffer i) (remove_times n i)"

text \<open>One turn of the loop of \<open>mutate\<close>, on the buffer and the accumulated offset.\<close>

definition mutate_step :: "nat \<Rightarrow> diff \<Rightarrow> bytes \<times> int \<Rightarrow> (bytes \<times> int) result" where
  "mutate_step origin_len mutation = (\<lambda>(buffer, offset_diff).
     rbind (diff_offset mutation) (\<lambda>len.
       if df_start mutation \<ge> origin_len then Inr (buffer @ df_value mutation, offset_diff)
       else
         rbind (if len = 0 then
                  (case source_range_with_diff mutation offset_diff of
                     (a, b) \<Rightarrow> copy_into buffer a b (df_value mutation))
                else if len > 0 then
                  (let start = start_with_diff mutation offset_diff; n = nat \<bar>len\<bar>
                   in rbind (insert_values (take n (df_value mutation)) start buffer) (\<lambda>buffer.
                        case source_range_with_diff mutation offset_diff of
                          (a, b) \<Rightarrow> copy_into buffer (a + n) (b + n) (drop n (df_value mutation))))
                else
                  (let start = start_with_diff mutation offset_diff
                   in rbind (remove_times (nat \<bar>len\<bar>) start buffer) (\<lambda>buffer.
                        copy_into buffer start (start + length (df_value mutation))
                          (df_value mutation))))
           (\<lambda>buffer. Inr (buffer, offset_diff + len))))"

primrec mutate_loop :: "nat \<Rightarrow> diff list \<Rightarrow> bytes \<times> int \<Rightarrow> (bytes \<times> int) result" where
  "mutate_loop origin_len [] s = Inr s"
| "mutate_loop origin_len (d # ds) s =
     rbind (mutate_step origin_len d s) (mutate_loop origin_len ds)"

definition mutate :: "mutator \<Rightarrow> bytes \<Rightarrow> bytes result" where
  "mutate m buffer =
     rbind (mutate_loop (length buffer) (sort_key df_start m) (buffer, 0)) (\<lambda>(b, _). Inr b)"

section \<open>The adapter (lib.rs, context.rs)\<close>

datatype 'e compat_error = Failed 'e | Trapped fault

type_synonym ('e, 'a) compat = "'e compat_error + 'a"

record cursor =
  cur_bytes :: bytes
  cur_pos :: nat

text \<open>
  The part of the \<open>vm\<close> crate the adapter calls, in the order of its \<open>use\<close> lines: each reader
  returns the value and the new position. \<open>bf_addr_len\<close> is \<open>AccountAddress::LENGTH\<close>.
\<close>

record 'e binary_format =
  bf_check_binary :: "bytes \<Rightarrow> nat \<Rightarrow> 'e + nat"
  bf_read_u8 :: "bytes \<Rightarrow> nat \<Rightarrow> 'e + 8 word \<times> nat"
  bf_read_uleb128 :: "bytes \<Rightarrow> nat \<Rightarrow> 'e + 64 word \<times> nat"
  bf_write_uleb128 :: "64 word \<Rightarrow> 'e + bytes"
  bf_load_signature_token :: "bytes \<Rightarrow> nat \<Rightarrow> 'e + signature_token \<times> nat"
  bf_load_constant_size :: "bytes \<Rightarrow> nat \<Rightarrow> 'e + nat \<times> nat"
  bf_address_identifiers :: "8 word"
  bf_constant_pool :: "8 word"
  bf_addr_len :: nat

definition LIBRA_ADDR_LEN :: nat where
  "LIBRA_ADDR_LEN = 16"

definition failing :: "'e + 'a \<Rightarrow> ('e, 'a) compat" where
  "failing r = (case r of Inl e \<Rightarrow> Inl (Failed e) | Inr x \<Rightarrow> Inr x)"

definition trapping :: "'a result \<Rightarrow> ('e, 'a) compat" where
  "trapping r = (case r of Inl f \<Rightarrow> Inl (Trapped f) | Inr x \<Rightarrow> Inr x)"

definition reading ::
    "(bytes \<Rightarrow> nat \<Rightarrow> 'e + 'a \<times> nat) \<Rightarrow> cursor \<Rightarrow> ('e, 'a \<times> cursor) compat" where
  "reading f cur =
     rbind (failing (f (cur_bytes cur) (cur_pos cur))) (\<lambda>(x, p). Inr (x, cur\<lparr>cur_pos := p\<rparr>))"

text \<open>Checked addition on \<open>u32\<close>; \<open>x as u32\<close> truncates.\<close>

definition add_u32 :: "nat \<Rightarrow> nat \<Rightarrow> ('e, nat) compat" where
  "add_u32 a b = (if a + b < 2 ^ 32 then Inr (a + b) else Inl (Trapped (Panicked ''u32 overflow'')))"

record table_context =
  tc_cursor :: cursor
  tc_old_pos :: nat
  tc_len :: nat

definition table_context_new :: "cursor \<Rightarrow> nat \<Rightarrow> nat \<Rightarrow> table_context" where
  "table_context_new cur offset len =
     \<lparr>tc_cursor = cur\<lparr>cur_pos := offset\<rparr>, tc_old_pos = cur_pos cur, tc_len = len\<rparr>"

text \<open>\<open>Drop\<close> gives the borrowed cursor its old position back.\<close>

definition table_context_drop :: "table_context \<Rightarrow> cursor" where
  "table_context_drop ctx = (tc_cursor ctx)\<lparr>cur_pos := tc_old_pos ctx\<rparr>"

definition make_uleb128_diff ::
    "'e binary_format \<Rightarrow> nat \<Rightarrow> nat \<Rightarrow> nat \<Rightarrow> mutator \<Rightarrow> ('e, mutator) compat" where
  "make_uleb128_diff B start_pos end_pos new_offset m =
     rbind (failing (bf_write_uleb128 B (of_nat new_offset))) (\<lambda>binary.
       Inr (mutator_make_diff m start_pos end_pos binary))"

text \<open>\<open>(0..len).step_by(16)\<close>\<close>

definition address_offsets :: "nat \<Rightarrow> nat list" where
  "address_offsets len = map (\<lambda>i. i * LIBRA_ADDR_LEN) [0..<(len + LIBRA_ADDR_LEN - 1) div LIBRA_ADDR_LEN]"

definition handle_address_identifiers ::
    "'e binary_format \<Rightarrow> table_context \<Rightarrow> mutator \<Rightarrow> mutator \<times> nat" where
  "handle_address_identifiers B ctx m =
     (if tc_len ctx mod LIBRA_ADDR_LEN = 0 then
        (foldl (\<lambda>m idx. let index = cur_pos (tc_cursor ctx) + idx
                        in mutator_make_diff m index index [0, 0, 0, 0])
           m (address_offsets (tc_len ctx)),
         tc_len ctx div LIBRA_ADDR_LEN * (bf_addr_len B - LIBRA_ADDR_LEN))
      else (m, 0))"

text \<open>The \<open>while\<close> loop of \<open>handle_const_pool\<close>: the cursor, the edits and the growth so far.\<close>

primrec const_pool_loop ::
    "nat \<Rightarrow> 'e binary_format \<Rightarrow> nat \<Rightarrow> cursor \<times> mutator \<times> nat \<Rightarrow> ('e, cursor \<times> mutator \<times> nat) compat" where
  "const_pool_loop 0 B end_offset s = Inl (Trapped OutOfFuel)"
| "const_pool_loop (Suc fuel) B end_offset s =
     (case s of (cur, m, additional_offset) \<Rightarrow>
        if cur_pos cur < end_offset then
          rbind (reading (bf_load_signature_token B) cur) (\<lambda>(tok, cur).
            let size_start_offset = cur_pos cur
            in rbind (reading (bf_load_constant_size B) cur) (\<lambda>(size', cur).
              let size = as_u32 size'; size_end_offset = cur_pos cur
              in if tok = TkAddress then
                   (let diff_size = as_u32 (bf_addr_len B - LIBRA_ADDR_LEN)
                    in rbind (add_u32 size diff_size) (\<lambda>new_size.
                       rbind (make_uleb128_diff B size_start_offset size_end_offset new_size m) (\<lambda>m.
                       rbind (add_u32 additional_offset diff_size) (\<lambda>additional_offset.
                         const_pool_loop fuel B end_offset
                           (cur\<lparr>cur_pos := cur_pos cur + size\<rparr>,
                            mutator_make_diff m (cur_pos cur) (cur_pos cur) [0, 0, 0, 0],
                            additional_offset)))))
                 else const_pool_loop fuel B end_offset
                        (cur\<lparr>cur_pos := cur_pos cur + size\<rparr>, m, additional_offset)))
        else Inr s)"

definition handle_const_pool ::
    "'e binary_format \<Rightarrow> table_context \<Rightarrow> mutator \<Rightarrow> ('e, mutator \<times> nat) compat" where
  "handle_const_pool B ctx m =
     (let end_offset = cur_pos (tc_cursor ctx) + tc_len ctx
      in rbind (const_pool_loop (Suc (tc_len ctx)) B end_offset (tc_cursor ctx, m, 0))
           (\<lambda>(cur, m, additional_offset). Inr (m, additional_offset)))"

primrec header_size_loop ::
    "nat \<Rightarrow> 'e binary_format \<Rightarrow> cursor \<Rightarrow> ('e, cursor) compat" where
  "header_size_loop 0 B cur = Inr cur"
| "header_size_loop (Suc n) B cur =
     rbind (reading (bf_read_u8 B) cur) (\<lambda>(_, cur).
     rbind (reading (bf_read_uleb128 B) cur) (\<lambda>(_, cur).
     rbind (reading (bf_read_uleb128 B) cur) (\<lambda>(_, cur). header_size_loop n B cur)))"

definition calc_header_size ::
    "'e binary_format \<Rightarrow> cursor \<Rightarrow> nat \<Rightarrow> ('e, nat \<times> cursor) compat" where
  "calc_header_size B cur table_len =
     (let start = as_u32 (cur_pos cur)
      in rbind (header_size_loop table_len B cur) (\<lambda>cur'.
           rbind (trapping (usub (as_u32 (cur_pos cur')) start)) (\<lambda>d.
             Inr (d, cur'\<lparr>cur_pos := start\<rparr>))))"

text \<open>One table header of the loop of \<open>make_diff\<close>.\<close>

definition table_step ::
    "'e binary_format \<Rightarrow> nat \<Rightarrow> nat \<Rightarrow> cursor \<times> mutator \<times> nat \<Rightarrow> ('e, cursor \<times> mutator \<times> nat) compat" where
  "table_step B header_size header_len = (\<lambda>(cur, m, additional_offset).
     rbind (reading (bf_read_u8 B) cur) (\<lambda>(kind, cur).
     rbind (if additional_offset > 0 then
              (let start_pos = cur_pos cur
               in rbind (reading (bf_read_uleb128 B) cur) (\<lambda>(offset, cur).
                  rbind (add_u32 (as_u32 (unat offset)) additional_offset) (\<lambda>new_offset.
                  rbind (make_uleb128_diff B start_pos (cur_pos cur) new_offset m) (\<lambda>m.
                    Inr (as_u32 (unat offset), cur, m)))))
            else rbind (reading (bf_read_uleb128 B) cur) (\<lambda>(offset, cur).
                   Inr (as_u32 (unat offset), cur, m))) (\<lambda>(offset, cur, m).
     let t_len_start_pos = cur_pos cur
     in rbind (reading (bf_read_uleb128 B) cur) (\<lambda>(t_len', cur).
     let t_len = as_u32 (unat t_len'); t_len_end_pos = cur_pos cur
     in rbind (if kind = bf_address_identifiers B \<or> kind = bf_constant_pool B
               then rbind (add_u32 offset header_size) (\<lambda>o1. add_u32 o1 header_len)
               else Inr 0) (\<lambda>table_pos.
     rbind (if kind = bf_address_identifiers B then
              (let ctx = table_context_new cur table_pos t_len;
                   (m, growth) = handle_address_identifiers B ctx m
               in Inr (table_context_drop ctx, m, growth))
            else if kind = bf_constant_pool B then
              (let ctx = table_context_new cur table_pos t_len
               in rbind (handle_const_pool B ctx m) (\<lambda>(m, growth).
                    Inr (table_context_drop ctx, m, growth)))
            else Inr (cur, m, 0)) (\<lambda>(cur, m, offset_diff).
     rbind (if offset_diff > 0 then
              rbind (add_u32 t_len offset_diff) (\<lambda>new_len.
                make_uleb128_diff B t_len_start_pos t_len_end_pos new_len m)
            else Inr m) (\<lambda>m.
     rbind (add_u32 additional_offset offset_diff) (\<lambda>additional_offset.
       Inr (cur, m, additional_offset)))))))))"

primrec tables_loop ::
    "nat \<Rightarrow> 'e binary_format \<Rightarrow> nat \<Rightarrow> nat \<Rightarrow> cursor \<times> mutator \<times> nat \<Rightarrow>
     ('e, cursor \<times> mutator \<times> nat) compat" where
  "tables_loop 0 B hs hl s = Inr s"
| "tables_loop (Suc n) B hs hl s = rbind (table_step B hs hl s) (tables_loop n B hs hl)"

definition make_diff :: "'e binary_format \<Rightarrow> cursor \<Rightarrow> mutator \<Rightarrow> ('e, mutator) compat" where
  "make_diff B cur m =
     rbind (reading (bf_read_uleb128 B) cur) (\<lambda>(table_len, cur).
       let header_len = as_u32 (cur_pos cur)
       in rbind (calc_header_size B cur (unat table_len)) (\<lambda>(header_size, cur).
          rbind (tables_loop (unat table_len) B header_size header_len (cur, m, 0))
            (\<lambda>(_, m, _). Inr m)))"

text \<open>\<open>adapt\<close> edits the buffer in place; when it fails, the buffer is unchanged.\<close>

definition adapt :: "'e binary_format \<Rightarrow> bytes \<Rightarrow> ('e, bytes) compat" where
  "adapt B bs =
     rbind (failing (bf_check_binary B bs 0)) (\<lambda>p.
     rbind (make_diff B \<lparr>cur_bytes = bs, cur_pos = p\<rparr> mutator_new) (\<lambda>m.
       trapping (mutate m bs)))"


section \<open>Splicing: the specification of a mutation\<close>

text \<open>The buffer with each range of the original replaced, from position \<open>p\<close> of the original
  on.\<close>

fun splice :: "nat \<Rightarrow> diff list \<Rightarrow> bytes \<Rightarrow> bytes" where
  "splice p [] orig = drop p orig"
| "splice p (d # ds) orig =
     take (df_start d - p) (drop p orig) @ df_value d @ splice (df_end d) ds orig"

text \<open>Ranges in order, without overlap, inside the buffer unless they append to it.\<close>

fun in_order :: "nat \<Rightarrow> nat \<Rightarrow> diff list \<Rightarrow> bool" where
  "in_order n p [] = True"
| "in_order n p (d # ds) \<longleftrightarrow>
     p \<le> df_start d \<and> df_start d \<le> df_end d \<and> (df_start d < n \<longrightarrow> df_end d \<le> n) \<and>
     in_order n (df_end d) ds"

lemma insert_values_eq:
  "i \<le> length buffer \<Longrightarrow> insert_values xs i buffer = Inr (take i buffer @ xs @ drop i buffer)"
proof (induction xs arbitrary: i buffer)
  case (Cons x xs)
  then have "insert_values (x # xs) i buffer =
      insert_values xs (Suc i) (take i buffer @ x # drop i buffer)"
    by (simp add: buffer_insert_def)
  also have "\<dots> = Inr (take (Suc i) (take i buffer @ x # drop i buffer) @ xs @
      drop (Suc i) (take i buffer @ x # drop i buffer))"
    using Cons.prems by (intro Cons.IH) simp
  also have "\<dots> = Inr (take i buffer @ (x # xs) @ drop i buffer)"
    using Cons.prems by (simp add: min_def)
  finally show ?case .
qed simp

lemma remove_times_eq:
  "i + n \<le> length buffer \<Longrightarrow> remove_times n i buffer = Inr (take i buffer @ drop (i + n) buffer)"
proof (induction n arbitrary: buffer)
  case (Suc n)
  have "remove_times (Suc n) i buffer = remove_times n i (take i buffer @ drop (Suc i) buffer)"
    using Suc.prems by (simp add: buffer_remove_def)
  also have "\<dots> = Inr (take i (take i buffer @ drop (Suc i) buffer) @
      drop (i + n) (take i buffer @ drop (Suc i) buffer))"
    using Suc.prems by (intro Suc.IH) simp
  finally show ?case using Suc.prems by (simp add: add.commute)
qed simp

lemma copy_into_eq:
  "k = length xs \<Longrightarrow> j = length xs + length v \<Longrightarrow> length ys = length v \<Longrightarrow>
     copy_into (xs @ ys @ zs) k j v = Inr (xs @ v @ zs)"
  by (simp add: copy_into_def)

text \<open>Whatever the sign of the length difference, the range is replaced by the value.\<close>

lemma mutate_step_inside:
  assumes d: "df_start d \<le> df_end d" "df_start d < n"
    and buf: "buffer = pre @ mid @ post" "length mid = df_end d - df_start d"
    and off: "int (df_start d) + o1 = int (length pre)"
    and small: "length buffer < 2 ^ 63"
  shows "mutate_step n d (buffer, o1) =
     Inr (pre @ df_value d @ post, o1 + int (length (df_value d)) - int (length mid))"
proof -
  let ?v = "df_value d" and ?k = "length pre"
  have len: "diff_offset d = Inr (int (length ?v) - int (length mid))"
    using d(1) buf(2) by (simp add: diff_offset_def)
  have pos: "as_usize (int (df_start d) + o1) = ?k"
    "as_usize (int (df_end d) + o1) = ?k + length mid"
  proof -
    have "int (df_end d) + o1 = int (?k + length mid)" using off buf(2) d(1) by simp
    then show "as_usize (int (df_start d) + o1) = ?k" "as_usize (int (df_end d) + o1) = ?k + length mid"
      using off buf(1) small(1) by (simp_all add: as_usize_def)
  qed
  consider (same) "length ?v = length mid" | (grow) "length mid < length ?v" | (shrink) "length ?v < length mid"
    by linarith
  then show ?thesis
  proof cases
    case same
    have "copy_into buffer ?k (?k + length ?v) ?v = Inr (pre @ ?v @ post)"
      using buf(1) same by (simp add: copy_into_eq)
    with same d(2) len pos show ?thesis
      by (simp add: mutate_step_def source_range_with_diff_def)
  next
    case grow
    let ?n = "length ?v - length mid"
    have ins: "insert_values (take ?n ?v) ?k buffer = Inr (pre @ take ?n ?v @ mid @ post)"
      using buf(1) by (simp add: insert_values_eq)
    have "copy_into ((pre @ take ?n ?v) @ mid @ post) (?k + ?n) (?k + length mid + ?n) (drop ?n ?v) =
        Inr ((pre @ take ?n ?v) @ drop ?n ?v @ post)"
      using grow by (intro copy_into_eq) simp_all
    then have "copy_into (pre @ take ?n ?v @ mid @ post) (?k + ?n) (?k + length mid + ?n) (drop ?n ?v) =
        Inr (pre @ ?v @ post)"
      by (metis append_assoc append_take_drop_id)
    with grow d(2) len pos ins show ?thesis
      by (simp add: mutate_step_def source_range_with_diff_def start_with_diff_def Let_def nat_diff_distrib)
  next
    case shrink
    let ?n = "length mid - length ?v"
    have rem: "remove_times ?n ?k buffer = Inr (pre @ drop ?n mid @ post)"
      using buf(1) shrink by (simp add: remove_times_eq)
    have "copy_into (pre @ drop ?n mid @ post) ?k (?k + length ?v) ?v = Inr (pre @ ?v @ post)"
      using shrink by (intro copy_into_eq) simp_all
    with shrink d(2) len pos rem show ?thesis
      by (simp add: mutate_step_def start_with_diff_def Let_def nat_diff_distrib)
  qed
qed

lemma mutate_step_append:
  "df_start d \<le> df_end d \<Longrightarrow> n \<le> df_start d \<Longrightarrow>
     mutate_step n d (buffer, o1) = Inr (buffer @ df_value d, o1)"
  by (simp add: mutate_step_def diff_offset_def)

lemma splice_past:
  "in_order n p ds \<Longrightarrow> n \<le> p \<Longrightarrow> length orig = n \<Longrightarrow> splice p ds orig = concat (map df_value ds)"
  by (induction ds arbitrary: p) auto

lemma mutate_loop_append:
  "in_order n p ds \<Longrightarrow> n \<le> p \<Longrightarrow>
     mutate_loop n ds (buffer, o1) = Inr (buffer @ concat (map df_value ds), o1)"
  by (induction ds arbitrary: p buffer) (auto simp: mutate_step_append)

definition values_length :: "diff list \<Rightarrow> nat" where
  "values_length ds = sum_list (map (\<lambda>d. length (df_value d)) ds)"

lemma mutate_loop_splice:
  assumes "in_order (length orig) p ds" "p \<le> length orig" "int p + o1 = int (length pre)"
    and "length pre + (length orig - p) + values_length ds < 2 ^ 63"
  shows "\<exists>o2. mutate_loop (length orig) ds (pre @ drop p orig, o1) = Inr (pre @ splice p ds orig, o2)"
  using assms
proof (induction ds arbitrary: p pre o1)
  case Nil
  then show ?case by simp
next
  case (Cons d ds)
  show ?case
  proof (cases "length orig \<le> df_start d")
    case True
    then have "mutate_step (length orig) d (pre @ drop p orig, o1) =
        Inr (pre @ drop p orig @ df_value d, o1)"
      using Cons.prems(1) by (simp add: mutate_step_append)
    moreover have "mutate_loop (length orig) ds (pre @ drop p orig @ df_value d, o1) =
        Inr ((pre @ drop p orig @ df_value d) @ concat (map df_value ds), o1)"
      using Cons.prems(1) True by (intro mutate_loop_append[of _ "df_end d"]) auto
    moreover have "splice (df_end d) ds orig = concat (map df_value ds)"
      using Cons.prems(1) True by (intro splice_past[of "length orig"]) auto
    ultimately show ?thesis using True Cons.prems(1) by simp
  next
    case False
    let ?gap = "take (df_start d - p) (drop p orig)"
    let ?mid = "take (df_end d - df_start d) (drop (df_start d) orig)"
    have d: "p \<le> df_start d" "df_start d \<le> df_end d" "df_end d \<le> length orig"
      "in_order (length orig) (df_end d) ds"
      using Cons.prems(1) False by auto
    have split: "drop p orig = ?gap @ ?mid @ drop (df_end d) orig"
    proof -
      have "drop p orig = ?gap @ drop (df_start d) orig"
        using d(1) by (metis append_take_drop_id drop_drop le_add_diff_inverse2)
      also have "drop (df_start d) orig = ?mid @ drop (df_end d) orig"
        using d(2) by (metis append_take_drop_id drop_drop le_add_diff_inverse2)
      finally show ?thesis .
    qed
    let ?pre = "pre @ ?gap" and ?o = "o1 + int (length (df_value d)) - int (length ?mid)"
    have "mutate_step (length orig) d (pre @ drop p orig, o1) =
        Inr (?pre @ df_value d @ drop (df_end d) orig, ?o)"
      using d Cons.prems(3,4) False
      by (intro mutate_step_inside) (simp_all add: split[symmetric])
    moreover have "\<exists>o2. mutate_loop (length orig) ds ((?pre @ df_value d) @ drop (df_end d) orig, ?o) =
        Inr ((?pre @ df_value d) @ splice (df_end d) ds orig, o2)"
      using d Cons.prems(3,4) by (intro Cons.IH) (simp_all add: values_length_def)
    ultimately show ?thesis by simp
  qed
qed

lemma mutate_sorted:
  assumes "in_order (length orig) 0 (sort_key df_start ds)"
    and "length orig + values_length ds < 2 ^ 63"
  shows "mutate ds orig = Inr (splice 0 (sort_key df_start ds) orig)"
proof -
  have "values_length (sort_key df_start ds) = values_length ds"
    unfolding values_length_def sum_mset_sum_list[symmetric] by simp
  with mutate_loop_splice[OF assms(1), of 0 "[]"] assms(2) show ?thesis
    by (auto simp: mutate_def)
qed

section \<open>The edits of an address table\<close>

definition zero_diff :: "nat \<Rightarrow> diff" where
  "zero_diff k = \<lparr>df_start = k, df_end = k, df_value = [0, 0, 0, 0]\<rparr>"

primrec address_diffs :: "nat \<Rightarrow> nat \<Rightarrow> diff list" where
  "address_diffs k 0 = []"
| "address_diffs k (Suc n) = zero_diff k # address_diffs (k + 16) n"

lemma address_diffs_map: "address_diffs k n = map (\<lambda>i. zero_diff (k + i * 16)) [0..<n]"
proof (induction n arbitrary: k)
  case (Suc n)
  have "map (\<lambda>i. zero_diff (k + i * 16)) [0..<Suc n] =
      zero_diff k # map (\<lambda>i. zero_diff (k + 16 + i * 16)) [0..<n]"
    by (simp add: upt_conv_Cons map_Suc_upt[symmetric] comp_def ac_simps del: upt_Suc)
  with Suc show ?case by simp
qed simp

lemma handle_address_identifiers_eq:
  assumes "tc_len ctx = 16 * n"
  shows "handle_address_identifiers B ctx m =
     (m @ address_diffs (cur_pos (tc_cursor ctx)) n, n * (bf_addr_len B - 16))"
proof -
  have "address_offsets (16 * n) = map (\<lambda>i. i * 16) [0..<n]"
  proof -
    have "(16 * n + 16 - 1) div 16 = n" by presburger
    then show ?thesis by (simp add: address_offsets_def LIBRA_ADDR_LEN_def)
  qed
  moreover have "foldl (\<lambda>m idx. mutator_make_diff m (k + idx) (k + idx) [0, 0, 0, 0]) m is =
      m @ map (\<lambda>i. zero_diff (k + i)) is" for k "is"
    by (induction "is" arbitrary: m) (simp_all add: mutator_make_diff_def zero_diff_def)
  ultimately show ?thesis
    using assms
    by (simp add: handle_address_identifiers_def Let_def address_diffs_map LIBRA_ADDR_LEN_def comp_def)
qed

lemma address_diffs_in_order: "p \<le> k \<Longrightarrow> k + 16 * n \<le> m \<Longrightarrow> in_order m p (address_diffs k n)"
  by (induction n arbitrary: p k) (auto simp: zero_diff_def)

lemma address_diffs_sorted: "sort_key df_start (address_diffs k n) = address_diffs k n"
proof (rule sort_key_id_if_sorted)
  show "sorted (map df_start (address_diffs k n))"
    by (auto simp: address_diffs_map zero_diff_def sorted_iff_nth_mono)
qed

lemma values_length_address_diffs: "values_length (address_diffs k n) = 4 * n"
  by (induction n arbitrary: k) (simp_all add: values_length_def zero_diff_def)

lemma splice_address_diffs:
  assumes "drop p orig = gap @ concat cs @ post" "length gap = k - p" "p \<le> k"
    and "\<forall>c\<in>set cs. length c = 16"
  shows "splice p (address_diffs k (length cs)) orig =
     gap @ concat (map (\<lambda>c. [0, 0, 0, 0] @ c) cs) @ post"
  using assms
proof (induction cs arbitrary: p gap k)
  case (Cons c cs)
  have "drop k orig = drop (k - p) (drop p orig)" using Cons.prems(3) by simp
  then have "drop k orig = c @ concat cs @ post" using Cons.prems(1,2) by simp
  then have "splice k (address_diffs (k + 16) (length cs)) orig =
      c @ concat (map (\<lambda>c. [0, 0, 0, 0] @ c) cs) @ post"
    using Cons.prems(4) by (intro Cons.IH) simp_all
  with Cons.prems(1,2) show ?case by (simp add: zero_diff_def)
qed simp

section \<open>Properties\<close>

text \<open>C12: \<open>Mutator::mutate\<close> computes the splice: for edits that, once sorted by start, do not
  overlap, the result is the original buffer with every range replaced by its value and the
  edits past the end appended, whatever mix of growing, shrinking and equal-size edits.\<close>

theorem mutate_is_splice:
  assumes "in_order (length orig) 0 (sort_key df_start ds)"
    and "length orig + values_length ds < 2 ^ 63"
  shows "mutate ds orig = Inr (splice 0 (sort_key df_start ds) orig)"
  using assms by (rule mutate_sorted)

theorem mutate_is_splice_witness:
  "mutate [\<lparr>df_start = 3, df_end = 4, df_value = []\<rparr>, \<lparr>df_start = 0, df_end = 0, df_value = [1]\<rparr>,
           \<lparr>df_start = 4, df_end = 5, df_value = [5, 6]\<rparr>, \<lparr>df_start = 1, df_end = 3, df_value = [3, 4]\<rparr>]
     [2, 0, 0, 0] = Inr [1, 2, 3, 4, 5, 6]"
  by (subst mutate_is_splice) (simp_all add: values_length_def sort_key_def)

text \<open>C13: the edits of an address table put four zero bytes before each 16-byte address and
  touch nothing else; the growth it reports is the number of addresses times the difference of
  the address lengths, which is what was inserted exactly when addresses are 20 bytes long.\<close>

theorem address_table_widened:
  assumes "\<forall>c\<in>set cs. length c = 16" "cur_pos (tc_cursor ctx) = length pre"
    and "tc_len ctx = 16 * length cs" "length (pre @ concat cs @ post) + 4 * length cs < 2 ^ 63"
  shows "\<exists>m. handle_address_identifiers B ctx mutator_new = (m, length cs * (bf_addr_len B - 16)) \<and>
           mutate m (pre @ concat cs @ post) =
             Inr (pre @ concat (map (\<lambda>c. [0, 0, 0, 0] @ c) cs) @ post)"
proof -
  let ?m = "address_diffs (length pre) (length cs)"
  have len: "length (concat cs) = 16 * length cs" using assms(1) by (induction cs) auto
  have "in_order (length (pre @ concat cs @ post)) 0 ?m"
    using len by (intro address_diffs_in_order) simp_all
  then have "mutate ?m (pre @ concat cs @ post) = Inr (splice 0 ?m (pre @ concat cs @ post))"
    using assms(4) mutate_sorted[of "pre @ concat cs @ post" ?m]
    by (simp add: address_diffs_sorted values_length_address_diffs)
  also have "splice 0 ?m (pre @ concat cs @ post) =
      pre @ concat (map (\<lambda>c. [0, 0, 0, 0] @ c) cs) @ post"
    using assms(1) by (intro splice_address_diffs) simp_all
  finally show ?thesis
    using handle_address_identifiers_eq[OF assms(3), of B mutator_new] assms(2)
    by (simp add: mutator_new_def)
qed

text \<open>A toy format for the witnesses: every number is one byte.\<close>

definition byte_format :: "unit binary_format" where
  "byte_format =
     (let byte = (\<lambda>bs p. if p < length bs then Inr (bs ! p, Suc p) else Inl ())
      in \<lparr>bf_check_binary = (\<lambda>bs p. Inr p), bf_read_u8 = byte,
          bf_read_uleb128 = (\<lambda>bs p. map_sum id (\<lambda>(b, q). (ucast b, q)) (byte bs p)),
          bf_write_uleb128 = (\<lambda>n. Inr [ucast n]),
          bf_load_signature_token = (\<lambda>bs p. map_sum id (\<lambda>(b, q).
            (if b = 5 then TkAddress else TkU64, q)) (byte bs p)),
          bf_load_constant_size = (\<lambda>bs p. map_sum id (\<lambda>(b, q). (unat b, q)) (byte bs p)),
          bf_address_identifiers = 8, bf_constant_pool = 6, bf_addr_len = 20\<rparr>)"

theorem address_table_widened_witness:
  "\<exists>m. handle_address_identifiers byte_format
         \<lparr>tc_cursor = \<lparr>cur_bytes = [], cur_pos = 1\<rparr>, tc_old_pos = 0, tc_len = 32\<rparr> mutator_new = (m, 8) \<and>
       mutate m ([9] @ concat [replicate 16 1, replicate 16 2] @ [7]) =
         Inr ([9] @ concat (map (\<lambda>c. [0, 0, 0, 0] @ c) [replicate 16 1, replicate 16 2]) @ [7])"
  using address_table_widened[of "[replicate 16 1, replicate 16 2]"
      "\<lparr>tc_cursor = \<lparr>cur_bytes = [], cur_pos = 1\<rparr>, tc_old_pos = 0, tc_len = 32\<rparr>" "[9]" "[7]" byte_format]
  by (simp add: byte_format_def Let_def)

lemma reading_fuel [simp]: "reading f cur \<noteq> Inl (Trapped OutOfFuel)"
  by (auto simp: reading_def failing_def rbind_def split: sum.splits)

lemma make_uleb128_diff_fuel [simp]: "make_uleb128_diff B a b n m \<noteq> Inl (Trapped OutOfFuel)"
  by (auto simp: make_uleb128_diff_def failing_def rbind_def split: sum.splits)

lemma add_u32_fuel [simp]: "add_u32 a b \<noteq> Inl (Trapped OutOfFuel)"
  by (simp add: add_u32_def)

lemma reading_Inr: "reading f cur = Inr (x, cur') \<Longrightarrow>
    \<exists>p. f (cur_bytes cur) (cur_pos cur) = Inr (x, p) \<and> cur' = cur\<lparr>cur_pos := p\<rparr>"
  by (auto simp: reading_def failing_def rbind_def split: sum.splits)

definition readers_advance :: "'e binary_format \<Rightarrow> bool" where
  "readers_advance B \<longleftrightarrow>
     (\<forall>bs p t q. bf_load_signature_token B bs p = Inr (t, q) \<longrightarrow> p < q) \<and>
     (\<forall>bs p t q. bf_load_constant_size B bs p = Inr (t, q) \<longrightarrow> p \<le> q)"

lemma const_pool_loop_fuel:
  assumes "readers_advance B" "end_offset - cur_pos cur < fuel"
  shows "const_pool_loop fuel B end_offset (cur, m, a) \<noteq> Inl (Trapped OutOfFuel)"
  using assms(2)
proof (induction fuel arbitrary: cur m a)
  case (Suc fuel)
  have adv: "end_offset - (cur_pos cur2 + size) < fuel"
    if "cur_pos cur < end_offset" "reading (bf_load_signature_token B) cur = Inr (t, cur1)"
      "reading (bf_load_constant_size B) cur1 = Inr (z, cur2)" for t cur1 z cur2 size
    using that Suc.prems assms(1) by (fastforce simp: readers_advance_def dest!: reading_Inr)
  show ?case
    using adv Suc.IH
    by (auto simp: rbind_eq_Inl_iff Let_def split: prod.splits if_splits)
qed simp

lemma handle_const_pool_fuel:
  "readers_advance B \<Longrightarrow> handle_const_pool B ctx m \<noteq> Inl (Trapped OutOfFuel)"
  using const_pool_loop_fuel[of B "cur_pos (tc_cursor ctx) + tc_len ctx" "tc_cursor ctx"]
  by (auto simp: handle_const_pool_def Let_def rbind_eq_Inl_iff simp del: const_pool_loop.simps
      split: prod.splits)

lemma header_size_loop_fuel: "header_size_loop n B cur \<noteq> Inl (Trapped OutOfFuel)"
  by (induction n arbitrary: cur) (auto simp: rbind_eq_Inl_iff split: prod.splits)

lemma table_step_fuel:
  assumes "readers_advance B"
  shows "table_step B hs hl s \<noteq> Inl (Trapped OutOfFuel)"
  using handle_const_pool_fuel[OF assms]
  by (auto simp: table_step_def Let_def rbind_eq_Inl_iff split: prod.splits if_splits)

lemma make_diff_fuel:
  assumes "readers_advance B"
  shows "make_diff B cur m \<noteq> Inl (Trapped OutOfFuel)"
proof -
  have "tables_loop n B hs hl s \<noteq> Inl (Trapped OutOfFuel)" for n hs hl s
    by (induction n arbitrary: s) (auto simp: rbind_eq_Inl_iff table_step_fuel[OF assms])
  moreover have "calc_header_size B c n \<noteq> Inl (Trapped OutOfFuel)" for c n
    by (auto simp: calc_header_size_def Let_def rbind_eq_Inl_iff header_size_loop_fuel trapping_def
        usub_def split: sum.splits)
  ultimately show ?thesis
    by (auto simp: make_diff_def Let_def rbind_eq_Inl_iff split: prod.splits)
qed

lemma mutate_fuel: "mutate m b \<noteq> Inl OutOfFuel"
proof -
  have ins: "insert_values xs i buf \<noteq> Inl OutOfFuel" for xs i buf
    by (induction xs arbitrary: i buf) (auto simp: rbind_eq_Inl_iff buffer_insert_def)
  have rem: "remove_times n i buf \<noteq> Inl OutOfFuel" for n i buf
    by (induction n arbitrary: buf) (auto simp: rbind_eq_Inl_iff buffer_remove_def)
  have "mutate_step n d s \<noteq> Inl OutOfFuel" for n d s
    by (auto simp: mutate_step_def rbind_eq_Inl_iff diff_offset_def usub_def copy_into_def ins rem
        Let_def split: prod.splits if_splits)
  then have "mutate_loop n ds s \<noteq> Inl OutOfFuel" for n ds s
    by (induction ds arbitrary: s) (auto simp: rbind_eq_Inl_iff)
  then show ?thesis by (auto simp: mutate_def rbind_eq_Inl_iff)
qed

text \<open>C14: adapting a module terminates, with the adapted bytes, an error or a trap: the loop
  over the constant pool ends because reading a type token consumes at least one byte.\<close>

theorem adapt_terminates:
  assumes "readers_advance B"
  shows "adapt B bs \<noteq> Inl (Trapped OutOfFuel)"
  using make_diff_fuel[OF assms] mutate_fuel
  by (auto simp: adapt_def rbind_eq_Inl_iff failing_def trapping_def split: sum.splits)

theorem adapt_terminates_witness:
  "adapt byte_format [1, 6, 0, 4, 5, 1, 7, 0] \<noteq> Inl (Trapped OutOfFuel)"
proof (rule adapt_terminates)
  show "readers_advance byte_format"
    by (auto simp: readers_advance_def byte_format_def Let_def split: if_splits)
qed

end
