(* ===== verification/Dis_Ext.thy ===== *)
theory Dis_Ext
  imports Dis_Correct Compat
begin

text \<open>
  The entry points of the disassembler: the program (\<open>lang/disassembler/src/bin/disassembler.rs\<close>),
  the functions exported to C (\<open>src/ext/cffi.rs\<close>) and to JavaScript (\<open>src/ext/wasm.rs\<close>).
  A C pointer is optional, \<open>None\<close> is null; a C string is its text.
\<close>

section \<open>What all of them call\<close>

record 'e tool =
  tl_vendor :: vendor
  tl_script :: "bytes \<Rightarrow> 'e + script_access"
  tl_module :: "bytes \<Rightarrow> 'e + module_access"
  tl_rand :: "16 word"
  tl_format :: "'e binary_format"
  tl_show :: "'e \<Rightarrow> string"

definition shown :: "'e tool \<Rightarrow> ('e, 'a) compat \<Rightarrow> (string, 'a) compat" where
  "shown T r =
     (case r of Inl (Failed e) \<Rightarrow> Inl (Failed (tl_show T e)) | Inl (Trapped f) \<Rightarrow> Inl (Trapped f) | Inr x \<Rightarrow> Inr x)"

definition adapt_when :: "'e tool \<Rightarrow> bool \<Rightarrow> bytes \<Rightarrow> (string, bytes) compat" where
  "adapt_when T compat_mode bs = (if compat_mode then shown T (adapt (tl_format T) bs) else Inr bs)"

definition disasm_str :: "'e tool \<Rightarrow> bytes \<Rightarrow> (string, string) compat" where
  "disasm_str T bs =
     (case disasm (tl_vendor T) (tl_script T) (tl_module T) (tl_rand T) bs False of
        Inl e \<Rightarrow> Inl (Failed (tl_show T e))
      | Inr (Inl f) \<Rightarrow> Inl (Trapped f)
      | Inr (Inr out) \<Rightarrow> Inr out)"

section \<open>ext/wasm.rs\<close>

definition wasm_disassemble :: "'e tool \<Rightarrow> bytes \<Rightarrow> bool \<Rightarrow> (string, string option) compat" where
  "wasm_disassemble T bs compat_mode =
     rbind (adapt_when T compat_mode bs) (\<lambda>bs. rbind (disasm_str T bs) (\<lambda>out. Inr (Some out)))"

section \<open>ext/cffi.rs\<close>

record c_result =
  cr_result :: "string option"
  cr_error :: "string option"

definition c_result_default :: c_result where
  "c_result_default = \<lparr>cr_result = None, cr_error = None\<rparr>"

text \<open>\<open>CString::new\<close> refuses a text with a NUL byte.\<close>

definition to_cstring :: "string \<Rightarrow> string result" where
  "to_cstring s = (if CHR 0x00 \<in> set s then Inl (Panicked ''Cannot make C-string from Rust-string'') else Inr s)"

definition c_error :: "string \<Rightarrow> c_result result" where
  "c_error e = rbind (to_cstring e) (\<lambda>s. Inr (c_result_default\<lparr>cr_error := Some s\<rparr>))"

definition cffi_disassemble :: "'e tool \<Rightarrow> bytes option \<Rightarrow> bool \<Rightarrow> c_result result" where
  "cffi_disassemble T bs compat_mode =
     (case bs of
        None \<Rightarrow> c_error (CHR 0x27 # ''bytes'' @ CHR 0x27 # '' ptr is null'')
      | Some bs \<Rightarrow>
          (case adapt_when T compat_mode bs of
             Inl (Failed e) \<Rightarrow> c_error e
           | Inl (Trapped f) \<Rightarrow> Inl f
           | Inr bs \<Rightarrow>
               (case disasm_str T bs of
                  Inl (Failed e) \<Rightarrow> c_error e
                | Inl (Trapped f) \<Rightarrow> Inl f
                | Inr out \<Rightarrow> rbind (to_cstring out) (\<lambda>s. Inr (c_result_default\<lparr>cr_result := Some s\<rparr>)))))"

section \<open>bin/disassembler.rs\<close>

record disassembler_opt =
  do_input :: string
  do_output :: "string option"
  do_compat :: bool

text \<open>Reading canonicalizes the path; writing creates the file. The result is what goes to the
  standard output.\<close>

definition disassembler_run ::
    "'e tool \<Rightarrow> (string \<Rightarrow> string + bytes) \<Rightarrow> (string \<Rightarrow> string \<Rightarrow> string + unit) \<Rightarrow> disassembler_opt \<Rightarrow>
     (string, string) compat" where
  "disassembler_run T read write opts =
     rbind (case read (do_input opts) of Inl e \<Rightarrow> Inl (Failed e) | Inr bs \<Rightarrow> Inr bs) (\<lambda>bs.
     rbind (adapt_when T (do_compat opts) bs) (\<lambda>bs.
     rbind (disasm_str T bs) (\<lambda>out.
       case do_output opts of
         Some p \<Rightarrow> (case write p out of Inl e \<Rightarrow> Inl (Failed e) | Inr _ \<Rightarrow> Inr [])
       | None \<Rightarrow> Inr (out @ nl))))"

text \<open>\<open>main\<close>: standard output, standard error and exit code.\<close>

definition disassembler_main ::
    "'e tool \<Rightarrow> (string \<Rightarrow> string + bytes) \<Rightarrow> (string \<Rightarrow> string \<Rightarrow> string + unit) \<Rightarrow> disassembler_opt \<Rightarrow>
     string \<times> string \<times> nat" where
  "disassembler_main T read write opts =
     (case disassembler_run T read write opts of
        Inr out \<Rightarrow> (out, [], 0)
      | Inl (Failed e) \<Rightarrow> ([], e @ nl, 0)
      | Inl (Trapped _) \<Rightarrow> ([], ''panicked'', 101))"

section \<open>Properties\<close>

text \<open>The entry points agree: on the same bytes and mode, C gets the text or the error that
  JavaScript gets, in exactly one of its two pointers.\<close>

lemma entry_points_agree:
  "cffi_disassemble T (Some bs) m =
     (case wasm_disassemble T bs m of
        Inl (Failed e) \<Rightarrow> c_error e
      | Inl (Trapped f) \<Rightarrow> Inl f
      | Inr out \<Rightarrow> rbind (to_cstring (the out)) (\<lambda>s. Inr (c_result_default\<lparr>cr_result := Some s\<rparr>)))"
  by (auto simp: cffi_disassemble_def wasm_disassemble_def split: sum.splits compat_error.splits)

lemma c_result_exclusive:
  "cffi_disassemble T bs m = Inr r \<Longrightarrow> (cr_result r = None) \<noteq> (cr_error r = None)"
  by (auto simp: cffi_disassemble_def c_error_def c_result_default_def rbind_eq_Inr_iff
    split: option.splits sum.splits compat_error.splits)

text \<open>The program reports success to the shell even when it fails.\<close>

lemma disassembler_exits_with_success:
  "disassembler_run T read write opts = Inl (Failed e) \<Longrightarrow> snd (snd (disassembler_main T read write opts)) = 0"
  by (simp add: disassembler_main_def)

end
