(* ===== verification/Lang_Text.thy ===== *)
theory Lang_Text
  imports Prelude
begin

text \<open>
  Source text and positions (\<open>lang/src/compiler\<close>): \<open>source_map.rs\<close> (offset layers),
  \<open>dialects/line_endings.rs\<close>, the address rewriting of \<open>dialects/libra/addresses.rs\<close>,
  \<open>bech32.rs\<close> and \<open>ss58.rs\<close>, the sender placeholder of \<open>parser.rs\<close> and \<open>address.rs\<close>.

  A Rust \<open>str\<close> is the list of its UTF-8 bytes (\<open>string\<close>), so positions are the byte
  positions of the code; \<open>chars()\<close> advances by one for a byte that starts a character and by
  zero for a continuation byte. \<open>isize\<close> offsets are \<open>int\<close>; the cast back to \<open>usize\<close> reads
  modulo \<open>2\<^sup>6\<^sup>4\<close>.
\<close>

section \<open>Offset layers (source_map.rs)\<close>

definition len_difference :: "string \<Rightarrow> string \<Rightarrow> int" where
  "len_difference orig replacement = int (length orig) - int (length replacement)"

record layer =
  ly_pos :: nat
  ly_offset :: int

definition layer_translate :: "layer \<Rightarrow> nat \<Rightarrow> nat" where
  "layer_translate l pos =
     (if pos < ly_pos l then pos else nat ((int pos + ly_offset l) mod 2 ^ 64))"

record file_offset_map =
  fm_layers :: "layer list"
  fm_address_replacements :: "(string \<times> string) list"

definition file_offset_map_default :: file_offset_map where
  "file_offset_map_default = \<lparr>fm_layers = [], fm_address_replacements = []\<rparr>"

definition insert_layer :: "nat \<Rightarrow> int \<Rightarrow> file_offset_map \<Rightarrow> file_offset_map" where
  "insert_layer pos offset m =
     m\<lparr>fm_layers := fm_layers m @ [\<lparr>ly_pos = pos, ly_offset = offset\<rparr>]\<rparr>"

definition insert_address_replacement ::
    "string \<Rightarrow> string \<Rightarrow> file_offset_map \<Rightarrow> file_offset_map" where
  "insert_address_replacement original replacement m =
     m\<lparr>fm_address_replacements := fm_address_replacements m @ [(original, replacement)]\<rparr>"

definition insert_address_layer ::
    "nat \<Rightarrow> string \<Rightarrow> string \<Rightarrow> file_offset_map \<Rightarrow> file_offset_map" where
  "insert_address_layer original_end_pos original replacement m =
     insert_address_replacement original replacement
       (insert_layer original_end_pos (len_difference original replacement) m)"

definition translate_pos :: "file_offset_map \<Rightarrow> nat \<Rightarrow> nat" where
  "translate_pos m pos = foldl (\<lambda>real_pos l. layer_translate l real_pos) pos (rev (fm_layers m))"

text \<open>\<open>str::find\<close> and \<open>str::replace\<close> for a pattern that is not empty.\<close>

definition starts_with :: "string \<Rightarrow> string \<Rightarrow> bool" where
  "starts_with p s = (take (length p) s = p)"

fun find_str :: "string \<Rightarrow> string \<Rightarrow> nat option" where
  "find_str p s =
     (if starts_with p s then Some 0
      else case s of [] \<Rightarrow> None | c # cs \<Rightarrow> map_option Suc (find_str p cs))"

declare find_str.simps [simp del]

function replace_str :: "string \<Rightarrow> string \<Rightarrow> string \<Rightarrow> string" where
  "replace_str p r s =
     (case s of
        [] \<Rightarrow> []
      | c # cs \<Rightarrow> if p \<noteq> [] \<and> starts_with p s then r @ replace_str p r (drop (length p) s)
                  else c # replace_str p r cs)"
  by pat_completeness auto
termination by (relation "measure (\<lambda>(p, r, s). length s)") auto

declare replace_str.simps [simp del]

definition translate_message :: "file_offset_map \<Rightarrow> string \<Rightarrow> string" where
  "translate_message m msg =
     foldl (\<lambda>msg (orig, replacement). replace_str replacement orig msg) msg
       (rev (fm_address_replacements m))"

record loc =
  loc_file :: string
  loc_span :: "nat \<times> nat"

text \<open>\<open>Span::new(a, b)\<close> of the codespan crate orders its ends.\<close>

definition span_new :: "nat \<Rightarrow> nat \<Rightarrow> nat \<times> nat" where
  "span_new a b = (min a b, max a b)"

definition translate_span :: "file_offset_map \<Rightarrow> nat \<times> nat \<Rightarrow> nat \<times> nat" where
  "translate_span m sp =
     span_new (as_u32 (translate_pos m (fst sp))) (as_u32 (translate_pos m (snd sp)))"

type_synonym error = "(loc \<times> string) list"

definition translate_error :: "file_offset_map \<Rightarrow> loc \<times> string \<Rightarrow> loc \<times> string" where
  "translate_error m = (\<lambda>(l, msg).
     (\<lparr>loc_file = loc_file l, loc_span = translate_span m (loc_span l)\<rparr>, translate_message m msg))"

type_synonym project_offset_map = "string \<rightharpoonup> file_offset_map"

text \<open>\<open>self.0[loc.file()]\<close> panics for a file without a map.\<close>

definition transform :: "project_offset_map \<Rightarrow> error list \<Rightarrow> error list result" where
  "transform pm errors =
     mapM (mapM (\<lambda>(l, msg). case pm (loc_file l) of
                   Some m \<Rightarrow> Inr (translate_error m (l, msg))
                 | None \<Rightarrow> Inl (Panicked ''no entry found for key''))) errors"

definition is_inside_interval :: "nat \<times> nat \<Rightarrow> nat \<Rightarrow> nat \<Rightarrow> bool" where
  "is_inside_interval sp start end_pos = (fst sp \<ge> start \<and> fst sp \<le> end_pos)"

section \<open>Line endings (line_endings.rs)\<close>

definition cr :: char where "cr = CHR 0x0D"
definition lf :: char where "lf = CHR 0x0A"

text \<open>How far \<open>chars()\<close> advances over a byte.\<close>

definition char_width :: "char \<Rightarrow> nat" where
  "char_width c = (if 128 \<le> (of_char c :: nat) \<and> (of_char c :: nat) < 192 then 0 else 1)"

definition PATTERN_LENGTH :: nat where
  "PATTERN_LENGTH = 2"

text \<open>The iterator of \<open>NewNormalized\<close> run to its end: the rest of the input,
  \<open>prev_was_carriage_return\<close>, \<open>pos\<close> and the source map. The result is the collected text and
  the final map.\<close>

fun normalized_from ::
    "string \<Rightarrow> bool \<Rightarrow> nat \<Rightarrow> file_offset_map \<Rightarrow> string \<times> file_offset_map" where
  "normalized_from [] prev pos m = ([], m)"
| "normalized_from (c # cs) prev pos m =
     (let pos1 = pos + char_width c
      in if c = lf \<and> prev then
           (let m' = insert_layer (pos1 - PATTERN_LENGTH) 1 m
            in case cs of
                 [] \<Rightarrow> ([], m')
               | d # ds \<Rightarrow>
                   (let pos2 = pos1 + char_width d
                    in if d = cr
                       then (case normalized_from ds True pos2 m' of (out, m) \<Rightarrow> (lf # out, m))
                       else (case normalized_from ds False pos2 m' of (out, m) \<Rightarrow> (d # out, m))))
         else if c = cr
         then (case normalized_from cs True pos1 m of (out, m) \<Rightarrow> (lf # out, m))
         else (case normalized_from cs False pos1 m of (out, m) \<Rightarrow> (c # out, m)))"

definition normalize :: "string \<Rightarrow> string \<times> file_offset_map" where
  "normalize s = normalized_from s False 0 file_offset_map_default"

section \<open>Addresses (address.rs)\<close>

record provided_account_address =
  pa_original :: string
  pa_normalized_original :: string
  pa_lowered :: string

definition provided_new :: "string \<Rightarrow> string \<Rightarrow> string \<Rightarrow> provided_account_address" where
  "provided_new original normalized lowered =
     \<lparr>pa_original = original, pa_normalized_original = normalized, pa_lowered = lowered\<rparr>"

definition provided_default :: provided_account_address where
  "provided_default =
     \<lparr>pa_original = ''0x0'', pa_normalized_original = ''0x'' @ replicate 32 (CHR ''0''),
      pa_lowered = ''0x'' @ replicate 40 (CHR ''0'')\<rparr>"

text \<open>\<open>self.lowered[2..]\<close> panics on a text shorter than two bytes; \<open>{:0>40}\<close> pads to 40
  characters on the left (the text is ASCII).\<close>

definition lowered :: "provided_account_address \<Rightarrow> string result" where
  "lowered a =
     (if length (pa_lowered a) < 2 then Inl IndexOutOfBounds
      else let bits = drop 2 (pa_lowered a)
           in Inr (''0x'' @ replicate (40 - length bits) (CHR ''0'') @ bits))"

type_synonym address_map = "provided_account_address list"

definition address_map_insert :: "provided_account_address \<Rightarrow> address_map \<Rightarrow> address_map" where
  "address_map_insert a m = m @ [a]"

definition address_map_forward :: "address_map \<Rightarrow> (string \<rightharpoonup> string) result" where
  "address_map_forward m =
     rbind (mapM (\<lambda>a. rbind (lowered a) (\<lambda>l. Inr (pa_original a, l))) m)
       (\<lambda>ps. Inr (foldl (\<lambda>h (k, v). h(k \<mapsto> v)) Map.empty ps))"

definition address_map_reversed :: "address_map \<Rightarrow> (string \<rightharpoonup> string) result" where
  "address_map_reversed m =
     rbind (mapM (\<lambda>a. rbind (lowered a) (\<lambda>l. Inr (l, pa_original a))) m)
       (\<lambda>ps. Inr (foldl (\<lambda>h (k, v). h(k \<mapsto> v)) Map.empty ps))"

section \<open>Sender placeholder (parser.rs)\<close>

definition replace_range :: "string \<Rightarrow> nat \<Rightarrow> nat \<Rightarrow> string \<Rightarrow> string" where
  "replace_range s a b r = take a s @ r @ drop b s"

text \<open>The \<open>while let\<close> loop for one template.\<close>

primrec replace_template ::
    "nat \<Rightarrow> string \<Rightarrow> string \<Rightarrow> string \<times> file_offset_map \<Rightarrow> (string \<times> file_offset_map) result" where
  "replace_template 0 template sender s = Inl OutOfFuel"
| "replace_template (Suc fuel) template sender s =
     (case s of (new_s, m) \<Rightarrow>
        case find_str template new_s of
          None \<Rightarrow> Inr (new_s, m)
        | Some pos \<Rightarrow>
            replace_template fuel template sender
              (replace_range new_s pos (pos + length template) sender,
               insert_layer (pos + length sender) (len_difference template sender) m))"

definition replace_sender_placeholder ::
    "string \<Rightarrow> string \<Rightarrow> file_offset_map \<Rightarrow> (string \<times> file_offset_map) result" where
  "replace_sender_placeholder s sender m =
     (if length sender > 12 then
        rbind (replace_template (Suc (length s)) ''{{sender}}'' sender (s, m)) (\<lambda>(s1, m1).
          replace_template (Suc (length s1)) ''{{ sender }}'' sender (s1, m1))
      else Inl (Panicked ''Sender address length is too short''))"

section \<open>Addresses inside sources\<close>

text \<open>Libra: the leftmost match of \<open>(0x[0-9a-f]{1,32})[^0-9a-f]\<close> and its group 1.\<close>

definition is_hex_digit :: "char \<Rightarrow> bool" where
  "is_hex_digit c =
     (is_digit_char c \<or> 97 \<le> (of_char c :: nat) \<and> (of_char c :: nat) \<le> 102)"

definition libra_match_here :: "string \<Rightarrow> nat option" where
  "libra_match_here s =
     (if starts_with ''0x'' s
      then let digits = takeWhile is_hex_digit (drop 2 s)
           in if 1 \<le> length digits \<and> length digits \<le> 32 \<and> 2 + length digits < length s
              then Some (2 + length digits) else None
      else None)"

fun libra_capture :: "string \<Rightarrow> (nat \<times> nat) option" where
  "libra_capture [] = None"
| "libra_capture (c # cs) =
     (case libra_match_here (c # cs) of
        Some k \<Rightarrow> Some (0, k)
      | None \<Rightarrow> map_option (\<lambda>(a, b). (Suc a, Suc b)) (libra_capture cs))"

text \<open>\<open>parse_hex\<close> is \<open>LibraAccountAddress::from_hex_literal\<close> followed by \<open>{}\<close>.\<close>

primrec replace_libra_address ::
    "nat \<Rightarrow> (string \<Rightarrow> string option) \<Rightarrow> string \<Rightarrow> file_offset_map \<Rightarrow> (string \<times> file_offset_map) result" where
  "replace_libra_address 0 parse_hex s m = Inl OutOfFuel"
| "replace_libra_address (Suc fuel) parse_hex s m =
     (case libra_capture s of
        None \<Rightarrow> Inr (s, m)
      | Some (a, b) \<Rightarrow>
          (let orig_address = take (b - a) (drop a s)
           in case parse_hex orig_address of
                None \<Rightarrow> Inl (Panicked ''called Result::unwrap on an Err value'')
              | Some account_address \<Rightarrow>
                  (let repl_address = ''0x00000000'' @ account_address
                   in replace_libra_address fuel parse_hex (replace_range s a b repl_address)
                        (insert_address_layer b orig_address repl_address m))))"

text \<open>Bech32 and SS58: the matches of the regex in the original text (a parameter), the
  decoder (a parameter), every occurrence replaced.\<close>

definition replace_encoded_step ::
    "(string \<Rightarrow> string option) \<Rightarrow> string \<Rightarrow> nat \<times> nat \<Rightarrow> string \<times> file_offset_map \<Rightarrow> string \<times> file_offset_map" where
  "replace_encoded_step decode source item s =
     (case (item, s) of ((a, b), (transformed, m)) \<Rightarrow>
        let orig_address = take (b - a) (drop a source)
        in if starts_with ''0x'' orig_address then (transformed, m)
           else case decode orig_address of
                  Some libra_address \<Rightarrow>
                    (replace_str orig_address libra_address transformed,
                     insert_address_layer b orig_address libra_address m)
                | None \<Rightarrow> (transformed, m))"

definition replace_encoded_addresses ::
    "(string \<Rightarrow> (nat \<times> nat) list) \<Rightarrow> (string \<Rightarrow> string option) \<Rightarrow> string \<Rightarrow> file_offset_map \<Rightarrow>
     string \<times> file_offset_map" where
  "replace_encoded_addresses captures decode source m =
     fold (replace_encoded_step decode source) (captures source) (source, m)"

section \<open>Line endings: the text\<close>

fun crlf_to_lf :: "string \<Rightarrow> string" where
  "crlf_to_lf [] = []"
| "crlf_to_lf (c # cs) =
     (if c = cr then
        (case cs of
           [] \<Rightarrow> [lf]
         | d # ds \<Rightarrow> if d = lf then lf # crlf_to_lf ds else lf # crlf_to_lf cs)
      else c # crlf_to_lf cs)"

text \<open>What is left to normalize when the previous character was a carriage return.\<close>

definition after_cr :: "bool \<Rightarrow> string \<Rightarrow> string" where
  "after_cr prev s = (case s of c # cs \<Rightarrow> if prev \<and> c = lf then cs else s | [] \<Rightarrow> [])"

lemma cr_lf [simp]: "cr \<noteq> lf" "lf \<noteq> cr"
  by (simp_all add: cr_def lf_def)

lemma crlf_cr: "crlf_to_lf (cr # cs) = lf # crlf_to_lf (after_cr True cs)"
  by (cases cs) (simp_all add: after_cr_def)

lemma normalized_from_text:
  "fst (normalized_from s prev pos m) = crlf_to_lf (after_cr prev s)"
proof (induction s prev pos m rule: normalized_from.induct)
  case (1 prev pos m)
  then show ?case by (simp add: after_cr_def)
next
  case (2 c cs prev pos m)
  consider (crlf) "c = lf" "prev" | (ret) "c = cr" | (other) "c \<noteq> cr" "\<not> (c = lf \<and> prev)"
    by fastforce
  then show ?case
  proof cases
    case crlf
    have "after_cr False xs = xs" for xs by (simp add: after_cr_def split: list.splits)
    with crlf 2 show ?thesis
      by (cases cs) (auto simp: after_cr_def crlf_cr Let_def case_prod_unfold simp del: crlf_to_lf.simps(2)
          , simp add: after_cr_def split: list.splits)
  next
    case ret
    then have "after_cr prev (c # cs) = cr # cs" by (simp add: after_cr_def)
    with ret 2 show ?thesis by (simp add: crlf_cr Let_def case_prod_unfold del: crlf_to_lf.simps(2))
  next
    case other
    then have "after_cr prev (c # cs) = c # cs" by (auto simp: after_cr_def)
    moreover have "after_cr False cs = cs" by (simp add: after_cr_def split: list.splits)
    ultimately show ?thesis using other 2 by (auto simp: Let_def case_prod_unfold)
  qed
qed

lemma crlf_no_cr: "cr \<notin> set (crlf_to_lf s)"
  by (induction s rule: crlf_to_lf.induct) (auto split: list.splits)

section \<open>Searching\<close>

lemma find_str_Some:
  "find_str p s = Some i \<Longrightarrow> i + length p \<le> length s \<and> take (length p) (drop i s) = p"
proof (induction p s arbitrary: i rule: find_str.induct)
  case (1 p s)
  show ?case
  proof (cases "starts_with p s")
    case True
    then have "take (length p) s = p" by (simp add: starts_with_def)
    moreover have "length p \<le> length s" using \<open>take (length p) s = p\<close> by (metis length_take min.cobounded1)
    ultimately show ?thesis using 1 True by (simp add: find_str.simps[of p s])
  next
    case False
    with 1(2) obtain c cs j where s: "s = c # cs" "find_str p cs = Some j" "i = Suc j"
      by (auto simp: find_str.simps[of p s] split: list.splits)
    from 1(1)[OF False s(1,2)] s show ?thesis by simp
  qed
qed

lemma find_str_decomp:
  assumes "find_str p s = Some i"
  shows "s = take i s @ p @ drop (i + length p) s"
  using find_str_Some[OF assms] by (metis append_take_drop_id drop_drop add.commute)

section \<open>Positions behind the sender placeholder\<close>

lemma translate_pos_insert:
  "translate_pos (insert_layer pos off m) p =
     translate_pos m (layer_translate \<lparr>ly_pos = pos, ly_offset = off\<rparr> p)"
  by (simp add: translate_pos_def insert_layer_def)

text \<open>Text in which every character remembers its position in the original; replaced text has
  none.\<close>

type_synonym tagged = "(char \<times> nat option) list"

primrec replace_template_tagged :: "nat \<Rightarrow> string \<Rightarrow> string \<Rightarrow> tagged \<Rightarrow> tagged" where
  "replace_template_tagged 0 template sender t = t"
| "replace_template_tagged (Suc fuel) template sender t =
     (case find_str template (map fst t) of
        None \<Rightarrow> t
      | Some pos \<Rightarrow> replace_template_tagged fuel template sender
          (take pos t @ map (\<lambda>c. (c, None)) sender @ drop (pos + length template) t))"

definition replace_sender_tagged :: "string \<Rightarrow> string \<Rightarrow> tagged" where
  "replace_sender_tagged s sender =
     (let t1 = replace_template_tagged (Suc (length s)) ''{{sender}}'' sender
                 (zip s (map Some [0..<length s]))
      in replace_template_tagged (Suc (length t1)) ''{{ sender }}'' sender t1)"

definition tracks :: "file_offset_map \<Rightarrow> string \<Rightarrow> file_offset_map \<Rightarrow> tagged \<Rightarrow> bool" where
  "tracks m0 s m t \<longleftrightarrow>
     (\<forall>p<length t. \<forall>q. snd (t ! p) = Some q \<longrightarrow>
        q < length s \<and> fst (t ! p) = s ! q \<and> translate_pos m p = translate_pos m0 q)"

lemma tracks_start: "tracks m s m (zip s (map Some [0..<length s]))"
  by (simp add: tracks_def)

text \<open>One rewriting: \<open>k\<close> characters at \<open>pos\<close> become \<open>r\<close>, and a layer anywhere up to the end of
  \<open>r\<close> takes the difference back.\<close>

lemma tracks_rewrite:
  assumes t: "tracks m0 s m t" and f: "pos + k \<le> length t"
    and small: "length t + length r < 2 ^ 64"
    and l: "pos \<le> l" "l \<le> pos + length r"
  shows "tracks m0 s (insert_layer l (int k - int (length r)) m)
     (take pos t @ map (\<lambda>c. (c, None)) r @ drop (pos + k) t)"
  unfolding tracks_def
proof (intro allI impI)
  let ?t = "take pos t @ map (\<lambda>c. (c, None)) r @ drop (pos + k) t"
  let ?m = "insert_layer l (int k - int (length r)) m"
  fix p q assume p: "p < length ?t" "snd (?t ! p) = Some q"
  consider (before) "p < pos" | (inside) "pos \<le> p" "p < pos + length r"
    | (behind) "pos + length r \<le> p" by linarith
  then show "q < length s \<and> fst (?t ! p) = s ! q \<and> translate_pos ?m p = translate_pos m0 q"
  proof cases
    case before
    then have "?t ! p = t ! p" using f by (simp add: nth_append)
    moreover have "translate_pos ?m p = translate_pos m p"
      using before l by (simp add: translate_pos_insert layer_translate_def)
    moreover have "p < length t" using before f by simp
    ultimately show ?thesis using t p(2) by (simp add: tracks_def)
  next
    case inside
    then have "p - pos < length r" by linarith
    with inside have "snd (?t ! p) = None" using f by (simp add: nth_append)
    with p show ?thesis by simp
  next
    case behind
    define v where "v = p - length r + k"
    have v: "v < length t" using p(1) behind f by (simp add: v_def)
    have "\<not> p - pos < length r" using behind by linarith
    then have n: "?t ! p = t ! v" using behind f by (simp add: nth_append v_def add.commute)
    have "int p + (int k - int (length r)) = int v" using behind by (simp add: v_def)
    moreover have "v < 2 ^ 64" using v small by linarith
    ultimately have "layer_translate \<lparr>ly_pos = l, ly_offset = int k - int (length r)\<rparr> p = v"
      using behind l by (simp add: layer_translate_def)
    then have "translate_pos ?m p = translate_pos m v" by (simp add: translate_pos_insert)
    with t n p v show ?thesis by (simp add: tracks_def)
  qed
qed

lemma tracks_replace:
  assumes "tracks m0 s m t" "pos + length template \<le> length t" "length t + length sender < 2 ^ 64"
  shows "tracks m0 s (insert_layer (pos + length sender) (len_difference template sender) m)
     (take pos t @ map (\<lambda>c. (c, None)) sender @ drop (pos + length template) t)"
  unfolding len_difference_def by (rule tracks_rewrite[OF assms]) simp_all

lemma replace_template_grows:
  assumes "replace_template fuel template sender (s, m) = Inr (s', m')"
    and "length template \<le> length sender"
  shows "length s \<le> length s'"
  using assms(1)
proof (induction fuel arbitrary: s m)
  case (Suc fuel)
  show ?case
  proof (cases "find_str template s")
    case (Some i)
    with Suc.prems have "length (replace_range s i (i + length template) sender) \<le> length s'"
      by (intro Suc.IH) simp
    with find_str_Some[OF Some] assms(2) show ?thesis by (simp add: replace_range_def)
  qed (use Suc.prems in simp)
qed simp

lemma replace_template_tracks:
  assumes "replace_template fuel template sender (map fst t, m) = Inr (s', m')"
    and "tracks m0 s m t" "length template \<le> length sender" "length s' + length sender < 2 ^ 64"
  shows "map fst (replace_template_tagged fuel template sender t) = s' \<and>
         tracks m0 s m' (replace_template_tagged fuel template sender t) \<and> length t \<le> length s'"
  using assms
proof (induction fuel arbitrary: t m)
  case (Suc fuel)
  show ?case
  proof (cases "find_str template (map fst t)")
    case None
    with Suc.prems show ?thesis by auto
  next
    case (Some pos)
    let ?t = "take pos t @ map (\<lambda>c. (c, None)) sender @ drop (pos + length template) t"
    have f: "pos + length template \<le> length t" using find_str_Some[OF Some] by simp
    have mf: "replace_range (map fst t) pos (pos + length template) sender = map fst ?t"
      by (simp add: replace_range_def take_map drop_map comp_def)
    have run: "replace_template fuel template sender (map fst ?t,
        insert_layer (pos + length sender) (len_difference template sender) m) = Inr (s', m')"
      using Suc.prems(1) Some unfolding mf[symmetric] by simp
    have lt: "length t \<le> length ?t" using f Suc.prems(3) by simp
    have grow: "length ?t \<le> length s'"
      using replace_template_grows[OF run Suc.prems(3)] by simp
    have "tracks m0 s (insert_layer (pos + length sender) (len_difference template sender) m) ?t"
      using Suc.prems(2,4) f lt grow by (intro tracks_replace) simp_all
    from Suc.IH[OF run this Suc.prems(3,4)] Some lt show ?thesis by simp
  qed
qed simp


section \<open>Termination of the placeholder loop\<close>

abbreviation braces :: "string \<Rightarrow> nat" where
  "braces s \<equiv> length (filter (\<lambda>c. c = CHR ''{'') s)"

lemma replace_template_fuel:
  assumes "0 < braces template" "CHR ''{'' \<notin> set sender" "braces s < fuel"
  shows "replace_template fuel template sender (s, m) \<noteq> Inl OutOfFuel"
  using assms(3)
proof (induction fuel arbitrary: s m)
  case (Suc fuel)
  show ?case
  proof (cases "find_str template s")
    case (Some i)
    let ?s = "replace_range s i (i + length template) sender"
    have "filter (\<lambda>c. c = CHR ''{'') sender = []" using assms(2) by (auto simp: filter_empty_conv)
    then have "braces s = braces ?s + braces template"
      by (subst find_str_decomp[OF Some]) (simp add: replace_range_def)
    with Suc.prems assms(1) have "braces ?s < fuel" by linarith
    with Suc.IH Some show ?thesis by simp
  qed simp
qed simp

section \<open>Properties\<close>

text \<open>The normalized text is the source with every CRLF and every remaining CR replaced by
  one LF, and contains no CR.\<close>

theorem normalize_text:
  "fst (normalize s) = crlf_to_lf s \<and> cr \<notin> set (fst (normalize s))"
proof -
  have "after_cr False s = s" by (simp add: after_cr_def split: list.splits)
  then have "fst (normalize s) = crlf_to_lf s"
    by (simp add: normalize_def normalized_from_text)
  then show ?thesis by (simp add: crlf_no_cr)
qed

text \<open>The layers of line endings are recorded in positions of the original text but applied
  to positions of the normalized one, last layer first: behind the third CRLF, translation
  points one byte before the character it is asked for.\<close>

definition three_crlf :: string where
  "three_crlf = [CHR ''a'', cr, lf, CHR ''b'', cr, lf, CHR ''c'', cr, lf, CHR ''d'']"

theorem normalize_positions_drift:
  "fst (normalize three_crlf) ! 6 = CHR ''d'' \<and> three_crlf ! 9 = CHR ''d'' \<and>
   translate_pos (snd (normalize three_crlf)) 6 = 8 \<and> three_crlf ! 8 = lf"
  by (simp add: three_crlf_def normalize_def char_width_def cr_def lf_def Let_def PATTERN_LENGTH_def
      insert_layer_def file_offset_map_default_def translate_pos_def layer_translate_def)

text \<open>C15: positions survive the replacement of the sender placeholders: in the rewritten text,
  every character that comes from the source (and is not part of a replaced placeholder)
  translates back to exactly what its original position translated to before, for any number
  of placeholders of both spellings.\<close>

theorem sender_positions:
  assumes "replace_sender_placeholder s sender m = Inr (s', m')"
    and "length s' + length sender < 2 ^ 64"
  shows "map fst (replace_sender_tagged s sender) = s' \<and>
     (\<forall>p<length s'. \<forall>q. snd (replace_sender_tagged s sender ! p) = Some q \<longrightarrow>
        q < length s \<and> s' ! p = s ! q \<and> translate_pos m' p = translate_pos m q)"
proof -
  let ?t0 = "zip s (map Some [0..<length s])"
  let ?t1 = "replace_template_tagged (Suc (length s)) ''{{sender}}'' sender ?t0"
  from assms(1) obtain s1 m1 where
    r1: "replace_template (Suc (length s)) ''{{sender}}'' sender (s, m) = Inr (s1, m1)" and
    r2: "replace_template (Suc (length s1)) ''{{ sender }}'' sender (s1, m1) = Inr (s', m')" and
    l: "12 < length sender"
    by (auto simp: replace_sender_placeholder_def rbind_eq_Inr_iff simp del: replace_template.simps
        split: if_splits)
  have g: "length s1 \<le> length s'" using replace_template_grows[OF r2] l by simp
  have "replace_template (Suc (length s)) ''{{sender}}'' sender (map fst ?t0, m) = Inr (s1, m1)"
    using r1 by (simp only: map_fst_zip length_map length_upt)
  from replace_template_tracks[OF this tracks_start] l g assms(2)
  have t1: "map fst ?t1 = s1" "tracks m s m1 ?t1" by simp_all
  then have "length ?t1 = length s1" by (metis length_map)
  with r2 t1(1) have "replace_template (Suc (length ?t1)) ''{{ sender }}'' sender (map fst ?t1, m1) =
      Inr (s', m')" by simp
  from replace_template_tracks[OF this t1(2)] l assms(2)
  have "map fst (replace_sender_tagged s sender) = s' \<and> tracks m s m' (replace_sender_tagged s sender)"
    by (simp add: replace_sender_tagged_def Let_def del: replace_template_tagged.simps)
  then show ?thesis by (auto simp: tracks_def)
qed

definition sender_sample :: string where
  "sender_sample = ''0x00000000000001''"

theorem sender_positions_witness:
  "snd (replace_sender_tagged ''a{{sender}}b'' sender_sample ! 17) = Some 11 \<and>
   (\<exists>s' m'. replace_sender_placeholder ''a{{sender}}b'' sender_sample file_offset_map_default = Inr (s', m') \<and>
      s' ! 17 = CHR ''b'' \<and> translate_pos m' 17 = translate_pos file_offset_map_default 11)"
proof -
  have tag: "snd (replace_sender_tagged ''a{{sender}}b'' sender_sample ! 17) = Some 11"
    by code_simp
  obtain s' m' where r: "replace_sender_placeholder ''a{{sender}}b'' sender_sample
      file_offset_map_default = Inr (s', m')" "length s' = 18"
    by (simp add: replace_sender_placeholder_def sender_sample_def find_str.simps starts_with_def
        replace_range_def)
  from sender_positions[OF r(1)] r(2) tag
  have "s' ! 17 = ''a{{sender}}b'' ! 11 \<and>
      translate_pos m' 17 = translate_pos file_offset_map_default 11"
    by (simp add: sender_sample_def)
  with tag r(1) show ?thesis by (auto simp: eval_nat_numeral)
qed

text \<open>Replacing the placeholders terminates for every source and every sender address
  without a brace.\<close>

theorem sender_terminates:
  assumes "CHR ''{'' \<notin> set sender"
  shows "replace_sender_placeholder s sender m \<noteq> Inl OutOfFuel"
proof -
  have "replace_template (Suc (length s)) t sender (s, m) \<noteq> Inl OutOfFuel"
    if "0 < braces t" for s t m
    using that assms by (intro replace_template_fuel) (simp_all add: less_Suc_eq_le)
  then show ?thesis
    by (auto simp: replace_sender_placeholder_def rbind_eq_Inl_iff simp del: replace_template.simps)
qed

theorem sender_terminates_witness:
  "replace_sender_placeholder ''{{ sender }}'' sender_sample file_offset_map_default \<noteq> Inl OutOfFuel"
  by (rule sender_terminates) (simp add: sender_sample_def)

end
