(* ===== verification/Lang_Compile.thy ===== *)
theory Lang_Compile
  imports Lang_Text Dis_Format
begin

text \<open>
  The compiler driver (\<open>lang/src\<close>): the dialects (\<open>compiler/dialects/*\<close>, \<open>bech32.rs\<close>,
  \<open>ss58.rs\<close>), parsing (\<open>parser.rs\<close>), the compile flow (\<open>compiler/mod.rs\<close>) and its users
  (\<open>checker.rs\<close>, \<open>builder.rs\<close>, \<open>meta_extractor.rs\<close>), files (\<open>file.rs\<close>) and cursor positions
  (\<open>location.rs\<close>).

  The Move compiler and the cryptographic crates are parameters: \<open>move_lang\<close> and \<open>codecs\<close>.
  A \<open>CompileFlow\<close> is the record of its handlers. An \<open>anyhow\<close> error is its text.
\<close>

section \<open>Dialects\<close>

text \<open>
  \<^item> \<open>cd_bech32_decode\<close>: the data part of \<open>bech32::decode\<close>;
  \<^item> \<open>cd_convert_bits\<close>: \<open>bech32::convert_bits(data, from, to, true)\<close>;
  \<^item> \<open>cd_hex_upper\<close>, \<open>cd_hex_decode\<close>: \<open>hex::encode_upper\<close>, \<open>hex::decode\<close>;
  \<^item> \<open>cd_bech32_encode\<close>: \<open>u5::try_from_u8\<close> on each element, then \<open>bech32::encode\<close>;
  \<^item> \<open>cd_from_base58\<close>, \<open>cd_blake2b\<close>: base58 decoding and the 64-byte Blake2b hash;
  \<^item> \<open>cd_account\<close>, \<open>cd_libra_account\<close>: \<open>from_hex_literal\<close> of the two \<open>AccountAddress\<close> types
    followed by \<open>{}\<close>.
\<close>

record codecs =
  cd_bech32_decode :: "string \<Rightarrow> string + 8 word list"
  cd_convert_bits :: "8 word list \<Rightarrow> nat \<Rightarrow> nat \<Rightarrow> string + 8 word list"
  cd_bech32_encode :: "string \<Rightarrow> 8 word list \<Rightarrow> string + string"
  cd_hex_upper :: "8 word list \<Rightarrow> string"
  cd_hex_decode :: "string \<Rightarrow> string + 8 word list"
  cd_from_base58 :: "string \<Rightarrow> 8 word list option"
  cd_blake2b :: "8 word list \<Rightarrow> 8 word list"
  cd_account :: "string \<Rightarrow> string + string"
  cd_libra_account :: "string \<Rightarrow> string + string"
  cd_bech32_captures :: "string \<Rightarrow> (nat \<times> nat) list"
  cd_ss58_captures :: "string \<Rightarrow> (nat \<times> nat) list"

definition HRP :: string where
  "HRP = ''wallet''"

definition trim_start_zeros :: "string \<Rightarrow> string" where
  "trim_start_zeros s = dropWhile (\<lambda>c. c = CHR ''0'') s"

definition bech32_into_libra :: "codecs \<Rightarrow> string \<Rightarrow> string + string" where
  "bech32_into_libra C address =
     rbind (cd_bech32_decode C address) (\<lambda>data_bytes.
     rbind (cd_convert_bits C data_bytes 5 8) (\<lambda>data.
       Inr (''0x'' @ trim_start_zeros (cd_hex_upper C data))))"

definition libra_into_bech32 :: "codecs \<Rightarrow> string \<Rightarrow> string + string" where
  "libra_into_bech32 C libra_address =
     (if \<not> starts_with ''0x'' libra_address then Inl ''Pass address with 0x prefix''
      else if length libra_address \<noteq> 42 then Inl ''Address should be of length 42''
      else rbind (cd_hex_decode C (drop 2 libra_address)) (\<lambda>data.
           rbind (cd_convert_bits C data 8 5) (\<lambda>d. cd_bech32_encode C HRP d)))"

definition SS58_PREFIX :: "8 word list" where
  "SS58_PREFIX = map (\<lambda>c. of_nat (of_char c)) ''SS58PRE''"

definition PUB_KEY_LENGTH :: nat where
  "PUB_KEY_LENGTH = 32"

definition ss58hash :: "codecs \<Rightarrow> 8 word list \<Rightarrow> 8 word list" where
  "ss58hash C data = cd_blake2b C (SS58_PREFIX @ data)"

definition ss58_to_libra :: "codecs \<Rightarrow> string \<Rightarrow> string + string" where
  "ss58_to_libra C ss58 =
     (case cd_from_base58 C ss58 of
        None \<Rightarrow> Inl ''Wrong base58''
      | Some bs58 \<Rightarrow>
          (if length bs58 \<noteq> PUB_KEY_LENGTH + 3
           then Inl (''Address length must be equal '' @ show_nat (PUB_KEY_LENGTH + 3) @ '' bytes'')
           else if take 2 (drop (PUB_KEY_LENGTH + 1) bs58) \<noteq>
                   take 2 (ss58hash C (take (PUB_KEY_LENGTH + 1) bs58))
           then Inl ''Wrong address checksum''
           else Inr (''0x'' @ cd_hex_upper C (take PUB_KEY_LENGTH (drop 1 bs58)))))"

text \<open>The address rewriting of each dialect; a decoder error leaves the text alone.\<close>

definition decoded :: "string + string \<Rightarrow> string option" where
  "decoded r = (case r of Inr x \<Rightarrow> Some x | Inl _ \<Rightarrow> None)"

definition replace_bech32_addresses ::
    "codecs \<Rightarrow> string \<Rightarrow> file_offset_map \<Rightarrow> string \<times> file_offset_map" where
  "replace_bech32_addresses C =
     replace_encoded_addresses (cd_bech32_captures C) (\<lambda>a. decoded (bech32_into_libra C a))"

definition replace_ss58_addresses ::
    "codecs \<Rightarrow> string \<Rightarrow> file_offset_map \<Rightarrow> string \<times> file_offset_map" where
  "replace_ss58_addresses C =
     replace_encoded_addresses (cd_ss58_captures C) (\<lambda>a. decoded (ss58_to_libra C a))"

definition map_error :: "('e \<Rightarrow> 'f) \<Rightarrow> 'e + 'a \<Rightarrow> 'f + 'a" where
  "map_error f r = (case r of Inl e \<Rightarrow> Inl (f e) | Inr x \<Rightarrow> Inr x)"

definition with_hex_address :: "codecs \<Rightarrow> string \<Rightarrow> string + provided_account_address" where
  "with_hex_address C addr =
     rbind (cd_account C addr) (\<lambda>address.
       let lowered_addr = ''0x'' @ address in Inr (provided_new addr lowered_addr lowered_addr))"

definition dfinance_normalize :: "codecs \<Rightarrow> string \<Rightarrow> string + provided_account_address" where
  "dfinance_normalize C addr =
     map_error (\<lambda>_. ''Address '' @ addr @ '' is not a valid dfinance address'')
       (if starts_with HRP addr
        then rbind (bech32_into_libra C addr) (\<lambda>lowered_addr. Inr (provided_new addr addr lowered_addr))
        else if starts_with ''0x'' addr then with_hex_address C addr
        else Inl ''Does not start with either wallet1 or 0x'')"

definition libra_normalize :: "codecs \<Rightarrow> string \<Rightarrow> string + provided_account_address" where
  "libra_normalize C addr =
     rbind (cd_libra_account C addr) (\<lambda>address.
       Inr (provided_new addr (''0x'' @ address) (''0x00000000'' @ address)))"

definition polkadot_normalize :: "codecs \<Rightarrow> string \<Rightarrow> string + provided_account_address" where
  "polkadot_normalize C addr =
     map_error (\<lambda>_. ''Address '' @ addr @ '' is not a valid libra/polkadot address'')
       (case ss58_to_libra C addr of
          Inr libra_addr \<Rightarrow> Inr (provided_new addr addr libra_addr)
        | Inl _ \<Rightarrow>
            (if starts_with ''0x'' addr then with_hex_address C addr
             else Inl ''Address is not valid libra or polkadot address''))"

datatype dialect_name = Libra | DFinance | Polkadot

definition dialect_from_str :: "string \<Rightarrow> string + dialect_name" where
  "dialect_from_str s =
     (if s = ''libra'' then Inr Libra
      else if s = ''dfinance'' then Inr DFinance
      else if s = ''polkadot'' then Inr Polkadot
      else Inl (''Invalid dialect '' @ s))"

record dialect =
  di_name :: string
  di_normalize :: "string \<Rightarrow> string + provided_account_address"
  di_replace_addresses :: "string \<Rightarrow> file_offset_map \<Rightarrow> (string \<times> file_offset_map) result"

definition libra_dialect :: "codecs \<Rightarrow> dialect" where
  "libra_dialect C =
     \<lparr>di_name = ''libra'', di_normalize = libra_normalize C,
      di_replace_addresses = (\<lambda>s m. replace_libra_address (Suc (length s)) (\<lambda>a. decoded (cd_libra_account C a)) s m)\<rparr>"

definition dfinance_dialect :: "codecs \<Rightarrow> dialect" where
  "dfinance_dialect C =
     \<lparr>di_name = ''dfinance'', di_normalize = dfinance_normalize C,
      di_replace_addresses = (\<lambda>s m. Inr (replace_bech32_addresses C s m))\<rparr>"

definition polkadot_dialect :: "codecs \<Rightarrow> dialect" where
  "polkadot_dialect C =
     \<lparr>di_name = ''polkadot'', di_normalize = polkadot_normalize C,
      di_replace_addresses = (\<lambda>s m. Inr (replace_ss58_addresses C s m))\<rparr>"

definition get_dialect :: "codecs \<Rightarrow> dialect_name \<Rightarrow> dialect" where
  "get_dialect C n =
     (case n of Libra \<Rightarrow> libra_dialect C | DFinance \<Rightarrow> dfinance_dialect C
              | Polkadot \<Rightarrow> polkadot_dialect C)"

section \<open>Files (file.rs)\<close>

record move_file =
  mf_name :: string
  mf_content :: string

definition with_content :: "string \<Rightarrow> string \<Rightarrow> move_file" where
  "with_content name content = \<lparr>mf_name = name, mf_content = content\<rparr>"

text \<open>A directory entry of \<open>walkdir\<close>: file type, name and extension when they are UTF-8.\<close>

record dir_entry =
  de_is_file :: bool
  de_file_name :: "string option"
  de_extension :: "string option"
  de_path :: "string option"

definition is_move_file :: "dir_entry \<Rightarrow> bool" where
  "is_move_file entry =
     (de_is_file entry \<and>
      \<not> (case de_file_name entry of Some name \<Rightarrow> starts_with ''.'' name | None \<Rightarrow> True) \<and>
      (case de_extension entry of Some ext \<Rightarrow> ext = ''move'' | None \<Rightarrow> False))"

text \<open>The file system: existence, file test, contents and directory walks.\<close>

record fs =
  fs_exists :: "string \<Rightarrow> bool"
  fs_is_file :: "string \<Rightarrow> bool"
  fs_read :: "string \<Rightarrow> string + string"
  fs_walk :: "string \<Rightarrow> (string + dir_entry) list"

definition move_file_load :: "fs \<Rightarrow> string \<Rightarrow> string + move_file" where
  "move_file_load F path =
     rbind (fs_read F path) (\<lambda>content. Inr \<lparr>mf_name = path, mf_content = content\<rparr>)"

definition find_move_files :: "fs \<Rightarrow> string \<Rightarrow> string + string list" where
  "find_move_files F path =
     mapM id (List.map_filter
       (\<lambda>entry. case entry of
            Inr e \<Rightarrow> (if is_move_file e
                      then Some (case de_path e of Some p \<Rightarrow> Inr p | None \<Rightarrow> Inl ''Failed to convert path'')
                      else None)
          | Inl err \<Rightarrow> Some (Inl err)) (fs_walk F path))"

primrec load_move_files :: "fs \<Rightarrow> string list \<Rightarrow> string + move_file list" where
  "load_move_files F [] = Inr []"
| "load_move_files F (path # paths) =
     (if \<not> fs_exists F path then Inl (''Cannot open '' @ path @ '': No such file or directory'')
      else rbind (if fs_is_file F path then rbind (move_file_load F path) (\<lambda>f. Inr [f])
                  else rbind (find_move_files F path) (mapM (move_file_load F)))
             (\<lambda>files. rbind (load_move_files F paths) (\<lambda>rest. Inr (files @ rest))))"

section \<open>Parsing (parser.rs)\<close>

text \<open>\<open>'d\<close>: a parsed definition, \<open>'k\<close>: the comments of a file, \<open>'c\<close>: a checked program,
  \<open>'u\<close>: a compiled unit.\<close>

type_synonym errors = "error list"

record 'd program =
  pg_source_definitions :: "'d list"
  pg_lib_definitions :: "'d list"

record ('d, 'k, 'c, 'u) move_lang =
  ml_strip_comments :: "string \<Rightarrow> string \<Rightarrow> errors + string \<times> 'k"
  ml_no_comments :: 'k
  ml_parse_file_string :: "string \<Rightarrow> string \<Rightarrow> errors + 'd list"
  ml_check_program :: "errors + 'd program \<Rightarrow> string option \<Rightarrow> errors + 'c"
  ml_to_bytecode :: "'c \<Rightarrow> errors + 'u list"

record 'k parsing_meta =
  pm_source_map :: "string \<rightharpoonup> string"
  pm_offsets_map :: project_offset_map
  pm_comments :: "string \<rightharpoonup> 'k"

record ('d, 'k) parser_artifact =
  pa_meta :: "'k parsing_meta"
  pa_result :: "errors + 'd program"

definition normalize_source_text ::
    "dialect \<Rightarrow> string \<Rightarrow> provided_account_address option \<Rightarrow> (string \<times> file_offset_map) result" where
  "normalize_source_text d source_text sender =
     (case normalize source_text of (s, m) \<Rightarrow>
        rbind (case sender of
                 Some a \<Rightarrow> replace_sender_placeholder s (pa_normalized_original a) m
               | None \<Rightarrow> Inr (s, m))
          (\<lambda>(s, m). di_replace_addresses d s m))"

record ('d, 'k) parsed_file =
  pf_defs :: "'d list"
  pf_comments :: 'k
  pf_errors :: errors
  pf_offsets :: file_offset_map

definition parse_file ::
    "('d, 'k, 'c, 'u) move_lang \<Rightarrow> dialect \<Rightarrow> (string \<rightharpoonup> string) \<Rightarrow> string \<Rightarrow> string \<Rightarrow>
     provided_account_address option \<Rightarrow> (('d, 'k) parsed_file \<times> (string \<rightharpoonup> string)) result" where
  "parse_file L d files fname source_buffer sender =
     rbind (normalize_source_text d source_buffer sender) (\<lambda>(source_buffer, file_source_map).
       Inr (case ml_strip_comments L fname source_buffer of
              Inl errors \<Rightarrow>
                (\<lparr>pf_defs = [], pf_comments = ml_no_comments L, pf_errors = errors,
                  pf_offsets = file_source_map\<rparr>, files(fname \<mapsto> source_buffer))
            | Inr (no_comments_buffer, comment_map) \<Rightarrow>
                (case ml_parse_file_string L fname no_comments_buffer of
                   Inr defs \<Rightarrow>
                     (\<lparr>pf_defs = defs, pf_comments = comment_map, pf_errors = [],
                       pf_offsets = file_source_map\<rparr>, files(fname \<mapsto> source_buffer))
                 | Inl errors \<Rightarrow>
                     (\<lparr>pf_defs = [], pf_comments = comment_map, pf_errors = errors,
                       pf_offsets = file_source_map\<rparr>, files(fname \<mapsto> source_buffer)))))"

text \<open>The state of the two loops of \<open>parse_program\<close>.\<close>

record ('d, 'k) parsing =
  ps_files :: "string \<rightharpoonup> string"
  ps_source :: "'d list"
  ps_lib :: "'d list"
  ps_comments :: "string \<rightharpoonup> 'k"
  ps_offsets :: project_offset_map
  ps_errors :: errors

definition parse_target ::
    "('d, 'k, 'c, 'u) move_lang \<Rightarrow> dialect \<Rightarrow> provided_account_address option \<Rightarrow> move_file \<Rightarrow>
     ('d, 'k) parsing \<Rightarrow> ('d, 'k) parsing result" where
  "parse_target L d sender target s =
     rbind (parse_file L d (ps_files s) (mf_name target) (mf_content target) sender)
       (\<lambda>(f, files). Inr (s\<lparr>ps_files := files, ps_source := ps_source s @ pf_defs f,
          ps_comments := (ps_comments s)(mf_name target \<mapsto> pf_comments f),
          ps_offsets := (ps_offsets s)(mf_name target \<mapsto> pf_offsets f),
          ps_errors := ps_errors s @ pf_errors f\<rparr>))"

definition parse_dep ::
    "('d, 'k, 'c, 'u) move_lang \<Rightarrow> dialect \<Rightarrow> provided_account_address option \<Rightarrow> move_file \<Rightarrow>
     ('d, 'k) parsing \<Rightarrow> ('d, 'k) parsing result" where
  "parse_dep L d sender dep s =
     rbind (parse_file L d (ps_files s) (mf_name dep) (mf_content dep) sender)
       (\<lambda>(f, files). Inr (s\<lparr>ps_files := files, ps_lib := ps_lib s @ pf_defs f,
          ps_offsets := (ps_offsets s)(mf_name dep \<mapsto> pf_offsets f),
          ps_errors := ps_errors s @ pf_errors f\<rparr>))"

definition parse_program ::
    "('d, 'k, 'c, 'u) move_lang \<Rightarrow> dialect \<Rightarrow> move_file list \<Rightarrow> move_file list \<Rightarrow>
     provided_account_address option \<Rightarrow> ('d, 'k) parser_artifact result" where
  "parse_program L d targets deps sender =
     rbind (foldM (parse_target L d sender) targets
              \<lparr>ps_files = Map.empty, ps_source = [], ps_lib = [], ps_comments = Map.empty,
               ps_offsets = Map.empty, ps_errors = []\<rparr>) (\<lambda>s.
     rbind (foldM (parse_dep L d sender) deps s) (\<lambda>s.
       Inr \<lparr>pa_meta = \<lparr>pm_source_map = ps_files s, pm_offsets_map = ps_offsets s,
                        pm_comments = ps_comments s\<rparr>,
            pa_result = (if ps_errors s = []
                         then Inr \<lparr>pg_source_definitions = ps_source s, pg_lib_definitions = ps_lib s\<rparr>
                         else Inl (ps_errors s))\<rparr>))"

section \<open>Compile flow (compiler/mod.rs)\<close>

datatype ('a, 'n) step = Stop 'a | Next 'n

text \<open>A handler takes and returns the state \<open>'s\<close> of its flow (\<open>&mut self\<close>); no flow of the
  repository overrides \<open>init\<close>.\<close>

record ('d, 'k, 'c, 'u, 'a, 's) compile_flow =
  cf_after_parsing :: "'s \<Rightarrow> ('d, 'k) parser_artifact \<Rightarrow> (('a, ('d, 'k) parser_artifact) step \<times> 's) result"
  cf_after_check :: "'s \<Rightarrow> 'k parsing_meta \<Rightarrow> errors + 'c \<Rightarrow>
                     (('a, 'k parsing_meta \<times> (errors + 'c)) step \<times> 's) result"
  cf_after_translate :: "'s \<Rightarrow> 'k parsing_meta \<Rightarrow> errors + 'u list \<Rightarrow> 'a result"

text \<open>The handlers a flow does not override.\<close>

definition default_after_parsing ::
    "'s \<Rightarrow> ('d, 'k) parser_artifact \<Rightarrow> (('a, ('d, 'k) parser_artifact) step \<times> 's) result" where
  "default_after_parsing self a = Inr (Next a, self)"

definition default_after_check ::
    "'s \<Rightarrow> 'k parsing_meta \<Rightarrow> errors + 'c \<Rightarrow>
     (('a, 'k parsing_meta \<times> (errors + 'c)) step \<times> 's) result" where
  "default_after_check self m r = Inr (Next (m, r), self)"

text \<open>\<open>as_address\<close> unwraps \<open>AccountAddress::from_hex_literal\<close> of the lowered text.\<close>

definition as_account_address :: "codecs \<Rightarrow> provided_account_address \<Rightarrow> string result" where
  "as_account_address C a =
     (case cd_account C (pa_lowered a) of
        Inr x \<Rightarrow> Inr x | Inl _ \<Rightarrow> Inl (Panicked ''called Result::unwrap on an Err value''))"

definition compile ::
    "codecs \<Rightarrow> ('d, 'k, 'c, 'u) move_lang \<Rightarrow> dialect \<Rightarrow> move_file list \<Rightarrow> move_file list \<Rightarrow>
     provided_account_address option \<Rightarrow> ('d, 'k, 'c, 'u, 'a, 's) compile_flow \<Rightarrow> 's \<Rightarrow> 'a result" where
  "compile C L d targets deps sender flow self =
     rbind (parse_program L d targets deps sender) (\<lambda>artifact.
     rbind (cf_after_parsing flow self artifact) (\<lambda>(st, self).
       case st of
         Stop a \<Rightarrow> Inr a
       | Next artifact \<Rightarrow>
           rbind (case sender of None \<Rightarrow> Inr None
                  | Some a \<Rightarrow> rbind (as_account_address C a) (\<lambda>x. Inr (Some x))) (\<lambda>addr.
           rbind (cf_after_check flow self (pa_meta artifact) (ml_check_program L (pa_result artifact) addr))
             (\<lambda>(st, self). case st of
                Stop a \<Rightarrow> Inr a
              | Next (meta, check_result) \<Rightarrow>
                  cf_after_translate flow self meta (rbind check_result (ml_to_bytecode L))))))"

section \<open>The flows (checker.rs, builder.rs)\<close>

text \<open>\<open>result.map_err(|errors| offsets_map.transform(errors))\<close>\<close>

definition map_errors :: "project_offset_map \<Rightarrow> errors + 'a \<Rightarrow> (errors + 'a) result" where
  "map_errors pm r =
     (case r of Inr x \<Rightarrow> Inr (Inr x)
      | Inl errors \<Rightarrow> rbind (transform pm errors) (\<lambda>es. Inr (Inl es)))"

definition unit_result :: "'e + 'a \<Rightarrow> 'e + unit" where
  "unit_result r = (case r of Inl e \<Rightarrow> Inl e | Inr _ \<Rightarrow> Inr ())"

definition checker_flow :: "('d, 'k, 'c, 'u, errors + unit, unit) compile_flow" where
  "checker_flow =
     \<lparr>cf_after_parsing = (\<lambda>self artifact.
        case pa_result artifact of
          Inl errors \<Rightarrow>
            rbind (map_errors (pm_offsets_map (pa_meta artifact)) (unit_result (pa_result artifact)))
              (\<lambda>r. Inr (Stop r, self))
        | Inr _ \<Rightarrow> Inr (Next artifact, self)),
      cf_after_check = (\<lambda>self meta check_result.
        rbind (map_errors (pm_offsets_map meta) (unit_result check_result)) (\<lambda>r. Inr (Stop r, self))),
      cf_after_translate = (\<lambda>_ _ _. Inr (Inr ()))\<rparr>"

definition check ::
    "codecs \<Rightarrow> ('d, 'k, 'c, 'u) move_lang \<Rightarrow> dialect \<Rightarrow> provided_account_address option \<Rightarrow>
     move_file list \<Rightarrow> move_file list \<Rightarrow> (errors + unit) result" where
  "check C L d sender targets deps = compile C L d targets deps sender checker_flow ()"

record 'u artifacts =
  ar_files :: "string \<rightharpoonup> string"
  ar_prog :: "errors + 'u list"

definition builder_flow :: "('d, 'k, 'c, 'u, 'u artifacts, unit) compile_flow" where
  "builder_flow =
     \<lparr>cf_after_parsing = default_after_parsing, cf_after_check = default_after_check,
      cf_after_translate = (\<lambda>self meta result.
        rbind (map_errors (pm_offsets_map meta) result) (\<lambda>prog.
          Inr \<lparr>ar_files = pm_source_map meta, ar_prog = prog\<rparr>))\<rparr>"

definition build ::
    "codecs \<Rightarrow> ('d, 'k, 'c, 'u) move_lang \<Rightarrow> dialect \<Rightarrow> provided_account_address option \<Rightarrow>
     move_file list \<Rightarrow> move_file list \<Rightarrow> 'u artifacts result" where
  "build C L d sender targets deps = compile C L d targets deps sender builder_flow ()"

end
