(* ===== verification/Lang_Rewrite.thy ===== *)
theory Lang_Rewrite
  imports Lang_Text
begin

text \<open>
  The rewriting of addresses in source text (\<open>dialects/libra/addresses.rs\<close>, \<open>bech32.rs\<close>):
  the loop of the libra dialect returns, leaves no short address behind and keeps positions; the
  layers of the encoded addresses are put where the address ended in the source.
\<close>

section \<open>Short addresses\<close>

text \<open>The places where the regular expression matches, counted.\<close>

fun short_addresses :: "string \<Rightarrow> nat" where
  "short_addresses [] = 0"
| "short_addresses (c # cs) = (if libra_match_here (c # cs) = None then 0 else 1) + short_addresses cs"

lemma short_addresses_le: "short_addresses s \<le> length s"
  by (induction s) auto

lemma libra_capture_None: "libra_capture s = None \<longleftrightarrow> short_addresses s = 0"
  by (induction s) (auto split: option.split)

abbreviation hex_digits :: "string \<Rightarrow> bool" where
  "hex_digits ds \<equiv> \<forall>d\<in>set ds. is_hex_digit d"

lemma hex_0x [simp]: "is_hex_digit (CHR ''0'')" "\<not> is_hex_digit (CHR ''x'')"
  by (simp_all add: is_hex_digit_def is_digit_char_def)

lemma starts_0x: "starts_with ''0x'' s \<longleftrightarrow> (\<exists>cs. s = CHR ''0'' # CHR ''x'' # cs)"
  by (cases s; cases "tl s") (auto simp: starts_with_def)

lemma libra_match_hereD:
  assumes "libra_match_here s = Some k"
  shows "\<exists>ds c post. s = ''0x'' @ ds @ c # post \<and> k = 2 + length ds \<and> hex_digits ds \<and>
     \<not> is_hex_digit c \<and> 1 \<le> length ds \<and> length ds \<le> 32"
proof -
  from assms obtain cs where s: "s = CHR ''0'' # CHR ''x'' # cs"
    by (auto simp: libra_match_here_def starts_0x split: if_splits)
  let ?ds = "takeWhile is_hex_digit cs"
  from assms have k: "k = 2 + length ?ds" "1 \<le> length ?ds" "length ?ds \<le> 32" "length ?ds < length cs"
    by (auto simp: libra_match_here_def s starts_0x Let_def split: if_splits)
  then have "dropWhile is_hex_digit cs \<noteq> []"
    using takeWhile_dropWhile_id[of is_hex_digit cs] by (metis append_Nil2 nat_less_le)
  then obtain c post where d: "dropWhile is_hex_digit cs = c # post" by (cases "dropWhile is_hex_digit cs") auto
  then have "cs = ?ds @ c # post" by (metis takeWhile_dropWhile_id)
  moreover from d have "\<not> is_hex_digit c" by (metis dropWhile_eq_Cons_conv)
  moreover have "hex_digits ?ds" by (meson set_takeWhileD)
  ultimately show ?thesis using k s by (intro exI[of _ ?ds] exI[of _ c] exI[of _ post]) simp
qed

lemma libra_captureD:
  "libra_capture s = Some (a, b) \<Longrightarrow>
   \<exists>pre ds c post. s = pre @ ''0x'' @ ds @ c # post \<and> a = length pre \<and> b = length pre + 2 + length ds \<and>
     hex_digits ds \<and> \<not> is_hex_digit c \<and> 1 \<le> length ds \<and> length ds \<le> 32"
proof (induction s arbitrary: a b)
  case (Cons x s)
  show ?case
  proof (cases "libra_match_here (x # s)")
    case None
    with Cons.prems obtain a' b' where ab: "libra_capture s = Some (a', b')" "a = Suc a'" "b = Suc b'" by auto
    from Cons.IH[OF ab(1)] ab(2,3) show ?thesis by (metis append_Cons length_Cons add_Suc)
  next
    case (Some k)
    from libra_match_hereD[OF Some] obtain ds c post where
      m: "x # s = ''0x'' @ ds @ c # post" "k = 2 + length ds" "hex_digits ds" "\<not> is_hex_digit c"
        "1 \<le> length ds" "length ds \<le> 32" by blast
    moreover from Cons.prems Some have "a = 0" "b = k" by simp_all
    ultimately show ?thesis by (intro exI[of _ "[]"] exI[of _ ds] exI[of _ c] exI[of _ post]) simp
  qed
qed simp

section \<open>A rewriting takes one short address away\<close>

lemma takeWhile_before_x: "takeWhile is_hex_digit (w @ ''0x'' @ X) = takeWhile is_hex_digit (w @ ''0'')"
  by (induction w) auto

lemma match_before_address:
  assumes "u \<noteq> []"
  shows "libra_match_here (u @ ''0x'' @ X) = libra_match_here (u @ ''0x'' @ Y)"
proof (cases u rule: remdups_adj.cases)
  case (3 y z w)
  have "length (takeWhile is_hex_digit (w @ ''0'')) \<le> length w + 1"
    using length_takeWhile_le[of is_hex_digit "w @ ''0''"] by simp
  with 3 takeWhile_before_x[of w] show ?thesis
    by (auto simp: libra_match_here_def starts_with_def Let_def)
qed (use assms in \<open>simp_all add: libra_match_here_def starts_with_def\<close>)

lemma short_addresses_before:
  "short_addresses (pre @ ''0x'' @ X) + short_addresses (''0x'' @ Y) =
   short_addresses (pre @ ''0x'' @ Y) + short_addresses (''0x'' @ X)"
proof (induction pre)
  case (Cons c pre)
  with match_before_address[of "c # pre" X Y] show ?case by simp
qed simp

lemma short_addresses_digits:
  assumes "hex_digits h" "h \<noteq> []" "hex_digits zs"
  shows "short_addresses (zs @ h @ Z) = short_addresses (h @ Z)"
  using assms(3)
proof (induction zs)
  case (Cons x zs)
  have "hd (zs @ h) \<noteq> CHR ''x'' \<and> zs @ h \<noteq> []" using Cons.prems assms(1,2) by (cases zs; cases h) auto
  then have "\<not> starts_with ''0x'' (x # zs @ h @ Z)"
    unfolding starts_0x by (cases "zs @ h") (auto simp flip: append_assoc)
  with Cons show ?case by (simp add: libra_match_here_def)
qed simp

lemma short_addresses_address:
  assumes "hex_digits ds" "ds \<noteq> []" "\<not> is_hex_digit c"
  shows "short_addresses (''0x'' @ ds @ c # post) =
     (if length ds \<le> 32 then 1 else 0) + short_addresses (ds @ c # post)"
proof -
  have "takeWhile is_hex_digit (ds @ c # post) = ds"
    using assms(1,3) by (simp add: takeWhile_append2)
  moreover have "1 \<le> length ds" using assms(2) by (cases ds) simp_all
  ultimately show ?thesis
    by (simp add: libra_match_here_def starts_with_def)
qed

text \<open>The documented behaviour of \<open>from_hex_literal\<close> on up to 32 digits: they are padded to 32.\<close>

definition reads_hex :: "(string \<Rightarrow> string option) \<Rightarrow> bool" where
  "reads_hex parse_hex =
     (\<forall>ds. 1 \<le> length ds \<and> length ds \<le> 32 \<and> hex_digits ds \<longrightarrow>
        parse_hex (''0x'' @ ds) = Some (replicate (32 - length ds) (CHR ''0'') @ ds))"

lemma short_address_rewritten:
  assumes "libra_capture s = Some (a, b)" "reads_hex parse_hex"
  shows "\<exists>addr. parse_hex (take (b - a) (drop a s)) = Some addr \<and> length addr = 32 \<and>
     a + 3 \<le> b \<and> b \<le> a + 42 \<and> b \<le> length s \<and>
     short_addresses s = Suc (short_addresses (replace_range s a b (''0x00000000'' @ addr)))"
proof -
  from libra_captureD[OF assms(1)] obtain pre ds c post where
    s: "s = pre @ ''0x'' @ ds @ c # post" "a = length pre" "b = length pre + 2 + length ds" and
    ds: "hex_digits ds" "\<not> is_hex_digit c" "1 \<le> length ds" "length ds \<le> 32" by blast
  let ?addr = "replicate (32 - length ds) (CHR ''0'') @ ds"
  let ?zs = "''00000000'' @ replicate (32 - length ds) (CHR ''0'')"
  have ne: "ds \<noteq> []" using ds(3) by auto
  have r: "replace_range s a b (''0x00000000'' @ ?addr) = pre @ ''0x'' @ (?zs @ ds) @ c # post"
    by (simp add: s replace_range_def)
  have long: "\<not> length (?zs @ ds) \<le> 32" by simp
  have h: "hex_digits (?zs @ ds)" "hex_digits ?zs" using ds(1) by auto
  have "short_addresses (''0x'' @ ds @ c # post) = Suc (short_addresses (''0x'' @ (?zs @ ds) @ c # post))"
    using short_addresses_address[OF ds(1) ne ds(2), of post] short_addresses_address[OF h(1) _ ds(2), of post]
      short_addresses_digits[OF ds(1) ne h(2), of "c # post"] ds(4) long by simp
  with short_addresses_before[of pre "ds @ c # post" "(?zs @ ds) @ c # post"]
  have "short_addresses s = Suc (short_addresses (pre @ ''0x'' @ (?zs @ ds) @ c # post))"
    unfolding s by linarith
  moreover have "take (b - a) (drop a s) = ''0x'' @ ds" by (simp add: s)
  ultimately show ?thesis
    using assms(2) ds unfolding r[symmetric] by (intro exI[of _ ?addr]) (simp add: s reads_hex_def)
qed

section \<open>The loop\<close>

text \<open>The loop on text whose characters remember their position in the source.\<close>

primrec replace_libra_tagged :: "nat \<Rightarrow> (string \<Rightarrow> string option) \<Rightarrow> tagged \<Rightarrow> tagged" where
  "replace_libra_tagged 0 parse_hex t = t"
| "replace_libra_tagged (Suc fuel) parse_hex t =
     (case libra_capture (map fst t) of
        None \<Rightarrow> t
      | Some (a, b) \<Rightarrow>
          (case parse_hex (take (b - a) (drop a (map fst t))) of
             None \<Rightarrow> t
           | Some addr \<Rightarrow> replace_libra_tagged fuel parse_hex
               (take a t @ map (\<lambda>c. (c, None)) (''0x00000000'' @ addr) @ drop b t)))"

lemma tracks_address_layer:
  "tracks m0 s (insert_address_layer l orig r m) t \<longleftrightarrow> tracks m0 s (insert_layer l (len_difference orig r) m) t"
  by (simp add: tracks_def insert_address_layer_def insert_address_replacement_def translate_pos_def)

lemma replace_libra_tracks:
  assumes "reads_hex parse_hex" "short_addresses (map fst t) < fuel" "tracks m0 s m t"
    and "length t + 39 * short_addresses (map fst t) + 42 < 2 ^ 64"
  shows "\<exists>m'. replace_libra_address fuel parse_hex (map fst t) m =
       Inr (map fst (replace_libra_tagged fuel parse_hex t), m') \<and>
     tracks m0 s m' (replace_libra_tagged fuel parse_hex t) \<and>
     libra_capture (map fst (replace_libra_tagged fuel parse_hex t)) = None"
  using assms(2-4)
proof (induction fuel arbitrary: t m)
  case (Suc fuel)
  show ?case
  proof (cases "libra_capture (map fst t)")
    case (Some ab)
    then obtain a b where c: "libra_capture (map fst t) = Some (a, b)" by (cases ab) auto
    let ?orig = "take (b - a) (drop a (map fst t))"
    from short_address_rewritten[OF c assms(1)] obtain addr where
      addr: "parse_hex ?orig = Some addr" "length addr = 32" "a + 3 \<le> b" "b \<le> a + 42" "b \<le> length t" and
      less: "short_addresses (map fst t) =
        Suc (short_addresses (replace_range (map fst t) a b (''0x00000000'' @ addr)))"
      by auto
    let ?r = "''0x00000000'' @ addr"
    let ?t = "take a t @ map (\<lambda>c. (c, None)) ?r @ drop b t"
    have mf: "replace_range (map fst t) a b ?r = map fst ?t"
      by (simp add: replace_range_def take_map drop_map comp_def)
    have len: "length ?t + b = length t + a + 42" "length ?orig = b - a" using addr by simp_all
    have "tracks m0 s (insert_layer b (int (b - a) - int (length ?r)) m)
        (take a t @ map (\<lambda>c. (c, None)) ?r @ drop (a + (b - a)) t)"
      using Suc.prems addr by (intro tracks_rewrite) simp_all
    then have "tracks m0 s (insert_address_layer b ?orig ?r m) ?t"
      using addr len(2) unfolding tracks_address_layer len_difference_def by simp
    moreover have "short_addresses (map fst ?t) < fuel"
      "length ?t + 39 * short_addresses (map fst ?t) + 42 < 2 ^ 64"
      using Suc.prems(1,3) less len(1) addr(3) unfolding mf by linarith+
    ultimately have "\<exists>m'. replace_libra_address fuel parse_hex (map fst ?t) (insert_address_layer b ?orig ?r m) =
         Inr (map fst (replace_libra_tagged fuel parse_hex ?t), m') \<and>
       tracks m0 s m' (replace_libra_tagged fuel parse_hex ?t) \<and>
       libra_capture (map fst (replace_libra_tagged fuel parse_hex ?t)) = None"
      by (intro Suc.IH)
    moreover have "replace_libra_address (Suc fuel) parse_hex (map fst t) m =
        replace_libra_address fuel parse_hex (map fst ?t) (insert_address_layer b ?orig ?r m)"
      using c addr(1) unfolding mf[symmetric] by (simp add: Let_def)
    moreover have "replace_libra_tagged (Suc fuel) parse_hex t = replace_libra_tagged fuel parse_hex ?t"
      using c addr(1) by simp
    ultimately show ?thesis by (simp only:)
  qed (use Suc.prems in simp)
qed simp

lemma replace_libra_returns:
  assumes "reads_hex parse_hex" "short_addresses s < fuel"
  shows "\<exists>r. replace_libra_address fuel parse_hex s m = Inr r"
  using assms(2)
proof (induction fuel arbitrary: s m)
  case (Suc fuel)
  show ?case
  proof (cases "libra_capture s")
    case (Some ab)
    then obtain a b where c: "libra_capture s = Some (a, b)" by (cases ab) auto
    from short_address_rewritten[OF c assms(1)] obtain addr where
      addr: "parse_hex (take (b - a) (drop a s)) = Some addr" and
      less: "short_addresses s = Suc (short_addresses (replace_range s a b (''0x00000000'' @ addr)))" by blast
    have "short_addresses (replace_range s a b (''0x00000000'' @ addr)) < fuel" using less Suc.prems by simp
    from Suc.IH[OF this] c addr show ?thesis by (simp add: Let_def)
  qed simp
qed simp

section \<open>Properties\<close>

text \<open>C19: the libra dialect pads every short address of a source to the full length: the loop
  returns, no short address is left, and every character behind, between and before the addresses
  translates back to what its position in the source translated to.\<close>

theorem libra_addresses_rewritten:
  assumes "reads_hex parse_hex" "40 * length s + 42 < 2 ^ 64"
  shows "\<exists>s' m'. replace_libra_address (Suc (length s)) parse_hex s m = Inr (s', m') \<and>
     libra_capture s' = None \<and>
     s' = map fst (replace_libra_tagged (Suc (length s)) parse_hex (zip s (map Some [0..<length s]))) \<and>
     (\<forall>p<length s'. \<forall>q. snd (replace_libra_tagged (Suc (length s)) parse_hex (zip s (map Some [0..<length s])) ! p) =
          Some q \<longrightarrow>
        q < length s \<and> s' ! p = s ! q \<and> translate_pos m' p = translate_pos m q)"
proof -
  let ?t = "zip s (map Some [0..<length s])"
  have mf: "map fst ?t = s" by simp
  have "short_addresses (map fst ?t) < Suc (length s)"
    "length ?t + 39 * short_addresses (map fst ?t) + 42 < 2 ^ 64"
    unfolding mf using short_addresses_le[of s] assms(2) by simp_all
  from replace_libra_tracks[OF assms(1) this(1) tracks_start this(2)] obtain m' where
    "replace_libra_address (Suc (length s)) parse_hex s m =
       Inr (map fst (replace_libra_tagged (Suc (length s)) parse_hex ?t), m')"
    "tracks m s m' (replace_libra_tagged (Suc (length s)) parse_hex ?t)"
    "libra_capture (map fst (replace_libra_tagged (Suc (length s)) parse_hex ?t)) = None"
    unfolding mf by blast
  then show ?thesis by (intro exI conjI) (auto simp: tracks_def)
qed

definition padded_hex :: "string \<Rightarrow> string option" where
  "padded_hex a = Some (replicate (34 - length a) (CHR ''0'') @ drop 2 a)"

theorem libra_addresses_rewritten_witness:
  "\<exists>s' m'. replace_libra_address (Suc (length ''use 0x1::M;'')) padded_hex ''use 0x1::M;'' file_offset_map_default =
       Inr (s', m') \<and> libra_capture s' = None \<and> s' ! 48 = CHR ''M'' \<and> translate_pos m' 48 = 9"
proof -
  let ?s = "''use 0x1::M;''"
  have hex: "reads_hex padded_hex" by (simp add: reads_hex_def padded_hex_def)
  obtain s' m' where r: "replace_libra_address (Suc (length ?s)) padded_hex ?s file_offset_map_default = Inr (s', m')"
    "libra_capture s' = None"
    "s' = map fst (replace_libra_tagged (Suc (length ?s)) padded_hex (zip ?s (map Some [0..<length ?s])))"
    "\<forall>p<length s'. \<forall>q. snd (replace_libra_tagged (Suc (length ?s)) padded_hex (zip ?s (map Some [0..<length ?s])) ! p) =
          Some q \<longrightarrow>
        q < length ?s \<and> s' ! p = ?s ! q \<and> translate_pos m' p = translate_pos file_offset_map_default q"
    using libra_addresses_rewritten[OF hex, of ?s file_offset_map_default] by auto
  have "length (replace_libra_tagged (Suc (length ?s)) padded_hex (zip ?s (map Some [0..<length ?s]))) = 50 \<and>
     snd (replace_libra_tagged (Suc (length ?s)) padded_hex (zip ?s (map Some [0..<length ?s])) ! 48) = Some 9"
    by code_simp
  with r(3,4) have "s' ! 48 = ?s ! 9" "translate_pos m' 48 = translate_pos file_offset_map_default 9" by simp_all
  with r(1,2) show ?thesis
    by (intro exI[of _ s'] exI[of _ m']) (simp add: translate_pos_def file_offset_map_default_def eval_nat_numeral)
qed

text \<open>The layer of an encoded address is put where the address ended in the source. When the
  decoded address is shorter, the text right behind it translates to a position inside the address.\<close>

theorem encoded_positions_drift:
  assumes "captures (pre @ orig @ post) = [(length pre, length pre + length orig)]"
    and "\<not> starts_with ''0x'' orig" "decode orig = Some addr" "length addr < length orig"
    and "replace_str orig addr (pre @ orig @ post) = pre @ addr @ post"
  shows "\<exists>m'. replace_encoded_addresses captures decode (pre @ orig @ post) m = (pre @ addr @ post, m') \<and>
     translate_pos m' (length (pre @ addr)) = translate_pos m (length (pre @ addr))"
  using assms
  by (simp add: replace_encoded_addresses_def replace_encoded_step_def insert_address_layer_def
      insert_address_replacement_def translate_pos_def insert_layer_def layer_translate_def)

end
