(* ===== verification/Lang_Flow.thy ===== *)
theory Lang_Flow
  imports Lang_Compile Lang_Rewrite
begin

text \<open>
  Properties of the compile flow of \<open>Lang_Compile\<close>: a project is parsed file by file
  (\<open>parse_program_fields\<close>), the checker is the front half of the builder, and checking returns.
  The locale \<open>total_dialect\<close> is what parsing needs of a dialect, with all three dialects as
  instances.
  The locales \<open>reporting_flow\<close>, \<open>early_flow\<close> and \<open>late_flow\<close> are the contract of a flow towards a
  project that is rejected.
\<close>

section \<open>The parsed program\<close>

text \<open>A file parsed on its own: the loops add nothing else to it.\<close>

definition parse_one ::
    "('d, 'k, 'c, 'u) move_lang \<Rightarrow> dialect \<Rightarrow> provided_account_address option \<Rightarrow> move_file \<Rightarrow>
     ('d, 'k) parsed_file result" where
  "parse_one L d sender f =
     rbind (parse_file L d Map.empty (mf_name f) (mf_content f) sender) (\<lambda>(pf, _). Inr pf)"

definition parsed_text ::
    "('d, 'k, 'c, 'u) move_lang \<Rightarrow> string \<Rightarrow> string \<Rightarrow> file_offset_map \<Rightarrow> ('d, 'k) parsed_file" where
  "parsed_text L fname t m =
     (case ml_strip_comments L fname t of
        Inl es \<Rightarrow> \<lparr>pf_defs = [], pf_comments = ml_no_comments L, pf_errors = es, pf_offsets = m\<rparr>
      | Inr (code, comments) \<Rightarrow>
          (case ml_parse_file_string L fname code of
             Inr defs \<Rightarrow> \<lparr>pf_defs = defs, pf_comments = comments, pf_errors = [], pf_offsets = m\<rparr>
           | Inl es \<Rightarrow> \<lparr>pf_defs = [], pf_comments = comments, pf_errors = es, pf_offsets = m\<rparr>))"

lemma parse_file_alt:
  "parse_file L d files fname b sender =
     rbind (normalize_source_text d b sender) (\<lambda>(t, m). Inr (parsed_text L fname t m, files(fname \<mapsto> t)))"
  unfolding parse_file_def parsed_text_def
  by (intro rbind_cong refl) (auto split: sum.splits prod.splits)

lemma parse_one_alt:
  "parse_one L d sender f =
     rbind (normalize_source_text d (mf_content f) sender) (\<lambda>(t, m). Inr (parsed_text L (mf_name f) t m))"
  by (auto simp: parse_one_def parse_file_alt rbind_def split: sum.splits)

lemma parse_file_split:
  "parse_file L d files (mf_name f) (mf_content f) sender = Inr (pf, files') \<Longrightarrow>
     parse_one L d sender f = Inr pf \<and> dom files' = insert (mf_name f) (dom files)"
  by (auto simp: parse_one_alt parse_file_alt rbind_eq_Inr_iff)

lemma foldM_target:
  assumes "foldM (parse_target L d sender) ts s = Inr s'"
  shows "\<exists>ps. mapM (parse_one L d sender) ts = Inr ps \<and>
     ps_source s' = ps_source s @ concat (map pf_defs ps) \<and> ps_lib s' = ps_lib s \<and>
     ps_errors s' = ps_errors s @ concat (map pf_errors ps) \<and>
     dom (ps_offsets s') = dom (ps_offsets s) \<union> mf_name ` set ts \<and>
     dom (ps_files s') = dom (ps_files s) \<union> mf_name ` set ts \<and>
     dom (ps_comments s') = dom (ps_comments s) \<union> mf_name ` set ts"
  using assms
proof (induction ts arbitrary: s)
  case (Cons t ts)
  then obtain s1 where s1: "parse_target L d sender t s = Inr s1" "foldM (parse_target L d sender) ts s1 = Inr s'"
    by (auto simp: rbind_eq_Inr_iff)
  from s1(1) obtain pf fl where
    f: "parse_file L d (ps_files s) (mf_name t) (mf_content t) sender = Inr (pf, fl)" and
    e: "s1 = s\<lparr>ps_files := fl, ps_source := ps_source s @ pf_defs pf,
          ps_comments := (ps_comments s)(mf_name t \<mapsto> pf_comments pf),
          ps_offsets := (ps_offsets s)(mf_name t \<mapsto> pf_offsets pf),
          ps_errors := ps_errors s @ pf_errors pf\<rparr>"
    by (auto simp: parse_target_def rbind_eq_Inr_iff)
  from f have "parse_one L d sender t = Inr pf" "dom fl = insert (mf_name t) (dom (ps_files s))"
    using parse_file_split by blast+
  with Cons.IH[OF s1(2)] show ?case by (auto simp: e)
qed simp

lemma foldM_dep:
  assumes "foldM (parse_dep L d sender) ts s = Inr s'"
  shows "\<exists>ps. mapM (parse_one L d sender) ts = Inr ps \<and>
     ps_lib s' = ps_lib s @ concat (map pf_defs ps) \<and> ps_source s' = ps_source s \<and>
     ps_errors s' = ps_errors s @ concat (map pf_errors ps) \<and>
     dom (ps_offsets s') = dom (ps_offsets s) \<union> mf_name ` set ts \<and>
     dom (ps_files s') = dom (ps_files s) \<union> mf_name ` set ts \<and>
     ps_comments s' = ps_comments s"
  using assms
proof (induction ts arbitrary: s)
  case (Cons t ts)
  then obtain s1 where s1: "parse_dep L d sender t s = Inr s1" "foldM (parse_dep L d sender) ts s1 = Inr s'"
    by (auto simp: rbind_eq_Inr_iff)
  from s1(1) obtain pf fl where
    f: "parse_file L d (ps_files s) (mf_name t) (mf_content t) sender = Inr (pf, fl)" and
    e: "s1 = s\<lparr>ps_files := fl, ps_lib := ps_lib s @ pf_defs pf,
          ps_offsets := (ps_offsets s)(mf_name t \<mapsto> pf_offsets pf),
          ps_errors := ps_errors s @ pf_errors pf\<rparr>"
    by (auto simp: parse_dep_def rbind_eq_Inr_iff)
  from f have "parse_one L d sender t = Inr pf" "dom fl = insert (mf_name t) (dom (ps_files s))"
    using parse_file_split by blast+
  with Cons.IH[OF s1(2)] show ?case by (auto simp: e)
qed simp

lemma parse_program_fields:
  assumes "parse_program L d targets deps sender = Inr artifact"
  shows "\<exists>ts ds. mapM (parse_one L d sender) targets = Inr ts \<and>
     mapM (parse_one L d sender) deps = Inr ds \<and>
     pa_result artifact =
       (if \<forall>f\<in>set (ts @ ds). pf_errors f = []
        then Inr \<lparr>pg_source_definitions = concat (map pf_defs ts),
                  pg_lib_definitions = concat (map pf_defs ds)\<rparr>
        else Inl (concat (map pf_errors (ts @ ds)))) \<and>
     dom (pm_offsets_map (pa_meta artifact)) = mf_name ` set (targets @ deps) \<and>
     dom (pm_source_map (pa_meta artifact)) = mf_name ` set (targets @ deps) \<and>
     dom (pm_comments (pa_meta artifact)) = mf_name ` set targets"
proof -
  let ?s0 = "\<lparr>ps_files = Map.empty, ps_source = [], ps_lib = [], ps_comments = Map.empty,
               ps_offsets = Map.empty, ps_errors = []\<rparr> :: ('a, 'b) parsing"
  from assms obtain s1 s2 where
    s1: "foldM (parse_target L d sender) targets ?s0 = Inr s1" and
    s2: "foldM (parse_dep L d sender) deps s1 = Inr s2" and
    a: "artifact = \<lparr>pa_meta = \<lparr>pm_source_map = ps_files s2, pm_offsets_map = ps_offsets s2,
                        pm_comments = ps_comments s2\<rparr>,
            pa_result = (if ps_errors s2 = []
                         then Inr \<lparr>pg_source_definitions = ps_source s2, pg_lib_definitions = ps_lib s2\<rparr>
                         else Inl (ps_errors s2))\<rparr>"
    by (auto simp: parse_program_def rbind_eq_Inr_iff)
  from foldM_target[OF s1] foldM_dep[OF s2] obtain ts ds where
    ts: "mapM (parse_one L d sender) targets = Inr ts" "mapM (parse_one L d sender) deps = Inr ds" and
    f: "ps_source s2 = concat (map pf_defs ts)" "ps_lib s2 = concat (map pf_defs ds)"
      "ps_errors s2 = concat (map pf_errors (ts @ ds))"
      "dom (ps_offsets s2) = mf_name ` set (targets @ deps)"
      "dom (ps_files s2) = mf_name ` set (targets @ deps)"
      "dom (ps_comments s2) = mf_name ` set targets"
    by (auto simp: image_Un)
  have "ps_errors s2 = [] \<longleftrightarrow> (\<forall>f\<in>set (ts @ ds). pf_errors f = [])" by (auto simp: f(3))
  with ts f show ?thesis
    by (intro exI[of _ ts] exI[of _ ds]) (simp only: a parser_artifact.simps parsing_meta.simps simp_thms)
qed

section \<open>The checker and the builder\<close>

lemma map_errors_Inr [simp]: "map_errors pm (Inr x) = Inr (Inr x)"
  by (simp add: map_errors_def)

lemma check_parse_errors:
  assumes "parse_program L d targets deps sender = Inr artifact" "pa_result artifact = Inl es"
  shows "check C L d sender targets deps =
     rbind (transform (pm_offsets_map (pa_meta artifact)) es) (\<lambda>es. Inr (Inl es))"
  using assms
  by (simp add: check_def compile_def checker_flow_def map_errors_def unit_result_def rbind_assoc)

text \<open>A sender whose lowered form parses, and the parsed address.\<close>

definition sender_ok :: "codecs \<Rightarrow> provided_account_address option \<Rightarrow> bool" where
  "sender_ok C sender = (case sender of None \<Rightarrow> True | Some a \<Rightarrow> \<exists>x. cd_account C (pa_lowered a) = Inr x)"

definition sender_address :: "codecs \<Rightarrow> provided_account_address option \<Rightarrow> string option" where
  "sender_address C sender =
     (case sender of None \<Rightarrow> None | Some a \<Rightarrow> decoded (cd_account C (pa_lowered a)))"

lemma sender_ok_address:
  "sender_ok C sender \<Longrightarrow>
   (case sender of None \<Rightarrow> Inr None | Some a \<Rightarrow> rbind (as_account_address C a) (\<lambda>x. Inr (Some x))) =
     Inr (sender_address C sender)"
  by (auto simp: sender_ok_def sender_address_def as_account_address_def decoded_def split: option.splits)

lemma check_checked:
  assumes "parse_program L d targets deps sender = Inr artifact" "pa_result artifact = Inr pg"
    and "sender_ok C sender"
  shows "check C L d sender targets deps =
     map_errors (pm_offsets_map (pa_meta artifact))
       (unit_result (ml_check_program L (Inr pg) (sender_address C sender)))"
  using assms sender_ok_address[OF assms(3)]
  by (simp add: check_def compile_def checker_flow_def rbind_def split: sum.splits)

lemma build_checked:
  assumes "parse_program L d targets deps sender = Inr artifact" "sender_ok C sender"
  shows "build C L d sender targets deps =
     rbind (map_errors (pm_offsets_map (pa_meta artifact))
        (rbind (ml_check_program L (pa_result artifact) (sender_address C sender)) (ml_to_bytecode L)))
      (\<lambda>prog. Inr \<lparr>ar_files = pm_source_map (pa_meta artifact), ar_prog = prog\<rparr>)"
  using assms sender_ok_address[OF assms(2)]
  by (simp add: build_def compile_def builder_flow_def default_after_parsing_def default_after_check_def)

section \<open>Checking returns\<close>

text \<open>Every error points into one of the files named.\<close>

definition located :: "string set \<Rightarrow> errors \<Rightarrow> bool" where
  "located names es = (\<forall>e\<in>set es. \<forall>x\<in>set e. loc_file (fst x) \<in> names)"

text \<open>The compiler's errors point into the files it was given.\<close>

definition parser_located :: "('d, 'k, 'c, 'u) move_lang \<Rightarrow> bool" where
  "parser_located L =
     ((\<forall>f b es. ml_strip_comments L f b = Inl es \<longrightarrow> located {f} es) \<and>
      (\<forall>f b es. ml_parse_file_string L f b = Inl es \<longrightarrow> located {f} es))"

definition checker_located :: "('d, 'k, 'c, 'u) move_lang \<Rightarrow> string set \<Rightarrow> bool" where
  "checker_located L names =
     (\<forall>pg a es. ml_check_program L (Inr pg) a = Inl es \<longrightarrow> located names es)"

lemma transform_total:
  assumes "located (dom pm) es"
  shows "\<exists>es'. transform pm es = Inr es'"
  unfolding transform_def
  using assms by (intro mapM_total_ex) (fastforce simp: located_def split: option.splits prod.splits)

lemma replace_template_total:
  assumes "0 < length (filter (\<lambda>c. c = CHR ''{'') tm)" "CHR ''{'' \<notin> set sd"
  shows "\<exists>u' m'. replace_template (Suc (length u)) tm sd (u, m) = Inr (u', m')"
proof -
  have only: "replace_template n tm sd st = Inl e \<Longrightarrow> e = OutOfFuel" for n st e
    by (induction n arbitrary: st) (auto split: prod.splits option.splits)
  have "replace_template (Suc (length u)) tm sd (u, m) \<noteq> Inl OutOfFuel"
    using assms length_filter_le[of "\<lambda>c. c = CHR ''{''" u] by (intro replace_template_fuel) linarith+
  with only show ?thesis
    by (cases "replace_template (Suc (length u)) tm sd (u, m)") (auto simp del: replace_template.simps)
qed

lemma replace_sender_total:
  assumes "CHR ''{'' \<notin> set sd" "12 < length sd"
  shows "\<exists>r. replace_sender_placeholder s sd m = Inr r"
proof -
  obtain s1 m1 where "replace_template (Suc (length s)) ''{{sender}}'' sd (s, m) = Inr (s1, m1)"
    using replace_template_total[of "''{{sender}}''" sd s m] assms(1) by auto
  moreover obtain s2 m2 where "replace_template (Suc (length s1)) ''{{ sender }}'' sd (s1, m1) = Inr (s2, m2)"
    using replace_template_total[of "''{{ sender }}''" sd s1 m1] assms(1) by auto
  ultimately show ?thesis
    using assms(2) by (simp add: replace_sender_placeholder_def del: replace_template.simps)
qed

text \<open>What the drivers rely on: an address longer than twelve bytes, without a brace, whose
  lowered form parses.\<close>

definition sender_usable :: "codecs \<Rightarrow> provided_account_address option \<Rightarrow> bool" where
  "sender_usable C sender =
     (case sender of None \<Rightarrow> True
      | Some a \<Rightarrow> 12 < length (pa_normalized_original a) \<and>
          CHR ''{'' \<notin> set (pa_normalized_original a) \<and> sender_ok C sender)"

lemma sender_usable_ok: "sender_usable C sender \<Longrightarrow> sender_ok C sender"
  by (cases sender) (simp_all add: sender_usable_def sender_ok_def)

lemma parse_one_located:
  assumes "parser_located L"
    and "parse_one L d sender f = Inr pf"
  shows "located {mf_name f} (pf_errors pf)"
  using assms(2)
proof -
  have "located {mf_name f} (pf_errors (parsed_text L (mf_name f) t m))" for t m
    using assms(1) by (auto simp: parser_located_def parsed_text_def located_def split: sum.split)
  with assms(2) show ?thesis by (auto simp: parse_one_alt rbind_eq_Inr_iff)
qed

lemma parse_program_located:
  assumes "parser_located L"
    and a: "parse_program L d targets deps sender = Inr a" and e: "pa_result a = Inl es"
  shows "located (dom (pm_offsets_map (pa_meta a))) es"
proof -
  from parse_program_fields[OF a] obtain ts ds where
    ts: "mapM (parse_one L d sender) targets = Inr ts" "mapM (parse_one L d sender) deps = Inr ds"
    and r: "pa_result a = (if \<forall>f\<in>set (ts @ ds). pf_errors f = []
        then Inr \<lparr>pg_source_definitions = concat (map pf_defs ts), pg_lib_definitions = concat (map pf_defs ds)\<rparr>
        else Inl (concat (map pf_errors (ts @ ds))))"
    and dm: "dom (pm_offsets_map (pa_meta a)) = mf_name ` set (targets @ deps)"
    by (elim exE conjE) (rule that)
  from r e have es: "es = concat (map pf_errors (ts @ ds))" by (simp split: if_splits)
  have m: "mapM (parse_one L d sender) (targets @ deps) = Inr (ts @ ds)" using ts by (simp add: mapM_append)
  have each: "located (mf_name ` set (targets @ deps)) (pf_errors pf)" if "pf \<in> set (ts @ ds)" for pf
  proof -
    from that obtain i where i: "i < length (ts @ ds)" "pf = (ts @ ds) ! i" by (metis in_set_conv_nth)
    then have l: "i < length (targets @ deps)" using mapM_Inr_length[OF m] by simp
    with mapM_Inr_nth[OF m] i have "parse_one L d sender ((targets @ deps) ! i) = Inr pf" by simp
    with parse_one_located[OF assms(1)] have "located {mf_name ((targets @ deps) ! i)} (pf_errors pf)" by blast
    moreover have "mf_name ((targets @ deps) ! i) \<in> mf_name ` set (targets @ deps)"
      using nth_mem[OF l] by (rule imageI)
    ultimately show ?thesis unfolding located_def by (metis singletonD)
  qed
  show ?thesis
    unfolding dm located_def
  proof (intro ballI)
    fix e x assume "e \<in> set es" "x \<in> set e"
    then obtain pf where "pf \<in> set (ts @ ds)" "e \<in> set (pf_errors pf)" unfolding es by auto
    with each \<open>x \<in> set e\<close> show "loc_file (fst x) \<in> mf_name ` set (targets @ deps)"
      unfolding located_def by blast
  qed
qed

section \<open>Dialects that rewrite every source\<close>

text \<open>What parsing needs of a \<open>Dialect\<close>: its rewriting of addresses returns. The dfinance and
  polkadot dialects leave an address that does not decode alone; the libra dialect unwraps it, and
  returns when short addresses are read as documented.\<close>

locale total_dialect =
  fixes d :: dialect
  assumes rewriting: "\<exists>r. di_replace_addresses d s m = Inr r"
begin

lemma normalize_returns:
  assumes "sender_usable C sender"
  shows "\<exists>r. normalize_source_text d s sender = Inr r"
proof (cases sender)
  case (Some a)
  with assms have "\<exists>t' m'. replace_sender_placeholder t (pa_normalized_original a) m = Inr (t', m')" for t m
    using replace_sender_total[of "pa_normalized_original a" t m] by (auto simp: sender_usable_def)
  then obtain t' m' where "replace_sender_placeholder (fst (normalize s)) (pa_normalized_original a)
      (snd (normalize s)) = Inr (t', m')" by blast
  with Some rewriting show ?thesis by (cases "normalize s") (simp add: normalize_source_text_def)
qed (use rewriting in \<open>auto simp: normalize_source_text_def split: prod.splits\<close>)

lemma parse_returns:
  assumes "sender_usable C sender"
  shows "\<exists>a. parse_program L d targets deps sender = Inr a"
proof -
  have pf: "\<exists>r. parse_file L d files n b sender = Inr r" for files n b
    using normalize_returns[OF assms, of b] by (auto simp: parse_file_def)
  have "\<exists>s'. parse_target L d sender x s = Inr s'"
    "\<exists>s'. parse_dep L d sender x s = Inr s'" for x s
    using pf[of "ps_files s" "mf_name x" "mf_content x"] by (auto simp: parse_target_def parse_dep_def)
  then have "\<exists>s'. foldM (parse_target L d sender) targets s = Inr s'"
    "\<exists>s'. foldM (parse_dep L d sender) deps s = Inr s'" for s
    using foldM_total[of targets "parse_target L d sender" s]
      foldM_total[of deps "parse_dep L d sender" s] by blast+
  note runs = this
  obtain s1 where s1: "foldM (parse_target L d sender) targets
      \<lparr>ps_files = Map.empty, ps_source = [], ps_lib = [], ps_comments = Map.empty,
       ps_offsets = Map.empty, ps_errors = []\<rparr> = Inr s1"
    using runs(1) by blast
  obtain s2 where "foldM (parse_dep L d sender) deps s1 = Inr s2"
    using runs(2) by blast
  with s1 show ?thesis by (simp add: parse_program_def)
qed

lemma check_returns:
  assumes "parser_located L"
    and "checker_located L (mf_name ` set (targets @ deps))"
    and "sender_usable C sender"
  shows "\<exists>r. check C L d sender targets deps = Inr r"
proof -
  obtain a where a: "parse_program L d targets deps sender = Inr a"
    using parse_returns[OF assms(3)] by blast
  note ok = sender_usable_ok[OF assms(3)]
  have dm: "dom (pm_offsets_map (pa_meta a)) = mf_name ` set (targets @ deps)"
    using parse_program_fields[OF a] by (elim exE conjE)
  show ?thesis
  proof (cases "pa_result a")
    case (Inl es)
    have "located (dom (pm_offsets_map (pa_meta a))) es"
      by (rule parse_program_located[OF assms(1) a Inl])
    with transform_total check_parse_errors[OF a Inl, of C] show ?thesis by fastforce
  next
    case (Inr pg)
    show ?thesis
    proof (cases "ml_check_program L (Inr pg) (sender_address C sender)")
      case (Inl es)
      with assms(2) dm have "located (dom (pm_offsets_map (pa_meta a))) es" by (simp add: checker_located_def)
      with transform_total check_checked[OF a Inr ok] Inl show ?thesis
        by (fastforce simp: map_errors_def unit_result_def)
    qed (use check_checked[OF a Inr ok] in \<open>simp add: unit_result_def\<close>)
  qed
qed

end

interpretation dfinance: total_dialect "dfinance_dialect C"
  by unfold_locales (simp add: dfinance_dialect_def)

interpretation polkadot: total_dialect "polkadot_dialect C"
  by unfold_locales (simp add: polkadot_dialect_def)

definition reads_libra_addresses :: "codecs \<Rightarrow> bool" where
  "reads_libra_addresses C = reads_hex (\<lambda>a. decoded (cd_libra_account C a))"

lemma libra_total:
  assumes "reads_libra_addresses C"
  shows "total_dialect (libra_dialect C)"
proof
  fix s m
  show "\<exists>r. di_replace_addresses (libra_dialect C) s m = Inr r"
    using replace_libra_returns[of "\<lambda>a. decoded (cd_libra_account C a)" s "Suc (length s)" m]
      short_addresses_le[of s] assms
    by (simp add: libra_dialect_def reads_libra_addresses_def del: replace_libra_address.simps)
qed

lemma get_dialect_total:
  assumes "n = Libra \<Longrightarrow> reads_libra_addresses C"
  shows "total_dialect (get_dialect C n)"
  using assms libra_total dfinance.total_dialect_axioms polkadot.total_dialect_axioms
  by (cases n) (simp_all add: get_dialect_def)

section \<open>Flows that report errors\<close>

text \<open>The contract of a \<open>CompileFlow\<close> towards a project that is rejected: its outcome is the
  report of the errors at their original positions, whatever the state of the flow. A flow keeps it
  for the errors of the parser by stopping at once (\<open>early_flow\<close>) or by passing the artifact on
  to the end (\<open>late_flow\<close>), which then reports the errors of the checker the same way. That
  the compiler passes parse errors through is its documented behaviour.\<close>

definition passes_errors :: "('d, 'k, 'c, 'u) move_lang \<Rightarrow> bool" where
  "passes_errors L = (\<forall>es a. ml_check_program L (Inl es) a = Inl es)"

locale reporting_flow =
  fixes flow :: "('d, 'k, 'c, 'u, 'a, 's) compile_flow" and report :: "'k parsing_meta \<Rightarrow> errors \<Rightarrow> 'a"
  assumes parse_errors:
    "parse_program L d targets deps sender = Inr artifact \<Longrightarrow> pa_result artifact = Inl es \<Longrightarrow>
     passes_errors L \<Longrightarrow> sender_ok C sender \<Longrightarrow>
     compile C L d targets deps sender flow self =
       rbind (transform (pm_offsets_map (pa_meta artifact)) es) (\<lambda>es. Inr (report (pa_meta artifact) es))"
begin

lemma parse_errors_reported:
  assumes "parser_located L" "passes_errors L" "sender_ok C sender"
    and "parse_program L d targets deps sender = Inr artifact" "pa_result artifact = Inl es"
  shows "\<exists>es'. transform (pm_offsets_map (pa_meta artifact)) es = Inr es' \<and>
     compile C L d targets deps sender flow self = Inr (report (pa_meta artifact) es')"
  using transform_total[OF parse_program_located[OF assms(1,4,5)]] parse_errors[OF assms(4,5,2,3)]
  by auto

end

locale early_flow =
  fixes flow :: "('d, 'k, 'c, 'u, 'a, 's) compile_flow" and report :: "'k parsing_meta \<Rightarrow> errors \<Rightarrow> 'a"
  assumes stops:
    "pa_result artifact = Inl es \<Longrightarrow>
     cf_after_parsing flow self artifact =
       rbind (transform (pm_offsets_map (pa_meta artifact)) es)
         (\<lambda>es. Inr (Stop (report (pa_meta artifact) es), self))"
begin

sublocale reporting_flow flow report
  by unfold_locales (simp add: compile_def stops rbind_assoc)

end

locale late_flow =
  fixes flow :: "('d, 'k, 'c, 'u, 'a, 's) compile_flow" and report :: "'k parsing_meta \<Rightarrow> errors \<Rightarrow> 'a"
  assumes parsing_passes: "\<exists>self'. cf_after_parsing flow self artifact = Inr (Next artifact, self')"
    and check_passes: "\<exists>self'. cf_after_check flow self meta r = Inr (Next (meta, r), self')"
    and translation_reports:
      "cf_after_translate flow self meta (Inl es) =
         rbind (transform (pm_offsets_map meta) es) (\<lambda>es. Inr (report meta es))"
begin

lemma check_errors:
  assumes "parse_program L d targets deps sender = Inr artifact" "sender_ok C sender"
    and "ml_check_program L (pa_result artifact) (sender_address C sender) = Inl es"
  shows "compile C L d targets deps sender flow self =
     rbind (transform (pm_offsets_map (pa_meta artifact)) es) (\<lambda>es. Inr (report (pa_meta artifact) es))"
proof -
  obtain s1 where "cf_after_parsing flow self artifact = Inr (Next artifact, s1)"
    using parsing_passes by blast
  moreover obtain s2 where "cf_after_check flow s1 (pa_meta artifact) (Inl es) = Inr (Next (pa_meta artifact, Inl es), s2)"
    using check_passes by blast
  ultimately show ?thesis
    by (simp add: compile_def assms(1,3) sender_ok_address[OF assms(2)] translation_reports)
qed

sublocale reporting_flow flow report
  by unfold_locales (rule check_errors, auto simp: passes_errors_def)

end

interpretation checker: early_flow checker_flow "\<lambda>_. Inl"
  by unfold_locales (simp add: checker_flow_def map_errors_def unit_result_def rbind_assoc)

interpretation builder: late_flow builder_flow "\<lambda>meta es. \<lparr>ar_files = pm_source_map meta, ar_prog = Inl es\<rparr>"
  by unfold_locales
    (simp_all add: builder_flow_def default_after_parsing_def default_after_check_def map_errors_def rbind_assoc)

text \<open>Whether the parser or the checker rejects a project, its errors are located, and the checker
  reports them.\<close>

lemma rejection_located:
  assumes "parser_located L" "checker_located L (mf_name ` set (targets @ deps))" "passes_errors L"
    and a: "parse_program L d targets deps sender = Inr artifact"
    and "ml_check_program L (pa_result artifact) addr = Inl es"
  shows "located (dom (pm_offsets_map (pa_meta artifact))) es"
proof (cases "pa_result artifact")
  case (Inl es0)
  then have "es0 = es" using assms(3,5) by (simp add: passes_errors_def)
  with parse_program_located[OF assms(1) a Inl] show ?thesis by simp
next
  case (Inr pg)
  moreover have "dom (pm_offsets_map (pa_meta artifact)) = mf_name ` set (targets @ deps)"
    using parse_program_fields[OF a] by (elim exE conjE)
  ultimately show ?thesis using assms(2,5) by (simp add: checker_located_def)
qed

lemma check_rejection:
  assumes "passes_errors L" "parse_program L d targets deps sender = Inr artifact" "sender_ok C sender"
    and "ml_check_program L (pa_result artifact) (sender_address C sender) = Inl es"
    and "transform (pm_offsets_map (pa_meta artifact)) es = Inr es'"
  shows "check C L d sender targets deps = Inr (Inl es')"
proof (cases "pa_result artifact")
  case (Inl es0)
  then have "es0 = es" using assms(1,4) by (simp add: passes_errors_def)
  with checker.parse_errors[OF assms(2) Inl assms(1,3)] assms(5) show ?thesis by (simp add: check_def)
qed (use check_checked[OF assms(2) _ assms(3)] assms(4,5) in \<open>simp add: map_errors_def unit_result_def\<close>)

section \<open>Properties\<close>

text \<open>C17: with a usable sender, checking a project returns under every dialect, with the
  verdict or with located errors, for every project: neither the placeholder loop nor the address
  loop runs on, no position of an error misses its map.\<close>

theorem check_total:
  assumes "parser_located L"
    and "checker_located L (mf_name ` set (targets @ deps))"
    and "sender_usable C sender"
    and "n = Libra \<Longrightarrow> reads_libra_addresses C"
  shows "\<exists>r. check C L (get_dialect C n) sender targets deps = Inr r"
  by (rule total_dialect.check_returns[OF get_dialect_total[OF assms(4)] assms(1-3)])

text \<open>A compiler small enough to run: a file is one definition, its text; a text with a
  semicolon does not parse.\<close>

definition sample_compiler :: "(string, unit, string list, string) move_lang" where
  "sample_compiler =
     \<lparr>ml_strip_comments = (\<lambda>f b. Inr (b, ())), ml_no_comments = (),
      ml_parse_file_string = (\<lambda>f b. if CHR '';'' \<in> set b
         then Inl [[(\<lparr>loc_file = f, loc_span = (0, length b)\<rparr>, ''unexpected token'')]] else Inr [b]),
      ml_check_program = (\<lambda>r a. rbind r (\<lambda>pg. Inr (pg_source_definitions pg))),
      ml_to_bytecode = Inr\<rparr>"

definition sample_codecs :: codecs where
  "sample_codecs =
     \<lparr>cd_bech32_decode = (\<lambda>_. Inl ''no''), cd_convert_bits = (\<lambda>d a b. Inr d), cd_bech32_encode = (\<lambda>h d. Inr h),
      cd_hex_upper = (\<lambda>_. []), cd_hex_decode = (\<lambda>_. Inr []), cd_from_base58 = (\<lambda>_. None),
      cd_blake2b = id, cd_account = Inr, 
      cd_libra_account = (\<lambda>a. Inr (replicate (34 - length a) (CHR ''0'') @ drop 2 a)), cd_bech32_captures = (\<lambda>_. []),
      cd_ss58_captures = (\<lambda>_. [])\<rparr>"

definition sample_targets :: "move_file list" where
  "sample_targets = [with_content ''a.move'' ''module {{sender}}'']"

definition sample_sender :: "provided_account_address option" where
  "sample_sender = Some (provided_new sender_sample sender_sample sender_sample)"

lemma sample_usable: "sender_usable sample_codecs sample_sender"
  by (simp add: sender_usable_def sample_sender_def sample_codecs_def sender_ok_def sender_sample_def
      provided_new_def)

lemma sample_reads_addresses: "reads_libra_addresses sample_codecs"
  by (simp add: reads_libra_addresses_def reads_hex_def sample_codecs_def decoded_def)

theorem check_total_witness:
  "\<exists>r. check sample_codecs sample_compiler (get_dialect sample_codecs Libra) sample_sender
     sample_targets [with_content ''b.move'' ''module 0x1 ;''] = Inr r"
  by (rule check_total[OF _ _ sample_usable sample_reads_addresses])
    (auto simp: parser_located_def checker_located_def sample_compiler_def located_def rbind_eq_Inl_iff split: if_splits)

text \<open>Parsing a project is parsing its files one by one: the program has the definitions
  of the targets and of the dependencies in their order, or, when a file has errors, all
  errors of all files; every file of the project gets an offset map and its rewritten text,
  every target its comments.\<close>

theorem parse_program_outcome:
  assumes "parse_program L d targets deps sender = Inr artifact"
  shows "\<exists>ts ds. mapM (parse_one L d sender) targets = Inr ts \<and>
     mapM (parse_one L d sender) deps = Inr ds \<and>
     pa_result artifact =
       (if \<forall>f\<in>set (ts @ ds). pf_errors f = []
        then Inr \<lparr>pg_source_definitions = concat (map pf_defs ts),
                  pg_lib_definitions = concat (map pf_defs ds)\<rparr>
        else Inl (concat (map pf_errors (ts @ ds)))) \<and>
     dom (pm_offsets_map (pa_meta artifact)) = mf_name ` set (targets @ deps) \<and>
     dom (pm_source_map (pa_meta artifact)) = mf_name ` set (targets @ deps) \<and>
     dom (pm_comments (pa_meta artifact)) = mf_name ` set targets"
  by (rule parse_program_fields[OF assms])

theorem parse_program_outcome_witness:
  "\<exists>artifact. parse_program sample_compiler (dfinance_dialect sample_codecs) sample_targets
       [with_content ''b.move'' ''module b''] sample_sender = Inr artifact \<and>
     dom (pm_comments (pa_meta artifact)) = {''a.move''} \<and>
     dom (pm_offsets_map (pa_meta artifact)) = {''a.move'', ''b.move''}"
proof -
  obtain a where a: "parse_program sample_compiler (dfinance_dialect sample_codecs) sample_targets
       [with_content ''b.move'' ''module b''] sample_sender = Inr a"
    using dfinance.parse_returns[OF sample_usable] by blast
  from parse_program_outcome[OF a] have "dom (pm_comments (pa_meta a)) = {''a.move''}"
    "dom (pm_offsets_map (pa_meta a)) = {''a.move'', ''b.move''}"
    by (auto simp: sample_targets_def with_content_def)
  with a show ?thesis by blast
qed

text \<open>C16: the checker is the front half of the builder. A project the checker rejects is
  rejected by the builder with the same translated errors; a project it accepts reaches
  translation in the builder, whose outcome is what the builder reports. (That the compiler
  passes parse errors through is its documented behaviour.)\<close>

theorem checker_builder_agree:
  assumes "\<And>es a. ml_check_program L (Inl es) a = Inl es" "sender_ok C sender"
    and "parse_program L d targets deps sender = Inr artifact"
  shows "case check C L d sender targets deps of
       Inl fault \<Rightarrow> build C L d sender targets deps = Inl fault
     | Inr (Inl errors) \<Rightarrow> build C L d sender targets deps =
         Inr \<lparr>ar_files = pm_source_map (pa_meta artifact), ar_prog = Inl errors\<rparr>
     | Inr (Inr _) \<Rightarrow>
         (\<exists>pg p. pa_result artifact = Inr pg \<and> ml_check_program L (Inr pg) (sender_address C sender) = Inr p \<and>
         build C L d sender targets deps =
           rbind (map_errors (pm_offsets_map (pa_meta artifact)) (ml_to_bytecode L p))
             (\<lambda>prog. Inr \<lparr>ar_files = pm_source_map (pa_meta artifact), ar_prog = prog\<rparr>))"
proof (cases "pa_result artifact")
  case (Inl es)
  with assms check_parse_errors[OF assms(3) Inl, of C] build_checked[OF assms(3,2)] show ?thesis
    by (auto simp: map_errors_def rbind_def split: sum.splits)
next
  case (Inr pg)
  with check_checked[OF assms(3) Inr assms(2)] build_checked[OF assms(3,2)] show ?thesis
    by (auto simp: map_errors_def unit_result_def rbind_def split: sum.splits)
qed

theorem checker_builder_agree_witness:
  "\<exists>files. build sample_codecs sample_compiler (dfinance_dialect sample_codecs) None
       [with_content ''a.move'' ''module ;''] [] =
     Inr \<lparr>ar_files = files, ar_prog = Inl [[(\<lparr>loc_file = ''a.move'', loc_span = (0, 8)\<rparr>, ''unexpected token'')]]\<rparr>"
proof -
  let ?L = sample_compiler and ?d = "dfinance_dialect sample_codecs" and
    ?ts = "[with_content ''a.move'' ''module ;'']"
  have use: "sender_usable sample_codecs None" by (simp add: sender_usable_def)
  note ok = sender_usable_ok[OF use]
  have pass: "ml_check_program ?L (Inl es) a = Inl es" for es a by (simp add: sample_compiler_def)
  obtain a where a: "parse_program ?L ?d ?ts [] None = Inr a"
    using dfinance.parse_returns[OF use] by blast
  have "check sample_codecs ?L ?d None ?ts [] =
      Inr (Inl [[(\<lparr>loc_file = ''a.move'', loc_span = (0, 8)\<rparr>, ''unexpected token'')]])"
    by (simp add: check_def compile_def parse_program_def parse_target_def parse_file_def with_content_def
        normalize_source_text_def normalize_def dfinance_dialect_def replace_bech32_addresses_def
        replace_encoded_addresses_def sample_codecs_def sample_compiler_def checker_flow_def
        map_errors_def unit_result_def transform_def translate_error_def translate_span_def
        translate_message_def translate_pos_def file_offset_map_default_def as_u32_def span_new_def
        cr_def lf_def)
  with checker_builder_agree[OF pass ok a] show ?thesis by auto
qed

end
