(* ===== verification/Lang_Meta.thy ===== *)
theory Lang_Meta
  imports Lang_Flow
begin

text \<open>
  Script metadata (\<open>lang/src/meta_extractor.rs\<close>): the compile flow that stops after parsing,
  \<open>make_script_meta\<close> and the printing of parameter types. The syntax tree has the constructors
  of the Move parser that the code matches on; \<open>'r\<close> stands for the definitions that are not
  scripts.
\<close>

datatype module_access_name =
    AccName string
  | AccModule string string
  | AccQualified string string string

datatype ty =
    TyApply module_access_name "ty list"
  | TyRef bool ty
  | TyFun "ty list" ty
  | TyUnit
  | TyMultiple "ty list"

record script =
  sc_name :: string
  sc_type_parameters :: "string list"
  sc_parameters :: "(string \<times> ty) list"

datatype 'r definition_ast = DefScript script | DefOther 'r

record meta =
  mt_name :: string
  mt_type_parameters :: "string list"
  mt_parameters :: "(string \<times> string) list"

primrec access_name :: "module_access_name \<Rightarrow> string" where
  "access_name (AccName n) = n"
| "access_name (AccModule m n) = m @ ''::'' @ n"
| "access_name (AccQualified a m n) = a @ ''::'' @ m @ ''::'' @ n"

fun extract_type_name :: "ty \<Rightarrow> string" where
  "extract_type_name (TyApply name types) =
     access_name name @
     (if types = [] then [] else ''<'' @ intercalate '', '' (map extract_type_name types) @ ''>'')"
| "extract_type_name (TyRef is_mut tp) =
     (if is_mut then ''&mut '' else ''&'') @ extract_type_name tp"
| "extract_type_name (TyFun types tp) =
     ''('' @ intercalate '', '' (map extract_type_name types) @ ''):'' @ extract_type_name tp"
| "extract_type_name TyUnit = ''()''"
| "extract_type_name (TyMultiple types) = ''('' @ intercalate '', '' (map extract_type_name types) @ '')''"

definition make_script_meta :: "script \<Rightarrow> meta" where
  "make_script_meta s =
     \<lparr>mt_name = sc_name s, mt_type_parameters = sc_type_parameters s,
      mt_parameters = map (\<lambda>(var, tp). (var, extract_type_name tp)) (sc_parameters s)\<rparr>"

text \<open>The error of the extraction: a \<open>CompilerError\<close> with the rewritten sources.\<close>

record compiler_error =
  ce_source_map :: "string \<rightharpoonup> string"
  ce_errors :: errors

definition scripts_of :: "'r definition_ast list \<Rightarrow> script list" where
  "scripts_of ds = List.map_filter (\<lambda>d. case d of DefScript s \<Rightarrow> Some s | DefOther _ \<Rightarrow> None) ds"

definition script_metadata_flow ::
    "('r definition_ast, 'k, 'c, 'u, compiler_error + meta list, unit) compile_flow" where
  "script_metadata_flow =
     \<lparr>cf_after_parsing = (\<lambda>self artifact.
        case pa_result artifact of
          Inl err \<Rightarrow>
            rbind (transform (pm_offsets_map (pa_meta artifact)) err) (\<lambda>errors.
              Inr (Stop (Inl \<lparr>ce_source_map = pm_source_map (pa_meta artifact), ce_errors = errors\<rparr>), self))
        | Inr prog \<Rightarrow> Inr (Stop (Inr (map make_script_meta (scripts_of (pg_source_definitions prog)))), self)),
      cf_after_check = default_after_check,
      cf_after_translate = (\<lambda>_ _ _. Inr (Inr []))\<rparr>"

interpretation metadata: early_flow script_metadata_flow
    "\<lambda>meta es. Inl \<lparr>ce_source_map = pm_source_map meta, ce_errors = es\<rparr>"
  by unfold_locales (simp add: script_metadata_flow_def)

definition extract_metadata ::
    "codecs \<Rightarrow> ('r definition_ast, 'k, 'c, 'u) move_lang \<Rightarrow> dialect \<Rightarrow> move_file \<Rightarrow>
     (compiler_error + meta list) result" where
  "extract_metadata C L d script = compile C L d [script] [] None script_metadata_flow ()"

text \<open>The metadata of a file depends on the file alone: it is one entry per script, in the
  order of the file, when the file parses, and otherwise the file's own errors translated to its
  own positions. A file whose scripts do not type check still has its metadata.\<close>

theorem extract_parse_only:
  "extract_metadata C L d script =
     rbind (parse_one L d None script) (\<lambda>f.
       if pf_errors f = [] then Inr (Inr (map make_script_meta (scripts_of (pf_defs f))))
       else rbind (transform [mf_name script \<mapsto> pf_offsets f] (pf_errors f)) (\<lambda>errors.
         rbind (normalize_source_text d (mf_content script) None) (\<lambda>(src, _).
           Inr (Inl \<lparr>ce_source_map = [mf_name script \<mapsto> src], ce_errors = errors\<rparr>))))"
proof (cases "normalize_source_text d (mf_content script) None")
  case (Inr r)
  then show ?thesis
    by (cases r) (simp add: extract_metadata_def compile_def parse_program_def parse_target_def parse_file_alt
        parse_one_alt script_metadata_flow_def rbind_assoc parsed_text_def split: sum.split prod.split)
qed (simp add: extract_metadata_def compile_def parse_program_def parse_target_def parse_file_alt parse_one_alt)

end
