(* ===== verification/Lang_Location.thy ===== *)
theory Lang_Location
  imports Lang_Text
begin

text \<open>
  Byte offsets and cursor positions (\<open>lang/src/compiler/location.rs\<close>): a \<open>File\<close> with its line
  starts, the binary search of \<open>line_index\<close> (as \<open>slice::binary_search\<close> of the standard library
  runs it) and \<open>File::position\<close>. The line starts come from the codespan-reporting crate: an
  argument of \<open>file_new\<close>, with \<open>starts_of\<close> as its documented value.
\<close>

section \<open>Operations\<close>

record source_file =
  f_source :: string
  f_line_starts :: "nat list"

definition file_new :: "(string \<Rightarrow> nat list) \<Rightarrow> string \<Rightarrow> source_file" where
  "file_new line_starts source =
     \<lparr>f_source = source, f_line_starts = map as_u32 (line_starts source)\<rparr>"

text \<open>\<open>slice::binary_search\<close>: \<open>Inr\<close> the index of the element, \<open>Inl\<close> where it would go.\<close>

function search_base :: "nat list \<Rightarrow> nat \<Rightarrow> nat \<Rightarrow> nat \<Rightarrow> nat" where
  "search_base xs x base sz =
     (if sz \<le> 1 then base
      else let half = sz div 2; mid = base + half
           in search_base xs x (if x < xs ! mid then base else mid) (sz - half))"
  by pat_completeness auto
termination by (relation "measure (\<lambda>(xs, x, base, sz). sz)") auto

declare search_base.simps [simp del]

definition binary_search :: "nat list \<Rightarrow> nat \<Rightarrow> nat + nat" where
  "binary_search xs x =
     (if xs = [] then Inl 0
      else let base = search_base xs x 0 (length xs)
           in if xs ! base = x then Inr base
              else Inl (base + (if xs ! base < x then 1 else 0)))"

text \<open>\<open>next_line as u32 - 1\<close> traps when it is zero.\<close>

definition line_index :: "source_file \<Rightarrow> nat \<Rightarrow> nat result" where
  "line_index f byte_index =
     (case binary_search (f_line_starts f) byte_index of
        Inr line \<Rightarrow> Inr (as_u32 line)
      | Inl next_line \<Rightarrow> usub (as_u32 next_line) 1)"

definition source_span_end :: "source_file \<Rightarrow> nat" where
  "source_span_end f = as_u32 (length (f_source f))"

definition last_line_index :: "source_file \<Rightarrow> nat" where
  "last_line_index f = as_u32 (length (f_line_starts f))"

definition line_start :: "source_file \<Rightarrow> nat \<Rightarrow> (nat \<times> nat) + nat" where
  "line_start f i =
     (if i < last_line_index f then Inr (f_line_starts f ! i)
      else if i = last_line_index f then Inr (source_span_end f)
      else Inl (i, last_line_index f))"

datatype location_error =
    OutOfBounds (given: nat) (span: "nat \<times> nat")
  | InvalidCharBoundary (given: nat)

text \<open>\<open>str::get(a..b)\<close>: \<open>None\<close> unless both ends are character boundaries in order.\<close>

definition is_char_boundary :: "string \<Rightarrow> nat \<Rightarrow> bool" where
  "is_char_boundary s i =
     (if i < length s then i = 0 \<or> char_width (s ! i) = 1 else i = length s)"

definition str_get :: "string \<Rightarrow> nat \<Rightarrow> nat \<Rightarrow> string option" where
  "str_get s a b =
     (if a \<le> b \<and> is_char_boundary s a \<and> is_char_boundary s b then Some (take (b - a) (drop a s))
      else None)"

definition chars_count :: "string \<Rightarrow> nat" where
  "chars_count s = sum_list (map char_width s)"

definition position :: "source_file \<Rightarrow> nat \<Rightarrow> (location_error + nat \<times> nat) result" where
  "position f byte_index =
     rbind (line_index f byte_index) (\<lambda>line_index. Inr
       (case line_start f line_index of
          Inl _ \<Rightarrow> Inl (OutOfBounds byte_index (0, source_span_end f))
        | Inr line_start_index \<Rightarrow>
            (case str_get (f_source f) line_start_index byte_index of
               None \<Rightarrow>
                 Inl (if source_span_end f \<le> byte_index
                      then OutOfBounds byte_index (0, source_span_end f)
                      else InvalidCharBoundary byte_index)
             | Some line_src \<Rightarrow> Inr (line_index, as_u32 (chars_count line_src)))))"

section \<open>Binary search\<close>

text \<open>The last element that is not above \<open>x\<close>, from a window that contains it.\<close>

lemma search_base_inv:
  assumes "sorted xs" "base + sz \<le> length xs" "0 < sz" "base = 0 \<or> xs ! base \<le> x"
    and "\<And>i. base + sz \<le> i \<Longrightarrow> i < length xs \<Longrightarrow> x < xs ! i"
  shows "search_base xs x base sz < length xs \<and>
     (search_base xs x base sz = 0 \<or> xs ! search_base xs x base sz \<le> x) \<and>
     (\<forall>i. search_base xs x base sz < i \<and> i < length xs \<longrightarrow> x < xs ! i)"
  using assms
proof (induction xs x base sz rule: search_base.induct)
  case (1 xs x base sz)
  show ?case
  proof (cases "sz \<le> 1")
    case True
    then have "search_base xs x base sz = base" by (simp add: search_base.simps[of xs x base sz])
    moreover have "sz = 1" using 1(4) True by linarith
    ultimately show ?thesis using 1(3,5,6) by auto
  next
    case False
    let ?half = "sz div 2" and ?mid = "base + sz div 2"
    let ?base = "if x < xs ! ?mid then base else ?mid"
    have h: "0 < ?half" "?half < sz" "2 * ?half \<le> sz" using False by auto
    have step: "search_base xs x base sz = search_base xs x ?base (sz - ?half)"
      using False by (subst search_base.simps) (simp add: Let_def)
    have above: "x < xs ! i" if "x < xs ! ?mid" "?mid \<le> i" "i < length xs" for i
      using sorted_nth_mono[OF 1(2) that(2,3)] that(1) by linarith
    show ?thesis
      unfolding step
    proof (rule 1(1)[OF False refl refl 1(2)])
      show "?base + (sz - ?half) \<le> length xs" using 1(3) h by auto
      show "0 < sz - ?half" using h by linarith
      show "?base = 0 \<or> xs ! ?base \<le> x" using 1(5) by auto
      fix i assume i: "?base + (sz - ?half) \<le> i" "i < length xs"
      show "x < xs ! i"
      proof (cases "x < xs ! ?mid")
        case True
        then have "?mid \<le> i" using i(1) h(3) by auto
        with True i(2) above show ?thesis by blast
      next
        case False
        then have "base + sz \<le> i" using i(1) h by auto
        with 1(6) i(2) show ?thesis by blast
      qed
    qed
  qed
qed

lemma binary_search_last:
  assumes "sorted xs" "xs \<noteq> []" "xs ! 0 \<le> x"
  obtains k where "binary_search xs x = (if xs ! k = x then Inr k else Inl (Suc k))"
    "k < length xs" "xs ! k \<le> x" "\<And>i. k < i \<Longrightarrow> i < length xs \<Longrightarrow> x < xs ! i"
proof -
  let ?k = "search_base xs x 0 (length xs)"
  have inv: "?k < length xs" "?k = 0 \<or> xs ! ?k \<le> x" "\<forall>i. ?k < i \<and> i < length xs \<longrightarrow> x < xs ! i"
    using search_base_inv[of xs 0 "length xs" x] assms(1,2) by auto
  then have "xs ! ?k \<le> x" using assms(3) by auto
  with inv show ?thesis
    using assms(2) by (intro that[of ?k]) (auto simp: binary_search_def Let_def)
qed

section \<open>Line starts\<close>

text \<open>What codespan-reporting documents: 0 and one past every line feed.\<close>

definition starts_of :: "string \<Rightarrow> nat list" where
  "starts_of s = 0 # map Suc (filter (\<lambda>i. s ! i = lf) [0..<length s])"

lemma sorted_map_Suc: "sorted xs \<Longrightarrow> sorted (map Suc xs)"
  by (induction xs) auto

lemma starts_sorted: "sorted (starts_of s)"
  by (simp add: starts_of_def sorted_map_Suc sorted_wrt_filter)

lemma starts_set: "set (starts_of s) = insert 0 {Suc i | i. i < length s \<and> s ! i = lf}"
  by (auto simp: starts_of_def)

lemma starts_distinct: "distinct (starts_of s)"
  by (simp add: starts_of_def distinct_map)

text \<open>The number of line feeds before a position and the position behind the last of them.\<close>

definition lines_before :: "string \<Rightarrow> nat \<Rightarrow> nat" where
  "lines_before s b = length (filter (\<lambda>c. c = lf) (take b s))"

definition current_line :: "string \<Rightarrow> nat \<Rightarrow> string" where
  "current_line s b = rev (takeWhile (\<lambda>c. c \<noteq> lf) (rev (take b s)))"

lemma lines_before_count:
  assumes "b \<le> length s"
  shows "length (filter (\<lambda>x. x \<le> b) (starts_of s)) = Suc (lines_before s b)"
proof -
  have "take b s = map ((!) s) [0..<b]"
    by (rule nth_equalityI) (use assms in auto)
  then have l: "lines_before s b = length (filter (\<lambda>i. s ! i = lf) [0..<b])"
    by (simp add: lines_before_def filter_map comp_def)
  have "[0..<length s] = [0..<b] @ [b..<length s]"
    using assms by (metis le_add_diff_inverse upt_add_eq_append zero_le)
  then have "filter (\<lambda>i. s ! i = lf \<and> i < b) [0..<length s] = filter (\<lambda>i. s ! i = lf) [0..<b]"
    by (auto simp: filter_empty_conv intro: filter_cong)
  then show ?thesis
    by (simp add: l starts_of_def filter_map comp_def less_eq_Suc_le[symmetric])
qed

lemma filter_le_take:
  assumes "sorted xs" "k < length xs" "xs ! k \<le> x" "\<And>i. k < i \<Longrightarrow> i < length xs \<Longrightarrow> x < xs ! i"
  shows "filter (\<lambda>y. y \<le> x) xs = take (Suc k) xs"
proof -
  have "filter (\<lambda>y. y \<le> x) (take (Suc k) xs) = take (Suc k) xs"
    using sorted_nth_mono[OF assms(1), of _ k] assms(2,3)
    by (intro filter_True) (fastforce simp: in_set_conv_nth less_Suc_eq_le intro: order_trans)
  moreover have "filter (\<lambda>y. y \<le> x) (drop (Suc k) xs) = []"
    unfolding filter_empty_conv
  proof
    fix y assume "y \<in> set (drop (Suc k) xs)"
    then obtain n where "n < length xs - Suc k" "y = xs ! (Suc k + n)" by (auto simp: in_set_conv_nth)
    with assms(4)[of "Suc k + n"] assms(2) show "\<not> y \<le> x" by (simp add: not_le)
  qed
  ultimately show ?thesis by (metis append_Nil2 append_take_drop_id filter_append)
qed

lemma start_of_current_line:
  assumes "b \<le> length s" "starts_of s ! k \<le> b" "k < length (starts_of s)"
    and "\<And>i. k < i \<Longrightarrow> i < length (starts_of s) \<Longrightarrow> b < starts_of s ! i"
  shows "k = lines_before s b \<and> take (b - starts_of s ! k) (drop (starts_of s ! k) s) = current_line s b"
proof
  let ?st = "starts_of s ! k"
  have "length (take (Suc k) (starts_of s)) = Suc (lines_before s b)"
    using lines_before_count[OF assms(1)] filter_le_take[OF starts_sorted assms(3,2,4)] by simp
  with assms(3) show "k = lines_before s b" by simp
  have mem: "?st \<in> set (starts_of s)" using assms(3) by simp
  let ?seg = "take (b - ?st) (drop ?st s)"
  have dec: "take b s = take ?st s @ ?seg"
    using assms(2) by (metis le_add_diff_inverse take_add)
  have noLF: "lf \<notin> set ?seg"
  proof
    assume "lf \<in> set ?seg"
    then obtain n where "n < b - ?st" "s ! (?st + n) = lf"
      using assms(1,2) by (auto simp: in_set_conv_nth)
    then obtain i where i: "?st \<le> i" "i < b" "s ! i = lf" by (intro that[of "?st + n"]) simp_all
    then have "Suc i \<in> set (starts_of s)" using assms(1) by (auto simp: starts_set)
    then obtain j where j: "j < length (starts_of s)" "starts_of s ! j = Suc i" by (metis in_set_conv_nth)
    have "k < j"
    proof (rule ccontr)
      assume "\<not> k < j"
      then have "starts_of s ! j \<le> ?st" using sorted_nth_mono[OF starts_sorted] assms(3) by simp
      with i j show False by simp
    qed
    with assms(4) j i show False by fastforce
  qed
  have "?st = 0 \<or> (\<exists>i. ?st = Suc i \<and> i < length s \<and> s ! i = lf)" using mem by (auto simp: starts_set)
  then have "take ?st s = [] \<or> (\<exists>t. take ?st s = t @ [lf])"
    by (metis take_0 take_Suc_conv_app_nth)
  then have "takeWhile (\<lambda>c. c \<noteq> lf) (rev (take ?st s)) = []" by auto
  moreover have "\<forall>c\<in>set (rev ?seg). c \<noteq> lf" using noLF by auto
  ultimately show "?seg = current_line s b"
    by (simp add: current_line_def dec takeWhile_append2 del: set_rev)
qed

section \<open>Properties\<close>

text \<open>The text of a file: a line feed is followed by a new character (UTF-8), and the file fits
  the \<open>u32\<close> positions of codespan.\<close>

definition text_ok :: "string \<Rightarrow> bool" where
  "text_ok s = (Suc (length s) < 2 ^ 32 \<and> is_char_boundary s 0 \<and>
     (\<forall>i<length s. s ! i = lf \<longrightarrow> is_char_boundary s (Suc i)))"

lemma position_value:
  assumes "text_ok s"
  shows "position (file_new starts_of s) b =
     Inr (if is_char_boundary s b then Inr (lines_before s b, chars_count (current_line s b))
          else if b < length s then Inl (InvalidCharBoundary b)
          else Inl (OutOfBounds b (0, length s)))"
proof -
  let ?f = "file_new starts_of s" and ?xs = "starts_of s"
  have small: "as_u32 n = n" if "n \<le> length s" for n
    using that assms by (simp add: as_u32_def text_ok_def)
  have "map as_u32 ?xs = ?xs" by (rule map_idI) (auto simp: starts_set intro!: small)
  then have f: "f_line_starts ?f = ?xs" "f_source ?f = s" by (simp_all add: file_new_def)
  have lx: "length ?xs \<le> Suc (length s)"
    by (simp add: starts_of_def) (metis diff_zero length_filter_le length_upt)
  have ne: "?xs \<noteq> []" "?xs ! 0 \<le> b" by (simp_all add: starts_of_def)
  obtain k where k: "binary_search ?xs b = (if ?xs ! k = b then Inr k else Inl (Suc k))"
    "k < length ?xs" "?xs ! k \<le> b" and above: "\<And>i. k < i \<Longrightarrow> i < length ?xs \<Longrightarrow> b < ?xs ! i"
    using binary_search_last[OF starts_sorted ne] by blast
  have len: "length ?xs < 2 ^ 32" using lx assms by (simp add: text_ok_def)
  then have line: "line_index ?f b = Inr k"
    using k(1,2) by (simp add: line_index_def f as_u32_def)
  have start: "line_start ?f k = Inr (?xs ! k)"
    using k(2) len by (simp add: line_start_def last_line_index_def f as_u32_def)
  have "?xs ! k \<in> set ?xs" using k(2) by simp
  then have bound: "is_char_boundary s (?xs ! k)"
    using assms by (auto simp: starts_set text_ok_def)
  have end': "source_span_end ?f = length s" by (simp add: source_span_end_def f small)
  show ?thesis
  proof (cases "is_char_boundary s b")
    case True
    then have b: "b \<le> length s" by (auto simp: is_char_boundary_def split: if_splits)
    have "chars_count t \<le> length t" for t
      by (induction t) (auto simp: chars_count_def char_width_def)
    then have "chars_count (current_line s b) \<le> length (current_line s b)" by blast
    also have "\<dots> \<le> length s"
      unfolding current_line_def using length_takeWhile_le[of "\<lambda>c. c \<noteq> lf" "rev (take b s)"] by simp
    finally have c: "as_u32 (chars_count (current_line s b)) = chars_count (current_line s b)" by (rule small)
    have kl: "lines_before s b = k" and seg: "take (b - ?xs ! k) (drop (?xs ! k) s) = current_line s b"
      using start_of_current_line[OF b k(3,2) above] by (metis, metis)
    with True show ?thesis
      by (simp add: position_def line start f str_get_def bound k(3) seg c kl)
  next
    case False
    then show ?thesis
      by (auto simp: position_def line start f str_get_def end' is_char_boundary_def)
  qed
qed

text \<open>C18: the cursor position of a character boundary of the text is the number of line feeds
  before it and the number of characters since the last of them; a position inside a character
  or behind the end is refused with the matching error.\<close>

theorem position_correct:
  assumes "text_ok s"
  shows "position (file_new starts_of s) b =
     Inr (if is_char_boundary s b then Inr (lines_before s b, chars_count (current_line s b))
          else if b < length s then Inl (InvalidCharBoundary b)
          else Inl (OutOfBounds b (0, length s)))"
  by (rule position_value[OF assms])

definition sample_text :: string where
  "sample_text = [CHR ''a'', lf, CHR 0xC3, CHR 0xA9, CHR ''b'']"

theorem position_correct_witness:
  "position (file_new starts_of sample_text) 4 = Inr (Inr (1, 1)) \<and>
   position (file_new starts_of sample_text) 3 = Inr (Inl (InvalidCharBoundary 3)) \<and>
   position (file_new starts_of sample_text) 6 = Inr (Inl (OutOfBounds 6 (0, 5)))"
proof -
  have ok: "text_ok sample_text"
    by (auto simp: text_ok_def sample_text_def is_char_boundary_def char_width_def less_Suc_eq lf_def)
  show ?thesis
    unfolding position_correct[OF ok]
    by (simp add: sample_text_def is_char_boundary_def char_width_def lf_def lines_before_def
        current_line_def chars_count_def)
qed

end
