(* ===== verification/Lang_Cost.thy ===== *)
theory Lang_Cost
  imports Dis_Format
begin

text \<open>
  The gas costs of the dfinance dialect (\<open>lang/src/compiler/dialects/dfinance/mod.rs\<close>):
  \<open>dfinance_cost_table\<close>. An entry is the instruction with its operands zero, the instruction gas
  and the memory gas of \<open>GasCost::new\<close>. The sort keys \<open>instruction_key\<close> and \<open>cost.0 as u64\<close> are
  arguments; so is \<open>new_from_instructions\<close>, which packs the two sorted tables.
\<close>

section \<open>The tables\<close>

datatype (plugins only: size) native_index =
    N_SHA2_256 | N_SHA3_256 | N_ED25519_VERIFY | N_ED25519_THRESHOLD_VERIFY | N_LCS_TO_BYTES |
  N_LENGTH | N_EMPTY | N_BORROW | N_BORROW_MUT | N_PUSH_BACK | N_POP_BACK | N_DESTROY_EMPTY |
  N_SWAP | N_ED25519_VALIDATE_KEY | N_SIGNER_BORROW | N_CREATE_SIGNER | N_DESTROY_SIGNER |
  N_EMIT_EVENT | N_U256_FROM_U8 | N_U256_FROM_U64 | N_U256_FROM_U128 | N_U256_AS_U8 |
  N_U256_AS_U64 | N_U256_AS_U128 | N_U256_MUL | N_U256_DIV | N_U256_SUB | N_U256_ADD

definition dfinance_instrs :: "(bytecode \<times> nat \<times> nat) list" where
  "dfinance_instrs =
     [(BcMoveTo 0, 825, 1), (BcMoveToGeneric 0, 825, 1), (BcMoveFrom 0, 917, 1),
      (BcMoveFromGeneric 0, 917, 1), (BcBrTrue 0, 31, 1), (BcWriteRef, 65, 1), (BcMul, 41, 1),
      (BcMoveLoc 0, 41, 1), (BcAnd, 49, 1), (BcPop, 27, 1), (BcBitAnd, 44, 1), (BcReadRef, 51, 1),
      (BcSub, 44, 1), (BcMutBorrowField 0, 58, 1), (BcMutBorrowFieldGeneric 0, 58, 1),
      (BcImmBorrowField 0, 58, 1), (BcImmBorrowFieldGeneric 0, 58, 1), (BcAdd, 45, 1),
      (BcCopyLoc 0, 41, 1), (BcStLoc 0, 28, 1), (BcRet, 28, 1), (BcLt, 49, 1), (BcLdU8 0, 29, 1),
      (BcLdU64 0, 29, 1), (BcLdU128 0, 29, 1), (BcCastU8, 29, 1), (BcCastU64, 29, 1),
      (BcCastU128, 29, 1), (BcAbort, 39, 1), (BcMutBorrowLoc 0, 45, 1), (BcImmBorrowLoc 0, 45, 1),
      (BcLdConst 0, 36, 1), (BcGe, 46, 1), (BcXor, 46, 1), (BcShl, 46, 1), (BcShr, 46, 1),
      (BcNeq, 51, 1), (BcNot, 35, 1), (BcCall 0, 197, 1), (BcCallGeneric 0, 197, 1), (BcLe, 47, 1),
      (BcBranch 0, 10, 1), (BcUnpack 0, 94, 1), (BcUnpackGeneric 0, 94, 1), (BcOr, 43, 1),
      (BcLdFalse, 30, 1), (BcLdTrue, 29, 1), (BcMod, 42, 1), (BcBrFalse 0, 29, 1),
      (BcExists 0, 856, 1), (BcExistsGeneric 0, 856, 1), (BcBitOr, 45, 1), (BcFreezeRef, 10, 1),
      (BcMutBorrowGlobal 0, 1000, 3), (BcMutBorrowGlobalGeneric 0, 1000, 3),
      (BcImmBorrowGlobal 0, 1000, 3), (BcImmBorrowGlobalGeneric 0, 1000, 3), (BcDiv, 41, 1),
      (BcEq, 48, 1), (BcGt, 46, 1), (BcPack 0, 73, 1), (BcPackGeneric 0, 73, 1), (BcNop, 10, 1)]"

definition dfinance_natives :: "(native_index \<times> nat \<times> nat) list" where
  "dfinance_natives =
     [(N_SHA2_256, 21, 1), (N_SHA3_256, 64, 1), (N_ED25519_VERIFY, 61, 1),
      (N_ED25519_THRESHOLD_VERIFY, 3351, 1), (N_LCS_TO_BYTES, 181, 1), (N_LENGTH, 98, 1),
      (N_EMPTY, 84, 1), (N_BORROW, 1334, 1), (N_BORROW_MUT, 1902, 1), (N_PUSH_BACK, 53, 1),
      (N_POP_BACK, 227, 1), (N_DESTROY_EMPTY, 572, 1), (N_SWAP, 1436, 1),
      (N_ED25519_VALIDATE_KEY, 26, 1), (N_SIGNER_BORROW, 353, 1), (N_CREATE_SIGNER, 24, 1),
      (N_DESTROY_SIGNER, 212, 1), (N_EMIT_EVENT, 52, 1), (N_U256_FROM_U8, 10, 1),
      (N_U256_FROM_U64, 10, 1), (N_U256_FROM_U128, 10, 1), (N_U256_AS_U8, 10, 1),
      (N_U256_AS_U64, 10, 1), (N_U256_AS_U128, 10, 1), (N_U256_MUL, 10, 1), (N_U256_DIV, 10, 1),
      (N_U256_SUB, 10, 1), (N_U256_ADD, 10, 1)]"

definition sorted_instrs :: "(bytecode \<Rightarrow> nat) \<Rightarrow> (bytecode \<times> nat \<times> nat) list" where
  "sorted_instrs instruction_key = sort_key (\<lambda>cost. instruction_key (fst cost)) dfinance_instrs"

definition raw_native_table :: "(native_index \<Rightarrow> nat) \<Rightarrow> (nat \<times> nat) list" where
  "raw_native_table native_key = map snd (sort_key (\<lambda>cost. native_key (fst cost)) dfinance_natives)"

definition dfinance_cost_table ::
    "(bytecode \<Rightarrow> nat) \<Rightarrow> (native_index \<Rightarrow> nat) \<Rightarrow>
     ((bytecode \<times> nat \<times> nat) list \<Rightarrow> (nat \<times> nat) list \<Rightarrow> 't) \<Rightarrow> 't" where
  "dfinance_cost_table instruction_key native_key new_from_instructions =
     new_from_instructions (sorted_instrs instruction_key) (raw_native_table native_key)"

section \<open>Opcodes\<close>

text \<open>The instruction with its operands zero.\<close>

fun opcode :: "bytecode \<Rightarrow> bytecode" where
  "opcode (BcLdU8 _) = BcLdU8 0"
| "opcode (BcLdU64 _) = BcLdU64 0"
| "opcode (BcLdU128 _) = BcLdU128 0"
| "opcode (BcLdConst _) = BcLdConst 0"
| "opcode (BcCall _) = BcCall 0"
| "opcode (BcCallGeneric _) = BcCallGeneric 0"
| "opcode (BcExists _) = BcExists 0"
| "opcode (BcExistsGeneric _) = BcExistsGeneric 0"
| "opcode (BcMoveFrom _) = BcMoveFrom 0"
| "opcode (BcMoveFromGeneric _) = BcMoveFromGeneric 0"
| "opcode (BcMoveTo _) = BcMoveTo 0"
| "opcode (BcMoveToGeneric _) = BcMoveToGeneric 0"
| "opcode (BcImmBorrowGlobal _) = BcImmBorrowGlobal 0"
| "opcode (BcImmBorrowGlobalGeneric _) = BcImmBorrowGlobalGeneric 0"
| "opcode (BcMutBorrowGlobal _) = BcMutBorrowGlobal 0"
| "opcode (BcMutBorrowGlobalGeneric _) = BcMutBorrowGlobalGeneric 0"
| "opcode (BcCopyLoc _) = BcCopyLoc 0"
| "opcode (BcMoveLoc _) = BcMoveLoc 0"
| "opcode (BcStLoc _) = BcStLoc 0"
| "opcode (BcPack _) = BcPack 0"
| "opcode (BcPackGeneric _) = BcPackGeneric 0"
| "opcode (BcUnpack _) = BcUnpack 0"
| "opcode (BcUnpackGeneric _) = BcUnpackGeneric 0"
| "opcode (BcMutBorrowField _) = BcMutBorrowField 0"
| "opcode (BcMutBorrowFieldGeneric _) = BcMutBorrowFieldGeneric 0"
| "opcode (BcImmBorrowField _) = BcImmBorrowField 0"
| "opcode (BcImmBorrowFieldGeneric _) = BcImmBorrowFieldGeneric 0"
| "opcode (BcMutBorrowLoc _) = BcMutBorrowLoc 0"
| "opcode (BcImmBorrowLoc _) = BcImmBorrowLoc 0"
| "opcode (BcBrTrue _) = BcBrTrue 0"
| "opcode (BcBrFalse _) = BcBrFalse 0"
| "opcode (BcBranch _) = BcBranch 0"
| "opcode b = b"

lemma opcode_listed: "opcode b \<in> set (map fst dfinance_instrs)"
  by (cases b) (simp_all add: dfinance_instrs_def)

lemma opcodes_distinct: "distinct (map fst dfinance_instrs)"
  by (simp add: dfinance_instrs_def)

lemma opcodes_listed_bare: "\<forall>x\<in>set dfinance_instrs. opcode (fst x) = fst x"
  by (simp add: dfinance_instrs_def)

section \<open>Sorting by a numbering\<close>

lemma takeWhile_stops: "x \<in> set xs \<Longrightarrow> \<not> P x \<Longrightarrow> length (takeWhile P xs) < length xs"
  by (induction xs) auto

lemma sort_key_numbering:
  assumes "distinct (map f xs)" "\<forall>x\<in>set xs. 1 \<le> f x \<and> f x \<le> length xs" "i < length xs"
  shows "f (sort_key f xs ! i) = Suc i"
proof -
  have "f ` set xs = {1..length xs}"
  proof (rule card_subset_eq)
    show "f ` set xs \<subseteq> {1..length xs}" using assms(2) by auto
    show "card (f ` set xs) = card {1..length xs}"
      using distinct_card[OF assms(1)] by simp
  qed simp
  then have "set (map f (sort_key f xs)) = set [1..<Suc (length xs)]"
    by (simp add: atLeastLessThanSuc_atLeastAtMost del: upt_Suc)
  moreover have "distinct (map f (sort_key f xs))"
    using assms(1) by (metis distinct_map distinct_sort set_sort)
  ultimately have "map f (sort_key f xs) = [1..<Suc (length xs)]"
    by (intro sorted_distinct_set_unique) (simp_all del: upt_Suc)
  then have "map f (sort_key f xs) ! i = [1..<Suc (length xs)] ! i" by simp
  with assms(3) show ?thesis by (simp del: upt_Suc)
qed

text \<open>What the vm crate documents of \<open>instruction_key\<close>: the opcode byte, which numbers the 63
  opcodes from 1 and does not look at operands.\<close>

definition numbers_opcodes :: "(bytecode \<Rightarrow> nat) \<Rightarrow> bool" where
  "numbers_opcodes key =
     ((\<forall>b b'. key b = key b' \<longleftrightarrow> opcode b = opcode b') \<and> (\<forall>b. 1 \<le> key b \<and> key b \<le> 63))"

section \<open>Properties\<close>

text \<open>The gas table has an entry for every instruction, at the position the virtual machine
  reads it from (its opcode byte minus one): no opcode is missing, doubled or shifted.\<close>

theorem cost_table_indexed:
  assumes "numbers_opcodes key"
  shows "length (sorted_instrs key) = 63 \<and>
     (\<exists>cost. sorted_instrs key ! (key b - 1) = (opcode b, cost) \<and> (opcode b, cost) \<in> set dfinance_instrs)"
proof -
  let ?f = "\<lambda>cost. key (fst cost)"
  have len: "length dfinance_instrs = 63" by (simp add: dfinance_instrs_def)
  have inj: "key x = key y \<longleftrightarrow> opcode x = opcode y" for x y
    using assms by (simp add: numbers_opcodes_def)
  have range: "1 \<le> key x \<and> key x \<le> 63" for x using assms by (simp add: numbers_opcodes_def)
  have b: "1 \<le> key b" "key b \<le> 63" using range by blast+
  have "inj_on ?f (set dfinance_instrs)"
  proof (rule inj_onI)
    fix x y assume xy: "x \<in> set dfinance_instrs" "y \<in> set dfinance_instrs" "?f x = ?f y"
    then have "fst x = fst y" using inj opcodes_listed_bare by fastforce
    with xy(1,2) opcodes_distinct show "x = y"
      by (metis distinct_map inj_onD)
  qed
  then have "distinct (map ?f dfinance_instrs)"
    using opcodes_distinct by (simp add: distinct_map)
  then have nth: "?f (sort_key ?f dfinance_instrs ! (key b - 1)) = Suc (key b - 1)"
  proof (rule sort_key_numbering)
    show "\<forall>x\<in>set dfinance_instrs. 1 \<le> ?f x \<and> ?f x \<le> length dfinance_instrs" by (simp only: len range) simp
    show "key b - 1 < length dfinance_instrs" using b unfolding len by linarith
  qed
  let ?e = "sorted_instrs key ! (key b - 1)"
  have "key b - 1 < length (sorted_instrs key)" using b unfolding sorted_instrs_def length_sort len by linarith
  then have e: "?e \<in> set dfinance_instrs" by (metis nth_mem set_sort sorted_instrs_def)
  have "key (fst ?e) = key b" using nth range[of b] by (simp add: sorted_instrs_def)
  then have "fst ?e = opcode b" using inj opcodes_listed_bare e by auto
  moreover obtain i c where ic: "?e = (i, c)" by (cases ?e)
  ultimately have "?e = (opcode b, c)" by simp
  with e have "?e = (opcode b, c) \<and> (opcode b, c) \<in> set dfinance_instrs" by simp
  moreover have "length (sorted_instrs key) = 63" by (simp add: sorted_instrs_def len)
  ultimately show ?thesis by blast
qed

text \<open>The opcodes numbered in the order of the table.\<close>

definition table_key :: "bytecode \<Rightarrow> nat" where
  "table_key b = Suc (length (takeWhile (\<lambda>x. fst x \<noteq> opcode b) dfinance_instrs))"

theorem cost_table_indexed_witness:
  "table_key (BcCall 7) = 39 \<and> sorted_instrs table_key ! (table_key (BcCall 7) - 1) = (BcCall 0, 197, 1)"
proof -
  have lt: "length (takeWhile (\<lambda>x. fst x \<noteq> opcode b) dfinance_instrs) < 63 \<and>
      fst (dfinance_instrs ! length (takeWhile (\<lambda>x. fst x \<noteq> opcode b) dfinance_instrs)) = opcode b" for b
  proof -
    from opcode_listed[of b] obtain x where "x \<in> set dfinance_instrs" "fst x = opcode b" by auto
    then have "length (takeWhile (\<lambda>x. fst x \<noteq> opcode b) dfinance_instrs) < length dfinance_instrs"
      by (intro takeWhile_stops) auto
    moreover have "length dfinance_instrs = 63" by (simp add: dfinance_instrs_def)
    ultimately show ?thesis
      using nth_length_takeWhile[of "\<lambda>x. fst x \<noteq> opcode b" dfinance_instrs] by simp
  qed
  have "numbers_opcodes table_key"
    unfolding numbers_opcodes_def
  proof (intro conjI allI)
    show "table_key b = table_key b' \<longleftrightarrow> opcode b = opcode b'" for b b'
    proof
      assume "table_key b = table_key b'"
      then show "opcode b = opcode b'" using lt unfolding table_key_def by (metis old.nat.inject)
    next
      assume "opcode b = opcode b'"
      then show "table_key b = table_key b'" unfolding table_key_def by (simp only:)
    qed
    show "1 \<le> table_key b" "table_key b \<le> 63" for b using lt[of b] by (simp_all add: table_key_def)
  qed
  from cost_table_indexed[OF this, of "BcCall 7"] show ?thesis
    by (simp add: dfinance_instrs_def table_key_def)
qed

end
