(* ===== verification/Exec_Meta.thy ===== *)
theory Exec_Meta
  imports Lang_Meta
begin

text \<open>
  Execution metadata (\<open>executor/src/meta.rs\<close>) and the resources it names
  (\<open>executor/src/oracles.rs\<close>): the doc comments of a script become an \<open>execution_meta\<close>.

  \<open>move_core\<close> holds what \<open>move_core_types\<close> provides (parsing and printing of addresses, valid
  identifiers, the status codes) and the Unicode tables of \<open>to_uppercase\<close>. An \<open>unwrap\<close> or
  \<open>expect\<close> that fails is the fault \<open>Panicked\<close>; the messages on the error stream are not modelled.
\<close>

section \<open>Text of the standard library\<close>

text \<open>\<open>str::trim\<close>: the White\_Space characters of Unicode in UTF-8.\<close>

definition byte_string :: "nat list \<Rightarrow> string" where
  "byte_string bs = map char_of bs"

definition white_spaces :: "string list" where
  "white_spaces =
     map (\<lambda>b. byte_string [b]) [9, 10, 11, 12, 13, 32] @
     map byte_string [[194, 133], [194, 160], [225, 154, 128], [226, 128, 168], [226, 128, 169],
       [226, 128, 175], [226, 129, 159], [227, 128, 128]] @
     map (\<lambda>b. byte_string [226, 128, b]) [128..<139]"

lemma white_spaces_nonempty: "w \<in> set white_spaces \<Longrightarrow> w \<noteq> []"
  by (auto simp: white_spaces_def byte_string_def)

function strip_prefixes :: "string list \<Rightarrow> string \<Rightarrow> string" where
  "strip_prefixes ws s =
     (case find (\<lambda>w. w \<noteq> [] \<and> starts_with w s) ws of
        None \<Rightarrow> s
      | Some w \<Rightarrow> (if s = [] then s else strip_prefixes ws (drop (length w) s)))"
  by pat_completeness auto
termination
  by (relation "measure (\<lambda>(ws, s). length s)") (auto simp: find_Some_iff)

declare strip_prefixes.simps [simp del]

definition trim :: "string \<Rightarrow> string" where
  "trim s = rev (strip_prefixes (map rev white_spaces) (rev (strip_prefixes white_spaces s)))"

text \<open>\<open>str::parse\<close> for unsigned integers of \<open>bits\<close> bits and for booleans.\<close>

definition parse_unsigned :: "nat \<Rightarrow> string \<Rightarrow> nat option" where
  "parse_unsigned bits s =
     (let digits = (case s of c # cs \<Rightarrow> if c = CHR ''+'' then cs else s | [] \<Rightarrow> [])
      in if digits \<noteq> [] \<and> list_all is_digit_char digits \<and> read_nat digits < 2 ^ bits
         then Some (read_nat digits) else None)"

definition parse_bool :: "string \<Rightarrow> bool option" where
  "parse_bool s = (if s = ''true'' then Some True else if s = ''false'' then Some False else None)"

definition unwrap :: "'a option \<Rightarrow> 'a result" where
  "unwrap r = (case r of Some x \<Rightarrow> Inr x | None \<Rightarrow> Inl (Panicked ''unwrap''))"

lemma unwrap_Some [simp, result_simps]: "unwrap (Some x) = Inr x"
  by (simp add: unwrap_def)

lemma unwrap_Inr_iff: "unwrap r = Inr x \<longleftrightarrow> r = Some x"
  by (cases r) (simp_all add: unwrap_def)

text \<open>\<open>s.split(c)\<close>: the pieces between separators, one more than there are separators.\<close>

fun split_char :: "char \<Rightarrow> string \<Rightarrow> string list" where
  "split_char c [] = [[]]"
| "split_char c (x # xs) =
     (if x = c then [] # split_char c xs
      else case split_char c xs of p # ps \<Rightarrow> (x # p) # ps | [] \<Rightarrow> [[x]])"

text \<open>\<open>split_around\<close> indexes the second part, which is missing without a separator.\<close>

definition split_around :: "string \<Rightarrow> string \<Rightarrow> (string \<times> string) result" where
  "split_around s p =
     (case find_str p s of
        Some i \<Rightarrow> Inr (trim (take i s), trim (drop (i + length p) s))
      | None \<Rightarrow> Inl IndexOutOfBounds)"

section \<open>Tags (oracles.rs)\<close>

datatype type_tag =
    TtBool | TtU8 | TtU64 | TtU128 | TtAddress | TtSigner
  | TtVector type_tag
  | TtStruct struct_tag
and struct_tag = StructTag account_address string string "type_tag list"

primrec tag_address :: "struct_tag \<Rightarrow> account_address" where
  "tag_address (StructTag a m n ts) = a"

record move_core =
  mc_from_hex :: "string \<Rightarrow> account_address option"
  mc_is_identifier :: "string \<Rightarrow> bool"
  mc_to_uppercase :: "string \<Rightarrow> string"
  mc_status_codes :: "(string \<times> nat) list"
  mc_core_code_address :: account_address
  mc_display :: "account_address \<Rightarrow> string"
  mc_short_str :: "account_address \<Rightarrow> string"
  mc_lang_display :: "account_address \<Rightarrow> string"

definition COIN_MODULE :: string where "COIN_MODULE = ''Coins''"
definition PRICE_STRUCT :: string where "PRICE_STRUCT = ''Price''"
definition ACCOUNT_MODULE :: string where "ACCOUNT_MODULE = ''Account''"
definition ACCOUNT_BALANCE_STRUCT :: string where "ACCOUNT_BALANCE_STRUCT = ''Balance''"
definition XFI_MODULE :: string where "XFI_MODULE = ''XFI''"
definition XFI_RESOURCE :: string where "XFI_RESOURCE = ''T''"
definition BLOCK_RESOURCE :: string where "BLOCK_RESOURCE = ''BlockMetadata''"

definition identifier_new :: "move_core \<Rightarrow> string \<Rightarrow> string result" where
  "identifier_new M s =
     (if mc_is_identifier M s then Inr s else Inl (Panicked ''Valid currency name.''))"

definition currency_type :: "move_core \<Rightarrow> string \<Rightarrow> type_tag result" where
  "currency_type M cur =
     (let cur = mc_to_uppercase M cur
      in if cur = XFI_MODULE
         then Inr (TtStruct (StructTag (mc_core_code_address M) XFI_MODULE XFI_RESOURCE []))
         else rbind (identifier_new M cur) (\<lambda>name.
                Inr (TtStruct (StructTag (mc_core_code_address M) COIN_MODULE name []))))"

definition std_address :: "move_core \<Rightarrow> account_address result" where
  "std_address M = unwrap (mc_from_hex M ''0x1'')"

definition oracle_coins_module :: "move_core \<Rightarrow> module_id result" where
  "oracle_coins_module M =
     rbind (std_address M) (\<lambda>addr. Inr \<lparr>mid_address = addr, mid_name = ''Coins''\<rparr>)"

definition oracle_metadata :: "move_core \<Rightarrow> string \<Rightarrow> string \<Rightarrow> struct_tag result" where
  "oracle_metadata M first second =
     rbind (currency_type M first) (\<lambda>a. rbind (currency_type M second) (\<lambda>b.
       Inr (StructTag (mc_core_code_address M) COIN_MODULE PRICE_STRUCT [a, b])))"

definition block_metadata :: "move_core \<Rightarrow> struct_tag" where
  "block_metadata M = StructTag (mc_core_code_address M) ''Block'' BLOCK_RESOURCE []"

definition time_metadata :: "move_core \<Rightarrow> struct_tag" where
  "time_metadata M = StructTag (mc_core_code_address M) ''Time'' ''CurrentTimestamp'' []"

definition coin_balance_metadata :: "move_core \<Rightarrow> string \<Rightarrow> struct_tag result" where
  "coin_balance_metadata M currency =
     rbind (currency_type M currency) (\<lambda>t.
       Inr (StructTag (mc_core_code_address M) ACCOUNT_MODULE ACCOUNT_BALANCE_STRUCT [t]))"

section \<open>Metadata (meta.rs)\<close>

record execution_meta =
  em_signers :: "account_address list"
  em_accounts_balance :: "(account_address \<times> string \<times> nat) list"
  em_oracle_prices :: "(struct_tag \<times> nat) list"
  em_current_time :: "nat option"
  em_block :: "nat option"
  em_aborts_with :: "nat option"
  em_status :: "nat option"
  em_dry_run :: bool

definition execution_meta_default :: execution_meta where
  "execution_meta_default =
     \<lparr>em_signers = [], em_accounts_balance = [], em_oracle_prices = [], em_current_time = None,
      em_block = None, em_aborts_with = None, em_status = None, em_dry_run = False\<rparr>"

text \<open>Collecting into a \<open>HashMap\<close>: a later entry replaces an earlier one.\<close>

definition status_codes :: "move_core \<Rightarrow> string \<Rightarrow> nat option" where
  "status_codes M = map_of (rev (mc_status_codes M))"

definition split_signers :: "move_core \<Rightarrow> string \<Rightarrow> account_address list result" where
  "split_signers M s =
     mapM (\<lambda>addr. unwrap (mc_from_hex M addr)) (map trim (split_char (CHR '','') s))"

definition apply_balance :: "move_core \<Rightarrow> string \<Rightarrow> execution_meta \<Rightarrow> execution_meta result" where
  "apply_balance M val m =
     (if CHR '' '' \<notin> set val then Inr m
      else rbind (split_around val '' '') (\<lambda>(address, balance).
        if CHR '' '' \<notin> set balance then Inr m
        else rbind (split_around balance '' '') (\<lambda>(coin, num).
          rbind (unwrap (mc_from_hex M address)) (\<lambda>a.
          rbind (unwrap (parse_unsigned 128 num)) (\<lambda>n.
            Inr (m\<lparr>em_accounts_balance := em_accounts_balance m @ [(a, coin, n)]\<rparr>))))))"

definition apply_price :: "move_core \<Rightarrow> string \<Rightarrow> execution_meta \<Rightarrow> execution_meta result" where
  "apply_price M val m =
     (if CHR '' '' \<notin> set val then Inr m
      else rbind (split_around val '' '') (\<lambda>(tickers, value).
        if CHR ''_'' \<notin> set tickers then Inr m
        else rbind (split_around tickers ''_'') (\<lambda>(left, right).
          rbind (oracle_metadata M left right) (\<lambda>tag.
          rbind (unwrap (parse_unsigned 128 value)) (\<lambda>n.
            Inr (m\<lparr>em_oracle_prices := em_oracle_prices m @ [(tag, n)]\<rparr>))))))"

text \<open>The arms of \<open>match key\<close>.\<close>

definition apply_key :: "move_core \<Rightarrow> string \<Rightarrow> string \<Rightarrow> execution_meta \<Rightarrow> execution_meta result" where
  "apply_key M key val m =
     (if key = ''signers''
      then rbind (split_signers M val) (\<lambda>s. Inr (m\<lparr>em_signers := s\<rparr>))
      else if key = ''balance'' then apply_balance M val m
      else if key = ''price'' then apply_price M val m
      else if key = ''current_time''
      then rbind (unwrap (parse_unsigned 64 val)) (\<lambda>n. Inr (m\<lparr>em_current_time := Some n\<rparr>))
      else if key = ''aborts_with''
      then rbind (unwrap (parse_unsigned 64 val)) (\<lambda>n. Inr (m\<lparr>em_aborts_with := Some n\<rparr>))
      else if key = ''status'' then Inr (m\<lparr>em_status := status_codes M val\<rparr>)
      else if key = ''block''
      then rbind (unwrap (parse_unsigned 64 val)) (\<lambda>n. Inr (m\<lparr>em_block := Some n\<rparr>))
      else if key = ''dry_run''
      then rbind (unwrap (parse_bool val)) (\<lambda>b. Inr (m\<lparr>em_dry_run := b\<rparr>))
      else Inr m)"

definition apply_meta_comment :: "move_core \<Rightarrow> string \<Rightarrow> execution_meta \<Rightarrow> execution_meta result" where
  "apply_meta_comment M comment m =
     (if CHR '':'' \<notin> set comment then Inr m
      else rbind (split_around comment '':'') (\<lambda>(key, val). apply_key M key val m))"

definition apply_meta_comments :: "move_core \<Rightarrow> string list \<Rightarrow> execution_meta \<Rightarrow> execution_meta result" where
  "apply_meta_comments M comments m = foldM (apply_meta_comment M) comments m"

end
