(* ===== verification/Exec_Explain.thy ===== *)
theory Exec_Explain
  imports Exec_Meta
begin

text \<open>
  Explaining the outcome of a script (\<open>executor/src/explain.rs\<close>) and printing it
  (\<open>executor/src/format.rs\<close>).

  The values, effects and statuses of the Move virtual machine have the constructors the code
  matches on. \<open>move_vm\<close> holds what it calls of the machine: serialization, module access,
  running a script, the Debug names of status codes, the display of references, plain digits
  (\<open>num_format\<close> with an empty separator), \<open>textwrap::indent\<close> and the line starts of codespan. Effects are the sorted maps of
  the machine as lists of pairs. An \<open>anyhow\<close> error is \<open>Failed\<close> or, when it
  holds a \<open>CompilerError\<close>, \<open>NotCompiled\<close>; a panic is \<open>Trapped\<close>.
\<close>

section \<open>Values, effects and statuses\<close>

datatype move_val =
    VInvalid | VU8 nat | VU64 nat | VU128 nat | VBool bool | VAddress account_address
  | VContainer container
  | VContainerRef string
  | VIndexedRef string
and container =
    CLocals "move_val list" | CVecC "move_val list" | CVecR "move_val list"
  | CStructC "move_val list" | CStructR "move_val list"
  | CVecU8 "nat list" | CVecU64 "nat list" | CVecU128 "nat list"
  | CVecBool "bool list" | CVecAddress "account_address list"

text \<open>\<open>'l\<close>: the layouts of the machine.\<close>

record 'l effects =
  ef_modules :: "module_id list"
  ef_events :: "(type_tag \<times> move_val) list"
  ef_resources :: "(account_address \<times> (struct_tag \<times> ('l \<times> move_val) option) list) list"

datatype status_code =
    RESOURCE_ALREADY_EXISTS | MISSING_DATA | ARITHMETIC_ERROR | EXECUTION_STACK_OVERFLOW
  | CALL_STACK_OVERFLOW | OUT_OF_GAS | TYPE_MISMATCH | OtherStatus nat

datatype abort_location = AtModule module_id | AtScript

datatype vm_status =
    MoveAbort abort_location nat
  | ExecutionFailure status_code abort_location nat nat
  | StatusError status_code
  | Executed

record fake_remote_cache =
  fc_modules :: "module_id \<Rightarrow> 8 word list option"
  fc_resources :: "account_address \<times> struct_tag \<Rightarrow> 8 word list option"

text \<open>\<open>'m\<close>: compiled modules, \<open>'s\<close>: compiled scripts, \<open>'v\<close>: arguments. Running a script reads
  the cache and the remaining gas and returns the outcome with the gas left.\<close>

record ('m, 's, 'v, 'l) move_vm =
  vm_core :: move_core
  vm_serialize_module :: "'m \<Rightarrow> string + 8 word list"
  vm_deserialize_module :: "8 word list \<Rightarrow> string + 'm"
  vm_self_id :: "'m \<Rightarrow> module_id"
  vm_function_name :: "'m \<Rightarrow> nat \<Rightarrow> string option"
  vm_serialize_script :: "'s \<Rightarrow> string + 8 word list"
  vm_script_parameters :: "'s \<Rightarrow> signature_token list"
  vm_simple_serialize :: "'l \<Rightarrow> move_val \<Rightarrow> 8 word list option"
  vm_lcs_u64 :: "nat \<Rightarrow> 8 word list"
  vm_lcs_u128 :: "nat \<Rightarrow> 8 word list"
  vm_run :: "fake_remote_cache \<Rightarrow> 8 word list \<Rightarrow> 'v list \<Rightarrow> account_address list \<Rightarrow> nat \<Rightarrow>
             (vm_status + 'l effects) \<times> nat"
  vm_status_u64 :: "status_code \<Rightarrow> nat"
  vm_status_debug :: "status_code \<Rightarrow> string"
  vm_status_type :: "status_code \<Rightarrow> string"
  vm_format_number :: "nat \<Rightarrow> string"
  vm_display_module_id :: "module_id \<Rightarrow> string"
  vm_indent :: "string \<Rightarrow> string \<Rightarrow> string"
  vm_line_starts :: "string \<Rightarrow> nat list"

datatype exec_error = Failed string | NotCompiled compiler_error | Trapped fault

type_synonym 'a exec = "exec_error + 'a"

definition failing :: "string + 'a \<Rightarrow> 'a exec" where
  "failing r = (case r of Inl e \<Rightarrow> Inl (Failed e) | Inr x \<Rightarrow> Inr x)"

definition trapping :: "'a result \<Rightarrow> 'a exec" where
  "trapping r = (case r of Inl e \<Rightarrow> Inl (Trapped e) | Inr x \<Rightarrow> Inr x)"

lemma trapping_Inr_iff [simp]: "trapping r = Inr x \<longleftrightarrow> r = Inr x"
  by (cases r) (simp_all add: trapping_def)

lemma failing_Inr_iff [simp]: "failing (map_error f r) = Inr x \<longleftrightarrow> r = Inr x"
  by (cases r) (simp_all add: failing_def map_error_def)

section \<open>Results (explain.rs)\<close>

datatype resource_change = ResourceChange string "string option"

record address_resource_changes =
  rc_address :: string
  rc_changes :: "(string \<times> resource_change) list"

record explained_effects =
  ex_events :: "resource_change list"
  ex_resources :: "address_resource_changes list"
  ex_write_set_size :: nat

definition set_write_set_size :: "nat \<Rightarrow> explained_effects \<Rightarrow> explained_effects" where
  "set_write_set_size n e = e\<lparr>ex_write_set_size := n\<rparr>"

datatype step_execution_result =
    StepError string | StepExpectedError string | StepSuccess explained_effects

definition with_expected_error :: "string \<Rightarrow> step_execution_result" where
  "with_expected_error s = StepExpectedError (''Expected error: '' @ s)"

definition with_error :: "string \<Rightarrow> step_execution_result" where
  "with_error s = StepError s"

definition result_error :: "step_execution_result \<Rightarrow> string result" where
  "result_error r = (case r of StepError e \<Rightarrow> Inr e | _ \<Rightarrow> Inl (Panicked ''explicit panic''))"

definition result_expected_error :: "step_execution_result \<Rightarrow> string result" where
  "result_expected_error r =
     (case r of StepExpectedError e \<Rightarrow> Inr e | _ \<Rightarrow> Inl (Panicked ''explicit panic''))"

definition result_effects :: "step_execution_result \<Rightarrow> explained_effects result" where
  "result_effects r =
     (case r of StepSuccess e \<Rightarrow> Inr e
      | StepError msg \<Rightarrow> Inl (Panicked msg)
      | StepExpectedError msg \<Rightarrow> Inl (Panicked msg))"

type_synonym step_result_info = "string \<times> nat \<times> nat \<times> step_execution_result"

definition pipeline_last :: "step_result_info list \<Rightarrow> step_execution_result option" where
  "pipeline_last rs = (if rs = [] then None else Some (case last rs of (_, _, _, r) \<Rightarrow> r))"

definition overall_gas_spent :: "step_result_info list \<Rightarrow> nat" where
  "overall_gas_spent rs = sum_list (map (\<lambda>(_, gas, _, _). gas) rs)"

section \<open>Printing values and tags\<close>

definition short_address :: "move_core \<Rightarrow> account_address \<Rightarrow> string" where
  "short_address M addr =
     (let trimmed = mc_short_str M addr
      in ''0x'' @ (if trimmed = ''00000000'' then trim_start_zeros (mc_display M addr) else trimmed))"

fun format_struct_tag :: "move_core \<Rightarrow> struct_tag \<Rightarrow> string"
and format_type_tag :: "move_core \<Rightarrow> type_tag \<Rightarrow> string" where
  "format_struct_tag M (StructTag addr module name ts) =
     short_address M addr @ ''::'' @ module @ ''::'' @ name @
     (case ts of [] \<Rightarrow> []
      | first_ty # tys \<Rightarrow>
          ''<'' @ format_type_tag M first_ty @
          concat (map (\<lambda>ty. '', '' @ format_type_tag M ty) tys) @ ''>'')"
| "format_type_tag M (TtStruct s) = format_struct_tag M s"
| "format_type_tag M (TtVector ty) = ''Vector<'' @ format_type_tag M ty @ ''>''"
| "format_type_tag M TtU8 = ''U8''"
| "format_type_tag M TtU64 = ''U64''"
| "format_type_tag M TtU128 = ''U128''"
| "format_type_tag M TtAddress = ''Address''"
| "format_type_tag M TtSigner = ''Signer''"
| "format_type_tag M TtBool = ''Bool''"

definition display_list_of_values :: "string list \<Rightarrow> string" where
  "display_list_of_values items =
     ''['' @ (case items of [] \<Rightarrow> [] | x # xs \<Rightarrow> x @ concat (map (\<lambda>x. '', '' @ x) xs)) @ '']''"

definition show_bool :: "bool \<Rightarrow> string" where
  "show_bool b = (if b then ''true'' else ''false'')"

fun format_container :: "('m, 's, 'v, 'l) move_vm \<Rightarrow> container \<Rightarrow> string"
and format_value :: "('m, 's, 'v, 'l) move_vm \<Rightarrow> move_val \<Rightarrow> string" where
  "format_container V (CLocals r) = display_list_of_values (map (format_value V) r)"
| "format_container V (CVecC r) = display_list_of_values (map (format_value V) r)"
| "format_container V (CVecR r) = display_list_of_values (map (format_value V) r)"
| "format_container V (CStructC r) = display_list_of_values (map (format_value V) r)"
| "format_container V (CStructR r) = display_list_of_values (map (format_value V) r)"
| "format_container V (CVecU8 r) = display_list_of_values (map (vm_format_number V) r)"
| "format_container V (CVecU64 r) = display_list_of_values (map (vm_format_number V) r)"
| "format_container V (CVecU128 r) = display_list_of_values (map (vm_format_number V) r)"
| "format_container V (CVecBool r) = display_list_of_values (map show_bool r)"
| "format_container V (CVecAddress r) = display_list_of_values (map (short_address (vm_core V)) r)"
| "format_value V VInvalid = ''Invalid''"
| "format_value V (VU8 n) = ''U8('' @ vm_format_number V n @ '')''"
| "format_value V (VU64 n) = ''U64('' @ vm_format_number V n @ '')''"
| "format_value V (VU128 n) = ''U128('' @ vm_format_number V n @ '')''"
| "format_value V (VBool b) = show_bool b"
| "format_value V (VAddress addr) = ''Address('' @ short_address (vm_core V) addr @ '')''"
| "format_value V (VContainer r) = format_container V r"
| "format_value V (VContainerRef r) = r"
| "format_value V (VIndexedRef r) = r"

section \<open>Effects\<close>

definition get_resource_bytes :: "fake_remote_cache \<Rightarrow> account_address \<Rightarrow> struct_tag \<Rightarrow> 8 word list option" where
  "get_resource_bytes c addr tag = fc_resources c (addr, tag)"

definition explain_change ::
    "('m, 's, 'v, 'l) move_vm \<Rightarrow> fake_remote_cache \<Rightarrow> account_address \<Rightarrow>
     struct_tag \<times> ('l \<times> move_val) option \<Rightarrow> string \<times> resource_change" where
  "explain_change V state addr w =
     (case w of (struct_tag, write_opt) \<Rightarrow>
        let formatted_struct_tag = format_struct_tag (vm_core V) struct_tag
        in case write_opt of
             Some (_, val) \<Rightarrow>
               (if get_resource_bytes state addr struct_tag \<noteq> None
                then (''Changed'', ResourceChange formatted_struct_tag (Some (format_value V val)))
                else (''Added'', ResourceChange formatted_struct_tag (Some (format_value V val))))
           | None \<Rightarrow> (''Added'', ResourceChange formatted_struct_tag None))"

definition explain_effects ::
    "('m, 's, 'v, 'l) move_vm \<Rightarrow> 'l effects \<Rightarrow> fake_remote_cache \<Rightarrow> explained_effects exec" where
  "explain_effects V effects state =
     (if ef_modules effects \<noteq> [] then Inl (Trapped (Panicked ''assertion failed: effects.modules.is_empty()''))
      else Inr \<lparr>ex_events = map (\<lambda>(ty, event_data). ResourceChange (format_type_tag (vm_core V) ty)
                                   (Some (format_value V event_data))) (ef_events effects),
                ex_resources = map (\<lambda>(addr, writes).
                  \<lparr>rc_address = ''0x'' @ trim_start_zeros (mc_display (vm_core V) addr),
                   rc_changes = map (explain_change V state addr) writes\<rparr>) (ef_resources effects),
                ex_write_set_size = 0\<rparr>)"

section \<open>Failures\<close>

text \<open>\<open>script_params.len() - signers.len()\<close> is a checked \<open>usize\<close> subtraction.\<close>

definition explain_type_error ::
    "('m, 's, 'v, 'l) move_vm \<Rightarrow> 's \<Rightarrow> account_address list \<Rightarrow> 'a list \<Rightarrow> string result" where
  "explain_type_error V script signers txn_args =
     (let script_params = vm_script_parameters V script;
          expected_num_signers =
            length (filter (\<lambda>t. case t of TkReference r \<Rightarrow> (case r of TkSigner \<Rightarrow> True | _ \<Rightarrow> False) | _ \<Rightarrow> False) script_params)
      in if expected_num_signers \<noteq> length signers
         then Inr (''Execution failed with incorrect number of signers: script expected '' @
                   show_nat expected_num_signers @ '', but found '' @ show_nat (length signers))
         else rbind (usub (length script_params) (length signers)) (\<lambda>expected_num_args.
           if expected_num_args \<noteq> length txn_args
           then Inr (''Execution failed with incorrect number of arguments: script expected '' @
                     show_nat expected_num_args @ '', but found '' @ show_nat (length txn_args))
           else Inr ''Execution failed with type error when binding type arguments to type parameters''))"

type_synonym consts_map = "string \<times> string \<times> nat \<Rightarrow> string option"

definition explain_abort :: "move_core \<Rightarrow> vm_status \<Rightarrow> consts_map \<Rightarrow> string result" where
  "explain_abort M vm_status consts_map =
     (case vm_status of
        MoveAbort (AtModule mid) error_code \<Rightarrow>
          (let const_name = consts_map (mc_lang_display M (mid_address mid), mid_name mid, error_code);
               error = (case const_name of
                          Some name \<Rightarrow> show_nat error_code @ '': '' @ name
                        | None \<Rightarrow> show_nat error_code)
           in Inr (''Execution aborted with code '' @ error @ '' in module '' @
                   short_address M (mid_address mid) @ ''::'' @ mid_name mid @ ''.''))
      | MoveAbort AtScript error_code \<Rightarrow>
          Inr (''Execution aborted with code '' @ show_nat error_code @ '' in transaction script'')
      | _ \<Rightarrow> Inl (Panicked ''internal error: entered unreachable code''))"

definition get_compiled_module :: "('m, 's, 'v, 'l) move_vm \<Rightarrow> fake_remote_cache \<Rightarrow> module_id \<Rightarrow> 'm exec" where
  "get_compiled_module V c module_id =
     rbind (trapping (unwrap (fc_modules c module_id))) (\<lambda>bytes.
       failing (map_error (\<lambda>e. ''Failure deserializing module '' @ vm_display_module_id V module_id @ '': '' @ e)
         (vm_deserialize_module V bytes)))"

definition resolve_function ::
    "('m, 's, 'v, 'l) move_vm \<Rightarrow> fake_remote_cache \<Rightarrow> module_id \<Rightarrow> nat \<Rightarrow> string exec" where
  "resolve_function V c module_id idx =
     (case get_compiled_module V c module_id of
        Inl (Trapped f) \<Rightarrow> Inl (Trapped f)
      | Inl _ \<Rightarrow> Inl (Trapped (Panicked ''called Result::unwrap on an Err value''))
      | Inr m \<Rightarrow> (case vm_function_name V m idx of
                   Some name \<Rightarrow> Inr name | None \<Rightarrow> Inl (Trapped IndexOutOfBounds)))"

definition status_explanation :: "('m, 's, 'v, 'l) move_vm \<Rightarrow> status_code \<Rightarrow> string" where
  "status_explanation V status_code =
     (case status_code of
        RESOURCE_ALREADY_EXISTS \<Rightarrow> ''a RESOURCE_ALREADY_EXISTS error (i.e., `move_to<T>(account)` when there is already a resource of type `T` under `account`)''
      | MISSING_DATA \<Rightarrow> ''a RESOURCE_DOES_NOT_EXIST error (i.e., `move_from<T>(a)`, `borrow_global<T>(a)`, or `borrow_global_mut<T>(a)` when there is no resource of type `T` at address `a`)''
      | ARITHMETIC_ERROR \<Rightarrow> ''an arithmetic error (i.e., integer overflow/underflow, div/mod by zero, or invalid shift)''
      | EXECUTION_STACK_OVERFLOW \<Rightarrow> ''an execution stack overflow''
      | CALL_STACK_OVERFLOW \<Rightarrow> ''a call stack overflow''
      | OUT_OF_GAS \<Rightarrow> ''an out of gas error''
      | _ \<Rightarrow> ''a '' @ vm_status_type V status_code @ '' error'')"

definition explain_execution_failure ::
    "('m, 's, 'v, 'l) move_vm \<Rightarrow> vm_status \<Rightarrow> fake_remote_cache \<Rightarrow> string exec" where
  "explain_execution_failure V vm_status remote_cache =
     (case vm_status of
        ExecutionFailure status_code location function code_offset \<Rightarrow>
          rbind (case location of
                   AtModule mid \<Rightarrow>
                     (case resolve_function V remote_cache mid function of
                        Inr name \<Rightarrow> Inr (vm_display_module_id V mid @ ''::'' @ name)
                      | Inl (Trapped f) \<Rightarrow> Inl (Trapped f)
                      | Inl _ \<Rightarrow> Inl (Trapped (Panicked ''called Result::unwrap on an Err value'')))
                 | AtScript \<Rightarrow> Inr ''script'') (\<lambda>location_explanation.
            Inr (''Execution failed with '' @ status_explanation V status_code @ '' in '' @
                 location_explanation @ '' at code offset '' @ show_nat code_offset))
      | _ \<Rightarrow> Inl (Trapped (Panicked ''internal error: entered unreachable code'')))"

section \<open>Printing results (format.rs)\<close>

definition STEP_INDENT :: string where
  "STEP_INDENT = ''    ''"

definition step_indent :: "nat \<Rightarrow> string" where
  "step_indent num = concat (replicate num STEP_INDENT)"

definition formatted_resource_change :: "resource_change \<Rightarrow> string" where
  "formatted_resource_change change =
     (case change of ResourceChange ty (Some val) \<Rightarrow> ty @ '' ='' @ nl @ ''    '' @ val
      | ResourceChange ty None \<Rightarrow> ty)"

definition format_error :: "('m, 's, 'v, 'l) move_vm \<Rightarrow> string \<Rightarrow> string" where
  "format_error V error = vm_indent V error (step_indent 1)"

definition format_effects :: "('m, 's, 'v, 'l) move_vm \<Rightarrow> explained_effects \<Rightarrow> string" where
  "format_effects V effects =
     concat (map (\<lambda>changes.
        vm_indent V (rc_address changes) (step_indent 1) @
        concat (map (\<lambda>(operation, change).
          vm_indent V (operation @ '' '' @ formatted_resource_change change) (step_indent 2))
          (rc_changes changes))) (ex_resources effects)) @
     (if ex_events effects = [] then []
      else vm_indent V ''Events:'' (step_indent 2) @
        concat (map (\<lambda>event_change. vm_indent V (formatted_resource_change event_change) (step_indent 3))
          (ex_events effects)))"

definition format_exec_status :: "step_execution_result \<Rightarrow> string" where
  "format_exec_status r = (case r of StepError _ \<Rightarrow> ''FAILED'' | _ \<Rightarrow> ''ok'')"

definition format_step_result :: "('m, 's, 'v, 'l) move_vm \<Rightarrow> step_result_info \<Rightarrow> bool \<Rightarrow> bool \<Rightarrow> string" where
  "format_step_result V info verbose show_stats =
     (case info of (name, gas, writeset_size, step_result) \<Rightarrow>
        name @ '' ...... '' @ format_exec_status step_result @ nl @
        (if show_stats
         then ''[gas: '' @ show_nat gas @ '', writeset bytes: '' @ show_nat writeset_size @ '']'' @ nl
         else []) @
        (case step_result of
           StepError error \<Rightarrow> format_error V error
         | StepExpectedError error \<Rightarrow> (if verbose then format_error V error else [])
         | StepSuccess effects \<Rightarrow> (if verbose then format_effects V effects else [])))"

end
