(* ===== verification/Exec_Session.thy ===== *)
theory Exec_Session
  imports Exec_Explain Lang_Location
begin

text \<open>
  Running scripts (\<open>executor/src\<close>): the resource cache and \<open>execute_script\<close> of
  \<open>execution.rs\<close>, the error constants of \<open>constants.rs\<close>, the session builder and the session
  of \<open>session.rs\<close>, the \<open>Executor\<close> of \<open>executor.rs\<close>.

  The builder is a compile flow whose state is the builder itself. A compiled unit, a checked
  program and the definitions of the parser have the constructors and fields the code reads.
\<close>

section \<open>The cache (execution.rs)\<close>

definition cache_new :: "('m, 's, 'v, 'l) move_vm \<Rightarrow> 'm list \<Rightarrow> fake_remote_cache exec" where
  "cache_new V compiled_modules =
     rbind (foldM (\<lambda>module modules.
              rbind (failing (map_error (\<lambda>_. ''Module serialization error'') (vm_serialize_module V module)))
                (\<lambda>module_bytes. Inr (modules(vm_self_id V module \<mapsto> module_bytes))))
            compiled_modules Map.empty)
       (\<lambda>modules. Inr \<lparr>fc_modules = modules, fc_resources = Map.empty\<rparr>)"

text \<open>\<open>RemoteCache::get_module\<close>: a missing module is a storage error, never \<open>Ok(None)\<close>.\<close>

definition get_module :: "fake_remote_cache \<Rightarrow> module_id \<Rightarrow> unit + 8 word list option" where
  "get_module c mid = (case fc_modules c mid of None \<Rightarrow> Inl () | Some bytes \<Rightarrow> Inr (Some bytes))"

definition get_resource :: "fake_remote_cache \<Rightarrow> account_address \<Rightarrow> struct_tag \<Rightarrow> 8 word list option" where
  "get_resource c addr tag =
     (case fc_resources c (addr, tag) of None \<Rightarrow> get_resource_bytes c addr tag | res \<Rightarrow> res)"

type_synonym serialized_effects = "((account_address \<times> struct_tag) \<times> 8 word list option) list"

definition serialize_change ::
    "('m, 's, 'v, 'l) move_vm \<Rightarrow> account_address \<times> struct_tag \<times> ('l \<times> move_val) option \<Rightarrow>
     serialized_effects \<times> nat \<Rightarrow> (serialized_effects \<times> nat) result" where
  "serialize_change V change acc =
     (case (change, acc) of ((addr, struct_tag, val), (resources, resources_write_size)) \<Rightarrow>
        (case val of
           Some (layout, val) \<Rightarrow>
             rbind (unwrap (vm_simple_serialize V layout val)) (\<lambda>serialized.
               Inr (resources @ [((addr, struct_tag), Some serialized)],
                    resources_write_size + length serialized))
         | None \<Rightarrow> Inr (resources @ [((addr, struct_tag), None)], resources_write_size)))"

text \<open>The nested loops over addresses and their changes.\<close>

definition effect_changes ::
    "'l effects \<Rightarrow> (account_address \<times> struct_tag \<times> ('l \<times> move_val) option) list" where
  "effect_changes e = concat (map (\<lambda>(addr, changes). map (\<lambda>(tag, val). (addr, tag, val)) changes) (ef_resources e))"

definition serialize_effects ::
    "('m, 's, 'v, 'l) move_vm \<Rightarrow> 'l effects \<Rightarrow> (serialized_effects \<times> nat) result" where
  "serialize_effects V effects = foldM (serialize_change V) (effect_changes effects) ([], 0)"

definition merge_effects :: "serialized_effects \<Rightarrow> fake_remote_cache \<Rightarrow> fake_remote_cache" where
  "merge_effects serialized c =
     c\<lparr>fc_resources := foldl (\<lambda>r (k, val). case val of Some val \<Rightarrow> r(k \<mapsto> val) | None \<Rightarrow> r(k := None))
                         (fc_resources c) serialized\<rparr>"

definition insert_resource ::
    "account_address \<Rightarrow> struct_tag \<Rightarrow> 8 word list \<Rightarrow> fake_remote_cache \<Rightarrow> fake_remote_cache" where
  "insert_resource addr tag bytes c = c\<lparr>fc_resources := (fc_resources c)((addr, tag) \<mapsto> bytes)\<rparr>"

text \<open>The resources that doc comments add to the copy of the store a script runs on.\<close>

definition apply_meta_resources ::
    "('m, 's, 'v, 'l) move_vm \<Rightarrow> execution_meta \<Rightarrow> fake_remote_cache \<Rightarrow> fake_remote_cache result" where
  "apply_meta_resources V meta ds =
     rbind (std_address (vm_core V)) (\<lambda>std_addr.
       let ds = (case em_current_time meta of
                   Some t \<Rightarrow> insert_resource std_addr (time_metadata (vm_core V)) (vm_lcs_u64 V t) ds
                 | None \<Rightarrow> ds);
           block_height = (case em_block meta of Some b \<Rightarrow> b | None \<Rightarrow> 100);
           ds = insert_resource std_addr (block_metadata (vm_core V)) (vm_lcs_u64 V block_height) ds;
           ds = foldl (\<lambda>ds (price_tag, val). insert_resource std_addr price_tag (vm_lcs_u128 V val) ds)
                  ds (em_oracle_prices meta)
       in foldM (\<lambda>(account, coin, val) ds.
              rbind (coin_balance_metadata (vm_core V) coin) (\<lambda>tag.
                Inr (insert_resource account tag (vm_lcs_u128 V val) ds)))
            (em_accounts_balance meta) ds)"

definition expected_or_error :: "bool \<Rightarrow> string \<Rightarrow> step_execution_result" where
  "expected_or_error expected error_message =
     (if expected then with_expected_error error_message else with_error error_message)"

text \<open>The arms for a failed run.\<close>

definition failure_result ::
    "('m, 's, 'v, 'l) move_vm \<Rightarrow> execution_meta \<Rightarrow> fake_remote_cache \<Rightarrow> 's \<Rightarrow> consts_map \<Rightarrow> vm_status \<Rightarrow>
     step_execution_result exec" where
  "failure_result V meta data_store script consts_map vm_status =
     (case vm_status of
        MoveAbort _ code \<Rightarrow>
          rbind (trapping (explain_abort (vm_core V) vm_status consts_map)) (\<lambda>error_message.
            Inr (expected_or_error (em_aborts_with meta = Some code) error_message))
      | ExecutionFailure status_code _ _ _ \<Rightarrow>
          rbind (explain_execution_failure V vm_status data_store) (\<lambda>error_message.
            Inr (expected_or_error (em_status meta = Some (vm_status_u64 V status_code)) error_message))
      | StatusError TYPE_MISMATCH \<Rightarrow>
          rbind (trapping (explain_type_error V script (em_signers meta) ([] :: unit list))) (\<lambda>e.
            Inr (with_error e))
      | StatusError status_code \<Rightarrow>
          Inr (with_error (''Execution failed with unexpected error '' @ vm_status_debug V status_code))
      | Executed \<Rightarrow> Inl (Trapped (Panicked ''internal error: entered unreachable code'')))"

text \<open>The \<open>match\<close> on the outcome of the run.\<close>

definition finish_run ::
    "('m, 's, 'v, 'l) move_vm \<Rightarrow> execution_meta \<Rightarrow> fake_remote_cache \<Rightarrow> 's \<Rightarrow> consts_map \<Rightarrow>
     fake_remote_cache \<Rightarrow> (vm_status + 'l effects) \<times> nat \<Rightarrow>
     (step_execution_result \<times> fake_remote_cache \<times> nat) exec" where
  "finish_run V meta data_store script consts_map ds res =
     (case res of
        (Inr effects, gas') \<Rightarrow>
          rbind (explain_effects V effects ds) (\<lambda>explained.
          rbind (trapping (serialize_effects V effects)) (\<lambda>(serialized, effects_writeset_size).
            Inr (StepSuccess (set_write_set_size effects_writeset_size explained),
                 if em_dry_run meta then data_store else merge_effects serialized data_store,
                 gas')))
      | (Inl vm_status, gas') \<Rightarrow>
          rbind (failure_result V meta data_store script consts_map vm_status) (\<lambda>r.
            Inr (r, data_store, gas')))"

text \<open>The result, the store afterwards and the gas left.\<close>

definition execute_script ::
    "('m, 's, 'v, 'l) move_vm \<Rightarrow> execution_meta \<Rightarrow> fake_remote_cache \<Rightarrow> 's \<Rightarrow> 'v list \<Rightarrow> nat \<Rightarrow> consts_map \<Rightarrow>
     (step_execution_result \<times> fake_remote_cache \<times> nat) exec" where
  "execute_script V meta data_store script args gas consts_map =
     rbind (trapping (if em_oracle_prices meta \<noteq> []
              then rbind (oracle_coins_module (vm_core V)) (\<lambda>mid.
                     Inr (case get_module data_store mid of Inl _ \<Rightarrow> True | Inr _ \<Rightarrow> False))
              else Inr False)) (\<lambda>missing.
       if missing
       then Inr (StepError ''Cannot use `price:` comments: missing `0x1::Coins` module'', data_store, gas)
       else
         rbind (trapping (apply_meta_resources V meta data_store)) (\<lambda>ds.
         rbind (failing (map_error (\<lambda>_. ''Script serialization error'') (vm_serialize_script V script))) (\<lambda>code.
           finish_run V meta data_store script consts_map ds (vm_run V ds code args (em_signers meta) gas))))"

section \<open>Error constants (constants.rs)\<close>

datatype const_value = CvU8 nat | CvU64 nat | CvU128 nat | CvOther
datatype const_exp = CeValue const_value | CeInferredNum nat | CeOther

record constant_ast =
  ca_name :: string
  ca_value :: const_exp

datatype module_member = MemberConstant constant_ast | MemberOther

record module_ast_def =
  mo_name :: string
  mo_members :: "module_member list"

datatype 'r source_definition = AddressDefinition account_address "module_ast_def list" | OtherDefinition 'r

definition extract_integer_constant_value :: "constant_ast \<Rightarrow> nat option" where
  "extract_integer_constant_value c =
     (case ca_value c of
        CeValue (CvU8 n) \<Rightarrow> Some n | CeValue (CvU64 n) \<Rightarrow> Some n | CeValue (CvU128 n) \<Rightarrow> Some n
      | CeInferredNum n \<Rightarrow> Some n
      | _ \<Rightarrow> None)"

definition constants_of :: "module_ast_def \<Rightarrow> constant_ast list" where
  "constants_of m =
     List.map_filter (\<lambda>x. case x of MemberConstant c \<Rightarrow> Some c | MemberOther \<Rightarrow> None) (mo_members m)"

definition insert_error_constant ::
    "string \<Rightarrow> string \<Rightarrow> consts_map \<Rightarrow> constant_ast \<Rightarrow> consts_map" where
  "insert_error_constant address module_name consts c =
     (if starts_with ''ERR_'' (ca_name c)
      then (case extract_integer_constant_value c of
              Some val \<Rightarrow> consts((address, module_name, val) \<mapsto> ca_name c)
            | None \<Rightarrow> consts)
      else consts)"

definition extract_constants_from_module ::
    "move_core \<Rightarrow> account_address \<Rightarrow> consts_map \<Rightarrow> module_ast_def \<Rightarrow> consts_map" where
  "extract_constants_from_module M addr consts m =
     foldl (insert_error_constant (mc_lang_display M addr) (mo_name m)) consts (constants_of m)"

definition extract_error_constants ::
    "move_core \<Rightarrow> 'r source_definition program \<Rightarrow> consts_map \<Rightarrow> consts_map" where
  "extract_error_constants M prog consts =
     foldl (\<lambda>consts d. case d of
              AddressDefinition addr modules \<Rightarrow> foldl (extract_constants_from_module M addr) consts modules
            | OtherDefinition _ \<Rightarrow> consts)
       consts (pg_source_definitions prog @ pg_lib_definitions prog)"

section \<open>Doc comments (session.rs)\<close>

type_synonym file_comments = "((nat \<times> nat) \<times> string) list"

definition line_at :: "source_file \<Rightarrow> nat \<Rightarrow> nat result" where
  "line_at f pos =
     rbind (position f pos) (\<lambda>r.
       case r of Inr (line, _) \<Rightarrow> Inr line
       | Inl _ \<Rightarrow> Inl (Panicked ''called Result::unwrap on an Err value''))"

primrec doc_comments_loop ::
    "source_file \<Rightarrow> file_comments \<Rightarrow> nat \<Rightarrow> string list \<Rightarrow> string list result" where
  "doc_comments_loop f [] candidate acc = Inr acc"
| "doc_comments_loop f (x # xs) candidate acc =
     rbind (line_at f (fst (fst x))) (\<lambda>line.
       if line = candidate
       then (if candidate = 0 then Inr (acc @ [trim (snd x)])
             else doc_comments_loop f xs (candidate - 1) (acc @ [trim (snd x)]))
       else doc_comments_loop f xs candidate acc)"

definition extract_script_doc_comments ::
    "(string \<Rightarrow> nat list) \<Rightarrow> loc \<Rightarrow> string \<Rightarrow> file_comments \<Rightarrow> string list result" where
  "extract_script_doc_comments line_starts script_loc file_content comments =
     (let f = file_new line_starts file_content
      in rbind (line_at f (fst (loc_span script_loc))) (\<lambda>script_start_line.
           if script_start_line = 0 then Inr []
           else rbind (doc_comments_loop f (rev comments) (script_start_line - 1) []) (\<lambda>doc_comments.
                  Inr (rev doc_comments))))"

section \<open>Building a session (session.rs)\<close>

datatype ('m, 's) execution_unit = UnitModule 'm | UnitScript string 's execution_meta

record ('m, 's) execution_session =
  es_units :: "('m, 's) execution_unit list"
  es_consts :: consts_map

datatype ('m, 's) lang_unit = LangModule 'm | LangScript loc 's string

text \<open>A checked program: the scripts by key, in the order of the keys.\<close>

record checked_program =
  cp_scripts :: "(string \<times> loc) list"

record session_builder =
  sb_sender :: provided_account_address
  sb_loc_map :: "(string \<Rightarrow> loc option) option"
  sb_consts :: consts_map

definition session_builder_new :: "provided_account_address \<Rightarrow> session_builder" where
  "session_builder_new sender = \<lparr>sb_sender = sender, sb_loc_map = None, sb_consts = Map.empty\<rparr>"

definition session_after_parsing ::
    "move_core \<Rightarrow> session_builder \<Rightarrow> ('r source_definition, file_comments) parser_artifact \<Rightarrow>
     (('a, ('r source_definition, file_comments) parser_artifact) step \<times> session_builder) result" where
  "session_after_parsing M self artifact =
     (case pa_result artifact of
        Inr program \<Rightarrow> Inr (Next artifact, self\<lparr>sb_consts := extract_error_constants M program (sb_consts self)\<rparr>)
      | Inl _ \<Rightarrow> Inr (Next artifact, self))"

definition session_after_check ::
    "session_builder \<Rightarrow> file_comments parsing_meta \<Rightarrow> errors + 'z checked_program_scheme \<Rightarrow>
     (('a, file_comments parsing_meta \<times> (errors + 'z checked_program_scheme)) step \<times> session_builder) result" where
  "session_after_check self meta check_result =
     (case check_result of
        Inr prog \<Rightarrow> Inr (Next (meta, check_result), self\<lparr>sb_loc_map := Some (map_of (cp_scripts prog))\<rparr>)
      | Inl _ \<Rightarrow> Inr (Next (meta, check_result), self))"

definition sender_account :: "move_core \<Rightarrow> provided_account_address \<Rightarrow> account_address result" where
  "sender_account M a = unwrap (mc_from_hex M (pa_lowered a))"

definition script_meta ::
    "('m, 's, 'v, 'l) move_vm \<Rightarrow> session_builder \<Rightarrow> file_comments parsing_meta \<Rightarrow> loc \<Rightarrow> loc \<Rightarrow> execution_meta result" where
  "script_meta V self meta unit_loc script_loc =
     rbind (case pm_comments meta (loc_file unit_loc) of
              Some comments \<Rightarrow>
                (let source = (case pm_source_map meta (loc_file unit_loc) of Some s \<Rightarrow> s | None \<Rightarrow> [])
                 in rbind (extract_script_doc_comments (vm_line_starts V) script_loc source comments) (\<lambda>docs.
                      apply_meta_comments (vm_core V) docs execution_meta_default))
            | None \<Rightarrow> Inr execution_meta_default) (\<lambda>m.
       if em_signers m = []
       then rbind (sender_account (vm_core V) (sb_sender self)) (\<lambda>a. Inr (m\<lparr>em_signers := [a]\<rparr>))
       else Inr m)"

definition session_unit ::
    "('m, 's, 'v, 'l) move_vm \<Rightarrow> session_builder \<Rightarrow> file_comments parsing_meta \<Rightarrow> (string \<Rightarrow> loc option) \<Rightarrow>
     ('m, 's) lang_unit \<Rightarrow> (loc option \<times> ('m, 's) execution_unit) result" where
  "session_unit V self meta loc_map u =
     (case u of
        LangModule module \<Rightarrow> Inr (None, UnitModule module)
      | LangScript unit_loc script key \<Rightarrow>
          rbind (unwrap (loc_map key)) (\<lambda>script_loc.
          rbind (script_meta V self meta unit_loc script_loc) (\<lambda>m.
            Inr (Some script_loc, UnitScript key script m))))"

definition unit_order :: "loc option \<times> 'x \<Rightarrow> nat" where
  "unit_order x = (case fst x of Some l \<Rightarrow> snd (loc_span l) | None \<Rightarrow> 0)"

definition session_after_translate ::
    "('m, 's, 'v, 'l) move_vm \<Rightarrow> session_builder \<Rightarrow> file_comments parsing_meta \<Rightarrow>
     errors + ('m, 's) lang_unit list \<Rightarrow> (compiler_error + ('m, 's) execution_session) result" where
  "session_after_translate V self meta translation_result =
     (let loc_map = (case sb_loc_map self of Some m \<Rightarrow> m | None \<Rightarrow> Map.empty)
      in case translation_result of
           Inl errors \<Rightarrow>
             rbind (transform (pm_offsets_map meta) errors) (\<lambda>errors.
               Inr (Inl \<lparr>ce_source_map = pm_source_map meta, ce_errors = errors\<rparr>))
         | Inr units \<Rightarrow>
             rbind (mapM (session_unit V self meta loc_map) units) (\<lambda>execution_units.
               Inr (Inr \<lparr>es_units = map snd (sort_key unit_order execution_units),
                         es_consts = sb_consts self\<rparr>)))"

definition session_flow ::
    "('m, 's, 'v, 'l) move_vm \<Rightarrow>
     ('r source_definition, file_comments, 'z checked_program_scheme, ('m, 's) lang_unit,
      compiler_error + ('m, 's) execution_session, session_builder) compile_flow" where
  "session_flow V =
     \<lparr>cf_after_parsing = session_after_parsing (vm_core V), cf_after_check = session_after_check,
      cf_after_translate = session_after_translate V\<rparr>"

interpretation session: late_flow "session_flow V"
    "\<lambda>meta es. Inl \<lparr>ce_source_map = pm_source_map meta, ce_errors = es\<rparr>"
  by unfold_locales
    (auto simp: session_flow_def session_after_parsing_def session_after_check_def session_after_translate_def
      Let_def split: sum.split)

definition session_build ::
    "('m, 's, 'v, 'l) move_vm \<Rightarrow> codecs \<Rightarrow>
     ('r source_definition, file_comments, 'z checked_program_scheme, ('m, 's) lang_unit) move_lang \<Rightarrow>
     dialect \<Rightarrow> provided_account_address \<Rightarrow> move_file list \<Rightarrow> move_file list \<Rightarrow>
     (compiler_error + ('m, 's) execution_session) result" where
  "session_build V C L d sender sources deps =
     compile C L d sources deps (Some sender) (session_flow V) (session_builder_new sender)"

section \<open>Running a session\<close>

definition session_modules :: "('m, 's) execution_session \<Rightarrow> 'm list" where
  "session_modules s = List.map_filter (\<lambda>u. case u of UnitModule m \<Rightarrow> Some m | _ \<Rightarrow> None) (es_units s)"

definition session_scripts :: "('m, 's) execution_session \<Rightarrow> (string \<times> 's \<times> execution_meta) list" where
  "session_scripts s =
     List.map_filter (\<lambda>u. case u of UnitScript name script meta \<Rightarrow> Some (name, script, meta) | _ \<Rightarrow> None)
       (es_units s)"

definition total_gas :: nat where
  "total_gas = 1000000"

definition is_step_error :: "step_execution_result \<Rightarrow> bool" where
  "is_step_error r = (case r of StepError _ \<Rightarrow> True | _ \<Rightarrow> False)"

definition success_write_set_size :: "step_execution_result \<Rightarrow> nat" where
  "success_write_set_size r = (case r of StepSuccess explained \<Rightarrow> ex_write_set_size explained | _ \<Rightarrow> 0)"

primrec execute_loop ::
    "('m, 's, 'v, 'l) move_vm \<Rightarrow> consts_map \<Rightarrow> (string \<times> 's \<times> execution_meta) list \<Rightarrow> fake_remote_cache \<Rightarrow>
     'v list \<Rightarrow> step_result_info list exec" where
  "execute_loop V consts [] data_store script_args = Inr []"
| "execute_loop V consts (x # xs) data_store script_args =
     (case x of (name, script, meta) \<Rightarrow>
        rbind (execute_script V meta data_store script script_args total_gas consts)
          (\<lambda>(step_result, data_store, remaining_gas).
        rbind (trapping (usub total_gas remaining_gas)) (\<lambda>gas_spent.
          let entry = (name, gas_spent, success_write_set_size step_result, step_result)
          in if is_step_error step_result then Inr [entry]
             else rbind (execute_loop V consts xs data_store []) (\<lambda>rest. Inr (entry # rest)))))"

definition execute ::
    "('m, 's, 'v, 'l) move_vm \<Rightarrow> ('m, 's) execution_session \<Rightarrow> 'v list \<Rightarrow> step_result_info list exec" where
  "execute V s script_args =
     rbind (cache_new V (session_modules s)) (\<lambda>data_store.
       execute_loop V (es_consts s) (session_scripts s) data_store script_args)"

section \<open>The executor (executor.rs)\<close>

datatype transaction_argument =
    TaU64 nat | TaAddress account_address | TaBool bool | TaU8Vector "8 word list" | TaOther string

datatype script_arg = ArgU64 nat | ArgAddress account_address | ArgBool bool | ArgU8Vector "8 word list"

definition convert_txn_arg :: "transaction_argument \<Rightarrow> string + script_arg" where
  "convert_txn_arg arg =
     (case arg of
        TaU64 i \<Rightarrow> Inr (ArgU64 i) | TaAddress a \<Rightarrow> Inr (ArgAddress a) | TaBool b \<Rightarrow> Inr (ArgBool b)
      | TaU8Vector v \<Rightarrow> Inr (ArgU8Vector v)
      | TaOther debug \<Rightarrow> Inl (''Unexpected transaction argument: '' @ debug))"

definition parse_script_arguments ::
    "(string \<Rightarrow> string + transaction_argument) \<Rightarrow> string list \<Rightarrow> string + script_arg list" where
  "parse_script_arguments parse_transaction_argument passed_args =
     mapM (\<lambda>arg. rbind (parse_transaction_argument arg) convert_txn_arg) passed_args"

text \<open>\<open>Path::file_name\<close> on Unix.\<close>

definition path_file_name :: "string \<Rightarrow> string option" where
  "path_file_name p =
     (let parts = filter (\<lambda>c. c \<noteq> [] \<and> c \<noteq> ''.'') (split_char (CHR ''/'') p)
      in if parts = [] \<or> last parts = ''..'' then None else Some (last parts))"

definition strip_suffix :: "string \<Rightarrow> string \<Rightarrow> string option" where
  "strip_suffix s suffix =
     (if starts_with (rev suffix) (rev s) then Some (take (length s - length suffix) s) else None)"

definition script_name :: "move_file \<Rightarrow> string + string" where
  "script_name mvf =
     (case Option.bind (path_file_name (mf_name mvf)) (\<lambda>name. strip_suffix name ''.move'') of
        Some name \<Rightarrow> Inr name
      | None \<Rightarrow> Inl (''Failed to extract script name:'' @ mf_name mvf))"

definition executor_execute_script ::
    "('m, 's, script_arg, 'l) move_vm \<Rightarrow> codecs \<Rightarrow>
     ('r source_definition, file_comments, 'z checked_program_scheme, ('m, 's) lang_unit) move_lang \<Rightarrow>
     dialect \<Rightarrow> (string \<Rightarrow> string + transaction_argument) \<Rightarrow> provided_account_address \<Rightarrow> move_file list \<Rightarrow>
     move_file \<Rightarrow> string list \<Rightarrow> step_result_info list exec" where
  "executor_execute_script V C L d parse_transaction_argument sender deps script args =
     rbind (failing (parse_script_arguments parse_transaction_argument args)) (\<lambda>script_args.
     rbind (trapping (session_build V C L d sender (script # deps) [])) (\<lambda>r.
       case r of
         Inl e \<Rightarrow> Inl (NotCompiled e)
       | Inr session \<Rightarrow> execute V session script_args))"

text \<open>The printed text and whether the test failed.\<close>

definition render_test_result ::
    "('m, 's, 'v, 'l) move_vm \<Rightarrow> string \<Rightarrow> step_result_info list exec \<Rightarrow> (string \<times> bool) exec" where
  "render_test_result V test_name r =
     rbind r (\<lambda>exec_result. Inr
       (case pipeline_last exec_result of
          None \<Rightarrow> (test_name @ '' ....... SCRIPT_NOT_FOUND'' @ nl, False)
        | Some (StepError _) \<Rightarrow>
            (test_name @ '' .......'' @ nl @
             concat (map (\<lambda>x. vm_indent V (format_step_result V x True False) ''    '') exec_result) @ nl, True)
        | Some _ \<Rightarrow> (test_name @ '' ....... ok'' @ nl, False)))"

definition render_execution_result ::
    "('m, 's, 'v, 'l) move_vm \<Rightarrow> step_result_info list exec \<Rightarrow> string exec" where
  "render_execution_result V r =
     rbind r (\<lambda>step_results. Inr (concat (map (\<lambda>(i, x).
       (if i > 0 then nl else []) @ format_step_result V x True True)
       (zip [0..<length step_results] step_results))))"

end
