(* ===== verification/Exec_Correct.thy ===== *)
theory Exec_Correct
  imports Exec_Session
begin

text \<open>Properties of the executor.\<close>

section \<open>Committing effects\<close>

definition effect_writes :: "'l effects \<Rightarrow> ((account_address \<times> struct_tag) \<times> ('l \<times> move_val) option) list" where
  "effect_writes e = map (\<lambda>(addr, tag, val). ((addr, tag), val)) (effect_changes e)"

text \<open>The specification of a commit: the last write of a resource decides, a deletion removes it,
  everything else stays.\<close>

definition committed ::
    "('m, 's, 'v, 'l) move_vm \<Rightarrow> 'l effects \<Rightarrow> (account_address \<times> struct_tag \<Rightarrow> 8 word list option) \<Rightarrow>
     account_address \<times> struct_tag \<Rightarrow> 8 word list option" where
  "committed V e r k =
     (case map_of (rev (effect_writes e)) k of
        None \<Rightarrow> r k
      | Some None \<Rightarrow> None
      | Some (Some (layout, val)) \<Rightarrow> vm_simple_serialize V layout val)"

lemma merge_lookup:
  "foldl (\<lambda>r (k, val). case val of Some val \<Rightarrow> r(k \<mapsto> val) | None \<Rightarrow> r(k := None)) r ss k =
     (case map_of (rev ss) k of None \<Rightarrow> r k | Some v \<Rightarrow> v)"
  by (induction ss rule: rev_induct) (auto split: option.splits prod.splits)

lemma serialize_changes:
  assumes "foldM (serialize_change V) cs (acc, n) = Inr (res, n')"
  shows "\<exists>ss. res = acc @ ss \<and>
     list_all2 (\<lambda>(addr, tag, val) (k, bytes). k = (addr, tag) \<and>
        bytes = Option.bind val (\<lambda>(l, v). vm_simple_serialize V l v) \<and> (val \<noteq> None \<longrightarrow> bytes \<noteq> None)) cs ss \<and>
     n' = n + sum_list (map (\<lambda>(_, b). case b of Some x \<Rightarrow> length x | None \<Rightarrow> 0) ss)"
  using assms
proof (induction cs arbitrary: acc n)
  case (Cons c cs)
  obtain addr tag val where c: "c = (addr, tag, val)" by (cases c)
  from Cons.prems obtain acc1 n1 where s: "serialize_change V c (acc, n) = Inr (acc1, n1)"
    "foldM (serialize_change V) cs (acc1, n1) = Inr (res, n')"
    by (auto simp: rbind_eq_Inr_iff)
  from s(1) obtain b where b: "acc1 = acc @ [((addr, tag), b)]"
    "b = Option.bind val (\<lambda>(l, v). vm_simple_serialize V l v)" "val \<noteq> None \<longrightarrow> b \<noteq> None"
    "n1 = n + (case b of Some x \<Rightarrow> length x | None \<Rightarrow> 0)"
    by (auto simp: serialize_change_def c rbind_eq_Inr_iff unwrap_Inr_iff split: option.splits)
  from Cons.IH[OF s(2)] obtain ss where ss: "res = acc1 @ ss"
    "list_all2 (\<lambda>(addr, tag, val) (k, bytes). k = (addr, tag) \<and>
        bytes = Option.bind val (\<lambda>(l, v). vm_simple_serialize V l v) \<and> (val \<noteq> None \<longrightarrow> bytes \<noteq> None)) cs ss"
    "n' = n1 + sum_list (map (\<lambda>(_, b). case b of Some x \<Rightarrow> length x | None \<Rightarrow> 0) ss)" by blast
  with b show ?case by (intro exI[of _ "((addr, tag), b) # ss"]) (simp add: c)
qed simp

lemma map_of_rev_all2:
  assumes "list_all2 (\<lambda>(addr, tag, val) (k, bytes). k = (addr, tag) \<and>
        bytes = Option.bind val (\<lambda>(l, v). vm_simple_serialize V l v) \<and> (val \<noteq> None \<longrightarrow> bytes \<noteq> None)) cs ss"
  shows "map_of (rev ss) k =
     map_option (\<lambda>val. Option.bind val (\<lambda>(l, v). vm_simple_serialize V l v))
       (map_of (rev (map (\<lambda>(addr, tag, val). ((addr, tag), val)) cs)) k)"
  using assms
  by (induction cs ss rule: list_all2_induct) (auto simp: map_add_def split: option.splits)

lemma merge_serialized:
  assumes "serialize_effects V e = Inr (ss, n)"
  shows "fc_resources (merge_effects ss c) k = committed V e (fc_resources c) k"
proof -
  from assms have r: "foldM (serialize_change V) (effect_changes e) ([], 0) = Inr (ss, n)"
    by (simp add: serialize_effects_def)
  from serialize_changes[OF r] map_of_rev_all2[of V "effect_changes e" ss k] show ?thesis
    by (auto simp: merge_effects_def merge_lookup committed_def effect_writes_def split: option.splits)
qed

text \<open>The outcome of a script as the virtual machine sees it: nothing ran, or it ran on the store
  with the resources of the doc comments added.\<close>

lemma finish_run_failed:
  "finish_run V meta st script consts ds (Inl status, g) = Inr (r, st', gas') \<longleftrightarrow>
     failure_result V meta st script consts status = Inr r \<and> st' = st \<and> gas' = g"
  by (auto simp: finish_run_def rbind_eq_Inr_iff)

lemma finish_run_succeeded:
  "finish_run V meta st script consts ds (Inr e, g) = Inr (r, st', gas') \<longleftrightarrow>
     (\<exists>ex ss n. explain_effects V e ds = Inr ex \<and> serialize_effects V e = Inr (ss, n) \<and>
        r = StepSuccess (set_write_set_size n ex) \<and>
        st' = (if em_dry_run meta then st else merge_effects ss st) \<and> gas' = g)"
  unfolding finish_run_def prod.case sum.case rbind_eq_Inr_iff trapping_Inr_iff
  by (cases "em_dry_run meta") (simp_all add: split_paired_Ex conj_assoc ex_simps(1)[symmetric] eq_commute del: ex_simps, blast+)

lemma execute_script_cases:
  assumes "execute_script V meta st script args gas consts = Inr (r, st', gas')"
  obtains (skipped) msg where "r = StepError msg" "st' = st" "gas' = gas" "em_oracle_prices meta \<noteq> []"
  | (ran) ds code where "apply_meta_resources V meta st = Inr ds" "vm_serialize_script V script = Inr code"
      "finish_run V meta st script consts ds (vm_run V ds code args (em_signers meta) gas) = Inr (r, st', gas')"
  using assms unfolding execute_script_def
  by (auto simp: rbind_eq_Inr_iff split: if_splits) 

lemma explain_abort_Inr: "\<exists>m. explain_abort M (MoveAbort loc code) consts = Inr m"
  by (cases loc) (simp_all add: explain_abort_def Let_def)

text \<open>The failure a doc comment announces: the abort code of \<open>aborts_with\<close> or the status of
  \<open>status\<close>.\<close>

definition announced :: "('m, 's, 'v, 'l) move_vm \<Rightarrow> execution_meta \<Rightarrow> vm_status \<Rightarrow> bool" where
  "announced V meta status =
     (case status of
        MoveAbort _ code \<Rightarrow> em_aborts_with meta = Some code
      | ExecutionFailure status_code _ _ _ \<Rightarrow> em_status meta = Some (vm_status_u64 V status_code)
      | _ \<Rightarrow> False)"

lemma failure_result_announced:
  assumes "failure_result V meta st script consts status = Inr r"
  shows "if announced V meta status then \<exists>msg. r = StepExpectedError (''Expected error: '' @ msg)
         else \<exists>msg. r = StepError msg"
proof -
  have eoe: "expected_or_error b m = (if b then StepExpectedError (''Expected error: '' @ m) else StepError m)" for b m
    by (simp add: expected_or_error_def with_expected_error_def with_error_def)
  show ?thesis
  proof (cases status)
    case (StatusError c)
    with assms show ?thesis
      by (cases c) (auto simp: failure_result_def announced_def with_error_def rbind_eq_Inr_iff)
  qed (use assms in \<open>auto simp: failure_result_def announced_def eoe rbind_eq_Inr_iff\<close>)
qed

section \<open>A small machine\<close>

text \<open>For the witnesses: script 0 writes the resource \<open>sample_tag\<close> of \<open>sample_account\<close>, script 1
  aborts with code 5, script 2 deletes the resource.\<close>

definition sample_account :: account_address where
  "sample_account = [7]"

definition sample_tag :: struct_tag where
  "sample_tag = StructTag [1] ''M'' ''R'' []"

definition sample_core :: move_core where
  "sample_core =
     \<lparr>mc_from_hex = (\<lambda>s. if starts_with ''0x'' s then Some [of_nat (length s)] else None),
      mc_is_identifier = (\<lambda>_. True), mc_to_uppercase = id, mc_status_codes = [(''OUT_OF_GAS'', 4002)],
      mc_core_code_address = [1], mc_display = (\<lambda>_. ''00000001''), mc_short_str = (\<lambda>_. ''00000000''),
      mc_lang_display = (\<lambda>_. ''0x1'')\<rparr>"

definition sample_effects :: "(unit \<times> move_val) option \<Rightarrow> unit effects" where
  "sample_effects w =
     \<lparr>ef_modules = [], ef_events = [], ef_resources = [(sample_account, [(sample_tag, w)])]\<rparr>"

definition sample_run ::
    "fake_remote_cache \<Rightarrow> 8 word list \<Rightarrow> script_arg list \<Rightarrow> account_address list \<Rightarrow> nat \<Rightarrow>
     (vm_status + unit effects) \<times> nat" where
  "sample_run ds code args signers gas =
     (if code = [0] then Inr (sample_effects (Some ((), VU64 9)))
      else if code = [1] then Inl (MoveAbort AtScript 5)
      else Inr (sample_effects None), gas - 10)"

definition sample_vm :: "(string, 8 word, script_arg, unit) move_vm" where
  "sample_vm =
     \<lparr>vm_core = sample_core, vm_serialize_module = (\<lambda>_. Inr []), vm_deserialize_module = (\<lambda>_. Inr []),
      vm_self_id = (\<lambda>m. \<lparr>mid_address = [1], mid_name = m\<rparr>), vm_function_name = (\<lambda>_ _. None),
      vm_serialize_script = (\<lambda>s. Inr [s]), vm_script_parameters = (\<lambda>_. [TkU64]),
      vm_simple_serialize = (\<lambda>_ v. case v of VU64 n \<Rightarrow> Some [of_nat n] | _ \<Rightarrow> None),
      vm_lcs_u64 = (\<lambda>_. []), vm_lcs_u128 = (\<lambda>_. []), vm_run = sample_run,
      vm_status_u64 = (\<lambda>_. 0), vm_status_debug = (\<lambda>_. []), vm_status_type = (\<lambda>_. []),
      vm_format_number = show_nat, vm_display_module_id = mid_name, vm_indent = (\<lambda>s p. p @ s),
      vm_line_starts = starts_of\<rparr>"

definition sample_store :: fake_remote_cache where
  "sample_store = \<lparr>fc_modules = Map.empty, fc_resources = [(sample_account, sample_tag) \<mapsto> [3]]\<rparr>"

lemmas sample_defs = sample_vm_def sample_core_def sample_run_def sample_effects_def sample_store_def

lemma sample_meta_resources:
  "\<exists>ds. apply_meta_resources sample_vm (execution_meta_default\<lparr>em_aborts_with := a, em_dry_run := b\<rparr>) st = Inr ds"
  by (simp add: apply_meta_resources_def std_address_def sample_vm_def sample_core_def starts_with_def
      execution_meta_default_def Let_def)

lemma sample_step:
  "execute_script sample_vm (execution_meta_default\<lparr>em_aborts_with := a, em_dry_run := b\<rparr>) st n args gas consts =
     rbind (trapping (apply_meta_resources sample_vm (execution_meta_default\<lparr>em_aborts_with := a, em_dry_run := b\<rparr>) st)) (\<lambda>ds. finish_run sample_vm (execution_meta_default\<lparr>em_aborts_with := a, em_dry_run := b\<rparr>) st n consts ds
         (sample_run ds [n] args [] gas))"
  by (simp add: execute_script_def execution_meta_default_def sample_vm_def trapping_def failing_def map_error_def)

section \<open>Properties\<close>

text \<open>C20: a script changes the store by its committed effects and by nothing else. A failed, an
  expected-to-fail and a dry run leave the store as it was; a success applies the last write of
  every resource. The balances, prices, times and blocks of the doc comments, which the script
  saw, are never part of the store, and published modules never change.\<close>

theorem execute_script_commits:
  assumes "execute_script V meta st script args gas consts = Inr (r, st', gas')"
  shows "fc_modules st' = fc_modules st \<and>
     (if (\<exists>explained. r = StepSuccess explained) \<and> \<not> em_dry_run meta
      then \<exists>ds code e. apply_meta_resources V meta st = Inr ds \<and> vm_serialize_script V script = Inr code \<and>
             vm_run V ds code args (em_signers meta) gas = (Inr e, gas') \<and>
             fc_resources st' = committed V e (fc_resources st)
      else st' = st)"
  using assms
proof (cases rule: execute_script_cases)
  case (ran ds code)
  obtain outcome g where run: "vm_run V ds code args (em_signers meta) gas = (outcome, g)" by fastforce
  show ?thesis
  proof (cases outcome)
    case (Inl status)
    with ran run have f: "failure_result V meta st script consts status = Inr r" "st' = st"
      by (simp_all add: finish_run_failed)
    from failure_result_announced[OF f(1)] f(2) show ?thesis by (auto split: if_splits)
  next
    case (Inr e)
    with ran run obtain ex ss n where s: "serialize_effects V e = Inr (ss, n)"
      "r = StepSuccess (set_write_set_size n ex)"
      "st' = (if em_dry_run meta then st else merge_effects ss st)" "gas' = g"
      by (auto simp: finish_run_succeeded)
    have "fc_resources (merge_effects ss st) = committed V e (fc_resources st)"
      using merge_serialized[OF s(1), of st] by blast
    moreover have "fc_modules (merge_effects ss st) = fc_modules st" by (simp add: merge_effects_def)
    ultimately show ?thesis using ran(1,2) run Inr s(2-4) by simp
  qed
qed auto

theorem execute_script_commits_witness:
  "\<exists>r st' gas. execute_script sample_vm execution_meta_default sample_store 2 [] 1000 Map.empty = Inr (r, st', gas) \<and>
     fc_resources st' (sample_account, sample_tag) = None"
proof -
  obtain ds where ds: "apply_meta_resources sample_vm execution_meta_default sample_store = Inr ds"
    using sample_meta_resources[of False None sample_store] by (auto simp: execution_meta_default_def)
  obtain r st' gas where e:
    "execute_script sample_vm execution_meta_default sample_store 2 [] 1000 Map.empty = Inr (StepSuccess r, st', gas)"
    using sample_step[of False None sample_store 2 "[]" 1000 Map.empty] ds
    by (simp add: execution_meta_default_def finish_run_def sample_defs trapping_def explain_effects_def
        serialize_effects_def effect_changes_def serialize_change_def)
  from execute_script_commits[OF e] obtain ds' code e' g where
    "vm_run sample_vm ds' code [] [] 1000 = (Inr e', g)" "vm_serialize_script sample_vm 2 = Inr code"
    "fc_resources st' = committed sample_vm e' (fc_resources sample_store)"
    by (auto simp: execution_meta_default_def)
  then have "fc_resources st' (sample_account, sample_tag) = None"
    by (auto simp: sample_defs committed_def effect_writes_def effect_changes_def)
  with e show ?thesis by blast
qed



text \<open>Step \<open>i\<close> of a session, between two of its stores.\<close>

definition chain_step ::
    "('m, 's, 'v, 'l) move_vm \<Rightarrow> consts_map \<Rightarrow> 'v list \<Rightarrow> (string \<times> 's \<times> execution_meta) list \<Rightarrow>
     step_result_info list \<Rightarrow> fake_remote_cache list \<Rightarrow> nat \<Rightarrow> bool" where
  "chain_step V consts args scripts results stores i \<longleftrightarrow>
     (\<exists>name script meta gas size r gas_left.
        scripts ! i = (name, script, meta) \<and> results ! i = (name, gas, size, r) \<and>
        execute_script V meta (stores ! i) script (if i = 0 then args else []) total_gas consts =
          Inr (r, stores ! Suc i, gas_left) \<and>
        gas + gas_left = total_gas \<and>
        (is_step_error r \<longrightarrow> Suc i = length results) \<and>
        (Suc i = length results \<longrightarrow> is_step_error r \<or> length results = length scripts))"

lemma chain_step_Suc:
  "chain_step V consts [] xs rs stores j \<Longrightarrow> chain_step V consts args (x # xs) (e # rs) (st # stores) (Suc j)"
  by (auto simp: chain_step_def)

lemma execute_loop_cases:
  assumes "execute_loop V consts ((name, script, meta) # xs) st args = Inr results"
  obtains (stop) r st' gas_left where
      "execute_script V meta st script args total_gas consts = Inr (r, st', gas_left)" "gas_left \<le> total_gas"
      "is_step_error r" "results = [(name, total_gas - gas_left, success_write_set_size r, r)]"
    | (further) r st' gas_left rest where
      "execute_script V meta st script args total_gas consts = Inr (r, st', gas_left)" "gas_left \<le> total_gas"
      "\<not> is_step_error r" "execute_loop V consts xs st' [] = Inr rest"
      "results = (name, total_gas - gas_left, success_write_set_size r, r) # rest"
proof -
  from assms obtain r st' gas_left where
    e: "execute_script V meta st script args total_gas consts = Inr (r, st', gas_left)" "gas_left \<le> total_gas" and
    tail: "(if is_step_error r then Inr [(name, total_gas - gas_left, success_write_set_size r, r)]
      else rbind (execute_loop V consts xs st' [])
             (\<lambda>rest. Inr ((name, total_gas - gas_left, success_write_set_size r, r) # rest))) = Inr results"
    by (auto simp: rbind_eq_Inr_iff usub_Inr_iff Let_def)
  show ?thesis
  proof (cases "is_step_error r")
    case True
    with tail e stop show ?thesis by simp
  next
    case False
    with tail e further show ?thesis by (auto simp: rbind_eq_Inr_iff)
  qed
qed

lemma execute_loop_nonempty:
  assumes "execute_loop V consts scripts st args = Inr []"
  shows "scripts = []"
proof (cases scripts)
  case (Cons x xs)
  obtain name script meta where x: "x = (name, script, meta)" by (cases x)
  from assms[unfolded Cons x] show ?thesis by (cases rule: execute_loop_cases) simp_all
qed

lemma execute_loop_chain:
  assumes "execute_loop V consts scripts st args = Inr results"
  shows "\<exists>stores. length stores = Suc (length results) \<and> stores ! 0 = st \<and> length results \<le> length scripts \<and>
     (\<forall>i<length results. chain_step V consts args scripts results stores i)"
  using assms
proof (induction scripts arbitrary: st args results)
  case Nil
  then show ?case by (intro exI[of _ "[st]"]) simp
next
  case (Cons x xs)
  obtain name script meta where x: "x = (name, script, meta)" by (cases x)
  from Cons.prems[unfolded x] show ?case
  proof (cases rule: execute_loop_cases)
    case (stop r st' gas_left)
    then show ?thesis by (intro exI[of _ "[st, st']"]) (simp add: x chain_step_def)
  next
    case (further r st' gas_left rest)
    from Cons.IH[OF further(4)] obtain stores where s: "length stores = Suc (length rest)" "stores ! 0 = st'"
      "length rest \<le> length xs" "\<forall>i<length rest. chain_step V consts [] xs rest stores i" by blast
    have "chain_step V consts args (x # xs) results (st # stores) 0"
      using further s(2) execute_loop_nonempty[of V "consts" xs st' "[]"] by (auto simp: chain_step_def x)
    moreover have "chain_step V consts args (x # xs) results (st # stores) (Suc j)" if "j < length rest" for j
      using s(4) that chain_step_Suc unfolding further(5) by blast
    ultimately have "\<forall>i<length results. chain_step V consts args (x # xs) results (st # stores) i"
      using further(5) by (auto simp: less_Suc_eq_0_disj)
    with s further(5) show ?thesis by (intro exI[of _ "st # stores"]) simp
  qed
qed

text \<open>C21: a session runs its scripts in order, each on the store its predecessors left; the
  arguments go to the first script alone, every script has the full gas allowance, and the
  run ends behind the first error or behind the last script.\<close>

theorem execute_chain:
  assumes "execute_loop V consts scripts st args = Inr results"
  shows "\<exists>stores. length stores = Suc (length results) \<and> stores ! 0 = st \<and>
     length results \<le> length scripts \<and>
     (\<forall>i<length results. \<exists>name script meta gas size r gas_left.
        scripts ! i = (name, script, meta) \<and> results ! i = (name, gas, size, r) \<and>
        execute_script V meta (stores ! i) script (if i = 0 then args else []) total_gas consts =
          Inr (r, stores ! Suc i, gas_left) \<and>
        gas + gas_left = total_gas \<and>
        (is_step_error r \<longrightarrow> Suc i = length results) \<and>
        (Suc i = length results \<longrightarrow> is_step_error r \<or> length results = length scripts))"
  using execute_loop_chain[OF assms] unfolding chain_step_def .

theorem execute_chain_witness:
  "\<exists>results stores r. execute_loop sample_vm Map.empty
       [(''a'', 0, execution_meta_default), (''b'', 1, execution_meta_default), (''c'', 0, execution_meta_default)]
       sample_store [] = Inr results \<and> length results = 2 \<and> length stores = 3 \<and>
     execute_script sample_vm execution_meta_default (stores ! 1) 1 [] total_gas Map.empty =
       Inr (r, stores ! 2, total_gas - 10) \<and> is_step_error r"
proof -
  let ?scripts = "[(''a'', 0, execution_meta_default), (''b'', 1, execution_meta_default), (''c'', 0, execution_meta_default)]
    :: (string \<times> 8 word \<times> execution_meta) list"
  have dflt: "execution_meta_default\<lparr>em_aborts_with := None, em_dry_run := False\<rparr> = execution_meta_default"
    by (simp add: execution_meta_default_def)
  have ds: "\<exists>ds. apply_meta_resources sample_vm execution_meta_default st = Inr ds" for st
    using sample_meta_resources[of False None st] by (simp add: dflt)
  have s0: "\<exists>r st'. execute_script sample_vm execution_meta_default st 0 args total_gas Map.empty =
      Inr (StepSuccess r, st', total_gas - 10)" for st args
    using sample_step[of False None st 0 args total_gas Map.empty] ds[of st]
    by (auto simp: dflt finish_run_def sample_defs trapping_def explain_effects_def
        serialize_effects_def effect_changes_def serialize_change_def)
  have s1: "\<exists>r. execute_script sample_vm execution_meta_default st 1 args total_gas Map.empty =
      Inr (StepError r, st, total_gas - 10)" for st args
    using sample_step[of False None st 1 args total_gas Map.empty] ds[of st]
    by (auto simp: dflt finish_run_def sample_defs trapping_def failure_result_def explain_abort_def
        expected_or_error_def with_error_def execution_meta_default_def)
  obtain r st' where a: "execute_script sample_vm execution_meta_default sample_store 0 [] total_gas Map.empty =
      Inr (StepSuccess r, st', total_gas - 10)" using s0 by blast
  obtain r1 where b: "execute_script sample_vm execution_meta_default st' 1 [] total_gas Map.empty =
      Inr (StepError r1, st', total_gas - 10)" using s1 by blast
  obtain results where res: "execute_loop sample_vm Map.empty ?scripts sample_store [] = Inr results"
    "length results = 2"
    using a b by (simp add: trapping_def is_step_error_def)
  from execute_chain[OF res(1)] res(2) obtain stores where
    "length stores = 3" and each: "\<forall>i<2. \<exists>name script meta gas size r gas_left.
        ?scripts ! i = (name, script, meta) \<and> results ! i = (name, gas, size, r) \<and>
        execute_script sample_vm meta (stores ! i) script (if i = 0 then [] else []) total_gas Map.empty =
          Inr (r, stores ! Suc i, gas_left) \<and>
        gas + gas_left = total_gas \<and> (is_step_error r \<longrightarrow> Suc i = 2) \<and>
        (Suc i = 2 \<longrightarrow> is_step_error r \<or> 2 = length ?scripts)"
    by (auto simp: eval_nat_numeral)
  moreover from each[rule_format, of 1] s1[of "stores ! 1" "[]"] obtain r where
    "execute_script sample_vm execution_meta_default (stores ! 1) 1 [] total_gas Map.empty =
       Inr (r, stores ! 2, total_gas - 10)" "is_step_error r"
    by (auto simp: numeral_2_eq_2)
  ultimately show ?thesis using res by blast
qed

end
