(* ===== verification/Exec_Build.thy ===== *)
theory Exec_Build
  imports Exec_Correct
begin

text \<open>
  Properties of building a session: which doc comments belong to a script, the order of the
  units, the names of abort codes, the explanation of type errors, and the errors that the checker, the
  builder and the session builder report of a rejected project.
\<close>

section \<open>Doc comments\<close>

text \<open>The lines that carry a comment right above line \<open>n\<close>, in the order of the file.\<close>

primrec doc_block :: "(nat \<Rightarrow> string option) \<Rightarrow> nat \<Rightarrow> string list" where
  "doc_block c 0 = []"
| "doc_block c (Suc n) = (case c n of None \<Rightarrow> [] | Some t \<Rightarrow> doc_block c n @ [trim t])"

definition comment_on :: "('x \<Rightarrow> nat) \<Rightarrow> ('x \<times> string) list \<Rightarrow> nat \<Rightarrow> string option" where
  "comment_on line xs n = map_option snd (find (\<lambda>x. line (fst x) = n) xs)"

lemma doc_block_cong: "(\<And>i. i < n \<Longrightarrow> c i = c' i) \<Longrightarrow> doc_block c n = doc_block c' n"
  by (induction n) (auto split: option.splits)

lemma find_None_iff': "find P xs = None \<longleftrightarrow> (\<forall>x\<in>set xs. \<not> P x)"
  by (induction xs) auto

lemma doc_comments_loop_block:
  assumes "\<forall>x\<in>set xs. line_at f (fst (fst x)) = Inr (line (fst x))"
    and "sorted_wrt (\<lambda>x y. line (fst y) \<le> line (fst x)) xs"
  shows "doc_comments_loop f xs cand acc = Inr (acc @ rev (doc_block (comment_on line xs) (Suc cand)))"
  using assms
proof (induction xs arbitrary: cand acc)
  case Nil
  then show ?case by (simp add: comment_on_def)
next
  case (Cons x xs)
  then have l: "line_at f (fst (fst x)) = Inr (line (fst x))"
    and IH: "\<And>cand acc. doc_comments_loop f xs cand acc =
      Inr (acc @ rev (doc_block (comment_on line xs) (Suc cand)))" by simp_all
  have same: "comment_on line (x # xs) i = comment_on line xs i" if "line (fst x) \<noteq> i" for i
    using that by (simp add: comment_on_def)
  consider (hit) "line (fst x) = cand" | (above) "cand < line (fst x)" | (below) "line (fst x) < cand" by linarith
  then show ?case
  proof cases
    case hit
    have "comment_on line (x # xs) cand = Some (snd x)" using hit by (simp add: comment_on_def)
    moreover have "doc_block (comment_on line (x # xs)) cand = doc_block (comment_on line xs) cand"
      using hit by (intro doc_block_cong same) simp
    ultimately show ?thesis
      using hit IH[of "cand - 1" "acc @ [trim (snd x)]"] by (cases cand) (simp_all add: l)
  next
    case above
    then have "doc_block (comment_on line (x # xs)) (Suc cand) = doc_block (comment_on line xs) (Suc cand)"
      by (intro doc_block_cong same) simp
    with above IH show ?thesis by (simp add: l)
  next
    case below
    then have "comment_on line (x # xs) cand = None" "comment_on line xs cand = None"
      using Cons.prems(2) by (fastforce simp: comment_on_def find_None_iff')+
    with below IH show ?thesis by (simp add: l)
  qed
qed

lemma lines_before_mono: "a \<le> b \<Longrightarrow> lines_before s a \<le> lines_before s b"
proof -
  assume "a \<le> b"
  then have "take b s = take a s @ take (b - a) (drop a s)" by (metis le_add_diff_inverse take_add)
  then show ?thesis by (simp add: lines_before_def)
qed

lemma line_at_value:
  assumes "text_ok s" "is_char_boundary s b"
  shows "line_at (file_new starts_of s) b = Inr (lines_before s b)"
  using assms by (simp add: line_at_def position_value)

section \<open>Error constants\<close>

text \<open>The error constants of a program in the order of its definitions.\<close>

definition error_entries ::
    "move_core \<Rightarrow> 'r source_definition program \<Rightarrow> ((string \<times> string \<times> nat) \<times> string) list" where
  "error_entries M prog =
     concat (map (\<lambda>d. case d of
         AddressDefinition addr modules \<Rightarrow>
           concat (map (\<lambda>m. List.map_filter (\<lambda>c.
             if starts_with ''ERR_'' (ca_name c)
             then map_option (\<lambda>v. ((mc_lang_display M addr, mo_name m, v), ca_name c)) (extract_integer_constant_value c)
             else None) (constants_of m)) modules)
       | OtherDefinition _ \<Rightarrow> [])
       (pg_source_definitions prog @ pg_lib_definitions prog))"

lemma map_filter_Cons:
  "List.map_filter f (x # xs) = (case f x of Some y \<Rightarrow> y # List.map_filter f xs | None \<Rightarrow> List.map_filter f xs)"
  by (simp add: List.map_filter_simps)

lemma insert_error_constants:
  "foldl (insert_error_constant a n) km cs k =
     (case map_of (rev (List.map_filter (\<lambda>c.
             if starts_with ''ERR_'' (ca_name c)
             then map_option (\<lambda>v. ((a, n, v), ca_name c)) (extract_integer_constant_value c)
             else None) cs)) k of Some name \<Rightarrow> Some name | None \<Rightarrow> km k)"
proof (induction cs arbitrary: km)
  case Nil
  then show ?case by (simp add: List.map_filter_simps)
next
  case (Cons c cs)
  show ?case
    unfolding foldl_Cons Cons.IH map_filter_Cons
    by (auto simp: insert_error_constant_def map_add_def split: option.splits if_splits)
qed

lemma map_of_rev_append:
  "map_of (rev (xs @ ys)) k = (case map_of (rev ys) k of Some v \<Rightarrow> Some v | None \<Rightarrow> map_of (rev xs) k)"
  by (auto simp: map_add_def split: option.splits)

lemma extract_constants_from_modules:
  "foldl (extract_constants_from_module M a) km ms k =
     (case map_of (rev (concat (map (\<lambda>m. List.map_filter (\<lambda>c.
             if starts_with ''ERR_'' (ca_name c)
             then map_option (\<lambda>v. ((mc_lang_display M a, mo_name m, v), ca_name c)) (extract_integer_constant_value c)
             else None) (constants_of m)) ms))) k of Some name \<Rightarrow> Some name | None \<Rightarrow> km k)"
proof (induction ms arbitrary: km)
  case (Cons m ms)
  show ?case
    unfolding foldl_Cons Cons.IH list.map concat.simps map_of_rev_append
    by (auto simp: extract_constants_from_module_def insert_error_constants split: option.splits)
qed simp

lemma extract_definitions:
  "foldl (\<lambda>km d. case d of
              AddressDefinition addr modules \<Rightarrow> foldl (extract_constants_from_module M addr) km modules
            | OtherDefinition _ \<Rightarrow> km) km ds k =
     (case map_of (rev (concat (map (\<lambda>d. case d of
         AddressDefinition addr modules \<Rightarrow>
           concat (map (\<lambda>m. List.map_filter (\<lambda>c.
             if starts_with ''ERR_'' (ca_name c)
             then map_option (\<lambda>v. ((mc_lang_display M addr, mo_name m, v), ca_name c)) (extract_integer_constant_value c)
             else None) (constants_of m)) modules)
       | OtherDefinition _ \<Rightarrow> []) ds))) k of Some name \<Rightarrow> Some name | None \<Rightarrow> km k)"
proof (induction ds arbitrary: km)
  case (Cons d ds)
  show ?case
    unfolding foldl_Cons Cons.IH list.map concat.simps map_of_rev_append
    by (cases d) (auto simp: extract_constants_from_modules split: option.splits)
qed simp

lemma trapping_Inr: "trapping (Inr x) = Inr x"
  by simp

section \<open>Units\<close>

lemma mapM_list_all2: "mapM f xs = Inr ys \<Longrightarrow> list_all2 (\<lambda>x y. f x = Inr y) xs ys"
  by (induction xs arbitrary: ys) (auto simp: rbind_eq_Inr_iff)

lemma mapM_filter_fst:
  assumes "list_all2 (\<lambda>u y. session_unit V self meta lm u = Inr y) us ys"
  shows "List.map_filter (\<lambda>u. case u of UnitModule m \<Rightarrow> Some m | _ \<Rightarrow> None)
      (map snd (filter (\<lambda>y. fst y = None) ys)) =
    List.map_filter (\<lambda>u. case u of LangModule m \<Rightarrow> Some m | _ \<Rightarrow> None) us"
  using assms
  by (induction rule: list_all2_induct)
    (auto simp: session_unit_def rbind_eq_Inr_iff map_filter_Cons List.map_filter_simps split: lang_unit.splits)

section \<open>Properties\<close>

text \<open>C24: the metadata of a script are the doc comments on the consecutive lines right above it, in
  the order of the file, each trimmed: the block ends at the first line without a comment, and
  comments elsewhere in the file never reach the script.\<close>

theorem doc_comments_block:
  assumes "text_ok s" "\<forall>x\<in>set comments. is_char_boundary s (fst (fst x))"
    and "is_char_boundary s (fst (loc_span l))" "sorted (map (\<lambda>x. fst (fst x)) comments)"
  shows "extract_script_doc_comments starts_of l s comments =
     Inr (doc_block (comment_on (\<lambda>span. lines_before s (fst span)) (rev comments))
            (lines_before s (fst (loc_span l))))"
proof -
  let ?f = "file_new starts_of s" and ?line = "\<lambda>span. lines_before s (fst span)"
  have lines: "\<forall>x\<in>set (rev comments). line_at ?f (fst (fst x)) = Inr (?line (fst x))"
    using assms(2) line_at_value[OF assms(1)] by simp
  have "sorted_wrt (\<lambda>x y. ?line (fst y) \<le> ?line (fst x)) (rev comments)"
    unfolding sorted_wrt_rev
    by (rule sorted_wrt_mono_rel[OF _ assms(4)[unfolded sorted_map]]) (rule lines_before_mono)
  from doc_comments_loop_block[OF lines this] show ?thesis
    using line_at_value[OF assms(1,3)]
    by (cases "lines_before s (fst (loc_span l))") (simp_all add: extract_script_doc_comments_def Let_def)
qed

definition doc_sample :: string where
  "doc_sample = ''/// block: 3'' @ [lf] @ ''fun'' @ [lf] @ ''/// dry_run: true'' @ [lf] @ ''script {}''"

theorem doc_comments_block_witness:
  "extract_script_doc_comments starts_of \<lparr>loc_file = ''a'', loc_span = (35, 44)\<rparr> doc_sample
     [((3, 12), '' block: 3''), ((20, 34), '' dry_run: true'')] = Inr [''dry_run: true'']"
proof -
  let ?l = "\<lparr>loc_file = ''a'', loc_span = (35, 44)\<rparr>" and
    ?cs = "[((3, 12), '' block: 3''), ((20, 34), '' dry_run: true'')] :: file_comments"
  have ascii: "\<forall>c\<in>set doc_sample. char_width c = 1" by (simp add: doc_sample_def char_width_def lf_def)
  have len: "length doc_sample = 44" by (simp add: doc_sample_def)
  have b: "is_char_boundary doc_sample i" if "i \<le> 44" for i
    using that ascii by (simp add: is_char_boundary_def len)
  have ok: "text_ok doc_sample" using b by (auto simp: text_ok_def len)
  have e: "extract_script_doc_comments starts_of ?l doc_sample ?cs =
     Inr (doc_block (comment_on (\<lambda>span. lines_before doc_sample (fst span)) (rev ?cs))
            (lines_before doc_sample (fst (loc_span ?l))))"
    by (rule doc_comments_block[OF ok]) (auto intro!: b)
  have "lines_before doc_sample 35 = 3" "lines_before doc_sample 20 = 2" "lines_before doc_sample 3 = 0"
    by (simp_all add: lines_before_def doc_sample_def lf_def)
  moreover have "trim '' dry_run: true'' = ''dry_run: true''" by code_simp
  ultimately show ?thesis unfolding e by (simp add: comment_on_def eval_nat_numeral)
qed

text \<open>C25: an abort in a module is explained with the name of the last \<open>ERR_\<close> constant of that
  module with the code as its value, over the sources and then the dependencies, and with the
  bare code when there is none.\<close>

theorem abort_names_constant:
  "explain_abort M (MoveAbort (AtModule mid) code) (extract_error_constants M prog Map.empty) =
     Inr (''Execution aborted with code '' @
       (case map_of (rev (error_entries M prog)) (mc_lang_display M (mid_address mid), mid_name mid, code) of
          Some name \<Rightarrow> show_nat code @ '': '' @ name
        | None \<Rightarrow> show_nat code) @
       '' in module '' @ short_address M (mid_address mid) @ ''::'' @ mid_name mid @ ''.'')"
  unfolding explain_abort_def extract_error_constants_def extract_definitions error_entries_def[symmetric]
  by (auto simp: Let_def split: option.splits)

text \<open>A session publishes the compiled modules in the order of the compiler and runs the
  scripts in the order of their end in the source: the units are the compiled units, the
  modules first.\<close>

theorem session_order:
  assumes "session_after_translate V self meta (Inr us) = Inr (Inr s)"
  shows "session_modules s = List.map_filter (\<lambda>u. case u of LangModule m \<Rightarrow> Some m | _ \<Rightarrow> None) us \<and>
     (\<exists>ys. mapM (session_unit V self meta (case sb_loc_map self of Some m \<Rightarrow> m | None \<Rightarrow> Map.empty)) us = Inr ys \<and>
        es_units s = map snd (sort_key unit_order ys) \<and>
        sorted (map unit_order (sort_key unit_order ys)) \<and>
        (\<forall>y\<in>set ys. (fst y = None) = (\<exists>m. snd y = UnitModule m)))"
proof -
  let ?lm = "case sb_loc_map self of Some m \<Rightarrow> m | None \<Rightarrow> Map.empty"
  from assms obtain ys where ys: "mapM (session_unit V self meta ?lm) us = Inr ys"
    "es_units s = map snd (sort_key unit_order ys)"
    by (auto simp: session_after_translate_def rbind_eq_Inr_iff Let_def)
  note all2 = mapM_list_all2[OF ys(1)]
  have kind: "(fst y = None) = (\<exists>m. snd y = UnitModule m)" if "y \<in> set ys" for y
  proof -
    from all2 that obtain u where "session_unit V self meta ?lm u = Inr y"
      by (auto simp: list_all2_conv_all_nth in_set_conv_nth)
    then show ?thesis by (cases u) (auto simp: session_unit_def rbind_eq_Inr_iff)
  qed
  have mods: "List.map_filter (\<lambda>u. case u of UnitModule m \<Rightarrow> Some m | _ \<Rightarrow> None) (map snd zs) =
      List.map_filter (\<lambda>u. case u of UnitModule m \<Rightarrow> Some m | _ \<Rightarrow> None) (map snd (filter (\<lambda>y. fst y = None) zs))"
    if "set zs \<subseteq> set ys" for zs
    using that kind
    by (induction zs) (auto simp: map_filter_Cons split: execution_unit.splits option.splits)
  have "filter (\<lambda>y. fst y = None) (sort_key unit_order ys) =
      filter (\<lambda>y. fst y = None) (filter (\<lambda>y. unit_order y = 0) (sort_key unit_order ys))"
    by (auto simp: unit_order_def intro: filter_cong)
  also have "\<dots> = filter (\<lambda>y. fst y = None) (filter (\<lambda>y. unit_order y = 0) ys)"
    by (simp only: sort_key_stable)
  also have "\<dots> = filter (\<lambda>y. fst y = None) ys" by (auto simp: unit_order_def intro: filter_cong)
  finally have "session_modules s = List.map_filter (\<lambda>u. case u of UnitModule m \<Rightarrow> Some m | _ \<Rightarrow> None)
      (map snd (filter (\<lambda>y. fst y = None) ys))"
    using mods[of "sort_key unit_order ys"] by (simp add: session_modules_def ys(2))
  with mapM_filter_fst[OF all2] ys kind show ?thesis by (auto simp: sorted_sort_key)
qed

definition order_units :: "(string, 8 word) lang_unit list" where
  "order_units = [LangScript \<lparr>loc_file = ''a'', loc_span = (9, 30)\<rparr> 1 ''second'',
     LangModule ''M'', LangScript \<lparr>loc_file = ''a'', loc_span = (0, 8)\<rparr> 0 ''first'']"

definition order_builder :: session_builder where
  "order_builder = \<lparr>sb_sender = provided_new ''0x1'' ''0x1'' ''0x1'',
     sb_loc_map = Some [''second'' \<mapsto> \<lparr>loc_file = ''a'', loc_span = (9, 30)\<rparr>, ''first'' \<mapsto> \<lparr>loc_file = ''a'', loc_span = (0, 8)\<rparr>],
     sb_consts = Map.empty\<rparr>"

definition order_meta :: "file_comments parsing_meta" where
  "order_meta = \<lparr>pm_source_map = Map.empty, pm_offsets_map = Map.empty, pm_comments = Map.empty\<rparr>"

theorem session_order_witness:
  "\<exists>s. session_after_translate sample_vm order_builder order_meta (Inr order_units) = Inr (Inr s) \<and>
     session_modules s = [''M''] \<and> map fst (session_scripts s) = [''first'', ''second'']"
proof -
  let ?m = "execution_meta_default\<lparr>em_signers := [[3]]\<rparr>"
  have meta: "script_meta sample_vm order_builder order_meta l l' = Inr ?m" for l l'
    by (simp add: script_meta_def order_meta_def order_builder_def execution_meta_default_def
        sender_account_def provided_new_def sample_vm_def sample_core_def starts_with_def)
  have units: "mapM (session_unit sample_vm order_builder order_meta
        (case sb_loc_map order_builder of Some m \<Rightarrow> m | None \<Rightarrow> Map.empty)) order_units =
      Inr [(Some \<lparr>loc_file = ''a'', loc_span = (9, 30)\<rparr>, UnitScript ''second'' 1 ?m), (None, UnitModule ''M''),
           (Some \<lparr>loc_file = ''a'', loc_span = (0, 8)\<rparr>, UnitScript ''first'' 0 ?m)]"
  proof -
    have "sb_loc_map order_builder = Some [''second'' \<mapsto> \<lparr>loc_file = ''a'', loc_span = (9, 30)\<rparr>,
        ''first'' \<mapsto> \<lparr>loc_file = ''a'', loc_span = (0, 8)\<rparr>]" by (simp add: order_builder_def)
    then show ?thesis by (simp add: order_units_def session_unit_def meta)
  qed
  define s :: "(string, 8 word) execution_session" where "s = \<lparr>es_units = [UnitModule ''M'', UnitScript ''first'' 0 ?m, UnitScript ''second'' 1 ?m],
      es_consts = sb_consts order_builder\<rparr>"
  have s: "session_after_translate sample_vm order_builder order_meta (Inr order_units) = Inr (Inr s)"
    unfolding session_after_translate_def Let_def sum.case units rbind_Inr
    by (simp add: unit_order_def s_def)
  have scripts: "map fst (session_scripts s) = [''first'', ''second'']"
    by (simp add: s_def session_scripts_def)
  have "session_modules s = List.map_filter (\<lambda>u. case u of LangModule m \<Rightarrow> Some m | _ \<Rightarrow> None) order_units"
    by (rule conjunct1[OF session_order[OF s]])
  also have "\<dots> = [''M'']" by (simp add: order_units_def)
  finally have "session_modules s = [''M'']" .
  with s scripts show ?thesis by (intro exI[of _ s] conjI)
qed

text \<open>A type error of a script whose signers match but that takes arguments is always blamed
  on missing arguments, whatever arguments were passed: the count of the arguments given is
  the literal empty list.\<close>

definition signer_params :: "signature_token list \<Rightarrow> signature_token list" where
  "signer_params ts = filter (\<lambda>t. t = TkReference TkSigner) ts"

theorem type_error_blames_arguments:
  assumes "length (signer_params (vm_script_parameters V script)) = length (em_signers meta)"
    and "length (vm_script_parameters V script) = length (em_signers meta) + Suc k"
  shows "finish_run V meta st script km ds (Inl (StatusError TYPE_MISMATCH), gas) =
     Inr (StepError (''Execution failed with incorrect number of arguments: script expected '' @
            show_nat (Suc k) @ '', but found '' @ show_nat 0), st, gas)"
proof -
  have "filter (\<lambda>t. case t of TkReference r \<Rightarrow> (case r of TkSigner \<Rightarrow> True | _ \<Rightarrow> False) | _ \<Rightarrow> False) ts = signer_params ts" for ts
    unfolding signer_params_def by (rule filter_cong) (auto split: signature_token.splits)
  then have "explain_type_error V script (em_signers meta) ([] :: unit list) =
      Inr (''Execution failed with incorrect number of arguments: script expected '' @
            show_nat (Suc k) @ '', but found '' @ show_nat 0)"
    using assms unfolding explain_type_error_def Let_def by (simp only: usub_def) simp
  then show ?thesis
    unfolding finish_run_def failure_result_def prod.case sum.case vm_status.case status_code.case
    by (simp only: trapping_Inr rbind_Inr with_error_def)
qed

theorem type_error_blames_arguments_witness:
  "finish_run sample_vm (execution_meta_default\<lparr>em_signers := []\<rparr>) sample_store 0 Map.empty sample_store
     (Inl (StatusError TYPE_MISMATCH), 7) =
     Inr (StepError (''Execution failed with incorrect number of arguments: script expected '' @
            show_nat 1 @ '', but found '' @ show_nat 0), sample_store, 7)"
  using type_error_blames_arguments[of sample_vm 0 "execution_meta_default\<lparr>em_signers := []\<rparr>" 0
      sample_store Map.empty sample_store 7]
  by (simp add: sample_vm_def signer_params_def)

text \<open>C26: the drivers agree on a rejected project. When the parser or the type checker rejects
  it, the errors all have a place in the files as they were before their addresses were rewritten, and
  the checker, the builder and the session builder all report exactly these.\<close>

theorem drivers_report_rejection:
  assumes "parser_located L" "checker_located L (mf_name ` set (targets @ deps))" "passes_errors L"
    and "sender_ok C (Some sender)"
    and "parse_program L d targets deps (Some sender) = Inr artifact"
    and "ml_check_program L (pa_result artifact) (sender_address C (Some sender)) = Inl es"
  shows "\<exists>es'. transform (pm_offsets_map (pa_meta artifact)) es = Inr es' \<and>
     check C L d (Some sender) targets deps = Inr (Inl es') \<and>
     build C L d (Some sender) targets deps =
       Inr \<lparr>ar_files = pm_source_map (pa_meta artifact), ar_prog = Inl es'\<rparr> \<and>
     session_build V C L d sender targets deps =
       Inr (Inl \<lparr>ce_source_map = pm_source_map (pa_meta artifact), ce_errors = es'\<rparr>)"
proof -
  note ok = assms(4)
  have "located (dom (pm_offsets_map (pa_meta artifact))) es"
    by (rule rejection_located[OF assms(1-3,5,6)])
  then obtain es' where es': "transform (pm_offsets_map (pa_meta artifact)) es = Inr es'"
    using transform_total by blast
  have "check C L d (Some sender) targets deps = Inr (Inl es')"
    by (rule check_rejection[OF assms(3,5) ok assms(6) es'])
  with es' builder.check_errors[OF assms(5) ok assms(6)] session.check_errors[OF assms(5) ok assms(6)]
  show ?thesis by (simp add: build_def session_build_def)
qed

text \<open>A compiler that parses every file and accepts none.\<close>

definition strict_compiler ::
    "(unit source_definition, file_comments, checked_program, (string, 8 word) lang_unit) move_lang" where
  "strict_compiler =
     \<lparr>ml_strip_comments = (\<lambda>f b. Inr (b, [])), ml_no_comments = [],
      ml_parse_file_string = (\<lambda>f b. Inr [OtherDefinition ()]),
      ml_check_program = (\<lambda>r a. rbind r (\<lambda>pg. Inl [[(\<lparr>loc_file = ''a.move'', loc_span = (0, 1)\<rparr>, ''unbound'')]])),
      ml_to_bytecode = (\<lambda>_. Inr [])\<rparr>"

theorem drivers_report_rejection_witness:
  "\<exists>files es. check sample_codecs strict_compiler (dfinance_dialect sample_codecs) sample_sender sample_targets [] =
       Inr (Inl es) \<and>
     session_build sample_vm sample_codecs strict_compiler (dfinance_dialect sample_codecs) (the sample_sender)
       sample_targets [] = Inr (Inl \<lparr>ce_source_map = files, ce_errors = es\<rparr>)"
proof -
  let ?s = "provided_new sender_sample sender_sample sender_sample" and ?d = "dfinance_dialect sample_codecs"
  have use: "sender_usable sample_codecs (Some ?s)" using sample_usable by (simp add: sample_sender_def)
  obtain a where a: "parse_program strict_compiler ?d sample_targets [] (Some ?s) = Inr a"
    using dfinance.parse_returns[OF use] by blast
  obtain pg where "pa_result a = Inr pg"
    using parse_program_located[OF _ a] parse_program_fields[OF a]
    by (auto simp: strict_compiler_def parse_one_alt parsed_text_def rbind_eq_Inr_iff sample_targets_def mapM_append)
  then have "ml_check_program strict_compiler (pa_result a) x = Inl [[(\<lparr>loc_file = ''a.move'', loc_span = (0, 1)\<rparr>, ''unbound'')]]" for x
    by (simp add: strict_compiler_def)
  from drivers_report_rejection[OF _ _ _ sender_usable_ok[OF use] a this, of sample_vm] show ?thesis
    by (auto simp: parser_located_def checker_located_def passes_errors_def located_def strict_compiler_def
        sample_targets_def sample_sender_def with_content_def)
qed

end
