(* ===== verification/Exec_Directives.thy ===== *)
theory Exec_Directives
  imports Exec_Correct
begin

text \<open>
  The syntax of the doc comments that configure a script, and that \<open>apply_meta_comment\<close> reads
  back what is written: \<open>render_directive\<close> prints a directive the way the README shows it,
  \<open>directive_effect\<close> is what it asks for.
\<close>

section \<open>Directives\<close>

datatype directive =
    DSigners "string list" | DBalance string string nat | DPrice string string nat
  | DTime nat | DBlock nat | DAborts nat | DStatus string | DDryRun bool

primrec render_directive :: "directive \<Rightarrow> string" where
  "render_directive (DSigners addrs) = ''signers: '' @ intercalate '', '' addrs"
| "render_directive (DBalance addr coin n) = ''balance: '' @ addr @ '' '' @ coin @ '' '' @ show_nat n"
| "render_directive (DPrice l r n) = ''price: '' @ l @ ''_'' @ r @ '' '' @ show_nat n"
| "render_directive (DTime n) = ''current_time: '' @ show_nat n"
| "render_directive (DBlock n) = ''block: '' @ show_nat n"
| "render_directive (DAborts n) = ''aborts_with: '' @ show_nat n"
| "render_directive (DStatus s) = ''status: '' @ s"
| "render_directive (DDryRun b) = ''dry_run: '' @ show_bool b"

primrec directive_effect :: "move_core \<Rightarrow> directive \<Rightarrow> execution_meta \<Rightarrow> execution_meta result" where
  "directive_effect M (DSigners addrs) m =
     rbind (mapM (\<lambda>a. unwrap (mc_from_hex M a)) addrs) (\<lambda>s. Inr (m\<lparr>em_signers := s\<rparr>))"
| "directive_effect M (DBalance addr coin n) m =
     rbind (unwrap (mc_from_hex M addr)) (\<lambda>a.
       Inr (m\<lparr>em_accounts_balance := em_accounts_balance m @ [(a, coin, n)]\<rparr>))"
| "directive_effect M (DPrice l r n) m =
     rbind (oracle_metadata M l r) (\<lambda>tag. Inr (m\<lparr>em_oracle_prices := em_oracle_prices m @ [(tag, n)]\<rparr>))"
| "directive_effect M (DTime n) m = Inr (m\<lparr>em_current_time := Some n\<rparr>)"
| "directive_effect M (DBlock n) m = Inr (m\<lparr>em_block := Some n\<rparr>)"
| "directive_effect M (DAborts n) m = Inr (m\<lparr>em_aborts_with := Some n\<rparr>)"
| "directive_effect M (DStatus s) m = Inr (m\<lparr>em_status := status_codes M s\<rparr>)"
| "directive_effect M (DDryRun b) m = Inr (m\<lparr>em_dry_run := b\<rparr>)"

text \<open>A word of printable ASCII.\<close>

definition plain_char :: "char \<Rightarrow> bool" where
  "plain_char c = (33 \<le> (of_char c :: nat) \<and> (of_char c :: nat) \<le> 126)"

definition plain :: "string \<Rightarrow> bool" where
  "plain s = (s \<noteq> [] \<and> list_all plain_char s)"

primrec directive_ok :: "directive \<Rightarrow> bool" where
  "directive_ok (DSigners addrs) = (addrs \<noteq> [] \<and> list_all (\<lambda>a. plain a \<and> CHR '','' \<notin> set a) addrs)"
| "directive_ok (DBalance addr coin n) = (plain addr \<and> plain coin \<and> n < 2 ^ 128)"
| "directive_ok (DPrice l r n) = (plain l \<and> plain r \<and> CHR ''_'' \<notin> set l \<and> n < 2 ^ 128)"
| "directive_ok (DTime n) = (n < 2 ^ 64)"
| "directive_ok (DBlock n) = (n < 2 ^ 64)"
| "directive_ok (DAborts n) = (n < 2 ^ 64)"
| "directive_ok (DStatus s) = plain s"
| "directive_ok (DDryRun b) = True"

section \<open>Trimming\<close>

lemma white_space_ends: "w \<in> set white_spaces \<Longrightarrow> w \<noteq> [] \<and> \<not> plain_char (hd w) \<and> \<not> plain_char (last w)"
  by (auto simp: white_spaces_def byte_string_def plain_char_def of_char_of)

lemma char_blank: "char_of (32::nat) = CHR '' ''"
  by code_simp

lemma white_space_blank:
  assumes "w \<in> set white_spaces" "hd w = CHR '' ''"
  shows "w = '' ''"
proof -
  have "\<forall>w\<in>set white_spaces. of_char (hd w) = (32::nat) \<longrightarrow> w = '' ''"
    by (simp add: white_spaces_def byte_string_def of_char_of char_blank)
  with assms show ?thesis by simp
qed

lemma starts_with_hd: "w \<noteq> [] \<Longrightarrow> starts_with w s \<Longrightarrow> s \<noteq> [] \<and> hd s = hd w"
  by (cases w; cases s) (auto simp: starts_with_def)

text \<open>A text whose first and last characters are printable is its own trim.\<close>

definition edged :: "string \<Rightarrow> bool" where
  "edged s = (s \<noteq> [] \<and> plain_char (hd s) \<and> plain_char (last s))"

lemma strip_nothing: "(\<And>w. w \<in> set ws \<Longrightarrow> w \<noteq> [] \<Longrightarrow> \<not> starts_with w s) \<Longrightarrow> strip_prefixes ws s = s"
  by (subst strip_prefixes.simps) (auto simp: find_None_iff split: option.split dest: find_Some_iff[THEN iffD1])

lemma strip_edged:
  assumes "edged s"
  shows "strip_prefixes white_spaces s = s" "strip_prefixes (map rev white_spaces) (rev s) = rev s"
proof -
  show "strip_prefixes white_spaces s = s"
    using assms white_space_ends starts_with_hd by (intro strip_nothing) (fastforce simp: edged_def)
  show "strip_prefixes (map rev white_spaces) (rev s) = rev s"
  proof (rule strip_nothing)
    fix w assume "w \<in> set (map rev white_spaces)" "w \<noteq> []"
    then obtain v where v: "v \<in> set white_spaces" "w = rev v" by auto
    then have "\<not> plain_char (hd w)" using white_space_ends[OF v(1)] by (simp add: hd_rev)
    moreover have "plain_char (hd (rev s))" using assms by (simp add: edged_def hd_rev)
    ultimately show "\<not> starts_with w (rev s)" using starts_with_hd[OF \<open>w \<noteq> []\<close>] by auto
  qed
qed

lemma trim_edged [simp]: "edged s \<Longrightarrow> trim s = s"
  by (simp add: trim_def strip_edged)

lemma trim_blank [simp]: "trim (CHR '' '' # s) = trim s"
proof -
  have only: "w = '' ''" if "w \<in> set white_spaces" "starts_with w (CHR '' '' # s)" for w
    using white_space_blank[OF that(1)] starts_with_hd[OF _ that(2)] white_space_ends[OF that(1)] by auto
  have mem: "'' '' \<in> set white_spaces"
    by (simp add: white_spaces_def byte_string_def char_blank)
  have "find (\<lambda>w. w \<noteq> [] \<and> starts_with w (CHR '' '' # s)) white_spaces = Some '' ''"
  proof (cases "find (\<lambda>w. w \<noteq> [] \<and> starts_with w (CHR '' '' # s)) white_spaces")
    case None
    with mem show ?thesis by (auto simp: find_None_iff starts_with_def)
  next
    case (Some w)
    then have "w \<in> set white_spaces" "starts_with w (CHR '' '' # s)" by (auto simp: find_Some_iff)
    with only Some show ?thesis by simp
  qed
  then have "strip_prefixes white_spaces (CHR '' '' # s) = strip_prefixes white_spaces s"
    by (subst strip_prefixes.simps) simp
  then show ?thesis by (simp add: trim_def)
qed

lemma plain_edged [simp]: "plain s \<Longrightarrow> edged s"
  by (cases s) (auto simp: plain_def edged_def list_all_iff)

lemma edged_append [simp]: "edged a \<Longrightarrow> edged b \<Longrightarrow> edged (a @ x @ b)"
  by (auto simp: edged_def hd_append)

lemma plain_no_blank: "plain s \<Longrightarrow> CHR '' '' \<notin> set s"
  by (auto simp: plain_def list_all_iff plain_char_def)

lemma show_nat_plain [simp]: "plain (show_nat n)"
  by (auto simp: plain_def list_all_iff plain_char_def dest!: show_nat_digits) (auto simp: is_digit_char_def)

section \<open>Splitting and numbers\<close>

lemma find_char: "c \<notin> set a \<Longrightarrow> find_str [c] (a @ c # b) = Some (length a)"
proof (induction a)
  case (Cons x a)
  then show ?case by (subst find_str.simps) (auto simp: starts_with_def)
qed (subst find_str.simps, simp add: starts_with_def)

lemma split_around_char: "c \<notin> set a \<Longrightarrow> split_around (a @ c # b) [c] = Inr (trim a, trim b)"
  by (simp add: split_around_def find_char)

lemma parse_show_nat [simp]: "n < 2 ^ bits \<Longrightarrow> parse_unsigned bits (show_nat n) = Some n"
proof -
  assume n: "n < 2 ^ bits"
  have "list_all is_digit_char (show_nat n)" using show_nat_digits by (auto simp: list_all_iff)
  moreover obtain c cs where s: "show_nat n = c # cs" by (cases "show_nat n") auto
  moreover have "c \<noteq> CHR ''+''" using show_nat_digits[of c n] s by (auto simp: is_digit_char_def)
  moreover have "read_nat (c # cs) = n" using read_show_nat[of n] s by simp
  ultimately show ?thesis using n by (simp add: parse_unsigned_def)
qed

lemma split_char_nonempty [simp]: "split_char c s \<noteq> []"
  by (cases s) (auto split: list.split)

lemma split_char_none: "c \<notin> set a \<Longrightarrow> split_char c a = [a]"
  by (induction a) auto

lemma split_char_append: "c \<notin> set a \<Longrightarrow> split_char c (a @ c # b) = a # split_char c b"
  by (induction a) auto

lemma split_addresses:
  assumes "as \<noteq> []" "list_all (\<lambda>a. plain a \<and> CHR '','' \<notin> set a) as"
  shows "map trim (split_char (CHR '','') (intercalate '', '' as)) = as"
  using assms
proof (induction as)
  case (Cons a as)
  show ?case
  proof (cases as)
    case Nil
    with Cons.prems show ?thesis by (simp add: split_char_none)
  next
    case (Cons b bs)
    obtain h t where ht: "split_char (CHR '','') (intercalate '', '' as) = h # t"
      using split_char_nonempty by (cases "split_char (CHR '','') (intercalate '', '' as)") auto
    have "split_char (CHR '','') (intercalate '', '' (a # as)) = a # (CHR '' '' # h) # t"
    proof -
      have i: "intercalate '', '' (a # as) = a @ CHR '','' # CHR '' '' # intercalate '', '' as" using Cons by simp
      have "CHR '','' \<notin> set a" using Cons.prems by simp
      from split_char_append[OF this] show ?thesis unfolding i by (simp add: ht)
    qed
    moreover have "map trim (h # t) = as" using Cons.IH Cons Cons.prems ht by simp
    ultimately show ?thesis using Cons.prems by simp
  qed
qed simp

lemma edged_intercalate:
  "as \<noteq> [] \<Longrightarrow> list_all (\<lambda>a. plain a \<and> CHR '','' \<notin> set a) as \<Longrightarrow> edged (intercalate '', '' as)"
proof (induction as)
  case (Cons a as)
  show ?case
  proof (cases "as = []")
    case False
    with Cons have "edged a" "edged (intercalate '', '' as)" by simp_all
    from edged_append[OF this, of "'', ''"] False show ?thesis by simp
  qed (use Cons.prems in simp)
qed simp

section \<open>Properties\<close>

lemma comment_split:
  assumes "CHR '':'' \<notin> set key" "edged key" "edged val"
  shows "apply_meta_comment M (key @ CHR '':'' # CHR '' '' # val) m = apply_key M key val m"
  using assms split_around_char[of "CHR '':''" key "CHR '' '' # val"] by (simp add: apply_meta_comment_def)

lemma edged_keys:
  "edged ''signers''" "edged ''balance''" "edged ''price''" "edged ''current_time''" "edged ''block''"
  "edged ''aborts_with''" "edged ''status''" "edged ''dry_run''" "edged ''true''" "edged ''false''"
  by (simp_all add: edged_def plain_char_def)

lemma words_split: "plain a \<Longrightarrow> edged b \<Longrightarrow> split_around (a @ CHR '' '' # b) '' '' = Inr (a, b)"
  using split_around_char[OF plain_no_blank, of a b] by simp

lemma balance_roundtrip:
  assumes "directive_ok (DBalance addr coin n)"
  shows "apply_meta_comment M (render_directive (DBalance addr coin n)) m = directive_effect M (DBalance addr coin n) m"
proof -
  have e: "edged (addr @ CHR '' '' # (coin @ CHR '' '' # show_nat n))" "edged (coin @ CHR '' '' # show_nat n)"
    using assms edged_append[of coin "show_nat n" "'' ''"]
      edged_append[of addr "show_nat n" "CHR '' '' # coin @ '' ''"] by simp_all
  show ?thesis
    using assms comment_split[of "''balance''", OF _ edged_keys(2) e(1)] words_split[of addr] words_split[of coin] e
    by (simp add: apply_key_def apply_balance_def)
qed

lemma price_roundtrip:
  assumes "directive_ok (DPrice l r n)"
  shows "apply_meta_comment M (render_directive (DPrice l r n)) m = directive_effect M (DPrice l r n) m"
proof -
  have t: "plain (l @ CHR ''_'' # r)" "edged ((l @ CHR ''_'' # r) @ CHR '' '' # show_nat n)"
    using assms edged_append[OF plain_edged plain_edged[OF show_nat_plain], of "l @ CHR ''_'' # r" "'' ''" n]
    by (simp_all add: plain_def plain_char_def)
  have u: "split_around (l @ CHR ''_'' # r) ''_'' = Inr (l, r)"
    using assms split_around_char[of "CHR ''_''" l r] by simp
  have b: "CHR '' '' \<in> set ((l @ CHR ''_'' # r) @ CHR '' '' # show_nat n)" by simp
  have "apply_price M ((l @ CHR ''_'' # r) @ CHR '' '' # show_nat n) m = directive_effect M (DPrice l r n) m"
    unfolding apply_price_def words_split[OF t(1) plain_edged[OF show_nat_plain]] using b u assms
    by (simp add: rbind_def split: sum.split)
  then show ?thesis using comment_split[of "''price''", OF _ edged_keys(3) t(2)] by (simp add: apply_key_def)
qed

text \<open>C23: every directive, written as the comment the executor documents, has exactly the effect
  it names: signers, balance, price, time, block, abort code, status and dry run survive the
  printing and the parsing with all their fields. (A rejected address or ticker is a fault on
  both sides.)\<close>

theorem directive_roundtrip:
  assumes "directive_ok d"
  shows "apply_meta_comment M (render_directive d) m = directive_effect M d m"
proof (cases d)
  case (DSigners addrs)
  then have "edged (intercalate '', '' addrs)" using assms edged_intercalate by simp
  then show ?thesis using DSigners assms comment_split[of "''signers''"] edged_keys
    by (simp add: apply_key_def split_signers_def split_addresses)
next
  case (DTime n)
  then show ?thesis using assms comment_split[of "''current_time''" "show_nat n"] edged_keys by (simp add: apply_key_def)
next
  case (DBlock n)
  then show ?thesis using assms comment_split[of "''block''" "show_nat n"] edged_keys by (simp add: apply_key_def)
next
  case (DAborts n)
  then show ?thesis using assms comment_split[of "''aborts_with''" "show_nat n"] edged_keys by (simp add: apply_key_def)
next
  case (DStatus s)
  then show ?thesis using assms comment_split[of "''status''" s] edged_keys by (simp add: apply_key_def)
next
  case (DDryRun b)
  then show ?thesis using comment_split[of "''dry_run''" "show_bool b"] edged_keys
    by (simp add: apply_key_def show_bool_def parse_bool_def)
qed (use assms balance_roundtrip price_roundtrip in simp_all)

theorem directive_roundtrip_witness:
  "apply_meta_comment sample_core (render_directive (DBalance ''0x12'' ''xfi'' 100)) execution_meta_default =
     Inr (execution_meta_default\<lparr>em_accounts_balance := [([4], ''xfi'', 100)]\<rparr>)"
  by (subst directive_roundtrip)
    (simp_all add: plain_def plain_char_def sample_core_def starts_with_def execution_meta_default_def)

end
