(* ===== verification/Ls_State.thy ===== *)
theory Ls_State
  imports Lang_Flow Lang_Location
begin

text \<open>
  The state of the language server (\<open>language_server/src\<close>): \<open>inner/config.rs\<close>, \<open>inner/db.rs\<close>,
  \<open>inner/change.rs\<close>, \<open>inner/analysis.rs\<close>, \<open>subscriptions.rs\<close> and \<open>global_state.rs\<close>.

  Paths are their text. \<open>ls_world\<close> holds what lies outside: the codecs and the compiler, the file
  system, the settings of the client (a JSON pointer read at a type), the conversion of paths to
  URLs, and the order in which a hash map or a hash set is enumerated. Log messages are left out.
\<close>

section \<open>Configuration (config.rs)\<close>

record ('j, 'd, 'k, 'c, 'u) ls_world =
  w_codecs :: codecs
  w_lang :: "('d, 'k, 'c, 'u) move_lang"
  w_fs :: fs
  w_get_dialect :: "'j \<Rightarrow> string \<Rightarrow> dialect_name option"
  w_get_path :: "'j \<Rightarrow> string \<Rightarrow> string option"
  w_get_paths :: "'j \<Rightarrow> string \<Rightarrow> string list option"
  w_get_str :: "'j \<Rightarrow> string \<Rightarrow> string option"
  w_map_order :: "(string \<Rightarrow> string option) \<Rightarrow> (string \<times> string) list"
  w_set_order :: "string set \<Rightarrow> string list"
  w_url_of_path :: "string \<Rightarrow> string option"
  w_line_starts :: "string \<Rightarrow> nat list"

record config =
  cg_dialect_name :: dialect_name
  cg_stdlib_folder :: "string option"
  cg_modules_folders :: "string list"
  cg_sender_address :: provided_account_address

definition config_default :: "codecs \<Rightarrow> config result" where
  "config_default C =
     (case di_normalize (get_dialect C Libra) ''0x1'' of
        Inr a \<Rightarrow> Inr \<lparr>cg_dialect_name = Libra, cg_stdlib_folder = None, cg_modules_folders = [],
                     cg_sender_address = a\<rparr>
      | Inl _ \<Rightarrow> Inl (Panicked ''called Result::unwrap on an Err value''))"

definition config_dialect :: "codecs \<Rightarrow> config \<Rightarrow> dialect" where
  "config_dialect C c = get_dialect C (cg_dialect_name c)"

definition config_update ::
    "('j, 'd, 'k, 'c, 'u) ls_world \<Rightarrow> 'j \<Rightarrow> config \<Rightarrow> config" where
  "config_update W val c =
     (let c = (case w_get_dialect W val ''/dialect'' of
                 Some d \<Rightarrow> c\<lparr>cg_dialect_name := d\<rparr> | None \<Rightarrow> c);
          c = c\<lparr>cg_stdlib_folder :=
                 (case w_get_path W val ''/stdlib_folder'' of
                    None \<Rightarrow> None
                  | Some folder \<Rightarrow> (if \<not> fs_exists (w_fs W) folder then None else Some folder))\<rparr>;
          c = c\<lparr>cg_modules_folders :=
                 (case w_get_paths W val ''/modules_folders'' of
                    None \<Rightarrow> []
                  | Some folders \<Rightarrow> filter (fs_exists (w_fs W)) folders)\<rparr>
      in c\<lparr>cg_sender_address :=
             (case w_get_str W val ''/sender_address'' of
                None \<Rightarrow> provided_default
              | Some address \<Rightarrow>
                  (case di_normalize (config_dialect (w_codecs W) c) address of
                     Inr provided_address \<Rightarrow> provided_address
                   | Inl _ \<Rightarrow> provided_default))\<rparr>)"

section \<open>Changes (change.rs)\<close>

datatype root_change = RAddFile string string | RChangeFile string string | RRemoveFile string

record analysis_change =
  ac_tracked_files_changed :: "root_change list"
  ac_config_changed :: "config option"

definition change_new :: analysis_change where
  "change_new = \<lparr>ac_tracked_files_changed = [], ac_config_changed = None\<rparr>"

definition change_add_file :: "string \<Rightarrow> string \<Rightarrow> analysis_change \<Rightarrow> analysis_change" where
  "change_add_file fname content c =
     c\<lparr>ac_tracked_files_changed := ac_tracked_files_changed c @ [RAddFile fname content]\<rparr>"

definition change_update_file :: "string \<Rightarrow> string \<Rightarrow> analysis_change \<Rightarrow> analysis_change" where
  "change_update_file fname content c =
     c\<lparr>ac_tracked_files_changed := ac_tracked_files_changed c @ [RChangeFile fname content]\<rparr>"

definition change_remove_file :: "string \<Rightarrow> analysis_change \<Rightarrow> analysis_change" where
  "change_remove_file fname c =
     c\<lparr>ac_tracked_files_changed := ac_tracked_files_changed c @ [RRemoveFile fname]\<rparr>"

definition change_config :: "config \<Rightarrow> analysis_change \<Rightarrow> analysis_change" where
  "change_config cfg c = c\<lparr>ac_config_changed := Some cfg\<rparr>"

section \<open>Database (db.rs)\<close>

record root_database =
  db_config :: config
  db_available_files :: "string \<Rightarrow> string option"

definition db_new :: "config \<Rightarrow> root_database" where
  "db_new c = \<lparr>db_config = c, db_available_files = Map.empty\<rparr>"

definition is_fpath_for_a_module :: "root_database \<Rightarrow> string \<Rightarrow> bool" where
  "is_fpath_for_a_module db fpath = list_ex (\<lambda>folder. starts_with folder fpath) (cg_modules_folders (db_config db))"

definition module_files :: "root_database \<Rightarrow> string \<Rightarrow> string option" where
  "module_files db = (\<lambda>f. if is_fpath_for_a_module db f then db_available_files db f else None)"

definition apply_root_change :: "(string \<Rightarrow> string option) \<Rightarrow> root_change \<Rightarrow> (string \<Rightarrow> string option)" where
  "apply_root_change files c =
     (case c of
        RAddFile path content \<Rightarrow> files(path \<mapsto> content)
      | RChangeFile path content \<Rightarrow> files(path \<mapsto> content)
      | RRemoveFile path \<Rightarrow> files(path := None))"

definition db_apply_change :: "analysis_change \<Rightarrow> root_database \<Rightarrow> root_database" where
  "db_apply_change change db =
     (let db = (case ac_config_changed change of Some c \<Rightarrow> db\<lparr>db_config := c\<rparr> | None \<Rightarrow> db)
      in db\<lparr>db_available_files :=
              foldl apply_root_change (db_available_files db) (ac_tracked_files_changed change)\<rparr>)"

type_synonym lsp_position = "nat \<times> nat"

record lsp_range =
  rg_start :: lsp_position
  rg_end :: lsp_position

record related_info =
  ri_uri :: string
  ri_range :: lsp_range
  ri_message :: string

record diagnostic =
  dg_range :: lsp_range
  dg_message :: string
  dg_related :: "related_info list option"

record file_diagnostic =
  fd_fpath :: string
  fd_diagnostic :: "diagnostic option"

definition file_diagnostic_new :: "string \<Rightarrow> diagnostic \<Rightarrow> file_diagnostic" where
  "file_diagnostic_new fpath d = \<lparr>fd_fpath = fpath, fd_diagnostic = Some d\<rparr>"

definition file_diagnostic_new_empty :: "string \<Rightarrow> file_diagnostic" where
  "file_diagnostic_new_empty fpath = \<lparr>fd_fpath = fpath, fd_diagnostic = None\<rparr>"

text \<open>An \<open>anyhow::Result\<close> inside a computation that may panic: \<open>Inr (Inl e)\<close> is the error \<open>e\<close>.\<close>

type_synonym 'a fallible = "(string + 'a) result"

definition tbind :: "'a fallible \<Rightarrow> ('a \<Rightarrow> 'b fallible) \<Rightarrow> 'b fallible" where
  "tbind m f = rbind m (\<lambda>r. case r of Inl e \<Rightarrow> Inr (Inl e) | Inr x \<Rightarrow> f x)"

definition located_position :: "source_file \<Rightarrow> nat \<Rightarrow> lsp_position fallible" where
  "located_position f i =
     rbind (position f i) (\<lambda>r. Inr (case r of Inr p \<Rightarrow> Inr p | Inl _ \<Rightarrow> Inl ''location error''))"

definition loc_to_range :: "('j, 'd, 'k, 'c, 'u) ls_world \<Rightarrow> root_database \<Rightarrow> loc \<Rightarrow> lsp_range fallible" where
  "loc_to_range W db l =
     (case db_available_files db (loc_file l) of
        None \<Rightarrow> Inr (Inl (''File '' @ loc_file l @ '' is not present in the available files''))
      | Some content \<Rightarrow>
          (let f = file_new (w_line_starts W) content
           in tbind (located_position f (fst (loc_span l))) (\<lambda>start_pos.
              tbind (located_position f (snd (loc_span l))) (\<lambda>end_pos.
                Inr (Inr \<lparr>rg_start = start_pos, rg_end = end_pos\<rparr>)))))"

primrec related_infos ::
    "('j, 'd, 'k, 'c, 'u) ls_world \<Rightarrow> root_database \<Rightarrow> error \<Rightarrow> related_info list fallible" where
  "related_infos W db [] = Inr (Inr [])"
| "related_infos W db (x # xs) =
     tbind (loc_to_range W db (fst x)) (\<lambda>range.
       case w_url_of_path W (loc_file (fst x)) of
         None \<Rightarrow> Inl (Panicked (''Cannot build Url from path '' @ loc_file (fst x)))
       | Some file_uri \<Rightarrow>
           tbind (related_infos W db xs) (\<lambda>rest.
             Inr (Inr (\<lparr>ri_uri = file_uri, ri_range = range, ri_message = snd x\<rparr> # rest))))"

definition make_diagnostic ::
    "('j, 'd, 'k, 'c, 'u) ls_world \<Rightarrow> root_database \<Rightarrow> error \<Rightarrow> file_diagnostic fallible" where
  "make_diagnostic W db err =
     (case err of
        [] \<Rightarrow> Inl (Panicked ''No parts in CompilerError'')
      | (l, msg) # related \<Rightarrow>
          tbind (loc_to_range W db l) (\<lambda>range.
          tbind (if related = [] then Inr (Inr None)
                 else tbind (related_infos W db related) (\<lambda>infos. Inr (Inr (Some infos)))) (\<lambda>infos.
            Inr (Inr (file_diagnostic_new (loc_file l)
              \<lparr>dg_range = range, dg_message = msg, dg_related = infos\<rparr>)))))"

section \<open>Analysis (analysis.rs)\<close>

definition read_stdlib_files :: "('j, 'd, 'k, 'c, 'u) ls_world \<Rightarrow> root_database \<Rightarrow> move_file list" where
  "read_stdlib_files W db =
     (case cg_stdlib_folder (db_config db) of
        None \<Rightarrow> []
      | Some folder \<Rightarrow> (case load_move_files (w_fs W) [folder] of Inr files \<Rightarrow> files | Inl _ \<Rightarrow> []))"

definition check_deps :: "('j, 'd, 'k, 'c, 'u) ls_world \<Rightarrow> root_database \<Rightarrow> move_file \<Rightarrow> move_file list" where
  "check_deps W db current_file =
     filter (\<lambda>f. mf_name f \<noteq> mf_name current_file)
       (read_stdlib_files W db @
        map (\<lambda>(name, content). with_content name content) (w_map_order W (module_files db)))"

definition check_file_inner ::
    "('j, 'd, 'k, 'c, 'u) ls_world \<Rightarrow> root_database \<Rightarrow> move_file \<Rightarrow> (file_diagnostic list + unit) result" where
  "check_file_inner W db current_file =
     rbind (check (w_codecs W) (w_lang W) (config_dialect (w_codecs W) (db_config db))
              (Some (cg_sender_address (db_config db))) [current_file] (check_deps W db current_file)) (\<lambda>r.
       case r of
         Inr _ \<Rightarrow> Inr (Inr ())
       | Inl errors \<Rightarrow>
           rbind (mapM (\<lambda>err. rbind (make_diagnostic W db err) (\<lambda>d.
                    case d of Inr d \<Rightarrow> Inr d
                    | Inl e \<Rightarrow> Inl (Panicked (''While converting into Diagnostic, error occurred: '' @ e)))) errors)
             (\<lambda>ds. Inr (Inl ds)))"

definition check_file ::
    "('j, 'd, 'k, 'c, 'u) ls_world \<Rightarrow> root_database \<Rightarrow> move_file \<Rightarrow> file_diagnostic option result" where
  "check_file W db f =
     rbind (check_file_inner W db f) (\<lambda>r.
       case r of Inr _ \<Rightarrow> Inr None
       | Inl ds \<Rightarrow> (case ds of d # _ \<Rightarrow> Inr (Some d) | [] \<Rightarrow> Inl IndexOutOfBounds))"

section \<open>Opened files and global state (subscriptions.rs, global\_state.rs)\<close>

type_synonym opened_files = "string set"

definition opened_add :: "string \<Rightarrow> opened_files \<Rightarrow> opened_files" where
  "opened_add fpath s = insert fpath s"

definition opened_remove :: "string \<Rightarrow> opened_files \<Rightarrow> opened_files" where
  "opened_remove fpath s = s - {fpath}"

datatype file_system_event = AddFile move_file | RemoveFile string | ChangeFile move_file

record global_state =
  gs_db :: root_database

definition event_change :: "analysis_change \<Rightarrow> file_system_event \<Rightarrow> analysis_change" where
  "event_change change e =
     (case e of
        AddFile f \<Rightarrow> change_add_file (mf_name f) (mf_content f) change
      | ChangeFile f \<Rightarrow> change_update_file (mf_name f) (mf_content f) change
      | RemoveFile fpath \<Rightarrow> change_remove_file fpath change)"

definition gs_apply_change :: "analysis_change \<Rightarrow> global_state \<Rightarrow> global_state" where
  "gs_apply_change change g = g\<lparr>gs_db := db_apply_change change (gs_db g)\<rparr>"

definition update_from_events :: "file_system_event list \<Rightarrow> global_state \<Rightarrow> global_state" where
  "update_from_events fs_events g = gs_apply_change (foldl event_change change_new fs_events) g"

definition global_state_new :: "config \<Rightarrow> file_system_event list \<Rightarrow> global_state" where
  "global_state_new c initial_fs_events = update_from_events initial_fs_events \<lparr>gs_db = db_new c\<rparr>"

record global_state_snapshot =
  sn_config :: config
  sn_analysis :: root_database

definition snapshot :: "global_state \<Rightarrow> global_state_snapshot" where
  "snapshot g = \<lparr>sn_config = db_config (gs_db g), sn_analysis = gs_db g\<rparr>"

definition load_unwrap :: "string + move_file list \<Rightarrow> move_file list result" where
  "load_unwrap r = (case r of Inr x \<Rightarrow> Inr x | Inl e \<Rightarrow> Inl (Panicked e))"

definition initialize_new_global_state ::
    "('j, 'd, 'k, 'c, 'u) ls_world \<Rightarrow> config \<Rightarrow> global_state result" where
  "initialize_new_global_state W c =
     rbind (case cg_stdlib_folder c of
              Some folder \<Rightarrow> load_unwrap (load_move_files (w_fs W) [folder])
            | None \<Rightarrow> Inr []) (\<lambda>stdlib.
     rbind (load_unwrap (load_move_files (w_fs W) (cg_modules_folders c))) (\<lambda>modules.
       Inr (global_state_new c (map AddFile stdlib @ map AddFile modules))))"

end
