(* ===== verification/Ls_Loop.thy ===== *)
theory Ls_Loop
  imports Ls_State
begin

text \<open>
  The event loop of the language server: \<open>main_loop.rs\<close>, the request dispatcher of
  \<open>dispatcher.rs\<close> and the start of the server (\<open>server.rs\<close>).

  A turn returns what it sends: events to its own file system queue, messages to the client, a
  job for the worker. \<open>server_step\<close> is the whole server: the loop picks any ready channel, the
  one worker thread runs its jobs in order. An error that leaves \<open>loop_turn\<close> ends the server.
\<close>

section \<open>Messages\<close>

text \<open>\<open>'p\<close>: request parameters, \<open>'j\<close>: JSON values. The notifications are the ones
  \<open>on_notification\<close> casts to, with their parameters.\<close>

type_synonym request_id = int

datatype notification =
    DidOpenTextDocument string string
  | DidChangeTextDocument string "string list"
  | DidCloseTextDocument string
  | DidChangeConfiguration
  | DidChangeWatchedFiles "string list"
  | OtherNotification string

record 'p request =
  rq_id :: request_id
  rq_method :: string
  rq_params :: 'p

text \<open>The result of a configuration response: its first item, when it has one.\<close>

record 'j response =
  rs_id :: request_id
  rs_error :: "string option"
  rs_result :: "'j list option"

datatype ('p, 'j) client_message =
    MsgRequest "'p request" | MsgNotification notification | MsgResponse "'j response"

datatype reply = ReplyOk string | ReplyErr int string

datatype server_message =
    SendResponse request_id reply
  | SendConfigRequest request_id
  | SendRegister request_id
  | SendDiagnostics string "diagnostic list"

datatype response_event = Respond request_id reply | Diagnostics "file_diagnostic list"

datatype ('p, 'j) event =
    EvResponse response_event | EvFileSystem file_system_event | EvLsp "('p, 'j) client_message"

section \<open>Loop state and tasks\<close>

record loop_state =
  ls_next_request_id :: int
  ls_opened_files :: opened_files
  ls_configuration_request_id :: "request_id option"

definition loop_state_default :: loop_state where
  "loop_state_default = \<lparr>ls_next_request_id = 0, ls_opened_files = {}, ls_configuration_request_id = None\<rparr>"

definition with_config_request_id :: "request_id \<Rightarrow> loop_state" where
  "with_config_request_id i = loop_state_default\<lparr>ls_configuration_request_id := Some i\<rparr>"

text \<open>\<open>self.next_request_id += 1\<close> on \<open>i32\<close>.\<close>

definition next_request_id :: "loop_state \<Rightarrow> (request_id \<times> loop_state) result" where
  "next_request_id s =
     (let i = ls_next_request_id s + 1
      in if i < 2 ^ 31 then Inr (i, s\<lparr>ls_next_request_id := i\<rparr>)
         else Inl (Panicked ''attempt to add with overflow''))"

definition diagnostic_message ::
    "('j, 'd, 'k, 'c, 'u) ls_world \<Rightarrow> file_diagnostic \<Rightarrow> server_message result" where
  "diagnostic_message W d =
     (case w_url_of_path W (fd_fpath d) of
        None \<Rightarrow> Inl (Panicked ''called Result::unwrap on an Err value'')
      | Some uri \<Rightarrow>
          Inr (SendDiagnostics uri (case fd_diagnostic d of Some x \<Rightarrow> [x] | None \<Rightarrow> [])))"

definition on_task ::
    "('j, 'd, 'k, 'c, 'u) ls_world \<Rightarrow> response_event \<Rightarrow> server_message list result" where
  "on_task W task =
     (case task of
        Respond i r \<Rightarrow> Inr [SendResponse i r]
      | Diagnostics ds \<Rightarrow> mapM (diagnostic_message W) ds)"

primrec compute_file_diagnostics ::
    "('j, 'd, 'k, 'c, 'u) ls_world \<Rightarrow> root_database \<Rightarrow> string list \<Rightarrow> file_diagnostic list result" where
  "compute_file_diagnostics W db [] = Inr []"
| "compute_file_diagnostics W db (fpath # files) =
     rbind (case db_available_files db fpath of
              None \<Rightarrow> Inr []
            | Some content \<Rightarrow>
                rbind (check_file W db (with_content fpath content)) (\<lambda>d.
                  Inr (case d of Some d \<Rightarrow> [d] | None \<Rightarrow> []))) (\<lambda>own.
       rbind (compute_file_diagnostics W db files) (\<lambda>rest.
         Inr (file_diagnostic_new_empty fpath # own @ rest)))"

section \<open>Notifications\<close>

text \<open>What a handler sends, the new loop state and the error it returns, if any.\<close>

record outcome =
  oc_loop :: loop_state
  oc_fs_events :: "file_system_event list"
  oc_sent :: "server_message list"
  oc_error :: "string option"

definition done_with :: "loop_state \<Rightarrow> file_system_event list \<Rightarrow> server_message list \<Rightarrow> outcome" where
  "done_with s es ms = \<lparr>oc_loop = s, oc_fs_events = es, oc_sent = ms, oc_error = None\<rparr>"

definition failed_with :: "loop_state \<Rightarrow> file_system_event list \<Rightarrow> string \<Rightarrow> outcome" where
  "failed_with s es e = \<lparr>oc_loop = s, oc_fs_events = es, oc_sent = [], oc_error = Some e\<rparr>"

text \<open>\<open>uri_to_path\<close>: \<open>Url::to_file_path\<close> followed by \<open>to_str\<close>.\<close>

definition uri_to_str :: "(string \<Rightarrow> string option) \<Rightarrow> string \<Rightarrow> string + string" where
  "uri_to_str uri_to_path uri =
     (case uri_to_path uri of Some path \<Rightarrow> Inr path | None \<Rightarrow> Inl (''invalid uri: '' @ uri))"

primrec remove_watched ::
    "(string \<Rightarrow> string option) \<Rightarrow> string list \<Rightarrow> loop_state \<Rightarrow> file_system_event list \<Rightarrow> outcome" where
  "remove_watched U [] s es = done_with s es []"
| "remove_watched U (uri # uris) s es =
     (case uri_to_str U uri of
        Inl e \<Rightarrow> failed_with s es e
      | Inr fpath \<Rightarrow>
          remove_watched U uris (s\<lparr>ls_opened_files := opened_remove fpath (ls_opened_files s)\<rparr>)
            (es @ [RemoveFile fpath]))"

definition on_notification ::
    "(string \<Rightarrow> string option) \<Rightarrow> loop_state \<Rightarrow> notification \<Rightarrow> outcome result" where
  "on_notification U s n =
     (case n of
        DidOpenTextDocument uri content \<Rightarrow>
          Inr (case uri_to_str U uri of
                 Inl e \<Rightarrow> failed_with s [] e
               | Inr fpath \<Rightarrow>
                   done_with (s\<lparr>ls_opened_files := opened_add fpath (ls_opened_files s)\<rparr>)
                     [AddFile (with_content fpath content)] [])
      | DidChangeTextDocument uri changes \<Rightarrow>
          Inr (case uri_to_str U uri of
                 Inl e \<Rightarrow> failed_with s [] e
               | Inr fpath \<Rightarrow>
                   (if changes = [] then failed_with s [] ''empty changes''
                    else done_with (s\<lparr>ls_opened_files := opened_add fpath (ls_opened_files s)\<rparr>)
                           [ChangeFile (with_content fpath (last changes))] []))
      | DidCloseTextDocument uri \<Rightarrow>
          Inr (case uri_to_str U uri of
                 Inl e \<Rightarrow> failed_with s [] e
               | Inr fpath \<Rightarrow>
                   done_with (s\<lparr>ls_opened_files := opened_remove fpath (ls_opened_files s)\<rparr>) [] [])
      | DidChangeConfiguration \<Rightarrow>
          rbind (next_request_id s) (\<lambda>(request_id, s).
            Inr (done_with (s\<lparr>ls_configuration_request_id := Some request_id\<rparr>) [] [SendConfigRequest request_id]))
      | DidChangeWatchedFiles uris \<Rightarrow> Inr (remove_watched U uris s [])
      | OtherNotification _ \<Rightarrow> Inr (done_with s [] []))"

section \<open>Turns\<close>

record turn =
  tn_global :: global_state
  tn_outcome :: outcome
  tn_job :: "(root_database \<times> string list) option"

definition on_config_response ::
    "('j, 'd, 'k, 'c, 'u) ls_world \<Rightarrow> 'j response \<Rightarrow> global_state \<Rightarrow> global_state result" where
  "on_config_response W r g =
     (case (rs_error r, rs_result r) of
        (None, Some (new_config # _)) \<Rightarrow>
          rbind (config_default (w_codecs W)) (\<lambda>c.
            initialize_new_global_state W (config_update W new_config c))
      | _ \<Rightarrow> Inr g)"

definition diagnostics_job ::
    "('j, 'd, 'k, 'c, 'u) ls_world \<Rightarrow> global_state \<Rightarrow> loop_state \<Rightarrow> root_database \<times> string list" where
  "diagnostics_job W g s =
     (gs_db g, w_set_order W (ls_opened_files s \<union> dom (module_files (gs_db g))))"

definition loop_turn ::
    "('j, 'd, 'k, 'c, 'u) ls_world \<Rightarrow> (string \<Rightarrow> string option) \<Rightarrow> global_state \<Rightarrow> loop_state \<Rightarrow>
     ('p, 'j) event \<Rightarrow> turn result" where
  "loop_turn W U g s ev =
     (case ev of
        EvResponse task \<Rightarrow>
          rbind (on_task W task) (\<lambda>ms.
            Inr \<lparr>tn_global = g, tn_outcome = done_with s [] ms, tn_job = None\<rparr>)
      | EvFileSystem fs_event \<Rightarrow>
          (let g = update_from_events [fs_event] g
           in Inr \<lparr>tn_global = g, tn_outcome = done_with s [] [], tn_job = Some (diagnostics_job W g s)\<rparr>)
      | EvLsp message \<Rightarrow>
          (case message of
             MsgRequest _ \<Rightarrow> Inr \<lparr>tn_global = g, tn_outcome = done_with s [] [], tn_job = None\<rparr>
           | MsgNotification n \<Rightarrow>
               rbind (on_notification U s n) (\<lambda>oc.
                 Inr \<lparr>tn_global = g, tn_outcome = oc, tn_job = None\<rparr>)
           | MsgResponse r \<Rightarrow>
               (if Some (rs_id r) = ls_configuration_request_id s
                then rbind (on_config_response W r g) (\<lambda>g.
                       Inr \<lparr>tn_global = g,
                            tn_outcome = done_with (s\<lparr>ls_configuration_request_id := None\<rparr>) [] [],
                            tn_job = None\<rparr>)
                else Inr \<lparr>tn_global = g, tn_outcome = done_with s [] [], tn_job = None\<rparr>)))"

section \<open>The server\<close>

datatype status = Running | Stopped | Ended string | Crashed fault

record server =
  sv_global :: global_state
  sv_loop :: loop_state
  sv_fs_queue :: "file_system_event list"
  sv_responses :: "response_event list"
  sv_jobs :: "(root_database \<times> string list) list"
  sv_sent :: "server_message list"
  sv_status :: status

text \<open>\<open>parse_initialize_params\<close>: the configuration; the root path is not used. \<open>run_server\<close> registers for file changes and starts the loop.\<close>

definition register_for_file_changes :: "server_message" where
  "register_for_file_changes = SendRegister 1"

definition parse_initialize_params :: "('j, 'd, 'k, 'c, 'u) ls_world \<Rightarrow> 'j option \<Rightarrow> config result" where
  "parse_initialize_params W initialization_options =
     rbind (config_default (w_codecs W)) (\<lambda>c.
       Inr (case initialization_options of Some v \<Rightarrow> config_update W v c | None \<Rightarrow> c))"

definition run_server :: "('j, 'd, 'k, 'c, 'u) ls_world \<Rightarrow> 'j option \<Rightarrow> server result" where
  "run_server W initialization_options =
     rbind (parse_initialize_params W initialization_options) (\<lambda>c.
          rbind (initialize_new_global_state W c) (\<lambda>g.
            Inr \<lparr>sv_global = g, sv_loop = loop_state_default, sv_fs_queue = [], sv_responses = [],
                 sv_jobs = [], sv_sent = [register_for_file_changes], sv_status = Running\<rparr>))"

text \<open>The effects of a turn on the channels.\<close>

definition after_turn :: "turn result \<Rightarrow> server \<Rightarrow> server" where
  "after_turn r sv =
     (case r of
        Inl f \<Rightarrow> sv\<lparr>sv_status := Crashed f\<rparr>
      | Inr t \<Rightarrow>
          sv\<lparr>sv_global := tn_global t, sv_loop := oc_loop (tn_outcome t),
             sv_fs_queue := sv_fs_queue sv @ oc_fs_events (tn_outcome t),
             sv_sent := sv_sent sv @ oc_sent (tn_outcome t),
             sv_jobs := sv_jobs sv @ (case tn_job t of Some j \<Rightarrow> [j] | None \<Rightarrow> []),
             sv_status := (case oc_error (tn_outcome t) of Some e \<Rightarrow> Ended e | None \<Rightarrow> sv_status sv)\<rparr>)"

text \<open>One step of the server; the label is the message it takes from the client.
  \<open>is_shutdown\<close> is the test of \<open>Connection::handle_shutdown\<close>. A job that panics takes its
  diagnostics with it; the pool replaces its thread.\<close>

inductive server_step ::
    "('j, 'd, 'k, 'c, 'u) ls_world \<Rightarrow> (string \<Rightarrow> string option) \<Rightarrow> ('p request \<Rightarrow> bool) \<Rightarrow>
     server \<Rightarrow> ('p, 'j) client_message option \<Rightarrow> server \<Rightarrow> bool"
  for W U is_shutdown where
  step_message: "sv_status sv = Running \<Longrightarrow> (\<And>rq. m = MsgRequest rq \<Longrightarrow> \<not> is_shutdown rq) \<Longrightarrow>
     server_step W U is_shutdown sv (Some m)
       (after_turn (loop_turn W U (sv_global sv) (sv_loop sv) (EvLsp m)) sv)"
| step_shutdown: "sv_status sv = Running \<Longrightarrow> is_shutdown rq \<Longrightarrow>
     server_step W U is_shutdown sv (Some (MsgRequest rq)) (sv\<lparr>sv_status := Stopped\<rparr>)"
| step_disconnect: "sv_status sv = Running \<Longrightarrow>
     server_step W U is_shutdown sv None (sv\<lparr>sv_status := Ended ''client exited without shutdown''\<rparr>)"
| step_fs: "sv_status sv = Running \<Longrightarrow> sv_fs_queue sv = e # q \<Longrightarrow>
     server_step W U is_shutdown sv None
       (after_turn (loop_turn W U (sv_global sv) (sv_loop sv) (EvFileSystem e :: ('p, 'j) event))
          (sv\<lparr>sv_fs_queue := q\<rparr>))"
| step_response: "sv_status sv = Running \<Longrightarrow> sv_responses sv = r # rs \<Longrightarrow>
     server_step W U is_shutdown sv None
       (after_turn (loop_turn W U (sv_global sv) (sv_loop sv) (EvResponse r :: ('p, 'j) event))
          (sv\<lparr>sv_responses := rs\<rparr>))"
| step_job: "sv_status sv = Running \<Longrightarrow> sv_jobs sv = (db, files) # js \<Longrightarrow>
     server_step W U is_shutdown sv None
       (sv\<lparr>sv_jobs := js,
           sv_responses := sv_responses sv @
             (case compute_file_diagnostics W db files of Inr ds \<Rightarrow> [Diagnostics ds] | Inl _ \<Rightarrow> [])\<rparr>)"

inductive_cases server_step_elim: "server_step W U is_shutdown sv l sv'"

inductive server_run ::
    "('j, 'd, 'k, 'c, 'u) ls_world \<Rightarrow> (string \<Rightarrow> string option) \<Rightarrow> ('p request \<Rightarrow> bool) \<Rightarrow>
     server \<Rightarrow> ('p, 'j) client_message list \<Rightarrow> server \<Rightarrow> bool"
  for W U is_shutdown where
  run_start: "server_run W U is_shutdown sv [] sv"
| run_silent: "server_run W U is_shutdown sv ms sv1 \<Longrightarrow> server_step W U is_shutdown sv1 None sv2 \<Longrightarrow>
     server_run W U is_shutdown sv ms sv2"
| run_message: "server_run W U is_shutdown sv ms sv1 \<Longrightarrow> server_step W U is_shutdown sv1 (Some m) sv2 \<Longrightarrow>
     server_run W U is_shutdown sv (ms @ [m]) sv2"

section \<open>Dispatching requests (dispatcher.rs)\<close>

text \<open>A handler result: an \<open>LspError\<close>, another error or a serialized value.\<close>

datatype handler_error = HandlerLspError int string | HandlerOther string

definition UNKNOWN_FILE :: int where "UNKNOWN_FILE = - 32900"
definition InternalError :: int where "InternalError = - 32603"
definition MethodNotFound :: int where "MethodNotFound = - 32601"

definition result_to_task :: "request_id \<Rightarrow> handler_error + string \<Rightarrow> response_event" where
  "result_to_task i r =
     Respond i
       (case r of
          Inr resp \<Rightarrow> ReplyOk resp
        | Inl (HandlerLspError code message) \<Rightarrow>
            (if code = UNKNOWN_FILE then ReplyOk ''null'' else ReplyErr code message)
        | Inl (HandlerOther e) \<Rightarrow> ReplyErr InternalError e)"

record 'p dispatcher =
  pd_req :: "'p request option"
  pd_global :: global_state
  pd_sent :: "server_message list"
  pd_pool :: "response_event list"

definition dispatcher_new :: "'p request \<Rightarrow> global_state \<Rightarrow> 'p dispatcher" where
  "dispatcher_new rq g = \<lparr>pd_req = Some rq, pd_global = g, pd_sent = [], pd_pool = []\<rparr>"

definition dispatch_parse :: "string \<Rightarrow> 'p dispatcher \<Rightarrow> (request_id \<times> 'p) option \<times> 'p dispatcher" where
  "dispatch_parse method d =
     (case pd_req d of
        None \<Rightarrow> (None, d)
      | Some rq \<Rightarrow>
          (if rq_method rq = method then (Some (rq_id rq, rq_params rq), d\<lparr>pd_req := None\<rparr>)
           else (None, d)))"

text \<open>A handler on the loop's thread; \<open>None\<close> is a panic, turned into an error of the turn.\<close>

definition dispatch_on_sync ::
    "string \<Rightarrow> (global_state \<Rightarrow> 'p \<Rightarrow> ((handler_error + string) \<times> global_state) option) \<Rightarrow>
     'p dispatcher \<Rightarrow> string + 'p dispatcher" where
  "dispatch_on_sync method f d =
     (case dispatch_parse method d of
        (None, d) \<Rightarrow> Inr d
      | (Some (i, params), d) \<Rightarrow>
          (case f (pd_global d) params of
             None \<Rightarrow> Inl (''sync task '' @ method @ '' panicked'')
           | Some (r, g) \<Rightarrow>
               (case result_to_task i r of
                  Respond i reply \<Rightarrow> Inr (d\<lparr>pd_global := g, pd_sent := pd_sent d @ [SendResponse i reply]\<rparr>)
                | Diagnostics _ \<Rightarrow> Inr d)))"

text \<open>A handler on the pool, on a snapshot.\<close>

definition dispatch_on ::
    "string \<Rightarrow> (global_state_snapshot \<Rightarrow> 'p \<Rightarrow> handler_error + string) \<Rightarrow> 'p dispatcher \<Rightarrow> 'p dispatcher" where
  "dispatch_on method f d =
     (case dispatch_parse method d of
        (None, d) \<Rightarrow> d
      | (Some (i, params), d) \<Rightarrow>
          d\<lparr>pd_pool := pd_pool d @ [result_to_task i (f (snapshot (pd_global d)) params)]\<rparr>)"

definition dispatch_finish :: "'p dispatcher \<Rightarrow> 'p dispatcher" where
  "dispatch_finish d =
     (case pd_req d of
        None \<Rightarrow> d
      | Some rq \<Rightarrow>
          d\<lparr>pd_req := None,
            pd_sent := pd_sent d @ [SendResponse (rq_id rq) (ReplyErr MethodNotFound ''unknown request'')]\<rparr>)"

end
