(* ===== verification/Ls_Correct.thy ===== *)
theory Ls_Correct
  imports Ls_Loop
begin

text \<open>
  Properties of the language server: the refinement of the view a client has of its documents,
  the replies of the dispatcher, and what the handling of the configuration loses.
\<close>

section \<open>The documents of the client\<close>

text \<open>What the messages of a client say of its documents: their contents and the open ones. A
  path that does not parse ends the server, so the paths before it count.\<close>

record documents =
  doc_texts :: "string \<Rightarrow> string option"
  doc_opened :: "string set"

definition valid_paths :: "(string \<Rightarrow> string option) \<Rightarrow> string list \<Rightarrow> string set" where
  "valid_paths U uris = (the \<circ> U) ` set (takeWhile (\<lambda>u. U u \<noteq> None) uris)"

definition client_edit :: "(string \<Rightarrow> string option) \<Rightarrow> notification \<Rightarrow> documents \<Rightarrow> documents" where
  "client_edit U n d =
     (case n of
        DidOpenTextDocument uri content \<Rightarrow>
          (case U uri of None \<Rightarrow> d
           | Some p \<Rightarrow> \<lparr>doc_texts = (doc_texts d)(p \<mapsto> content), doc_opened = insert p (doc_opened d)\<rparr>)
      | DidChangeTextDocument uri changes \<Rightarrow>
          (case U uri of None \<Rightarrow> d
           | Some p \<Rightarrow>
               if changes = [] then d
               else \<lparr>doc_texts = (doc_texts d)(p \<mapsto> last changes), doc_opened = insert p (doc_opened d)\<rparr>)
      | DidCloseTextDocument uri \<Rightarrow>
          (case U uri of None \<Rightarrow> d | Some p \<Rightarrow> d\<lparr>doc_opened := doc_opened d - {p}\<rparr>)
      | DidChangeWatchedFiles uris \<Rightarrow>
          \<lparr>doc_texts = doc_texts d |` (- valid_paths U uris), doc_opened = doc_opened d - valid_paths U uris\<rparr>
      | _ \<Rightarrow> d)"

primrec client_message_edit ::
    "(string \<Rightarrow> string option) \<Rightarrow> ('p, 'j) client_message \<Rightarrow> documents \<Rightarrow> documents" where
  "client_message_edit U (MsgNotification n) d = client_edit U n d"
| "client_message_edit U (MsgRequest _) d = d"
| "client_message_edit U (MsgResponse _) d = d"

text \<open>The documents a server stands for: what its database becomes once its queue is empty.\<close>

definition apply_event :: "(string \<Rightarrow> string option) \<Rightarrow> file_system_event \<Rightarrow> (string \<Rightarrow> string option)" where
  "apply_event files e =
     (case e of AddFile f \<Rightarrow> files(mf_name f \<mapsto> mf_content f) | ChangeFile f \<Rightarrow> files(mf_name f \<mapsto> mf_content f)
      | RemoveFile p \<Rightarrow> files(p := None))"

definition documents_of :: "server \<Rightarrow> documents" where
  "documents_of sv =
     \<lparr>doc_texts = foldl apply_event (db_available_files (gs_db (sv_global sv))) (sv_fs_queue sv),
      doc_opened = ls_opened_files (sv_loop sv)\<rparr>"

lemmas ls_simps = loop_turn_def after_turn_def done_with_def failed_with_def opened_add_def opened_remove_def

lemma update_from_events_files:
  "db_available_files (gs_db (update_from_events es g)) = foldl apply_event (db_available_files (gs_db g)) es"
proof -
  have "foldl apply_root_change files (ac_tracked_files_changed (foldl event_change c es)) =
        foldl apply_event (foldl apply_root_change files (ac_tracked_files_changed c)) es" for files c
    by (induction es arbitrary: c)
       (simp_all add: event_change_def apply_event_def apply_root_change_def change_add_file_def
         change_update_file_def change_remove_file_def split: file_system_event.split)
  moreover have "ac_tracked_files_changed change_new = []" by (simp add: change_new_def)
  ultimately show ?thesis
    by (simp add: update_from_events_def gs_apply_change_def db_apply_change_def Let_def split: option.split)
qed

lemma update_from_events_config: "db_config (gs_db (update_from_events es g)) = db_config (gs_db g)"
proof -
  have "ac_config_changed (foldl event_change c es) = ac_config_changed c" for c
    by (induction es arbitrary: c)
       (simp_all add: event_change_def change_add_file_def change_update_file_def change_remove_file_def
         split: file_system_event.split)
  then show ?thesis by (simp add: update_from_events_def gs_apply_change_def db_apply_change_def Let_def change_new_def)
qed

lemma remove_watched_outcome:
  "\<exists>rs. oc_fs_events (remove_watched U uris s es) = es @ map RemoveFile rs \<and> set rs = valid_paths U uris \<and>
        ls_opened_files (oc_loop (remove_watched U uris s es)) = ls_opened_files s - valid_paths U uris \<and>
        ls_configuration_request_id (oc_loop (remove_watched U uris s es)) = ls_configuration_request_id s"
proof (induction uris arbitrary: s es)
  case Nil
  show ?case by (simp add: valid_paths_def done_with_def)
next
  case (Cons u uris)
  show ?case
  proof (cases "U u")
    case None
    then show ?thesis by (simp add: valid_paths_def failed_with_def uri_to_str_def)
  next
    case (Some p)
    have v: "valid_paths U (u # uris) = insert p (valid_paths U uris)"
      using Some by (simp add: valid_paths_def)
    obtain rs where "oc_fs_events (remove_watched U uris (s\<lparr>ls_opened_files := opened_remove p (ls_opened_files s)\<rparr>)
        (es @ [RemoveFile p])) = (es @ [RemoveFile p]) @ map RemoveFile rs" "set rs = valid_paths U uris"
      "ls_opened_files (oc_loop (remove_watched U uris (s\<lparr>ls_opened_files := opened_remove p (ls_opened_files s)\<rparr>)
        (es @ [RemoveFile p]))) = ls_opened_files s - {p} - valid_paths U uris"
      "ls_configuration_request_id (oc_loop (remove_watched U uris (s\<lparr>ls_opened_files := opened_remove p (ls_opened_files s)\<rparr>)
        (es @ [RemoveFile p]))) = ls_configuration_request_id s"
      using Cons[of "s\<lparr>ls_opened_files := opened_remove p (ls_opened_files s)\<rparr>" "es @ [RemoveFile p]"]
      by (auto simp: opened_remove_def)
    then show ?thesis
      by (intro exI[of _ "p # rs"]) (auto simp: v Some uri_to_str_def)
  qed
qed

lemma foldl_remove: "foldl apply_event files (map RemoveFile rs) = files |` (- set rs)"
  by (induction rs arbitrary: files) (auto simp: apply_event_def restrict_map_def fun_eq_iff)

text \<open>A notification puts its edit on the queue.\<close>

lemma on_notification_edit:
  assumes "on_notification U s n = Inr oc"
  shows "\<lparr>doc_texts = foldl apply_event files (oc_fs_events oc), doc_opened = ls_opened_files (oc_loop oc)\<rparr> =
         client_edit U n \<lparr>doc_texts = files, doc_opened = ls_opened_files s\<rparr>"
proof (cases n)
  case (DidChangeWatchedFiles uris)
  with assms have "oc = remove_watched U uris s []" by (simp add: on_notification_def)
  with remove_watched_outcome[of U uris s "[]"] DidChangeWatchedFiles show ?thesis
    by (auto simp: client_edit_def foldl_remove)
qed (use assms in \<open>auto simp: on_notification_def client_edit_def uri_to_str_def done_with_def failed_with_def
  apply_event_def with_content_def opened_add_def opened_remove_def next_request_id_def Let_def
  split: option.splits if_splits\<close>)

lemma on_notification_config_id:
  assumes "on_notification U s n = Inr oc" "n \<noteq> DidChangeConfiguration"
  shows "ls_configuration_request_id (oc_loop oc) = ls_configuration_request_id s"
proof (cases n)
  case (DidChangeWatchedFiles uris)
  with assms have "oc = remove_watched U uris s []" by (simp add: on_notification_def)
  with remove_watched_outcome[of U uris s "[]"] show ?thesis by auto
qed (use assms in \<open>auto simp: on_notification_def uri_to_str_def done_with_def failed_with_def
  split: option.splits if_splits\<close>)

lemma on_notification_fails:
  "on_notification U s n = Inl f \<Longrightarrow> n = DidChangeConfiguration"
  by (auto simp: on_notification_def split: notification.splits)

text \<open>What a run without a change of configuration keeps.\<close>

definition tracks ::
    "(string \<Rightarrow> string option) \<Rightarrow> server \<Rightarrow> ('p, 'j) client_message list \<Rightarrow> server \<Rightarrow> bool" where
  "tracks U sv0 ms sv \<longleftrightarrow>
     documents_of sv = foldl (\<lambda>d m. client_message_edit U m d) (documents_of sv0) ms \<and>
     db_config (gs_db (sv_global sv)) = db_config (gs_db (sv_global sv0)) \<and>
     (sv_jobs sv \<noteq> [] \<longrightarrow> fst (last (sv_jobs sv)) = gs_db (sv_global sv)) \<and>
     ls_configuration_request_id (sv_loop sv) = None"

lemma tracks_silent:
  fixes W :: "('j, 'd, 'k, 'c, 'u) ls_world" and is_shutdown :: "'p request \<Rightarrow> bool"
  assumes "server_step W U is_shutdown sv None sv'" "tracks U sv0 ms sv"
  shows "tracks U sv0 ms sv'"
  using assms(1)
proof (cases rule: server_step.cases)
  case step_disconnect
  with assms(2) show ?thesis by (simp add: tracks_def documents_of_def)
next
  case (step_fs e q)
  with assms(2) show ?thesis
    by (simp add: tracks_def documents_of_def ls_simps Let_def update_from_events_files
      update_from_events_config diagnostics_job_def)
next
  case (step_response r rs)
  with assms(2) show ?thesis
    by (cases "on_task W r") (simp_all add: tracks_def documents_of_def ls_simps)
next
  case (step_job db files js)
  with assms(2) show ?thesis by (cases "js = []") (simp_all add: tracks_def documents_of_def)
qed

lemma documents_of_after:
  assumes "on_notification U (sv_loop sv) n = Inr oc"
  shows "documents_of (after_turn (Inr \<lparr>tn_global = sv_global sv, tn_outcome = oc, tn_job = None\<rparr>) sv) =
         client_edit U n (documents_of sv)"
  using on_notification_edit[OF assms, of "foldl apply_event (db_available_files (gs_db (sv_global sv))) (sv_fs_queue sv)"]
  by (simp add: documents_of_def after_turn_def)

lemma tracks_message:
  fixes W :: "('j, 'd, 'k, 'c, 'u) ls_world" and is_shutdown :: "'p request \<Rightarrow> bool"
  assumes "server_step W U is_shutdown sv (Some m) sv'" "tracks U sv0 ms sv"
    "m \<noteq> MsgNotification DidChangeConfiguration"
  shows "tracks U sv0 (ms @ [m]) sv'"
  using assms(1)
proof (cases rule: server_step.cases)
  case (step_message)
  show ?thesis
  proof (cases m)
    case (MsgNotification n)
    then obtain oc where oc: "on_notification U (sv_loop sv) n = Inr oc"
      using on_notification_fails assms(3) by (cases "on_notification U (sv_loop sv) n") auto
    have eq: "sv' = after_turn (Inr \<lparr>tn_global = sv_global sv, tn_outcome = oc, tn_job = None\<rparr>) sv"
      using step_message MsgNotification oc by (simp add: loop_turn_def)
    have "ls_configuration_request_id (oc_loop oc) = None"
      using on_notification_config_id[OF oc] assms(2,3) MsgNotification by (simp add: tracks_def)
    then have "sv_jobs sv' = sv_jobs sv \<and> sv_global sv' = sv_global sv \<and>
        ls_configuration_request_id (sv_loop sv') = None"
      by (simp add: eq after_turn_def)
    with documents_of_after[OF oc] assms(2) show ?thesis
      by (simp add: tracks_def MsgNotification eq)
  qed (use step_message assms(2) in \<open>simp_all add: tracks_def documents_of_def ls_simps\<close>)
next
  case (step_shutdown rq)
  with assms(2) show ?thesis by (simp add: tracks_def documents_of_def)
qed

lemma tracks_run:
  fixes W :: "('j, 'd, 'k, 'c, 'u) ls_world" and is_shutdown :: "'p request \<Rightarrow> bool"
  assumes "server_run W U is_shutdown sv0 ms sv" "run_server W opts = Inr sv0"
    "MsgNotification DidChangeConfiguration \<notin> set ms"
  shows "tracks U sv0 ms sv"
  using assms
proof (induction rule: server_run.induct)
  case (run_start sv)
  then show ?case
    by (auto simp: tracks_def run_server_def parse_initialize_params_def rbind_eq_Inr_iff Let_def loop_state_default_def)
next
  case (run_silent sv ms sv1 sv2)
  then show ?case by (blast intro: tracks_silent)
next
  case (run_message sv ms sv1 m sv2)
  then have "m \<noteq> MsgNotification DidChangeConfiguration" by auto
  with run_message show ?case by (auto intro: tracks_message)
qed

text \<open>C27: the server refines the documents of its client: in every run without a change of
  configuration, however the loop interleaves its channels, the database with its pending file
  events is what the messages taken so far make of the documents, in their order; the open files
  are the ones the client has open; the configuration is the initial one; and the last job queued
  for diagnostics is for the current database.\<close>

theorem server_refines_documents:
  fixes W :: "('j, 'd, 'k, 'c, 'u) ls_world" and is_shutdown :: "'p request \<Rightarrow> bool"
  assumes "run_server W opts = Inr sv0"
    and "server_run W U is_shutdown sv0 ms sv"
    and "MsgNotification DidChangeConfiguration \<notin> set ms"
  shows "documents_of sv = foldl (\<lambda>d m. client_message_edit U m d) (documents_of sv0) ms \<and>
    db_config (gs_db (sv_global sv)) = db_config (gs_db (sv_global sv0)) \<and>
    (sv_jobs sv \<noteq> [] \<longrightarrow> fst (last (sv_jobs sv)) = gs_db (sv_global sv))"
  using tracks_run[OF assms(2,1,3)] by (simp_all add: tracks_def)

definition sample_world :: "(dialect_name, string, unit, string list, string) ls_world" where
  "sample_world =
     \<lparr>w_codecs = sample_codecs, w_lang = sample_compiler,
      w_fs = \<lparr>fs_exists = (\<lambda>_. False), fs_is_file = (\<lambda>_. False), fs_read = (\<lambda>_. Inl ''no file''), fs_walk = (\<lambda>_. [])\<rparr>,
      w_get_dialect = (\<lambda>v _. Some v), w_get_path = (\<lambda>_ _. None), w_get_paths = (\<lambda>_ _. None),
      w_get_str = (\<lambda>_ _. None), w_map_order = (\<lambda>_. []), w_set_order = (\<lambda>_. []),
      w_url_of_path = Some, w_line_starts = starts_of\<rparr>"

definition sample_uri :: "string \<Rightarrow> string option" where
  "sample_uri u = (if starts_with ''file:'' u then Some (drop 5 u) else None)"

lemma sample_server: "\<exists>sv0. run_server sample_world None = Inr sv0 \<and> sv_status sv0 = Running \<and>
    db_available_files (gs_db (sv_global sv0)) = Map.empty \<and> sv_loop sv0 = loop_state_default \<and> sv_fs_queue sv0 = []"
  by (simp add: run_server_def parse_initialize_params_def config_default_def get_dialect_def libra_dialect_def libra_normalize_def
    sample_world_def sample_codecs_def initialize_new_global_state_def load_unwrap_def
    global_state_new_def update_from_events_files db_new_def)

theorem server_refines_documents_witness:
  "\<exists>sv0 sv. run_server sample_world None = Inr sv0 \<and>
     server_run sample_world sample_uri (\<lambda>rq :: unit request. False) sv0
       [MsgNotification (DidOpenTextDocument ''file:/a'' ''script''),
        MsgNotification (DidChangeTextDocument ''file:/a'' [''module'', ''module M''])] sv \<and>
     documents_of sv = \<lparr>doc_texts = [''/a'' \<mapsto> ''module M''], doc_opened = {''/a''}\<rparr>"
proof -
  obtain sv0 where s: "run_server sample_world None = Inr sv0" "sv_status sv0 = Running"
    "db_available_files (gs_db (sv_global sv0)) = Map.empty" "sv_loop sv0 = loop_state_default" "sv_fs_queue sv0 = []"
    using sample_server by blast
  let ?step = "\<lambda>sv n. after_turn (loop_turn sample_world sample_uri (sv_global sv) (sv_loop sv)
       (EvLsp (MsgNotification n) :: (unit, dialect_name) event)) sv"
  let ?a = "DidOpenTextDocument ''file:/a'' ''script''"
  let ?b = "DidChangeTextDocument ''file:/a'' [''module'', ''module M'']"
  have r: "sv_status (?step sv0 ?a) = Running"
    by (simp add: ls_simps on_notification_def uri_to_str_def sample_uri_def starts_with_def s(2))
  have run: "server_run sample_world sample_uri (\<lambda>rq :: unit request. False) sv0
      (([] @ [MsgNotification ?a]) @ [MsgNotification ?b]) (?step (?step sv0 ?a) ?b)"
    by (rule run_message[OF run_message[OF run_start]]; rule step_message) (simp_all add: r s(2))
  have "documents_of (?step (?step sv0 ?a) ?b) =
    foldl (\<lambda>d m. client_message_edit sample_uri m d) (documents_of sv0)
      (([] @ [MsgNotification ?a :: (unit, dialect_name) client_message]) @ [MsgNotification ?b])"
    by (rule conjunct1[OF server_refines_documents[OF s(1) run]]) simp
  moreover have "documents_of sv0 = \<lparr>doc_texts = Map.empty, doc_opened = {}\<rparr>"
    by (simp add: documents_of_def s loop_state_default_def)
  ultimately have "documents_of (?step (?step sv0 ?a) ?b) = \<lparr>doc_texts = [''/a'' \<mapsto> ''module M''], doc_opened = {''/a''}\<rparr>"
    by (simp add: client_edit_def sample_uri_def starts_with_def)
  with s(1) run show ?thesis by auto
qed

section \<open>Replies\<close>

datatype 'p handler =
    OnSync (handler_method: string) "global_state \<Rightarrow> 'p \<Rightarrow> ((handler_error + string) \<times> global_state) option"
  | OnPool (handler_method: string) "global_state_snapshot \<Rightarrow> 'p \<Rightarrow> handler_error + string"

primrec dispatch_chain :: "'p handler list \<Rightarrow> 'p dispatcher \<Rightarrow> string + 'p dispatcher" where
  "dispatch_chain [] d = Inr d"
| "dispatch_chain (h # hs) d =
     rbind (case h of OnSync method f \<Rightarrow> dispatch_on_sync method f d | OnPool method f \<Rightarrow> Inr (dispatch_on method f d))
       (dispatch_chain hs)"

definition reply_of :: "handler_error + string \<Rightarrow> reply" where
  "reply_of r =
     (case r of Inr v \<Rightarrow> ReplyOk v
      | Inl (HandlerLspError code message) \<Rightarrow> (if code = UNKNOWN_FILE then ReplyOk ''null'' else ReplyErr code message)
      | Inl (HandlerOther e) \<Rightarrow> ReplyErr InternalError e)"

lemma result_to_task_reply: "result_to_task i r = Respond i (reply_of r)"
  by (simp add: result_to_task_def reply_of_def)

lemma dispatch_chain_done: "pd_req d = None \<Longrightarrow> dispatch_chain hs d = Inr d"
  by (induction hs) (simp_all add: dispatch_on_sync_def dispatch_on_def dispatch_parse_def split: handler.split)

lemma dispatch_chain_find:
  "pd_req d = Some rq \<Longrightarrow>
   dispatch_chain hs d =
     (case find (\<lambda>h. handler_method h = rq_method rq) hs of
        None \<Rightarrow> Inr d
      | Some (OnPool method f) \<Rightarrow>
          Inr (d\<lparr>pd_req := None, pd_pool := pd_pool d @ [Respond (rq_id rq) (reply_of (f (snapshot (pd_global d)) (rq_params rq)))]\<rparr>)
      | Some (OnSync method f) \<Rightarrow>
          (case f (pd_global d) (rq_params rq) of
             None \<Rightarrow> Inl (''sync task '' @ method @ '' panicked'')
           | Some (r, g) \<Rightarrow>
               Inr (d\<lparr>pd_req := None, pd_global := g, pd_sent := pd_sent d @ [SendResponse (rq_id rq) (reply_of r)]\<rparr>)))"
  by (induction hs)
     (auto simp: dispatch_on_sync_def dispatch_on_def dispatch_parse_def result_to_task_reply dispatch_chain_done
       split: handler.split option.split prod.split)

text \<open>A request gets exactly one reply: the first handler registered for its method runs, on
  the loop's thread or on the pool, and its result is the only reply; without one, the reply is
  \<open>MethodNotFound\<close>; and the dispatch fails only when a handler on the loop's thread panics.\<close>

theorem dispatch_replies_once:
  "map_sum id dispatch_finish (dispatch_chain hs (dispatcher_new rq g)) =
     (case find (\<lambda>h. handler_method h = rq_method rq) hs of
        None \<Rightarrow>
          Inr \<lparr>pd_req = None, pd_global = g,
               pd_sent = [SendResponse (rq_id rq) (ReplyErr MethodNotFound ''unknown request'')], pd_pool = []\<rparr>
      | Some (OnPool method f) \<Rightarrow>
          Inr \<lparr>pd_req = None, pd_global = g, pd_sent = [],
               pd_pool = [Respond (rq_id rq) (reply_of (f (snapshot g) (rq_params rq)))]\<rparr>
      | Some (OnSync method f) \<Rightarrow>
          (case f g (rq_params rq) of
             None \<Rightarrow> Inl (''sync task '' @ method @ '' panicked'')
           | Some (r, g') \<Rightarrow>
               Inr \<lparr>pd_req = None, pd_global = g', pd_sent = [SendResponse (rq_id rq) (reply_of r)], pd_pool = []\<rparr>))"
  by (auto simp: dispatch_chain_find dispatcher_new_def dispatch_finish_def split: option.split handler.split prod.split)

section \<open>The configuration\<close>

text \<open>C28: a configuration taken from the client replaces the database by the files on disk: the
  new configuration, and for every path the last file loaded from the standard library folder
  and the module folders. The open files stay open but their unsaved texts are gone (a text that
  is not on disk is no longer available), and no diagnostics are computed.\<close>

theorem config_reload_is_disk:
  assumes "ls_configuration_request_id s = Some (rs_id r)" "rs_error r = None" "rs_result r = Some (v # vs)"
    and "config_default (w_codecs W) = Inr c" "c' = config_update W v c"
    and "load_move_files (w_fs W) (case cg_stdlib_folder c' of None \<Rightarrow> [] | Some folder \<Rightarrow> [folder]) = Inr stdlib"
    and "load_move_files (w_fs W) (cg_modules_folders c') = Inr modules"
  shows "\<exists>t. loop_turn W U g s (EvLsp (MsgResponse r) :: ('p, 'j) event) = Inr t \<and>
     db_config (gs_db (tn_global t)) = c' \<and>
     db_available_files (gs_db (tn_global t)) = map_of (rev (map (\<lambda>f. (mf_name f, mf_content f)) (stdlib @ modules))) \<and>
     ls_opened_files (oc_loop (tn_outcome t)) = ls_opened_files s \<and> tn_job t = None"
proof -
  have files: "foldl apply_event m (map AddFile fs) = m ++ map_of (rev (map (\<lambda>f. (mf_name f, mf_content f)) fs))" for m fs
    by (induction fs arbitrary: m) (simp_all add: apply_event_def)
  have "(case cg_stdlib_folder c' of Some folder \<Rightarrow> load_unwrap (load_move_files (w_fs W) [folder]) | None \<Rightarrow> Inr []) =
      Inr stdlib"
    using assms(6) by (cases "cg_stdlib_folder c'") (simp_all add: load_unwrap_def)
  then have "initialize_new_global_state W c' = Inr (global_state_new c' (map AddFile stdlib @ map AddFile modules))"
    using assms(7) by (simp add: initialize_new_global_state_def load_unwrap_def)
  moreover have "db_available_files (gs_db (global_state_new c' (map AddFile stdlib @ map AddFile modules))) =
      map_of (rev (map (\<lambda>f. (mf_name f, mf_content f)) (stdlib @ modules)))"
    using files[of Map.empty "stdlib @ modules"]
    by (simp add: global_state_new_def update_from_events_files db_new_def)
  moreover have "db_config (gs_db (global_state_new c' (map AddFile stdlib @ map AddFile modules))) = c'"
    by (simp add: global_state_new_def update_from_events_config db_new_def)
  ultimately show ?thesis
    using assms(1-5) by (simp add: ls_simps on_config_response_def)
qed

lemma sample_config: "\<exists>c. config_default (w_codecs sample_world) = Inr c"
  by (simp add: config_default_def get_dialect_def libra_dialect_def libra_normalize_def sample_world_def sample_codecs_def)

text \<open>The document \<open>/a\<close> is open with a text that is not on disk.\<close>

definition sample_awaiting :: loop_state where
  "sample_awaiting = with_config_request_id 1\<lparr>ls_opened_files := {''/a''}\<rparr>"

definition sample_settings :: "dialect_name response" where
  "sample_settings = \<lparr>rs_id = 1, rs_error = None, rs_result = Some [DFinance]\<rparr>"

theorem config_reload_is_disk_witness:
  "\<exists>c g t. config_default (w_codecs sample_world) = Inr c \<and>
     g = update_from_events [AddFile (with_content ''/a'' ''script'')] \<lparr>gs_db = db_new c\<rparr> \<and>
     loop_turn sample_world sample_uri g sample_awaiting
       (EvLsp (MsgResponse sample_settings) :: (unit, dialect_name) event) = Inr t \<and>
     db_available_files (gs_db g) ''/a'' = Some ''script'' \<and>
     ''/a'' \<in> ls_opened_files (oc_loop (tn_outcome t)) \<and>
     db_available_files (gs_db (tn_global t)) ''/a'' = None \<and> tn_job t = None"
proof -
  obtain c where c: "config_default (w_codecs sample_world) = Inr c" using sample_config by blast
  let ?g = "update_from_events [AddFile (with_content ''/a'' ''script'')] \<lparr>gs_db = db_new c\<rparr>"
  have l: "load_move_files (w_fs sample_world) (case cg_stdlib_folder (config_update sample_world DFinance c) of
      None \<Rightarrow> [] | Some folder \<Rightarrow> [folder]) = Inr []"
    "load_move_files (w_fs sample_world) (cg_modules_folders (config_update sample_world DFinance c)) = Inr []"
    by (simp_all add: config_update_def sample_world_def Let_def)
  have r: "ls_configuration_request_id sample_awaiting = Some (rs_id sample_settings)"
    "rs_error sample_settings = None" "rs_result sample_settings = Some [DFinance]"
    "ls_opened_files sample_awaiting = {''/a''}"
    by (simp_all add: sample_awaiting_def sample_settings_def with_config_request_id_def)
  have disk: "db_available_files (gs_db ?g) ''/a'' = Some ''script''"
    by (simp add: update_from_events_files apply_event_def with_content_def)
  have "\<exists>t. loop_turn sample_world sample_uri ?g sample_awaiting
        (EvLsp (MsgResponse sample_settings) :: (unit, dialect_name) event) = Inr t \<and>
      db_config (gs_db (tn_global t)) = config_update sample_world DFinance c \<and>
      db_available_files (gs_db (tn_global t)) = Map.empty \<and>
      ls_opened_files (oc_loop (tn_outcome t)) = ls_opened_files sample_awaiting \<and> tn_job t = None"
    using config_reload_is_disk[OF r(1-3) c refl l] by simp
  then obtain t where t: "loop_turn sample_world sample_uri ?g sample_awaiting
        (EvLsp (MsgResponse sample_settings) :: (unit, dialect_name) event) = Inr t"
      "db_available_files (gs_db (tn_global t)) = Map.empty"
      "ls_opened_files (oc_loop (tn_outcome t)) = {''/a''}" "tn_job t = None"
    unfolding r(4) by (elim exE conjE)
  show ?thesis
    by (intro exI conjI, rule c, rule refl, rule t(1), rule disk) (simp_all only: t insertI1)
qed

text \<open>Runs in which nothing but the client moves.\<close>

definition quiet :: "server \<Rightarrow> bool" where
  "quiet sv \<longleftrightarrow> sv_fs_queue sv = [] \<and> sv_responses sv = [] \<and> sv_jobs sv = []"

lemma run_snoc:
  assumes "server_run W U is_shutdown sv0 (ms @ [m]) sv"
  shows "\<exists>sv1 sv2. server_run W U is_shutdown sv0 ms sv1 \<and> server_step W U is_shutdown sv1 (Some m) sv2 \<and>
    server_run W U is_shutdown sv2 [] sv"
  using assms
proof (induction sv0 "ms @ [m]" sv rule: server_run.induct)
  case (run_silent sv sv1 sv2)
  then show ?case by (meson server_run.run_silent)
next
  case (run_message sv ms' sv1 m' sv2)
  then show ?case by (auto intro: run_start)
qed simp

lemma quiet_run:
  assumes "server_run W U is_shutdown sv ms sv'" "ms = []" "quiet sv"
  shows "sv_global sv' = sv_global sv \<and> sv_loop sv' = sv_loop sv \<and> sv_sent sv' = sv_sent sv \<and> quiet sv'"
  using assms
proof (induction rule: server_run.induct)
  case (run_silent sv ms sv1 sv2)
  then have "quiet sv1" "sv_global sv1 = sv_global sv \<and> sv_loop sv1 = sv_loop sv \<and> sv_sent sv1 = sv_sent sv" by auto
  with run_silent(2) show ?case by (cases rule: server_step.cases) (auto simp: quiet_def)
qed simp_all

text \<open>A response other than a configuration with a result changes nothing but the awaited id.\<close>

lemma dull_response:
  assumes "server_step W U is_shutdown sv (Some (MsgResponse r)) sv'" "quiet sv"
    "Some (rs_id r) = ls_configuration_request_id (sv_loop sv) \<Longrightarrow> rs_result r = None"
  shows "sv_global sv' = sv_global sv \<and> sv_sent sv' = sv_sent sv \<and> quiet sv' \<and>
    ls_configuration_request_id (sv_loop sv') =
      (if Some (rs_id r) = ls_configuration_request_id (sv_loop sv) then None else ls_configuration_request_id (sv_loop sv))"
  using assms(1)
  by (cases rule: server_step.cases)
     (use assms(2,3) in \<open>auto simp: ls_simps on_config_response_def quiet_def split: option.splits\<close>)

lemma config_request:
  assumes "server_step W U is_shutdown sv (Some (MsgNotification DidChangeConfiguration)) sv'" "quiet sv"
    "ls_next_request_id (sv_loop sv) = 0"
  shows "sv_global sv' = sv_global sv \<and> sv_sent sv' = sv_sent sv @ [SendConfigRequest 1] \<and> quiet sv' \<and>
    ls_configuration_request_id (sv_loop sv') = Some 1"
  using assms(1)
  by (cases rule: server_step.cases)
     (use assms(2,3) in \<open>auto simp: ls_simps on_notification_def next_request_id_def quiet_def\<close>)

text \<open>C29: request ids are not unique: the registration for file changes and the first
  configuration request both have id 1. When the client answers the registration after it
  announced a change of configuration, the answer is taken for the configuration, the real
  configuration that follows is ignored, and the server goes on with the old one.\<close>

theorem registration_hides_config:
  assumes "run_server W opts = Inr sv0" "rs_id registered = 1" "rs_result registered = None" "rs_id settings = 1"
    and "server_run W U is_shutdown sv0
           [MsgNotification DidChangeConfiguration, MsgResponse registered, MsgResponse settings] sv"
  shows "sv_sent sv = [SendRegister 1, SendConfigRequest 1] \<and> sv_global sv = sv_global sv0 \<and>
    ls_configuration_request_id (sv_loop sv) = None"
proof -
  have start: "quiet sv0" "sv_loop sv0 = loop_state_default" "sv_sent sv0 = [SendRegister 1]"
    using assms(1) by (auto simp: run_server_def parse_initialize_params_def rbind_eq_Inr_iff Let_def quiet_def register_for_file_changes_def)
  note run = run_snoc[where ms = "[]", simplified] run_snoc[where ms = "[a]" for a, simplified]
    run_snoc[where ms = "[a, b]" for a b, simplified]
  from run(3)[OF assms(5)] obtain a b where a: "server_run W U is_shutdown sv0
      [MsgNotification DidChangeConfiguration, MsgResponse registered] a"
    "server_step W U is_shutdown a (Some (MsgResponse settings)) b" "server_run W U is_shutdown b [] sv" by blast
  from run(2)[OF a(1)] obtain e d where d: "server_run W U is_shutdown sv0 [MsgNotification DidChangeConfiguration] e"
    "server_step W U is_shutdown e (Some (MsgResponse registered)) d" "server_run W U is_shutdown d [] a" by blast
  from run(1)[OF d(1)] obtain p q where p: "server_run W U is_shutdown sv0 [] p"
    "server_step W U is_shutdown p (Some (MsgNotification DidChangeConfiguration)) q"
    "server_run W U is_shutdown q [] e" by blast
  note p' = quiet_run[OF p(1) refl start(1)]
  have q: "sv_global q = sv_global sv0" "sv_sent q = [SendRegister 1, SendConfigRequest 1]" "quiet q"
    "ls_configuration_request_id (sv_loop q) = Some 1"
    using config_request[OF p(2)] p' start by (auto simp: loop_state_default_def)
  note e' = quiet_run[OF p(3) refl q(3)]
  have d': "sv_global d = sv_global sv0" "sv_sent d = [SendRegister 1, SendConfigRequest 1]" "quiet d"
    "ls_configuration_request_id (sv_loop d) = None"
    using dull_response[OF d(2)] e' q assms(2,3) by auto
  note a' = quiet_run[OF d(3) refl d'(3)]
  have "sv_global b = sv_global sv0 \<and> sv_sent b = [SendRegister 1, SendConfigRequest 1] \<and> quiet b \<and>
    ls_configuration_request_id (sv_loop b) = None"
    using dull_response[OF a(2)] a' d' by auto
  with quiet_run[OF a(3) refl] show ?thesis by auto
qed

theorem registration_hides_config_witness:
  "\<exists>sv0 sv. run_server sample_world None = Inr sv0 \<and>
     server_run sample_world sample_uri (\<lambda>rq :: unit request. False) sv0
       [MsgNotification DidChangeConfiguration, MsgResponse \<lparr>rs_id = 1, rs_error = None, rs_result = None\<rparr>,
        MsgResponse \<lparr>rs_id = 1, rs_error = None, rs_result = Some [DFinance]\<rparr>] sv \<and>
     sv_sent sv = [SendRegister 1, SendConfigRequest 1] \<and> sv_global sv = sv_global sv0"
proof -
  obtain sv0 where s: "run_server sample_world None = Inr sv0" "sv_status sv0 = Running" "sv_loop sv0 = loop_state_default"
    using sample_server by blast
  let ?step = "\<lambda>sv m. after_turn (loop_turn sample_world sample_uri (sv_global sv) (sv_loop sv)
       (EvLsp m :: (unit, dialect_name) event)) sv"
  let ?a = "MsgNotification DidChangeConfiguration"
  let ?b = "MsgResponse \<lparr>rs_id = 1, rs_error = None, rs_result = None\<rparr>"
  let ?c = "MsgResponse \<lparr>rs_id = 1, rs_error = None, rs_result = Some [DFinance]\<rparr>"
  have st: "sv_status (?step sv0 ?a) = Running" "sv_status (?step (?step sv0 ?a) ?b) = Running"
    by (simp_all add: ls_simps on_notification_def next_request_id_def loop_state_default_def on_config_response_def s)
  have run: "server_run sample_world sample_uri (\<lambda>rq :: unit request. False) sv0
      ((([] @ [?a]) @ [?b]) @ [?c]) (?step (?step (?step sv0 ?a) ?b) ?c)"
    by (rule run_message[OF run_message[OF run_message[OF run_start]]]; rule step_message) (simp_all add: st s(2))
  from registration_hides_config[OF s(1) _ _ _ run[simplified append.simps]] s(1) run show ?thesis by auto
qed

end
