(* ===== verification/Dove_Meta.thy ===== *)
theory Dove_Meta
  imports Lang_Meta Exec_Explain
begin

text \<open>
  The metadata of source files (\<open>dove/src/index/meta.rs\<close>): which module a definition is and
  which modules it imports, read from the syntax tree without name resolution, and the imports of
  a compiled module. The syntax tree has the constructors of the Move parser that the code
  matches on; the value, specification and operator leaves carry nothing the code reads.

  \<open>dn_to_u8\<close> reads an address of the syntax tree, \<open>mc_is_identifier\<close> is the test of
  \<open>Identifier::new\<close>; both are of the Move crates. A set of imports is threaded through the
  traversal, which stops at the first name that is no identifier.
\<close>

section \<open>Syntax\<close>

type_synonym module_ident = "string \<times> string"

datatype use = UseModule module_ident "string option" | UseMembers module_ident "(string \<times> string option) list"

datatype bind = BVar string | BUnpack module_access_name "ty list option" "(string \<times> bind) list"

datatype exp_ast =
    EValue | EMove string | ECopy string | EUnit | EBreak | EContinue | ESpec | EInferredNum | EUnresolvedError
  | ELambda "bind list" exp_ast
  | EIndex exp_ast exp_ast
  | ECall module_access_name "ty list option" "exp_ast list"
  | EPack module_access_name "ty list option" "(string \<times> exp_ast) list"
  | EIfElse exp_ast exp_ast "exp_ast option"
  | EWhile exp_ast exp_ast
  | EBlock "use list" "seq_item list" "exp_ast option"
  | EExpList "exp_ast list"
  | EAssign exp_ast exp_ast
  | EAbort exp_ast | EDereference exp_ast | ELoop exp_ast | EUnary exp_ast | EBorrow bool exp_ast | EDot exp_ast string
  | EAnnotate exp_ast ty
  | EReturn "exp_ast option"
  | EBinop exp_ast exp_ast
  | EName module_access_name "ty list option"
  | ECast exp_ast ty
and seq_item =
    SSeq exp_ast
  | SDeclare "bind list" "ty option"
  | SBind "bind list" "ty option" exp_ast

datatype function_body = BodyNative | BodyDefined "use list" "seq_item list" "exp_ast option"

record function_ast =
  fa_name :: string
  fa_parameters :: "(string \<times> ty) list"
  fa_return_type :: ty
  fa_body :: function_body

record constant_ast =
  ka_signature :: ty
  ka_body :: exp_ast

datatype struct_fields = FieldsNative | FieldsDefined "(string \<times> ty) list"

datatype module_member =
    MemberUse use | MemberFunction function_ast | MemberStruct struct_fields | MemberSpec
  | MemberConstant constant_ast

record move_module =
  mo_name :: string
  mo_members :: "module_member list"

record move_script =
  st_uses :: "use list"
  st_function :: function_ast

datatype source_definition =
    SdModule move_module | SdAddress string "move_module list" | SdScript move_script

section \<open>Extraction\<close>

record dove_env =
  dn_core :: move_core
  dn_to_u8 :: "string \<Rightarrow> account_address"

definition dove_identifier :: "dove_env \<Rightarrow> string \<Rightarrow> string exec" where
  "dove_identifier E s =
     (if mc_is_identifier (dn_core E) s then Inr s else Inl (Failed (''Invalid identifier '' @ s)))"

text \<open>\<open>ModuleId::new(address, Identifier::new(name)?)\<close>, put among the imports.\<close>

definition import_module :: "dove_env \<Rightarrow> module_ident \<Rightarrow> module_id set \<Rightarrow> module_id set exec" where
  "import_module E ident S =
     rbind (dove_identifier E (snd ident)) (\<lambda>name.
       Inr (insert \<lparr>mid_address = dn_to_u8 E (fst ident), mid_name = name\<rparr> S))"

primrec access_usages :: "dove_env \<Rightarrow> module_access_name \<Rightarrow> module_id set \<Rightarrow> module_id set exec" where
  "access_usages E (AccQualified a m n) S = import_module E (a, m) S"
| "access_usages E (AccModule m n) S = Inr S"
| "access_usages E (AccName n) S = Inr S"

primrec uses :: "dove_env \<Rightarrow> use \<Rightarrow> module_id set \<Rightarrow> module_id set exec" where
  "uses E (UseMembers ident ms) S = import_module E ident S"
| "uses E (UseModule ident a) S = import_module E ident S"

lemma foldM_cong [fundef_cong]:
  "xs = ys \<Longrightarrow> s = t \<Longrightarrow> (\<And>x s. x \<in> set ys \<Longrightarrow> f x s = g x s) \<Longrightarrow> foldM f xs s = foldM g ys t"
  by (induction ys arbitrary: xs s t) (auto simp: rbind_def split: sum.splits)

text \<open>\<open>if let Some(x) = x \{ f(x)? \}\<close>.\<close>

definition optM :: "('a \<Rightarrow> 's \<Rightarrow> 'e + 's) \<Rightarrow> 'a option \<Rightarrow> 's \<Rightarrow> 'e + 's" where
  "optM f x s = (case x of None \<Rightarrow> Inr s | Some y \<Rightarrow> f y s)"

lemma optM_simps [simp]: "optM f None s = Inr s" "optM f (Some y) s = f y s"
  by (simp_all add: optM_def)

lemma optM_cong [fundef_cong]:
  "x = y \<Longrightarrow> s = t \<Longrightarrow> (\<And>z s. z \<in> set_option y \<Longrightarrow> f z s = g z s) \<Longrightarrow> optM f x s = optM g y t"
  by (cases y) simp_all

fun s_type_usages :: "dove_env \<Rightarrow> ty \<Rightarrow> module_id set \<Rightarrow> module_id set exec" where
  "s_type_usages E (TyApply module_access s_types) S =
     rbind (access_usages E module_access S) (foldM (s_type_usages E) s_types)"
| "s_type_usages E (TyRef m s_type) S = s_type_usages E s_type S"
| "s_type_usages E (TyFun s_types s_type) S =
     rbind (foldM (s_type_usages E) s_types S) (s_type_usages E s_type)"
| "s_type_usages E TyUnit S = Inr S"
| "s_type_usages E (TyMultiple s_types) S = foldM (s_type_usages E) s_types S"

text \<open>\<open>type_usages\<close> takes the parts of a type in another order.\<close>

primrec type_usages :: "dove_env \<Rightarrow> ty \<Rightarrow> module_id set \<Rightarrow> module_id set exec" where
  "type_usages E TyUnit S = Inr S"
| "type_usages E (TyMultiple s_types) S = foldM (s_type_usages E) s_types S"
| "type_usages E (TyApply access s_types) S =
     rbind (foldM (s_type_usages E) s_types S) (access_usages E access)"
| "type_usages E (TyRef m s_type) S = s_type_usages E s_type S"
| "type_usages E (TyFun s_types s_type) S =
     rbind (s_type_usages E s_type S) (foldM (s_type_usages E) s_types)"

text \<open>The nested patterns are visited only when the pattern has type arguments.\<close>

fun bind_usages :: "dove_env \<Rightarrow> bind \<Rightarrow> module_id set \<Rightarrow> module_id set exec" where
  "bind_usages E (BVar v) S = Inr S"
| "bind_usages E (BUnpack access s_types binds) S =
     rbind (access_usages E access S) (\<lambda>S.
       case s_types of
         None \<Rightarrow> Inr S
       | Some ts \<Rightarrow> rbind (foldM (s_type_usages E) ts S) (foldM (\<lambda>b. bind_usages E (snd b)) binds))"

fun expresion_usages :: "dove_env \<Rightarrow> exp_ast \<Rightarrow> module_id set \<Rightarrow> module_id set exec"
and seq_item_usages :: "dove_env \<Rightarrow> seq_item \<Rightarrow> module_id set \<Rightarrow> module_id set exec" where
  "expresion_usages E (ECall access s_types exps) S =
     rbind (access_usages E access S) (\<lambda>S.
     rbind (optM (foldM (s_type_usages E)) s_types S) (foldM (expresion_usages E) exps))"
| "expresion_usages E (EPack access s_types field_list) S =
     rbind (access_usages E access S) (\<lambda>S.
     rbind (optM (foldM (s_type_usages E)) s_types S) (foldM (\<lambda>f. expresion_usages E (snd f)) field_list))"
| "expresion_usages E (EIfElse eb et ef) S =
     rbind (expresion_usages E eb S) (\<lambda>S.
     rbind (expresion_usages E et S) (optM (expresion_usages E) ef))"
| "expresion_usages E (EWhile eb eloop) S =
     rbind (expresion_usages E eb S) (expresion_usages E eloop)"
| "expresion_usages E (EBlock us seq e) S =
     rbind (foldM (uses E) us S) (\<lambda>S.
     rbind (foldM (seq_item_usages E) seq S) (optM (expresion_usages E) e))"
| "expresion_usages E (EExpList exps) S = foldM (expresion_usages E) exps S"
| "expresion_usages E (EAssign a e) S = rbind (expresion_usages E a S) (expresion_usages E e)"
| "expresion_usages E (EAbort e) S = expresion_usages E e S"
| "expresion_usages E (EDereference e) S = expresion_usages E e S"
| "expresion_usages E (ELoop e) S = expresion_usages E e S"
| "expresion_usages E (EUnary e) S = expresion_usages E e S"
| "expresion_usages E (EBorrow m e) S = expresion_usages E e S"
| "expresion_usages E (EDot e f) S = expresion_usages E e S"
| "expresion_usages E (EAnnotate e t) S = expresion_usages E e S"
| "expresion_usages E (EReturn e) S = optM (expresion_usages E) e S"
| "expresion_usages E (EBinop e1 e2) S = rbind (expresion_usages E e1 S) (expresion_usages E e2)"
| "expresion_usages E (EName access s_types) S =
     rbind (access_usages E access S) (optM (foldM (s_type_usages E)) s_types)"
| "expresion_usages E (ECast e1 s_type) S = rbind (expresion_usages E e1 S) (s_type_usages E s_type)"
| "expresion_usages E _ S = Inr S"
| "seq_item_usages E (SSeq e) S = expresion_usages E e S"
| "seq_item_usages E (SDeclare bind_list s_type) S =
     rbind (foldM (bind_usages E) bind_list S) (optM (type_usages E) s_type)"
| "seq_item_usages E (SBind bind_list s_type e) S =
     rbind (foldM (bind_usages E) bind_list S) (\<lambda>S.
     rbind (optM (type_usages E) s_type S) (expresion_usages E e))"

definition block_usages :: "dove_env \<Rightarrow> seq_item list \<Rightarrow> module_id set \<Rightarrow> module_id set exec" where
  "block_usages E = foldM (seq_item_usages E)"

definition signature_usages :: "dove_env \<Rightarrow> function_ast \<Rightarrow> module_id set \<Rightarrow> module_id set exec" where
  "signature_usages E f S =
     rbind (foldM (\<lambda>p. type_usages E (snd p)) (fa_parameters f) S) (type_usages E (fa_return_type f))"

primrec internal_usages :: "dove_env \<Rightarrow> function_body \<Rightarrow> module_id set \<Rightarrow> module_id set exec" where
  "internal_usages E (BodyDefined us seq e) S =
     rbind (foldM (uses E) us S) (\<lambda>S.
     rbind (block_usages E seq S) (optM (expresion_usages E) e))"
| "internal_usages E BodyNative S = Inr S"

definition function_usages :: "dove_env \<Rightarrow> function_ast \<Rightarrow> module_id set \<Rightarrow> module_id set exec" where
  "function_usages E f S = rbind (signature_usages E f S) (internal_usages E (fa_body f))"

definition constant_usages :: "dove_env \<Rightarrow> constant_ast \<Rightarrow> module_id set \<Rightarrow> module_id set exec" where
  "constant_usages E c S = rbind (type_usages E (ka_signature c) S) (expresion_usages E (ka_body c))"

record definition_meta =
  dm_module_id :: module_id
  dm_imports :: "module_id set"

primrec member_usages :: "dove_env \<Rightarrow> module_member \<Rightarrow> module_id set \<Rightarrow> module_id set exec" where
  "member_usages E (MemberUse u) S = uses E u S"
| "member_usages E (MemberFunction f) S = function_usages E f S"
| "member_usages E (MemberStruct field_list) S =
     (case field_list of
        FieldsDefined types \<Rightarrow> foldM (\<lambda>t. s_type_usages E (snd t)) types S
      | FieldsNative \<Rightarrow> Inr S)"
| "member_usages E MemberSpec S = Inr S"
| "member_usages E (MemberConstant c) S = constant_usages E c S"

definition module_meta :: "dove_env \<Rightarrow> move_module \<Rightarrow> account_address \<Rightarrow> definition_meta exec" where
  "module_meta E m address =
     rbind (dove_identifier E (mo_name m)) (\<lambda>name.
     rbind (foldM (member_usages E) (mo_members m) {}) (\<lambda>imports.
       Inr \<lparr>dm_module_id = \<lparr>mid_address = address, mid_name = name\<rparr>, dm_imports = imports\<rparr>))"

text \<open>\<open>rnd\<close>: the random number in the identifier of a script.\<close>

definition script_definition_meta ::
    "dove_env \<Rightarrow> nat \<Rightarrow> move_script \<Rightarrow> account_address \<Rightarrow> definition_meta exec" where
  "script_definition_meta E rnd s address =
     rbind (dove_identifier E (''scripts_'' @ fa_name (st_function s) @ ''_'' @ show_nat rnd)) (\<lambda>name.
     rbind (foldM (uses E) (st_uses s) {}) (\<lambda>S.
     rbind (function_usages E (st_function s) S) (\<lambda>imports.
       Inr \<lparr>dm_module_id = \<lparr>mid_address = address, mid_name = name\<rparr>, dm_imports = imports\<rparr>)))"

definition from_definition ::
    "dove_env \<Rightarrow> nat \<Rightarrow> account_address option \<Rightarrow> source_definition \<Rightarrow> definition_meta list exec" where
  "from_definition E rnd address def =
     (case def of
        SdModule m \<Rightarrow>
          (case address of
             None \<Rightarrow> Inl (Failed (''Address not defined for module '' @ mo_name m))
           | Some addr \<Rightarrow> rbind (module_meta E m addr) (\<lambda>d. Inr [d]))
      | SdAddress a modules \<Rightarrow> mapM (\<lambda>m. module_meta E m (dn_to_u8 E a)) modules
      | SdScript s \<Rightarrow>
          rbind (script_definition_meta E rnd s
                   (case address of Some a \<Rightarrow> a | None \<Rightarrow> mc_core_code_address (dn_core E))) (\<lambda>d. Inr [d]))"

record file_meta =
  fm_path :: string
  fm_meta :: "definition_meta list"

text \<open>The loop of \<open>source_meta\<close>; definition \<open>i\<close> draws the random number \<open>rnd i\<close>.\<close>

fun definitions_meta ::
    "dove_env \<Rightarrow> (nat \<Rightarrow> nat) \<Rightarrow> string \<Rightarrow> account_address option \<Rightarrow> nat \<Rightarrow> source_definition list \<Rightarrow>
     definition_meta list exec" where
  "definitions_meta E rnd path address i [] = Inr []"
| "definitions_meta E rnd path address i (def # defs) =
     rbind (map_error (\<lambda>err. case err of Failed e \<Rightarrow> Failed (e @ '' Path:'' @ path) | _ \<Rightarrow> err)
              (from_definition E (rnd i) address def)) (\<lambda>ms.
     rbind (definitions_meta E rnd path address (Suc i) defs) (\<lambda>rest. Inr (ms @ rest)))"

definition source_meta ::
    "dove_env \<Rightarrow> (source_definition, 'k, 'c, 'u) move_lang \<Rightarrow> fs \<Rightarrow> (nat \<Rightarrow> nat) \<Rightarrow> dialect \<Rightarrow> string \<Rightarrow>
     account_address option \<Rightarrow> file_meta exec" where
  "source_meta E L F rnd d path address =
     rbind (failing (fs_read F path)) (\<lambda>source.
     rbind (trapping (parse_file L d Map.empty path source None)) (\<lambda>(f, _).
       if pf_errors f = []
       then rbind (definitions_meta E rnd path address 0 (pf_defs f)) (\<lambda>metadata.
              Inr \<lparr>fm_path = path, fm_meta = metadata\<rparr>)
       else Inl (Failed (''Failed to parse move file:'' @ path))))"

section \<open>Imports of a compiled module\<close>

record module_tables =
  bm_module_handles :: "module_handle list"
  bm_identifiers :: "string list"
  bm_address_identifiers :: "account_address list"

definition handle_import :: "dove_env \<Rightarrow> module_tables \<Rightarrow> module_handle \<Rightarrow> module_id set \<Rightarrow> module_id set exec" where
  "handle_import E m h S =
     rbind (trapping (at_index (bm_identifiers m) (mh_name h))) (\<lambda>name.
     rbind (trapping (at_index (bm_address_identifiers m) (mh_address h))) (\<lambda>address.
     rbind (dove_identifier E name) (\<lambda>name.
       Inr (insert \<lparr>mid_address = address, mid_name = name\<rparr> S))))"

definition extract_imports :: "dove_env \<Rightarrow> module_tables \<Rightarrow> module_id set \<Rightarrow> module_id set exec" where
  "extract_imports E m S =
     (case bm_module_handles m of
        [] \<Rightarrow> Inr S
      | _ # module_handles \<Rightarrow> foldM (handle_import E m) module_handles S)"

definition extract_bytecode_dependencies ::
    "dove_env \<Rightarrow> (8 word list \<Rightarrow> string + module_tables) \<Rightarrow> 8 word list \<Rightarrow> module_id set exec" where
  "extract_bytecode_dependencies E deserialize bytecode =
     rbind (failing (deserialize bytecode)) (\<lambda>m. extract_imports E m {})"

end
