(* ===== verification/Dove_Manifest.thy ===== *)
theory Dove_Manifest
  imports Lang_Meta Exec_Explain
begin

text \<open>
  The project manifest and context of dove (\<open>dove/src/manifest.rs\<close>, \<open>context.rs\<close>,
  \<open>cmd/metadata.rs\<close>): reading and writing the tables of \<open>Dove.toml\<close>, the defaults of its keys
  and the paths of a project.

  The TOML crate is the argument \<open>toml_parse\<close>; a TOML value has the shapes the code tells apart.
  The derived readers take a struct from a table: a missing key is the default of its attribute,
  \<open>None\<close> for an option, and otherwise an error. Paths are their text.
\<close>

section \<open>Paths\<close>

definition path_join :: "string \<Rightarrow> string \<Rightarrow> string" where
  "path_join a b =
     (if starts_with ''/'' b then b
      else if a = [] \<or> last a = CHR ''/'' then a @ b else a @ ''/'' @ b)"

definition path_file_name :: "string \<Rightarrow> string option" where
  "path_file_name p =
     (let name = rev (takeWhile (\<lambda>c. c \<noteq> CHR ''/'') (rev p))
      in if name = [] \<or> name = ''.'' \<or> name = ''..'' then None else Some name)"

text \<open>\<open>Path::set_extension\<close>: the text behind the last dot of the file name is replaced; a dot
  at its start does not count.\<close>

definition file_stem :: "string \<Rightarrow> string" where
  "file_stem name =
     (let r = dropWhile (\<lambda>c. c \<noteq> CHR ''.'') (rev name)
      in if length r \<le> 1 then name else rev (tl r))"

definition set_extension :: "string \<Rightarrow> string \<Rightarrow> string" where
  "set_extension p ext =
     (case path_file_name p of
        None \<Rightarrow> p
      | Some name \<Rightarrow> take (length p - length name) p @ file_stem name @ ''.'' @ ext)"

section \<open>Manifest (manifest.rs)\<close>

datatype toml = TomlString string | TomlArray "toml list" | TomlTable "(string \<times> toml) list" | TomlOther

definition MANIFEST :: string where "MANIFEST = ''Dove.toml''"

definition default_dialect :: string where "default_dialect = ''dfinance''"

definition code_code_address :: "move_core \<Rightarrow> string" where
  "code_code_address M = ''0x'' @ mc_display M (mc_core_code_address M)"

record git_dep =
  gd_git :: string
  gd_branch :: "string option"
  gd_rev :: "string option"

datatype dependence = DepGit git_dep | DepPath string

record package =
  pk_name :: "string option"
  pk_account_address :: "string option"
  pk_authors :: "string list"
  pk_blockchain_api :: "string option"
  pk_dependencies :: "dependence list option"
  pk_dialect :: "string option"

record layout =
  ly_module_dir :: string
  ly_script_dir :: string
  ly_tests_dir :: string
  ly_module_output :: string
  ly_script_output :: string
  ly_transaction_output :: string
  ly_target_deps :: string
  ly_target :: string
  ly_index :: string

record dove_toml =
  tm_package :: package
  tm_layout :: layout

definition package_default :: "move_core \<Rightarrow> package" where
  "package_default M =
     \<lparr>pk_name = None, pk_account_address = Some (code_code_address M), pk_authors = [],
      pk_blockchain_api = None, pk_dependencies = None, pk_dialect = None\<rparr>"

definition layout_default :: layout where
  "layout_default =
     \<lparr>ly_module_dir = ''modules'', ly_script_dir = ''scripts'', ly_tests_dir = ''tests'',
      ly_module_output = ''target/modules'', ly_script_output = ''target/scripts'',
      ly_transaction_output = ''target/transactions'', ly_target_deps = ''target/.external'',
      ly_target = ''target'', ly_index = ''.Dove.man''\<rparr>"

definition dove_toml_default :: "move_core \<Rightarrow> dove_toml" where
  "dove_toml_default M = \<lparr>tm_package = package_default M, tm_layout = layout_default\<rparr>"

definition toml_string :: "toml \<Rightarrow> string + string" where
  "toml_string v = (case v of TomlString s \<Rightarrow> Inr s | _ \<Rightarrow> Inl ''invalid type: expected a string'')"

definition toml_strings :: "toml \<Rightarrow> string + string list" where
  "toml_strings v = (case v of TomlArray vs \<Rightarrow> mapM toml_string vs | _ \<Rightarrow> Inl ''invalid type: expected a sequence'')"

definition toml_table :: "toml \<Rightarrow> string + (string \<times> toml) list" where
  "toml_table v = (case v of TomlTable t \<Rightarrow> Inr t | _ \<Rightarrow> Inl ''invalid type: expected a table'')"

text \<open>A key of a table: with a default, or required.\<close>

definition key_or :: "'a \<Rightarrow> (toml \<Rightarrow> string + 'a) \<Rightarrow> (string \<times> toml) list \<Rightarrow> string \<Rightarrow> string + 'a" where
  "key_or d f t k = (case map_of t k of None \<Rightarrow> Inr d | Some v \<Rightarrow> f v)"

definition key_required :: "(toml \<Rightarrow> string + 'a) \<Rightarrow> (string \<times> toml) list \<Rightarrow> string \<Rightarrow> string + 'a" where
  "key_required f t k = (case map_of t k of None \<Rightarrow> Inl (''missing field '' @ k) | Some v \<Rightarrow> f v)"

definition some_of :: "(toml \<Rightarrow> string + 'a) \<Rightarrow> toml \<Rightarrow> string + 'a option" where
  "some_of f v = rbind (f v) (\<lambda>x. Inr (Some x))"

definition git_of_toml :: "(string \<times> toml) list \<Rightarrow> string + git_dep" where
  "git_of_toml t =
     rbind (key_required toml_string t ''git'') (\<lambda>git.
     rbind (key_or None (some_of toml_string) t ''branch'') (\<lambda>branch.
     rbind (key_or None (some_of toml_string) t ''rev'') (\<lambda>rev.
       Inr \<lparr>gd_git = git, gd_branch = branch, gd_rev = rev\<rparr>)))"

definition dep_path_of_toml :: "(string \<times> toml) list \<Rightarrow> string + string" where
  "dep_path_of_toml t = key_required toml_string t ''path''"

definition dependence_of_toml :: "toml \<Rightarrow> string + dependence" where
  "dependence_of_toml ele =
     (case ele of
        TomlTable tbl \<Rightarrow>
          (if map_of tbl ''git'' \<noteq> None then rbind (git_of_toml tbl) (\<lambda>g. Inr (DepGit g))
           else rbind (dep_path_of_toml tbl) (\<lambda>p. Inr (DepPath p)))
      | _ \<Rightarrow> Inl ''unknown variant, expected struct'')"

definition dependencies_of_toml :: "toml \<Rightarrow> string + dependence list" where
  "dependencies_of_toml v =
     (case v of TomlArray vs \<Rightarrow> mapM dependence_of_toml vs | _ \<Rightarrow> Inl ''invalid type: expected vector of dependencies'')"

definition opt_key :: "string \<Rightarrow> string option \<Rightarrow> (string \<times> toml) list" where
  "opt_key k v = (case v of None \<Rightarrow> [] | Some s \<Rightarrow> [(k, TomlString s)])"

definition toml_of_dependence :: "dependence \<Rightarrow> toml" where
  "toml_of_dependence dep =
     (case dep of
        DepPath path \<Rightarrow> TomlTable [(''path'', TomlString path)]
      | DepGit git \<Rightarrow>
          TomlTable ((''git'', TomlString (gd_git git)) # opt_key ''branch'' (gd_branch git) @ opt_key ''rev'' (gd_rev git)))"

definition toml_of_dependencies :: "dependence list \<Rightarrow> toml" where
  "toml_of_dependencies deps = TomlArray (map toml_of_dependence deps)"

definition package_of_toml :: "move_core \<Rightarrow> toml \<Rightarrow> string + package" where
  "package_of_toml M v =
     rbind (toml_table v) (\<lambda>t.
     rbind (key_or None (some_of toml_string) t ''name'') (\<lambda>name.
     rbind (key_or (Some (code_code_address M)) (some_of toml_string) t ''account_address'') (\<lambda>account_address.
     rbind (key_or [] toml_strings t ''authors'') (\<lambda>authors.
     rbind (key_or None (some_of toml_string) t ''blockchain_api'') (\<lambda>blockchain_api.
     rbind (key_or None (some_of dependencies_of_toml) t ''dependencies'') (\<lambda>dependencies.
     rbind (key_or (Some default_dialect) (some_of toml_string) t ''dialect'') (\<lambda>dialect.
       Inr \<lparr>pk_name = name, pk_account_address = account_address, pk_authors = authors,
            pk_blockchain_api = blockchain_api, pk_dependencies = dependencies, pk_dialect = dialect\<rparr>)))))))"

definition layout_of_toml :: "toml \<Rightarrow> string + layout" where
  "layout_of_toml v =
     rbind (toml_table v) (\<lambda>t.
     rbind (key_or ''modules'' toml_string t ''module_dir'') (\<lambda>module_dir.
     rbind (key_or ''scripts'' toml_string t ''script_dir'') (\<lambda>script_dir.
     rbind (key_or ''tests'' toml_string t ''tests_dir'') (\<lambda>tests_dir.
     rbind (key_or ''target/modules'' toml_string t ''module_output'') (\<lambda>module_output.
     rbind (key_or ''target/scripts'' toml_string t ''script_output'') (\<lambda>script_output.
     rbind (key_or ''target/transactions'' toml_string t ''transaction_output'') (\<lambda>transaction_output.
     rbind (key_or ''target/.external'' toml_string t ''target_deps'') (\<lambda>target_deps.
     rbind (key_or ''target'' toml_string t ''target'') (\<lambda>target.
     rbind (key_required toml_string t ''index'') (\<lambda>index.
       Inr \<lparr>ly_module_dir = module_dir, ly_script_dir = script_dir, ly_tests_dir = tests_dir,
            ly_module_output = module_output, ly_script_output = script_output,
            ly_transaction_output = transaction_output, ly_target_deps = target_deps,
            ly_target = target, ly_index = index\<rparr>))))))))))"

definition dove_toml_of_toml :: "move_core \<Rightarrow> toml \<Rightarrow> string + dove_toml" where
  "dove_toml_of_toml M v =
     rbind (toml_table v) (\<lambda>t.
     rbind (key_required (package_of_toml M) t ''package'') (\<lambda>package.
     rbind (key_or layout_default layout_of_toml t ''layout'') (\<lambda>layout.
       Inr \<lparr>tm_package = package, tm_layout = layout\<rparr>)))"

definition read_manifest ::
    "move_core \<Rightarrow> (string \<Rightarrow> string + toml) \<Rightarrow> fs \<Rightarrow> string \<Rightarrow> string + dove_toml" where
  "read_manifest M toml_parse F path =
     rbind (fs_read F path) (\<lambda>content. rbind (toml_parse content) (dove_toml_of_toml M))"

section \<open>Context (context.rs)\<close>

record dove_context =
  cx_project_dir :: string
  cx_manifest :: dove_toml
  cx_dialect_name :: dialect_name

definition cx_package :: "dove_context \<Rightarrow> package" where
  "cx_package ctx = tm_package (cx_manifest ctx)"

definition cx_layout :: "dove_context \<Rightarrow> layout" where
  "cx_layout ctx = tm_layout (cx_manifest ctx)"

definition path_for :: "dove_context \<Rightarrow> string \<Rightarrow> string" where
  "path_for ctx path = path_join (cx_project_dir ctx) path"

definition paths_for :: "fs \<Rightarrow> dove_context \<Rightarrow> string list \<Rightarrow> string list" where
  "paths_for F ctx paths = filter (fs_exists F) (map (path_for ctx) paths)"

definition project_name :: "dove_context \<Rightarrow> string" where
  "project_name ctx =
     (case pk_name (cx_package ctx) of
        Some name \<Rightarrow> name
      | None \<Rightarrow> (case path_file_name (cx_project_dir ctx) of Some name \<Rightarrow> name | None \<Rightarrow> ''project''))"

definition account_address_of :: "codecs \<Rightarrow> dove_context \<Rightarrow> string + provided_account_address" where
  "account_address_of C ctx =
     (case pk_account_address (cx_package ctx) of
        None \<Rightarrow> Inl ''couldn't read account address from manifest''
      | Some acc_addr \<Rightarrow> di_normalize (get_dialect C (cx_dialect_name ctx)) acc_addr)"

definition context_of :: "string \<Rightarrow> dove_toml \<Rightarrow> string + dove_context" where
  "context_of project_dir manifest =
     rbind (dialect_from_str (case pk_dialect (tm_package manifest) of Some d \<Rightarrow> d | None \<Rightarrow> default_dialect)) (\<lambda>d.
       Inr \<lparr>cx_project_dir = project_dir, cx_manifest = manifest, cx_dialect_name = d\<rparr>)"

definition create_context :: "move_core \<Rightarrow> string \<Rightarrow> string + dove_context" where
  "create_context M current_dir = context_of current_dir (dove_toml_default M)"

definition load_manifest ::
    "move_core \<Rightarrow> (string \<Rightarrow> string + toml) \<Rightarrow> fs \<Rightarrow> string \<Rightarrow> string + dove_toml" where
  "load_manifest M toml_parse F project_dir =
     (let manifest = path_join project_dir MANIFEST
      in if \<not> fs_exists F manifest
         then Inl (''could not find `'' @ MANIFEST @ ''` in `'' @ project_dir @ ''`.'')
         else read_manifest M toml_parse F manifest)"

definition get_context ::
    "move_core \<Rightarrow> (string \<Rightarrow> string + toml) \<Rightarrow> fs \<Rightarrow> string \<Rightarrow> string + dove_context" where
  "get_context M toml_parse F project_dir =
     rbind (load_manifest M toml_parse F project_dir) (context_of project_dir)"

section \<open>Metadata (cmd/metadata.rs)\<close>

record package_metadata =
  pm_name :: string
  pm_account_address :: "string option"
  pm_authors :: "string list"
  pm_blockchain_api :: "string option"
  pm_git_dependencies :: "git_dep list"
  pm_local_dependencies :: "string list"
  pm_dialect :: string

record dove_metadata =
  md_package :: package_metadata
  md_layout :: layout

text \<open>One dependency of the loop; \<open>canonicalize\<close> is the file system's.\<close>

definition sort_dependency ::
    "(string \<Rightarrow> string option) \<Rightarrow> string \<Rightarrow> git_dep list \<times> string list \<Rightarrow> dependence \<Rightarrow> git_dep list \<times> string list" where
  "sort_dependency canonicalize project_dir s dep =
     (case s of (git_deps, local_deps) \<Rightarrow>
        case dep of
          DepGit git \<Rightarrow> (git_deps @ [git], local_deps)
        | DepPath path \<Rightarrow>
            (case canonicalize (path_join project_dir path) of
               Some abs_path \<Rightarrow> (git_deps, local_deps @ [abs_path])
             | None \<Rightarrow> (git_deps, local_deps)))"

definition into_metadata :: "codecs \<Rightarrow> (string \<Rightarrow> string option) \<Rightarrow> dove_context \<Rightarrow> dove_metadata" where
  "into_metadata C canonicalize ctx =
     (let p = cx_package ctx;
          dependencies = (case pk_dependencies p of Some d \<Rightarrow> d | None \<Rightarrow> []);
          (git_deps, local_deps) = foldl (sort_dependency canonicalize (cx_project_dir ctx)) ([], []) dependencies
      in \<lparr>md_package =
            \<lparr>pm_name = project_name ctx, pm_account_address = pk_account_address p, pm_authors = pk_authors p,
             pm_blockchain_api = pk_blockchain_api p, pm_git_dependencies = git_deps,
             pm_local_dependencies = local_deps, pm_dialect = di_name (get_dialect C (cx_dialect_name ctx))\<rparr>,
          md_layout = cx_layout ctx\<rparr>)"

section \<open>Properties\<close>

lemma git_roundtrip: "git_of_toml ((''git'', TomlString (gd_git g)) # opt_key ''branch'' (gd_branch g) @ opt_key ''rev'' (gd_rev g)) = Inr g"
  by (cases g; cases "gd_branch g"; cases "gd_rev g")
     (simp_all add: git_of_toml_def key_required_def key_or_def opt_key_def some_of_def toml_string_def)

text \<open>The dependencies of a manifest survive writing and reading, in their order: git
  dependencies with any combination of branch and revision, and paths.\<close>

theorem dependencies_roundtrip: "dependencies_of_toml (toml_of_dependencies deps) = Inr deps"
proof -
  have "dependence_of_toml (toml_of_dependence d) = Inr d" for d
  proof (cases d)
    case (DepGit g)
    then show ?thesis using git_roundtrip[of g] by (simp add: dependence_of_toml_def toml_of_dependence_def)
  next
    case (DepPath p)
    then show ?thesis
      by (simp add: dependence_of_toml_def toml_of_dependence_def dep_path_of_toml_def key_required_def toml_string_def)
  qed
  then have "mapM dependence_of_toml (map toml_of_dependence deps) = Inr deps"
    by (induction deps) simp_all
  then show ?thesis by (simp add: dependencies_of_toml_def toml_of_dependencies_def)
qed

lemma layout_without_index: "map_of l ''index'' = None \<Longrightarrow> \<exists>e. layout_of_toml (TomlTable l) = Inl e"
  by (simp add: layout_of_toml_def toml_table_def key_required_def rbind_def split: sum.split)

text \<open>A manifest that has a layout table must name the index in it: without the key the
  manifest is refused, though all other keys of the table are optional and a manifest without the
  table takes the index \<open>.Dove.man\<close>.\<close>

theorem layout_needs_index:
  assumes "map_of t ''package'' = Some p" "package_of_toml M p = Inr pk"
  shows "(\<forall>l. map_of t ''layout'' = Some (TomlTable l) \<and> map_of l ''index'' = None \<longrightarrow>
            (\<exists>e. dove_toml_of_toml M (TomlTable t) = Inl e)) \<and>
         (map_of t ''layout'' = None \<longrightarrow>
            dove_toml_of_toml M (TomlTable t) = Inr \<lparr>tm_package = pk, tm_layout = layout_default\<rparr>)"
proof -
  have "dove_toml_of_toml M (TomlTable t) =
      rbind (key_or layout_default layout_of_toml t ''layout'') (\<lambda>l. Inr \<lparr>tm_package = pk, tm_layout = l\<rparr>)"
    using assms by (simp add: dove_toml_of_toml_def toml_table_def key_required_def)
  note eq = this
  show ?thesis
  proof (intro conjI allI impI)
    fix l assume l: "map_of t ''layout'' = Some (TomlTable l) \<and> map_of l ''index'' = None"
    with layout_without_index obtain e where "layout_of_toml (TomlTable l) = Inl e" by blast
    with l eq show "\<exists>e. dove_toml_of_toml M (TomlTable t) = Inl e" by (simp add: key_or_def)
  qed (simp add: eq key_or_def)
qed

definition sample_manifest :: "(string \<times> toml) list \<Rightarrow> toml" where
  "sample_manifest l =
     TomlTable [(''package'', TomlTable [(''name'', TomlString ''foo'')]), (''layout'', TomlTable l)]"

theorem layout_needs_index_witness:
  "\<exists>e. dove_toml_of_toml \<lparr>mc_from_hex = (\<lambda>_. Some []), mc_is_identifier = (\<lambda>_. True), mc_to_uppercase = id,
        mc_status_codes = [], mc_core_code_address = [1], mc_display = (\<lambda>_. ''1''), mc_short_str = (\<lambda>_. []),
        mc_lang_display = (\<lambda>_. [])\<rparr> (sample_manifest [(''tests_dir'', TomlString ''t'')]) = Inl e"
  unfolding sample_manifest_def
  by (rule conjunct1[OF layout_needs_index, rule_format, where p = "TomlTable [(''name'', TomlString ''foo'')]"])
     (auto simp: package_of_toml_def toml_table_def key_or_def some_of_def toml_string_def code_code_address_def)

end
