(* ===== verification/Dove_Index.thy ===== *)
theory Dove_Index
  imports Dove_Meta Dove_Manifest
begin

text \<open>
  The module index of dove: \<open>dove/src/index/mod.rs\<close>, \<open>index/store.rs\<close> and the resolvers for
  chain and git dependencies (\<open>index/resolver\<close>).

  A project runs on \<open>disk\<close>: the files dove has written over those of \<open>dw_fs\<close>. \<open>dove_world\<close> holds
  what lies outside: the compiler, the REST source of bytecode, git, the disassembled text of a
  module, the hash of a module id, the TOML form of an index, directory listings, and the order
  in which a hash set or the index is enumerated. A computation that may not return has an
  optional result; \<open>None\<close> is a recursion that never ends.
\<close>

section \<open>Sequencing\<close>

definition obind :: "('e + 'a) option \<Rightarrow> ('a \<Rightarrow> ('e + 'b) option) \<Rightarrow> ('e + 'b) option" where
  "obind m f = Option.bind m (\<lambda>r. case r of Inl e \<Rightarrow> Some (Inl e) | Inr x \<Rightarrow> f x)"

lemma obind_simps [simp]:
  "obind None f = None" "obind (Some (Inl e)) f = Some (Inl e)" "obind (Some (Inr x)) f = f x"
  by (simp_all add: obind_def)

lemma obind_eq_Some: "obind m f = Some r \<longleftrightarrow> (\<exists>e. m = Some (Inl e) \<and> r = Inl e) \<or> (\<exists>x. m = Some (Inr x) \<and> f x = Some r)"
  by (cases m) (auto simp: obind_def split: sum.splits)

lemma obind_mono [partial_function_mono]:
  assumes "mono_option B" "\<And>y. mono_option (\<lambda>f. C y f)"
  shows "mono_option (\<lambda>f. obind (B f) (\<lambda>y. C y f))"
  unfolding obind_def
proof (rule bind_mono[OF assms(1)])
  fix y :: "'c + 'd"
  show "mono_option (\<lambda>f. case y of Inl e \<Rightarrow> Some (Inl e) | Inr x \<Rightarrow> C x f)"
    by (cases y) (simp_all add: assms(2) option.const_mono)
qed

primrec foldO :: "('a \<Rightarrow> 's \<Rightarrow> ('e + 's) option) \<Rightarrow> 'a list \<Rightarrow> 's \<Rightarrow> ('e + 's) option" where
  "foldO f [] s = Some (Inr s)"
| "foldO f (x # xs) s = obind (f x s) (foldO f xs)"

lemma foldO_mono [partial_function_mono]:
  assumes "\<And>x s. mono_option (\<lambda>f. B f x s)"
  shows "mono_option (\<lambda>f. foldO (B f) xs s)"
proof (induction xs arbitrary: s)
  case Nil
  show ?case by (simp add: option.const_mono)
next
  case (Cons x xs)
  have "mono_option (\<lambda>f. obind (B f x s) (\<lambda>s. foldO (B f) xs s))"
    by (rule obind_mono[OF assms Cons])
  then show ?case by simp
qed

section \<open>State\<close>

datatype source_type = SrcLocal | SrcGit | SrcChain

record dove_module =
  dv_name :: module_id
  dv_dep_name :: string
  dv_path :: string
  dv_source_type :: source_type
  dv_dependencies :: "module_id set"

type_synonym modules_index = "module_id \<Rightarrow> (source_type \<Rightarrow> dove_module option) option"

record dove_index =
  ix_modules :: modules_index
  ix_dep_names :: "string set"

type_synonym disk = "string \<Rightarrow> string option"

record ('k, 'c, 'u) dove_world =
  dw_env :: dove_env
  dw_codecs :: codecs
  dw_lang :: "(source_definition, 'k, 'c, 'u) move_lang"
  dw_fs :: fs
  dw_random :: "nat \<Rightarrow> nat"
  dw_load_bytecode :: "string \<Rightarrow> module_id \<Rightarrow> string + 8 word list"
  dw_deserialize :: "8 word list \<Rightarrow> string + module_tables"
  dw_signature :: "8 word list \<Rightarrow> string + string"
  dw_local_name :: "module_id \<Rightarrow> string"
  dw_git_resolve :: "dove_context \<Rightarrow> git_dep \<Rightarrow> string + string"
  dw_toml_parse :: "string \<Rightarrow> string + toml"
  dw_index_text :: "dove_module list \<Rightarrow> string + string"
  dw_index_parse :: "string \<Rightarrow> string + dove_module list"
  dw_read_dir :: "string \<Rightarrow> string + (string + string) list"
  dw_module_order :: "module_id set \<Rightarrow> module_id list"
  dw_index_order :: "modules_index \<Rightarrow> dove_module list"

text \<open>The file system with what was written.\<close>

definition disk_fs :: "('k, 'c, 'u) dove_world \<Rightarrow> disk \<Rightarrow> fs" where
  "disk_fs W D =
     \<lparr>fs_exists = (\<lambda>p. D p \<noteq> None \<or> fs_exists (dw_fs W) p),
      fs_is_file = (\<lambda>p. D p \<noteq> None \<or> fs_is_file (dw_fs W) p),
      fs_read = (\<lambda>p. case D p of Some s \<Rightarrow> Inr s | None \<Rightarrow> fs_read (dw_fs W) p),
      fs_walk = fs_walk (dw_fs W)\<rparr>"

definition dove_dialect :: "('k, 'c, 'u) dove_world \<Rightarrow> dove_context \<Rightarrow> dialect" where
  "dove_dialect W ctx = get_dialect (dw_codecs W) (cx_dialect_name ctx)"

definition meta_of ::
    "('k, 'c, 'u) dove_world \<Rightarrow> dove_context \<Rightarrow> disk \<Rightarrow> string \<Rightarrow> account_address option \<Rightarrow> file_meta exec" where
  "meta_of W ctx D path address =
     source_meta (dw_env W) (dw_lang W) (disk_fs W D) (dw_random W) (dove_dialect W ctx) path address"

text \<open>The account address of the project as bytes.\<close>

definition project_address :: "('k, 'c, 'u) dove_world \<Rightarrow> dove_context \<Rightarrow> account_address exec" where
  "project_address W ctx =
     rbind (failing (account_address_of (dw_codecs W) ctx)) (\<lambda>a.
       trapping (unwrap (mc_from_hex (dn_core (dw_env W)) (pa_lowered a))))"

text \<open>\<open>move_dir_iter\<close>: the files below a path that end in \<open>.move\<close>.\<close>

definition move_dir_iter :: "fs \<Rightarrow> string \<Rightarrow> string list" where
  "move_dir_iter F path =
     List.map_filter
       (\<lambda>e. case e of Inl _ \<Rightarrow> None
            | Inr d \<Rightarrow> if de_is_file d \<and> de_extension d = Some ''move'' then de_path d else None) (fs_walk F path)"

section \<open>Index operations (mod.rs)\<close>

definition index_module :: "dove_module \<Rightarrow> modules_index \<Rightarrow> modules_index" where
  "index_module m ix =
     (let inner = (case ix (dv_name m) of Some i \<Rightarrow> i | None \<Rightarrow> Map.empty)
      in ix(dv_name m \<mapsto> inner(dv_source_type m \<mapsto> m)))"

definition store_unit :: "source_type \<Rightarrow> string \<Rightarrow> string \<Rightarrow> modules_index \<Rightarrow> definition_meta \<Rightarrow> modules_index" where
  "store_unit src_type dep_name path ix d =
     index_module \<lparr>dv_name = dm_module_id d, dv_dep_name = dep_name, dv_path = path,
       dv_source_type = src_type, dv_dependencies = dm_imports d\<rparr> ix"

definition store_meta :: "file_meta list \<Rightarrow> source_type \<Rightarrow> string \<Rightarrow> dove_index \<Rightarrow> dove_index" where
  "store_meta f_meta src_type dep_name index =
     index\<lparr>ix_modules := foldl (\<lambda>ix f. foldl (store_unit src_type dep_name (fm_path f)) ix (fm_meta f))
                           (ix_modules index) f_meta\<rparr>"

definition get_indexed :: "dove_index \<Rightarrow> module_id \<Rightarrow> dove_module option" where
  "get_indexed index name =
     (case ix_modules index name of
        None \<Rightarrow> None
      | Some modules \<Rightarrow>
          (case modules SrcLocal of
             Some m \<Rightarrow> Some m
           | None \<Rightarrow> (case modules SrcGit of Some m \<Rightarrow> Some m | None \<Rightarrow> modules SrcChain)))"

section \<open>Chain dependencies (resolver/chain)\<close>

definition CHAIN_PREFIX :: string where "CHAIN_PREFIX = ''chain''"
definition GIT_PREFIX :: string where "GIT_PREFIX = ''git''"

definition chain_local_name :: "('k, 'c, 'u) dove_world \<Rightarrow> module_id \<Rightarrow> string" where
  "chain_local_name W m = CHAIN_PREFIX @ ''_'' @ dw_local_name W m"

definition make_path :: "('k, 'c, 'u) dove_world \<Rightarrow> dove_context \<Rightarrow> module_id \<Rightarrow> string" where
  "make_path W ctx m = path_join (path_for ctx (ly_target_deps (cx_layout ctx))) (chain_local_name W m)"

text \<open>\<open>load_tree\<close>: the imports of the loaded bytecode first, then the module's own text.\<close>

partial_function (option) load_tree ::
    "('k, 'c, 'u) dove_world \<Rightarrow> dove_context \<Rightarrow> string \<Rightarrow> module_id \<Rightarrow> disk \<Rightarrow> disk exec option" where
  "load_tree W ctx url m D =
     obind (Some (failing (dw_load_bytecode W url m))) (\<lambda>bytecode.
     obind (Some (extract_bytecode_dependencies (dw_env W) (dw_deserialize W) bytecode)) (\<lambda>imports.
     obind (foldO (\<lambda>import D. load_tree W ctx url import D) (dw_module_order W imports) D) (\<lambda>D.
     obind (Some (failing (dw_signature W bytecode))) (\<lambda>signature.
       Some (Inr (D(make_path W ctx m \<mapsto> signature)))))))"

definition chain_resolve ::
    "('k, 'c, 'u) dove_world \<Rightarrow> dove_context \<Rightarrow> module_id \<Rightarrow> disk \<Rightarrow> (string \<times> disk) exec option" where
  "chain_resolve W ctx m D =
     (let dep = make_path W ctx m
      in if fs_exists (disk_fs W D) dep then Some (Inr (dep, D))
         else case pk_blockchain_api (cx_package ctx) of
                None \<Rightarrow> Some (Inl (Failed (''Failed to resolve module['' @ mid_name m @ '']'')))
              | Some chain_url \<Rightarrow> obind (load_tree W ctx chain_url m D) (\<lambda>D. Some (Inr (dep, D))))"

definition chain_meta ::
    "('k, 'c, 'u) dove_world \<Rightarrow> dove_context \<Rightarrow> disk \<Rightarrow> string \<Rightarrow> file_meta list exec" where
  "chain_meta W ctx D path = rbind (meta_of W ctx D path None) (\<lambda>f. Inr [f])"

section \<open>Git dependencies (resolver/git.rs)\<close>

definition get_dep_address ::
    "('k, 'c, 'u) dove_world \<Rightarrow> disk \<Rightarrow> string \<Rightarrow> account_address option exec" where
  "get_dep_address W D path =
     (let manifest = path_join path MANIFEST
      in if fs_exists (disk_fs W D) manifest
         then rbind (failing (read_manifest (dn_core (dw_env W)) (dw_toml_parse W) (disk_fs W D) manifest)) (\<lambda>toml.
              rbind (failing (dialect_from_str (case pk_dialect (tm_package toml) of Some d \<Rightarrow> d | None \<Rightarrow> default_dialect))) (\<lambda>name.
              rbind (case pk_account_address (tm_package toml) of
                       Some a \<Rightarrow> Inr a | None \<Rightarrow> Inl (Failed ''couldn't read account address from manifest'')) (\<lambda>acc_addr.
              rbind (failing (di_normalize (get_dialect (dw_codecs W) name) acc_addr)) (\<lambda>a.
              rbind (trapping (unwrap (mc_from_hex (dn_core (dw_env W)) (pa_lowered a)))) (\<lambda>bytes.
                Inr (Some bytes))))))
         else Inr None)"

definition git_meta ::
    "('k, 'c, 'u) dove_world \<Rightarrow> dove_context \<Rightarrow> disk \<Rightarrow> string \<Rightarrow> file_meta list exec" where
  "git_meta W ctx D path =
     rbind (get_dep_address W D path) (\<lambda>dep_address.
       mapM (\<lambda>p. meta_of W ctx D p dep_address) (move_dir_iter (disk_fs W D) path))"

section \<open>Resolving imports (mod.rs)\<close>

text \<open>The index, the paths found and the disk.\<close>

type_synonym resolution = "dove_index \<times> string set \<times> disk"

text \<open>The inner function \<open>resolve\<close>; \<open>rec\<close> is the recursive call.\<close>

definition resolve_indexed ::
    "(module_id set \<Rightarrow> resolution \<Rightarrow> resolution exec option) \<Rightarrow> module_id \<Rightarrow> resolution \<Rightarrow> (bool \<times> resolution) exec option" where
  "resolve_indexed rec import s =
     (case s of (index, deps, D) \<Rightarrow>
        case get_indexed index import of
          Some m \<Rightarrow> obind (rec (dv_dependencies m) (index, insert (dv_path m) deps, D)) (\<lambda>s. Some (Inr (True, s)))
        | None \<Rightarrow> Some (Inr (False, s)))"

lemma resolve_indexed_mono [partial_function_mono]:
  assumes "\<And>i s. mono_option (\<lambda>f. B f i s)"
  shows "mono_option (\<lambda>f. resolve_indexed (B f) import s)"
proof (cases s)
  case (fields index deps D)
  then show ?thesis
    unfolding resolve_indexed_def using assms
    by (cases "get_indexed index import") (auto intro!: obind_mono option.const_mono)
qed

partial_function (option) resolve_imports ::
    "('k, 'c, 'u) dove_world \<Rightarrow> dove_context \<Rightarrow> module_id set \<Rightarrow> resolution \<Rightarrow> resolution exec option" where
  "resolve_imports W ctx imports s =
     foldO (\<lambda>import s.
       obind (resolve_indexed (\<lambda>i s. resolve_imports W ctx i s) import s) (\<lambda>r.
         if fst r then Some (Inr (snd r))
         else
           obind (chain_resolve W ctx import (snd (snd (snd r)))) (\<lambda>pd.
           obind (Some (case path_file_name (fst pd) of
                    Some name \<Rightarrow> Inr name | None \<Rightarrow> Inl (Failed ''Failed to get dependencies name''))) (\<lambda>name.
           obind (Some (chain_meta W ctx (snd pd) (fst pd))) (\<lambda>files_meta.
           obind (foldO (\<lambda>m s. resolve_imports W ctx (dm_imports m) s) (concat (map fm_meta files_meta))
                    (fst (snd r), fst (snd (snd r)), snd pd)) (\<lambda>s.
           obind (resolve_indexed (\<lambda>i s. resolve_imports W ctx i s) import
                    (store_meta files_meta SrcChain name (fst s), snd s)) (\<lambda>r.
             if fst r then Some (Inr (snd r))
             else Some (Inl (Failed ''Failed to resolve dependency''))))))))) (dw_module_order W imports) s"

section \<open>Storing and loading (store.rs)\<close>

definition index_path :: "dove_context \<Rightarrow> string" where
  "index_path ctx = path_for ctx (ly_index (cx_layout ctx))"

definition load_index :: "('k, 'c, 'u) dove_world \<Rightarrow> dove_context \<Rightarrow> disk \<Rightarrow> dove_index exec" where
  "load_index W ctx D =
     (if fs_exists (disk_fs W D) (index_path ctx)
      then rbind (failing (fs_read (disk_fs W D) (index_path ctx))) (\<lambda>content.
           rbind (failing (dw_index_parse W content)) (\<lambda>modules.
             Inr \<lparr>ix_modules = foldl (\<lambda>acc m. index_module m acc) Map.empty modules,
                  ix_dep_names = set (map dv_dep_name modules)\<rparr>))
      else Inr \<lparr>ix_modules = Map.empty, ix_dep_names = {}\<rparr>)"

definition store_index :: "('k, 'c, 'u) dove_world \<Rightarrow> dove_context \<Rightarrow> dove_index \<Rightarrow> disk \<Rightarrow> disk exec" where
  "store_index W ctx index D =
     rbind (failing (dw_index_text W (dw_index_order W (ix_modules index)))) (\<lambda>value.
       Inr (D(index_path ctx \<mapsto> value)))"

section \<open>Building the index (mod.rs)\<close>

definition index_deps_for ::
    "('k, 'c, 'u) dove_world \<Rightarrow> dove_context \<Rightarrow> disk \<Rightarrow> string \<Rightarrow> dove_index \<Rightarrow> dove_index exec" where
  "index_deps_for W ctx D path index =
     foldM (\<lambda>p index.
       rbind (project_address W ctx) (\<lambda>address.
       rbind (meta_of W ctx D p (Some address)) (\<lambda>m.
         Inr (store_meta [m] SrcLocal path index)))) (move_dir_iter (disk_fs W D) path) index"

partial_function (option) load_deps ::
    "('k, 'c, 'u) dove_world \<Rightarrow> dove_context \<Rightarrow> disk \<Rightarrow> dependence list \<Rightarrow> unit \<Rightarrow> unit exec option" where
  "load_deps W ctx D deps u =
     foldO (\<lambda>dep u.
       case dep of
         DepGit git \<Rightarrow>
           obind (Some (failing (dw_git_resolve W ctx git))) (\<lambda>path.
             if fs_exists (disk_fs W D) (path_join path MANIFEST)
             then (case read_manifest (dn_core (dw_env W)) (dw_toml_parse W) (disk_fs W D) (path_join path MANIFEST) of
                     Inl _ \<Rightarrow> Some (Inr ())
                   | Inr toml \<Rightarrow>
                       (case pk_dependencies (tm_package toml) of
                          None \<Rightarrow> Some (Inr ())
                        | Some dependencies \<Rightarrow> load_deps W ctx D dependencies ()))
             else Some (Inr ()))
       | DepPath path \<Rightarrow>
           Some (if fs_exists (disk_fs W D) (path_for ctx path) then Inr ()
                 else Inl (Failed (''Unresolved dependencies path:'' @ path_for ctx path)))) deps u"

definition remove_local :: "modules_index \<Rightarrow> modules_index" where
  "remove_local ix = (\<lambda>m. map_option (\<lambda>inner. inner(SrcLocal := None)) (ix m))"

text \<open>One entry of the dependency directory; the state is the index and the new names.\<close>

definition index_dependency ::
    "('k, 'c, 'u) dove_world \<Rightarrow> dove_context \<Rightarrow> disk \<Rightarrow> string \<Rightarrow> string + string \<Rightarrow>
     dove_index \<times> string set \<Rightarrow> (dove_index \<times> string set) exec" where
  "index_dependency W ctx D deps_path dir s =
     (case s of (index, new_deps) \<Rightarrow>
        rbind (failing dir) (\<lambda>name.
          let path = path_join deps_path name in
          if name \<in> ix_dep_names index then Inr (index, new_deps)
          else rbind
            (if starts_with GIT_PREFIX name
             then rbind (git_meta W ctx D path) (\<lambda>m. Inr (store_meta m SrcGit name index))
             else if starts_with CHAIN_PREFIX name
             then rbind (chain_meta W ctx D path) (\<lambda>m. Inr (store_meta m SrcChain name index))
             else Inr index) (\<lambda>index. Inr (index, insert name new_deps))))"

definition path_dependencies :: "dependence list option \<Rightarrow> string list" where
  "path_dependencies deps =
     (case deps of None \<Rightarrow> []
      | Some ds \<Rightarrow> List.map_filter (\<lambda>d. case d of DepPath p \<Rightarrow> Some p | DepGit _ \<Rightarrow> None) ds)"

definition index_build ::
    "('k, 'c, 'u) dove_world \<Rightarrow> dove_context \<Rightarrow> dove_index \<Rightarrow> disk \<Rightarrow> (dove_index \<times> disk) exec option" where
  "index_build W ctx index D =
     (let deps_path = path_for ctx (ly_target_deps (cx_layout ctx));
          dependencies = pk_dependencies (cx_package ctx)
      in obind (case dependencies of None \<Rightarrow> Some (Inr ()) | Some deps \<Rightarrow> load_deps W ctx D deps ()) (\<lambda>_.
         Some (
           rbind (failing (dw_read_dir W deps_path)) (\<lambda>deps_dir.
           rbind (foldM (index_dependency W ctx D deps_path) deps_dir
                    (index\<lparr>ix_modules := remove_local (ix_modules index)\<rparr>, {})) (\<lambda>(index, new_deps).
           rbind (foldM (index_deps_for W ctx D) (path_dependencies dependencies)
                    (index\<lparr>ix_dep_names := new_deps\<rparr>)) (\<lambda>index.
           rbind (store_index W ctx index D) (\<lambda>D. Inr (index, D))))))))"

definition build_index ::
    "('k, 'c, 'u) dove_world \<Rightarrow> dove_context \<Rightarrow> disk \<Rightarrow> (dove_index \<times> disk) exec option" where
  "build_index W ctx D = obind (Some (load_index W ctx D)) (\<lambda>index. index_build W ctx index D)"

section \<open>Dependency sets (mod.rs, cmd/mod.rs)\<close>

text \<open>The modules and the imports of the files of a path.\<close>

definition collect_file ::
    "('k, 'c, 'u) dove_world \<Rightarrow> dove_context \<Rightarrow> disk \<Rightarrow> string \<Rightarrow> module_id set \<times> module_id set \<Rightarrow>
     (module_id set \<times> module_id set) exec" where
  "collect_file W ctx D p s =
     rbind (project_address W ctx) (\<lambda>address.
     rbind (meta_of W ctx D p (Some address)) (\<lambda>f_meta.
       Inr (fst s \<union> set (map dm_module_id (fm_meta f_meta)), snd s \<union> \<Union>(set (map dm_imports (fm_meta f_meta))))))"

definition collect_path ::
    "('k, 'c, 'u) dove_world \<Rightarrow> dove_context \<Rightarrow> disk \<Rightarrow> string \<Rightarrow> module_id set \<times> module_id set \<Rightarrow>
     (module_id set \<times> module_id set) exec" where
  "collect_path W ctx D path s =
     (if fs_is_file (disk_fs W D) path then collect_file W ctx D path s
      else foldM (collect_file W ctx D) (move_dir_iter (disk_fs W D) path) s)"

text \<open>The index counts its modules; the index is stored when the count changed.\<close>

definition make_dependency_set ::
    "('k, 'c, 'u) dove_world \<Rightarrow> dove_context \<Rightarrow> string list \<Rightarrow> dove_index \<Rightarrow> disk \<Rightarrow>
     resolution exec option" where
  "make_dependency_set W ctx paths index D =
     obind (Some (foldM (collect_path W ctx D) paths ({}, {}))) (\<lambda>(modules, imports).
     obind (resolve_imports W ctx (imports - modules) (index, {}, D)) (\<lambda>(index', deps, D).
       if card (dom (ix_modules index')) \<noteq> card (dom (ix_modules index))
       then obind (Some (store_index W ctx index' D)) (\<lambda>D. Some (Inr (index', deps, D)))
       else Some (Inr (index', deps, D))))"

definition load_dependencies ::
    "(string set \<Rightarrow> string list) \<Rightarrow> fs \<Rightarrow> string set \<Rightarrow> string + move_file list" where
  "load_dependencies path_order F path_set = mapM (move_file_load F) (path_order path_set)"

end
