(* ===== verification/Dove_Resolve.thy ===== *)
theory Dove_Resolve
  imports Dove_Index
begin

text \<open>
  Properties of the module index: resolving imports is a transitive closure that never ends on a
  cycle, every stored module sits under its own name and source type, and an index survives
  storing and loading.
\<close>

section \<open>Needed modules\<close>

definition deps_of :: "dove_index \<Rightarrow> module_id \<Rightarrow> module_id set" where
  "deps_of ix m = (case get_indexed ix m of Some md \<Rightarrow> dv_dependencies md | None \<Rightarrow> {})"

definition path_of :: "dove_index \<Rightarrow> module_id \<Rightarrow> string" where
  "path_of ix m = (case get_indexed ix m of Some md \<Rightarrow> dv_path md | None \<Rightarrow> [])"

inductive_set needed :: "dove_index \<Rightarrow> module_id set \<Rightarrow> module_id set" for ix I where
  needed_import: "m \<in> I \<Longrightarrow> m \<in> needed ix I"
| needed_dep: "m \<in> needed ix I \<Longrightarrow> d \<in> deps_of ix m \<Longrightarrow> d \<in> needed ix I"

text \<open>Everything needed is in the index, and the enumeration lists the sets that occur.\<close>

definition indexed :: "('k, 'c, 'u) dove_world \<Rightarrow> dove_index \<Rightarrow> module_id set \<Rightarrow> bool" where
  "indexed W ix I \<longleftrightarrow>
     set (dw_module_order W I) = I \<and>
     (\<forall>m \<in> needed ix I. get_indexed ix m \<noteq> None \<and> set (dw_module_order W (deps_of ix m)) = deps_of ix m)"

lemma needed_subset: "I \<subseteq> needed ix J \<Longrightarrow> needed ix I \<subseteq> needed ix J"
proof
  fix m assume s: "I \<subseteq> needed ix J" and "m \<in> needed ix I"
  from this(2) show "m \<in> needed ix J"
  proof induction
    case (needed_import m)
    with s show ?case by blast
  next
    case (needed_dep m d)
    from needed_dep(3,2) show ?case by (rule needed.needed_dep)
  qed
qed

lemma needed_deps: "m \<in> I \<Longrightarrow> needed ix (deps_of ix m) \<subseteq> needed ix I"
proof (rule needed_subset, rule subsetI)
  fix d assume "m \<in> I" "d \<in> deps_of ix m"
  then show "d \<in> needed ix I" by (rule needed_dep[OF needed_import])
qed

lemma needed_unfold: "needed ix I = (\<Union>m \<in> I. insert m (needed ix (deps_of ix m)))"
proof
  show "needed ix I \<subseteq> (\<Union>m \<in> I. insert m (needed ix (deps_of ix m)))"
  proof
    fix m assume "m \<in> needed ix I"
    then show "m \<in> (\<Union>m \<in> I. insert m (needed ix (deps_of ix m)))"
    proof induction
      case (needed_dep m d)
      then obtain i where "i \<in> I" "m = i \<or> m \<in> needed ix (deps_of ix i)" by blast
      then have "d \<in> needed ix (deps_of ix i)"
        using needed_dep(2) by (metis needed.needed_dep needed.needed_import)
      with \<open>i \<in> I\<close> show ?case by blast
    qed blast
  qed
  show "(\<Union>m \<in> I. insert m (needed ix (deps_of ix m))) \<subseteq> needed ix I"
    using needed_deps needed_import by blast
qed

lemma indexed_deps: "indexed W ix I \<Longrightarrow> m \<in> needed ix I \<Longrightarrow> indexed W ix (deps_of ix m)"
  using needed_subset[of "deps_of ix m" ix I] by (auto simp: indexed_def intro: needed_dep)

section \<open>Closure\<close>

text \<open>One import of a resolution whose modules are all indexed.\<close>

lemma resolve_indexed_step:
  assumes "get_indexed ix m = Some md"
  shows "resolve_indexed rec m (ix, deps, D) =
    obind (rec (deps_of ix m) (ix, insert (path_of ix m) deps, D)) (\<lambda>s. Some (Inr (True, s)))"
  using assms by (simp add: resolve_indexed_def deps_of_def path_of_def)

lemma resolve_fold:
  assumes "\<And>m. m \<in> set ms \<Longrightarrow> get_indexed ix m \<noteq> None"
    and "\<And>m deps. m \<in> set ms \<Longrightarrow> rec (deps_of ix m) (ix, deps, D) =
      Some (Inr (ix, deps \<union> path_of ix ` needed ix (deps_of ix m), D))"
    and "set ms = I"
  shows "foldO (\<lambda>import s. obind (resolve_indexed rec import s)
      (\<lambda>r. if fst r then Some (Inr (snd r)) else rest import r)) ms (ix, deps, D) =
    Some (Inr (ix, deps \<union> path_of ix ` needed ix I, D))"
  using assms
proof (induction ms arbitrary: deps I)
  case Nil
  have "needed ix {} = {}" using needed_unfold[of ix "{}"] by simp
  with Nil show ?case by simp
next
  case (Cons m ms)
  from Cons.prems(1)[of m] obtain md where m: "get_indexed ix m = Some md" by auto
  have n: "needed ix I = insert m (needed ix (deps_of ix m)) \<union> needed ix (set ms)"
    using needed_unfold[of ix I] needed_unfold[of ix "set ms"] Cons.prems(3) by auto
  have "deps \<union> path_of ix ` needed ix I =
      insert (path_of ix m) deps \<union> path_of ix ` needed ix (deps_of ix m) \<union> path_of ix ` needed ix (set ms)"
    unfolding n by blast
  moreover have "foldO (\<lambda>import s. obind (resolve_indexed rec import s)
      (\<lambda>r. if fst r then Some (Inr (snd r)) else rest import r)) ms
      (ix, insert (path_of ix m) deps \<union> path_of ix ` needed ix (deps_of ix m), D) =
    Some (Inr (ix, insert (path_of ix m) deps \<union> path_of ix ` needed ix (deps_of ix m) \<union> path_of ix ` needed ix (set ms), D))"
    by (rule Cons.IH) (use Cons.prems(1,2) in auto)
  moreover have "rec (deps_of ix m) (ix, insert (path_of ix m) deps, D) =
      Some (Inr (ix, insert (path_of ix m) deps \<union> path_of ix ` needed ix (deps_of ix m), D))"
    by (rule Cons.prems(2)) simp
  ultimately show ?case by (simp only: foldO.simps resolve_indexed_step[OF m] obind_simps fst_conv snd_conv if_True)
qed

lemma resolve_step:
  assumes "indexed W ix I"
    and "\<And>m deps. m \<in> I \<Longrightarrow> resolve_imports W ctx (deps_of ix m) (ix, deps, D) =
      Some (Inr (ix, deps \<union> path_of ix ` needed ix (deps_of ix m), D))"
  shows "resolve_imports W ctx I (ix, deps, D) = Some (Inr (ix, deps \<union> path_of ix ` needed ix I, D))"
proof -
  have o: "set (dw_module_order W I) = I" and g: "\<And>m. m \<in> I \<Longrightarrow> get_indexed ix m \<noteq> None"
    using assms(1) by (auto simp: indexed_def intro: needed_import)
  show ?thesis
    by (subst resolve_imports.simps, rule resolve_fold) (use assms(2) g o in auto)
qed

lemma resolve_closed:
  assumes "indexed W ix I" "wf {(d, m). m \<in> needed ix I \<and> d \<in> deps_of ix m}"
  shows "resolve_imports W ctx I (ix, deps, D) = Some (Inr (ix, deps \<union> path_of ix ` needed ix I, D))"
proof -
  have "resolve_imports W ctx (deps_of ix m) (ix, deps, D) =
      Some (Inr (ix, deps \<union> path_of ix ` needed ix (deps_of ix m), D))" if "m \<in> needed ix I" for m deps
    using assms(2) that
  proof (induction m arbitrary: deps rule: wf_induct_rule)
    case (less m)
    show ?case
    proof (rule resolve_step)
      show "indexed W ix (deps_of ix m)" by (rule indexed_deps[OF assms(1) less.prems])
    next
      fix d deps assume d: "d \<in> deps_of ix m"
      from less.prems d have "d \<in> needed ix I" by (rule needed_dep)
      moreover from less.prems d have "(d, m) \<in> {(d, m). m \<in> needed ix I \<and> d \<in> deps_of ix m}" by simp
      ultimately show "resolve_imports W ctx (deps_of ix d) (ix, deps, D) =
        Some (Inr (ix, deps \<union> path_of ix ` needed ix (deps_of ix d), D))" by (intro less.IH)
    qed
  qed
  then show ?thesis by (rule resolve_step[OF assms(1) _]) (rule needed_import)
qed

text \<open>C30: when everything the imports need is indexed and no module needs itself, resolving
  returns: the files of exactly the modules needed, directly or through others, are added to the
  set, the index and the disk stay as they are, and nothing is downloaded.\<close>

theorem resolve_closure:
  assumes "indexed W ix I"
    and "wf {(d, m). m \<in> needed ix I \<and> d \<in> deps_of ix m}"
  shows "resolve_imports W ctx I (ix, deps, D) = Some (Inr (ix, deps \<union> path_of ix ` needed ix I, D))"
  using assms by (rule resolve_closed)

definition mod_a :: module_id where "mod_a = \<lparr>mid_address = [1], mid_name = ''A''\<rparr>"
definition mod_b :: module_id where "mod_b = \<lparr>mid_address = [1], mid_name = ''B''\<rparr>"

text \<open>\<open>A\<close> needs \<open>B\<close>, and \<open>B\<close> the modules given.\<close>

definition sample_module_a :: dove_module where
  "sample_module_a = \<lparr>dv_name = mod_a, dv_dep_name = ''git_0'', dv_path = ''a.move'', dv_source_type = SrcGit,
     dv_dependencies = {mod_b}\<rparr>"

definition sample_module_b :: "module_id set \<Rightarrow> dove_module" where
  "sample_module_b b_needs = \<lparr>dv_name = mod_b, dv_dep_name = ''chain_0'', dv_path = ''b'', dv_source_type = SrcChain,
     dv_dependencies = b_needs\<rparr>"

definition sample_index :: "module_id set \<Rightarrow> dove_index" where
  "sample_index b_needs =
     \<lparr>ix_modules = [mod_a \<mapsto> [SrcGit \<mapsto> sample_module_a], mod_b \<mapsto> [SrcChain \<mapsto> sample_module_b b_needs]],
      ix_dep_names = {''git_0'', ''chain_0''}\<rparr>"

definition sample_dove_world :: "(unit, unit, unit) dove_world" where
  "sample_dove_world =
     \<lparr>dw_env = \<lparr>dn_core = \<lparr>mc_from_hex = (\<lambda>_. Some [1]), mc_is_identifier = (\<lambda>s. s \<noteq> []), mc_to_uppercase = id,
        mc_status_codes = [], mc_core_code_address = [1], mc_display = (\<lambda>_. ''1''), mc_short_str = (\<lambda>_. []),
        mc_lang_display = (\<lambda>_. [])\<rparr>, dn_to_u8 = (\<lambda>_. [1])\<rparr>,
      dw_codecs = sample_codecs,
      dw_lang = \<lparr>ml_strip_comments = (\<lambda>f b. Inr (b, ())), ml_no_comments = (), ml_parse_file_string = (\<lambda>f b. Inr []),
        ml_check_program = (\<lambda>r a. Inr ()), ml_to_bytecode = (\<lambda>c. Inr [])\<rparr>,
      dw_fs = \<lparr>fs_exists = (\<lambda>_. False), fs_is_file = (\<lambda>_. False), fs_read = (\<lambda>_. Inl ''no file''), fs_walk = (\<lambda>_. [])\<rparr>,
      dw_random = (\<lambda>_. 0), dw_load_bytecode = (\<lambda>_ _. Inl ''offline''), dw_deserialize = (\<lambda>_. Inl ''no''),
      dw_signature = (\<lambda>_. Inl ''no''), dw_local_name = mid_name, dw_git_resolve = (\<lambda>_ _. Inl ''offline''),
      dw_toml_parse = (\<lambda>_. Inl ''no''), dw_index_text = (\<lambda>_. Inr ''index''),
      dw_index_parse = (\<lambda>_. Inr [sample_module_a, sample_module_b {}]),
      dw_read_dir = (\<lambda>_. Inr []),
      dw_module_order = (\<lambda>S. if S = {mod_a} then [mod_a] else if S = {mod_b} then [mod_b] else []),
      dw_index_order = (\<lambda>_. [sample_module_a, sample_module_b {}])\<rparr>"

lemma mod_neq [simp]: "mod_a \<noteq> mod_b" "mod_b \<noteq> mod_a"
  by (simp_all add: mod_a_def mod_b_def)

lemma sample_deps [simp]:
  "deps_of (sample_index S) mod_a = {mod_b}" "deps_of (sample_index S) mod_b = S"
  "path_of (sample_index S) mod_a = ''a.move''" "path_of (sample_index S) mod_b = ''b''"
  "\<exists>y. get_indexed (sample_index S) mod_a = Some y" "\<exists>y. get_indexed (sample_index S) mod_b = Some y"
  by (simp_all add: deps_of_def path_of_def get_indexed_def sample_index_def sample_module_a_def sample_module_b_def)

lemma sample_needed: "S \<subseteq> {mod_a} \<Longrightarrow> needed (sample_index S) {mod_a} = {mod_a, mod_b}"
proof
  assume S: "S \<subseteq> {mod_a}"
  show "needed (sample_index S) {mod_a} \<subseteq> {mod_a, mod_b}"
  proof
    fix m assume "m \<in> needed (sample_index S) {mod_a}"
    then show "m \<in> {mod_a, mod_b}" by induction (use S in auto)
  qed
  show "{mod_a, mod_b} \<subseteq> needed (sample_index S) {mod_a}"
    using needed_dep[OF needed_import[of mod_a "{mod_a}" "sample_index S"], of mod_b]
    by (auto intro: needed_import)
qed

lemma sample_indexed: "S \<subseteq> {mod_a} \<Longrightarrow> indexed sample_dove_world (sample_index S) {mod_a}"
  by (auto simp: indexed_def sample_needed sample_dove_world_def)

definition sample_context :: dove_context where
  "sample_context =
     \<lparr>cx_project_dir = ''/p'',
      cx_manifest = \<lparr>tm_package = \<lparr>pk_name = None, pk_account_address = Some ''0x1'', pk_authors = [], pk_blockchain_api = None,
        pk_dependencies = None, pk_dialect = None\<rparr>, tm_layout = layout_default\<rparr>,
      cx_dialect_name = DFinance\<rparr>"

theorem resolve_closure_witness:
  "resolve_imports sample_dove_world sample_context {mod_a} (sample_index {}, {}, Map.empty) =
     Some (Inr (sample_index {}, {''a.move'', ''b''}, Map.empty))"
proof -
  have "{(d, m). m \<in> needed (sample_index {}) {mod_a} \<and> d \<in> deps_of (sample_index {}) m} \<subseteq>
      measure (\<lambda>m. if m = mod_a then 1 else 0)"
    by (auto simp: sample_needed)
  with wf_subset[OF wf_measure] have "wf {(d, m). m \<in> needed (sample_index {}) {mod_a} \<and> d \<in> deps_of (sample_index {}) m}" .
  from resolve_closure[OF sample_indexed this] show ?thesis by (simp add: sample_needed)
qed

section \<open>Cycles\<close>

lemma resolve_fold_avoids:
  assumes "foldO (\<lambda>import s. obind (resolve_indexed rec import s)
      (\<lambda>r. if fst r then Some (Inr (snd r)) else rest import r)) ms (ix, deps, D) = Some y"
    and "\<And>m. m \<in> set ms \<Longrightarrow> get_indexed ix m \<noteq> None"
    and "\<And>m deps y. m \<in> set ms \<Longrightarrow> rec (deps_of ix m) (ix, deps, D) = Some y \<Longrightarrow>
      (\<exists>deps'. y = Inr (ix, deps', D)) \<and> deps_of ix m \<inter> K = {}"
    and "\<And>m. m \<in> K \<Longrightarrow> deps_of ix m \<inter> K \<noteq> {}"
  shows "(\<exists>deps'. y = Inr (ix, deps', D)) \<and> set ms \<inter> K = {}"
  using assms
proof (induction ms arbitrary: deps)
  case (Cons m ms)
  from Cons.prems(2)[of m] obtain md where m: "get_indexed ix m = Some md" by auto
  from Cons.prems(1) obtain z where z: "rec (deps_of ix m) (ix, insert (path_of ix m) deps, D) = Some z"
    by (auto simp: resolve_indexed_step[OF m] obind_eq_Some)
  from Cons.prems(3)[OF _ z] obtain deps' where z': "z = Inr (ix, deps', D)" "deps_of ix m \<inter> K = {}" by auto
  have "foldO (\<lambda>import s. obind (resolve_indexed rec import s)
      (\<lambda>r. if fst r then Some (Inr (snd r)) else rest import r)) ms (ix, deps', D) = Some y"
    using Cons.prems(1) z z'(1) by (simp add: resolve_indexed_step[OF m])
  then have "(\<exists>deps'. y = Inr (ix, deps', D)) \<and> set ms \<inter> K = {}"
    by (rule Cons.IH[OF _ Cons.prems(2)[OF list.set_intros(2)] Cons.prems(3)[OF list.set_intros(2)] Cons.prems(4)])
  with Cons.prems(4)[of m] z'(2) show ?case by auto
qed (auto dest: sym)

lemma resolve_avoids:
  assumes "resolve_imports W ctx I s = Some y" "fst s = ix" "indexed W ix I"
    "\<And>m. m \<in> K \<Longrightarrow> deps_of ix m \<inter> K \<noteq> {}"
  shows "(\<exists>deps'. y = Inr (ix, deps', snd (snd s))) \<and> I \<inter> K = {}"
  using assms
proof (induction rule: resolve_imports.raw_induct[rotated 1, consumes 1])
  case (1 rec W ctx I s y)
  obtain deps D where s: "s = (ix, deps, D)" using 1(3) by (cases s) auto
  have o: "set (dw_module_order W I) = I" and g: "\<And>m. m \<in> I \<Longrightarrow> get_indexed ix m \<noteq> None"
    using 1(4) by (auto simp: indexed_def intro: needed_import)
  have "(\<exists>deps'. y = Inr (ix, deps', D)) \<and> set (dw_module_order W I) \<inter> K = {}"
  proof (rule resolve_fold_avoids[OF 1(2)[unfolded s]])
    fix m deps y assume m: "m \<in> set (dw_module_order W I)" and r: "rec W ctx (deps_of ix m) (ix, deps, D) = Some y"
    have "indexed W ix (deps_of ix m)" by (rule indexed_deps[OF 1(4)]) (use m o in \<open>auto intro: needed_import\<close>)
    from 1(1)[OF r _ this 1(5)] show "(\<exists>deps'. y = Inr (ix, deps', D)) \<and> deps_of ix m \<inter> K = {}" by simp
  qed (use g o 1(5) in auto)
  with o s show ?case by simp
qed

text \<open>C33: a cycle among the needed modules is never reported: when an import belongs to a set of
  indexed modules each of which needs another one of the set, resolving never returns.\<close>

theorem resolve_cycle_hangs:
  assumes "indexed W ix I" "m \<in> I" "m \<in> K"
    and "\<And>m. m \<in> K \<Longrightarrow> deps_of ix m \<inter> K \<noteq> {}"
  shows "resolve_imports W ctx I (ix, deps, D) = None"
proof (cases "resolve_imports W ctx I (ix, deps, D)")
  case (Some y)
  from resolve_avoids[OF this _ assms(1,4)] assms(2,3) show ?thesis by auto
qed

theorem resolve_cycle_hangs_witness:
  "resolve_imports sample_dove_world sample_context {mod_a} (sample_index {mod_a}, {}, Map.empty) = None"
  by (rule resolve_cycle_hangs[where m = mod_a and K = "{mod_a, mod_b}"]) (auto intro: sample_indexed)

section \<open>The shape of an index\<close>

text \<open>Every module is stored under its own name and source type.\<close>

definition index_lookup :: "modules_index \<Rightarrow> module_id \<Rightarrow> source_type \<Rightarrow> dove_module option" where
  "index_lookup ix m t = (case ix m of None \<Rightarrow> None | Some inner \<Rightarrow> inner t)"

definition index_typed :: "modules_index \<Rightarrow> bool" where
  "index_typed ix \<longleftrightarrow> (\<forall>m t md. index_lookup ix m t = Some md \<longrightarrow> dv_name md = m \<and> dv_source_type md = t)"

lemma lookup_index_module:
  "index_lookup (index_module md ix) m t =
     (if dv_name md = m \<and> dv_source_type md = t then Some md else index_lookup ix m t)"
  by (auto simp: index_lookup_def index_module_def Let_def split: option.split)

lemma typed_empty: "index_typed Map.empty"
  by (simp add: index_typed_def index_lookup_def)

lemma typed_index_module: "index_typed ix \<Longrightarrow> index_typed (index_module md ix)"
  by (simp add: index_typed_def lookup_index_module)

lemma typed_foldl: "index_typed ix \<Longrightarrow> (\<And>ix x. index_typed ix \<Longrightarrow> index_typed (f ix x)) \<Longrightarrow> index_typed (foldl f ix xs)"
  by (induction xs arbitrary: ix) simp_all

lemma typed_store_meta: "index_typed (ix_modules index) \<Longrightarrow> index_typed (ix_modules (store_meta ms t n index))"
  unfolding store_meta_def by (simp add: typed_foldl typed_index_module store_unit_def)

lemma typed_load: "load_index W ctx D = Inr index \<Longrightarrow> index_typed (ix_modules index)"
  by (auto simp: load_index_def rbind_eq_Inr_iff split: if_splits
      intro!: typed_foldl typed_empty typed_index_module)

lemma typed_remove_local: "index_typed ix \<Longrightarrow> index_typed (remove_local ix)"
  by (auto simp: index_typed_def index_lookup_def remove_local_def split: option.splits if_splits)

lemma foldM_invariant:
  assumes "foldM f xs s = Inr s'" "P s" "\<And>x s s'. f x s = Inr s' \<Longrightarrow> P s \<Longrightarrow> P s'"
  shows "P s'"
  using assms by (induction xs arbitrary: s) (auto simp: rbind_eq_Inr_iff)

lemma foldO_invariant:
  assumes "foldO f xs s = Some (Inr s')" "P s" "\<And>x s s'. f x s = Some (Inr s') \<Longrightarrow> P s \<Longrightarrow> P s'"
  shows "P s'"
  using assms by (induction xs arbitrary: s) (auto simp: obind_eq_Some)

definition typed :: "dove_index \<Rightarrow> bool" where
  "typed index \<longleftrightarrow> index_typed (ix_modules index)"

lemma typed_index_dependency:
  assumes "index_dependency W ctx D p dir s = Inr s'" "typed (fst s)"
  shows "typed (fst s')"
  using assms unfolding typed_def
  by (cases s) (auto simp: index_dependency_def rbind_eq_Inr_iff Let_def typed_store_meta split: if_splits)

lemma typed_index_deps_for:
  assumes "index_deps_for W ctx D p index = Inr index'" "typed index"
  shows "typed index'"
  using assms unfolding index_deps_for_def
  by (rule foldM_invariant[where P = typed]) (auto simp: rbind_eq_Inr_iff typed_def typed_store_meta)

lemma typed_index_build:
  assumes "index_build W ctx index D = Some (Inr (index', D'))" "typed index"
  shows "typed index'"
proof -
  let ?start = "(index\<lparr>ix_modules := remove_local (ix_modules index)\<rparr>, {})"
  from assms(1) obtain dirs a new b where
    a: "foldM (index_dependency W ctx D (path_for ctx (ly_target_deps (cx_layout ctx)))) dirs ?start = Inr (a, new)"
    and b: "foldM (index_deps_for W ctx D) (path_dependencies (pk_dependencies (cx_package ctx)))
      (a\<lparr>ix_dep_names := new\<rparr>) = Inr b" "index' = b"
    by (auto simp: index_build_def Let_def obind_eq_Some rbind_eq_Inr_iff)
  have "typed (fst ?start)" using assms(2) by (simp add: typed_def typed_remove_local)
  then have "typed (fst (a, new))"
    by (rule foldM_invariant[where P = "\<lambda>s. typed (fst s)", OF a]) (rule typed_index_dependency)
  then have "typed (a\<lparr>ix_dep_names := new\<rparr>)" by (simp add: typed_def)
  from foldM_invariant[where P = typed, OF b(1) this typed_index_deps_for] b(2) show ?thesis by simp
qed

lemma typed_resolve:
  assumes "resolve_imports W ctx I s = Some y" "typed (fst s)"
  shows "\<forall>s'. y = Inr s' \<longrightarrow> typed (fst s')"
  using assms
proof (induction rule: resolve_imports.raw_induct[rotated 1, consumes 1])
  case (1 rec W ctx I s y)
  have rec: "typed (fst s')" if "rec W ctx i s = Some (Inr s')" "typed (fst s)" for i s s'
    using 1(1)[OF that] by simp
  have res: "typed (fst (snd r))" if "resolve_indexed (rec W ctx) i s = Some (Inr r)" "typed (fst s)" for i s r
    using that rec by (cases s) (auto simp: resolve_indexed_def obind_eq_Some split: option.splits)
  show ?case
  proof (intro allI impI)
    fix s' assume y: "y = Inr s'"
    show "typed (fst s')"
    proof (rule foldO_invariant[where P = "\<lambda>s. typed (fst s)", OF 1(2)[unfolded y] 1(3)], goal_cases)
      case (1 m t t')
      then obtain r where r: "resolve_indexed (rec W ctx) m t = Some (Inr r)" by (auto simp: obind_eq_Some)
      from r 1(2) have tr: "typed (fst (snd r))" by (rule res)
      show ?case
      proof (cases "fst r")
        case True
        with 1(1) r tr show ?thesis by simp
      next
        case False
        with 1(1) r obtain D fm name s2 r2 where
          f: "foldO (\<lambda>m s. rec W ctx (dm_imports m) s) (concat (map fm_meta fm)) (fst (snd r), fst (snd (snd r)), D) = Some (Inr s2)"
          and r2: "resolve_indexed (rec W ctx) m (store_meta fm SrcChain name (fst s2), snd s2) = Some (Inr r2)" "t' = snd r2"
          by (auto simp: obind_eq_Some split: if_splits)
        have "typed (fst s2)"
          by (rule foldO_invariant[where P = "\<lambda>s. typed (fst s)", OF f]) (use tr rec in auto)
        then have "typed (fst (snd r2))"
          by (intro res[OF r2(1)]) (simp add: typed_def typed_store_meta)
        with r2(2) show ?thesis by simp
      qed
    qed
  qed
qed


lemma resolve_none:
  "dw_module_order W {} = [] \<Longrightarrow> resolve_imports W ctx {} s = Some (Inr s)"
  by (subst resolve_imports.simps) simp


text \<open>C32: an index survives storing and loading: after an index with the shape above is stored,
  loading it gives for every name and source type the same module, so every import resolves as
  before; the dependency names are those of its modules.\<close>

theorem index_roundtrip:
  assumes "index_typed (ix_modules index)"
    and "set (dw_index_order W (ix_modules index)) = {md. \<exists>m t. index_lookup (ix_modules index) m t = Some md}"
    and "dw_index_text W (dw_index_order W (ix_modules index)) = Inr txt"
    and "dw_index_parse W txt = Inr (dw_index_order W (ix_modules index))"
  shows "\<exists>D' index'. store_index W ctx index D = Inr D' \<and> load_index W ctx D' = Inr index' \<and>
     index_lookup (ix_modules index') = index_lookup (ix_modules index) \<and>
     get_indexed index' = get_indexed index \<and>
     ix_dep_names index' = {dv_dep_name md |md. \<exists>m t. index_lookup (ix_modules index) m t = Some md}"
proof -
  let ?ms = "dw_index_order W (ix_modules index)"
  let ?ix = "foldl (\<lambda>acc m. index_module m acc) Map.empty ?ms"
  have fold: "index_lookup (foldl (\<lambda>acc m. index_module m acc) ix ms) m t = Some md \<longleftrightarrow>
      (if \<exists>x \<in> set ms. dv_name x = m \<and> dv_source_type x = t then md \<in> set ms \<and> dv_name md = m \<and> dv_source_type md = t
       else index_lookup ix m t = Some md)"
    if "\<forall>x \<in> set ms. \<forall>y \<in> set ms. dv_name x = dv_name y \<and> dv_source_type x = dv_source_type y \<longrightarrow> x = y" for ms ix m t md
    using that by (induction ms arbitrary: ix) (auto simp: lookup_index_module)
  have in_ms: "x \<in> set ?ms \<longleftrightarrow> index_lookup (ix_modules index) (dv_name x) (dv_source_type x) = Some x" for x
    using assms(1) unfolding assms(2) index_typed_def by auto
  have u: "\<forall>x \<in> set ?ms. \<forall>y \<in> set ?ms. dv_name x = dv_name y \<and> dv_source_type x = dv_source_type y \<longrightarrow> x = y"
    using in_ms by (metis option.inject)
  have "index_lookup ?ix m t = index_lookup (ix_modules index) m t" for m t
  proof (cases "index_lookup (ix_modules index) m t")
    case None
    then have "\<not> (\<exists>x \<in> set ?ms. dv_name x = m \<and> dv_source_type x = t)" using in_ms by fastforce
    then have "index_lookup ?ix m t = Some md \<longleftrightarrow> index_lookup Map.empty m t = Some md" for md
      unfolding fold[OF u] by auto
    then have "index_lookup ?ix m t = None" by (cases "index_lookup ?ix m t") (simp_all add: index_lookup_def)
    with None show ?thesis by simp
  next
    case (Some md)
    then have t: "dv_name md = m \<and> dv_source_type md = t" using assms(1) unfolding index_typed_def by blast
    with Some have "md \<in> set ?ms" unfolding in_ms by simp
    with t have "index_lookup ?ix m t = Some md" unfolding fold[OF u] by auto
    with Some show ?thesis by simp
  qed
  then have l: "index_lookup ?ix = index_lookup (ix_modules index)" by blast
  have get: "get_indexed i m = (case index_lookup (ix_modules i) m SrcLocal of Some x \<Rightarrow> Some x
      | None \<Rightarrow> (case index_lookup (ix_modules i) m SrcGit of Some x \<Rightarrow> Some x | None \<Rightarrow> index_lookup (ix_modules i) m SrcChain))" for i m
    by (simp add: get_indexed_def index_lookup_def split: option.split)
  have "get_indexed \<lparr>ix_modules = ?ix, ix_dep_names = n\<rparr> = get_indexed index" for n
    by (rule ext) (simp only: get l dove_index.select_convs)
  moreover have "load_index W ctx (D(index_path ctx \<mapsto> txt)) =
      Inr \<lparr>ix_modules = ?ix, ix_dep_names = set (map dv_dep_name ?ms)\<rparr>"
    using assms(4) by (simp add: load_index_def disk_fs_def failing_def)
  moreover have "set (map dv_dep_name ?ms) = {dv_dep_name md |md. \<exists>m t. index_lookup (ix_modules index) m t = Some md}"
    using assms(2) by auto
  ultimately show ?thesis using l assms(3) by (simp add: store_index_def failing_def)
qed

lemma sample_lookup:
  "index_lookup (ix_modules (sample_index S)) m t =
     (if m = mod_a \<and> t = SrcGit then Some sample_module_a
      else if m = mod_b \<and> t = SrcChain then Some (sample_module_b S) else None)"
  by (simp add: index_lookup_def sample_index_def)

lemma sample_typed: "index_typed (ix_modules (sample_index S))"
  by (simp add: index_typed_def sample_lookup sample_module_a_def sample_module_b_def)

theorem index_roundtrip_witness:
  "\<exists>D' index'. store_index sample_dove_world sample_context (sample_index {}) Map.empty = Inr D' \<and>
     load_index sample_dove_world sample_context D' = Inr index' \<and>
     get_indexed index' = get_indexed (sample_index {}) \<and> ''chain_0'' \<in> ix_dep_names index'"
proof -
  let ?all = "{md. \<exists>m t. index_lookup (ix_modules (sample_index {})) m t = Some md}"
  have a: "?all = {sample_module_a, sample_module_b {}}" by (auto simp: sample_lookup split: if_splits)
  have "set (dw_index_order sample_dove_world (ix_modules (sample_index {}))) = ?all"
    unfolding a by (simp add: sample_dove_world_def)
  from index_roundtrip[OF sample_typed this, of "''index''" sample_context Map.empty]
  obtain D' index' where r: "store_index sample_dove_world sample_context (sample_index {}) Map.empty = Inr D'"
    "load_index sample_dove_world sample_context D' = Inr index'" "get_indexed index' = get_indexed (sample_index {})"
    "ix_dep_names index' = {dv_dep_name md |md. md \<in> ?all}"
    by (auto simp: sample_dove_world_def)
  have "''chain_0'' \<in> {dv_dep_name md |md. md \<in> ?all}" unfolding a by (force simp: sample_module_b_def)
  with r show ?thesis by auto
qed

end
