(* ===== verification/Dove_Imports.thy ===== *)
theory Dove_Imports
  imports Dove_Meta
begin

text \<open>
  What the import extraction of \<open>dove/src/index/meta.rs\<close> finds and what it skips: the modules a
  piece of syntax mentions, the mentions at the places the traversal does not visit, and the
  relation of both with the imports.
\<close>

section \<open>Mentions\<close>

text \<open>Every module a piece of syntax names with its address, at any depth.\<close>

definition ident_module :: "dove_env \<Rightarrow> module_ident \<Rightarrow> module_id" where
  "ident_module E i = \<lparr>mid_address = dn_to_u8 E (fst i), mid_name = snd i\<rparr>"

primrec access_mentions :: "dove_env \<Rightarrow> module_access_name \<Rightarrow> module_id set" where
  "access_mentions E (AccQualified a m n) = {ident_module E (a, m)}"
| "access_mentions E (AccModule m n) = {}"
| "access_mentions E (AccName n) = {}"

primrec use_mentions :: "dove_env \<Rightarrow> use \<Rightarrow> module_id set" where
  "use_mentions E (UseModule i a) = {ident_module E i}"
| "use_mentions E (UseMembers i ms) = {ident_module E i}"

fun ty_mentions :: "dove_env \<Rightarrow> ty \<Rightarrow> module_id set" where
  "ty_mentions E (TyApply a ts) = access_mentions E a \<union> (\<Union>t \<in> set ts. ty_mentions E t)"
| "ty_mentions E (TyRef m t) = ty_mentions E t"
| "ty_mentions E (TyFun ts t) = (\<Union>t \<in> set ts. ty_mentions E t) \<union> ty_mentions E t"
| "ty_mentions E TyUnit = {}"
| "ty_mentions E (TyMultiple ts) = (\<Union>t \<in> set ts. ty_mentions E t)"

definition tys_mentions :: "dove_env \<Rightarrow> ty list option \<Rightarrow> module_id set" where
  "tys_mentions E ts = (\<Union>l \<in> set_option ts. \<Union>t \<in> set l. ty_mentions E t)"

fun bind_mentions :: "dove_env \<Rightarrow> bind \<Rightarrow> module_id set" where
  "bind_mentions E (BVar v) = {}"
| "bind_mentions E (BUnpack a ts bs) =
     access_mentions E a \<union> tys_mentions E ts \<union> (\<Union>b \<in> set bs. bind_mentions E (snd b))"

fun exp_mentions :: "dove_env \<Rightarrow> exp_ast \<Rightarrow> module_id set"
and seq_mentions :: "dove_env \<Rightarrow> seq_item \<Rightarrow> module_id set" where
  "exp_mentions E (ELambda bs e) = (\<Union>b \<in> set bs. bind_mentions E b) \<union> exp_mentions E e"
| "exp_mentions E (EIndex e1 e2) = exp_mentions E e1 \<union> exp_mentions E e2"
| "exp_mentions E (ECall a ts es) = access_mentions E a \<union> tys_mentions E ts \<union> (\<Union>e \<in> set es. exp_mentions E e)"
| "exp_mentions E (EPack a ts fs) =
     access_mentions E a \<union> tys_mentions E ts \<union> (\<Union>f \<in> set fs. exp_mentions E (snd f))"
| "exp_mentions E (EIfElse b t f) = exp_mentions E b \<union> exp_mentions E t \<union> (\<Union>e \<in> set_option f. exp_mentions E e)"
| "exp_mentions E (EWhile b l) = exp_mentions E b \<union> exp_mentions E l"
| "exp_mentions E (EBlock us seq e) =
     (\<Union>u \<in> set us. use_mentions E u) \<union> (\<Union>i \<in> set seq. seq_mentions E i) \<union> (\<Union>e \<in> set_option e. exp_mentions E e)"
| "exp_mentions E (EExpList es) = (\<Union>e \<in> set es. exp_mentions E e)"
| "exp_mentions E (EAssign a e) = exp_mentions E a \<union> exp_mentions E e"
| "exp_mentions E (EAbort e) = exp_mentions E e"
| "exp_mentions E (EDereference e) = exp_mentions E e"
| "exp_mentions E (ELoop e) = exp_mentions E e"
| "exp_mentions E (EUnary e) = exp_mentions E e"
| "exp_mentions E (EBorrow m e) = exp_mentions E e"
| "exp_mentions E (EDot e f) = exp_mentions E e"
| "exp_mentions E (EAnnotate e t) = exp_mentions E e \<union> ty_mentions E t"
| "exp_mentions E (EReturn e) = (\<Union>e \<in> set_option e. exp_mentions E e)"
| "exp_mentions E (EBinop a b) = exp_mentions E a \<union> exp_mentions E b"
| "exp_mentions E (EName a ts) = access_mentions E a \<union> tys_mentions E ts"
| "exp_mentions E (ECast e t) = exp_mentions E e \<union> ty_mentions E t"
| "exp_mentions E _ = {}"
| "seq_mentions E (SSeq e) = exp_mentions E e"
| "seq_mentions E (SDeclare bs t) = (\<Union>b \<in> set bs. bind_mentions E b) \<union> (\<Union>t \<in> set_option t. ty_mentions E t)"
| "seq_mentions E (SBind bs t e) =
     (\<Union>b \<in> set bs. bind_mentions E b) \<union> (\<Union>t \<in> set_option t. ty_mentions E t) \<union> exp_mentions E e"

text \<open>The mentions at the places that are not visited: patterns inside a pattern without type
  arguments, annotations, lambdas and index expressions.\<close>

fun bind_skipped :: "dove_env \<Rightarrow> bind \<Rightarrow> module_id set" where
  "bind_skipped E (BVar v) = {}"
| "bind_skipped E (BUnpack a None bs) = (\<Union>b \<in> set bs. bind_mentions E (snd b))"
| "bind_skipped E (BUnpack a (Some ts) bs) = (\<Union>b \<in> set bs. bind_skipped E (snd b))"

fun exp_skipped :: "dove_env \<Rightarrow> exp_ast \<Rightarrow> module_id set"
and seq_skipped :: "dove_env \<Rightarrow> seq_item \<Rightarrow> module_id set" where
  "exp_skipped E (ELambda bs e) = exp_mentions E (ELambda bs e)"
| "exp_skipped E (EIndex e1 e2) = exp_mentions E (EIndex e1 e2)"
| "exp_skipped E (EAnnotate e t) = exp_skipped E e \<union> ty_mentions E t"
| "exp_skipped E (ECall a ts es) = (\<Union>e \<in> set es. exp_skipped E e)"
| "exp_skipped E (EPack a ts fs) = (\<Union>f \<in> set fs. exp_skipped E (snd f))"
| "exp_skipped E (EIfElse b t f) = exp_skipped E b \<union> exp_skipped E t \<union> (\<Union>e \<in> set_option f. exp_skipped E e)"
| "exp_skipped E (EWhile b l) = exp_skipped E b \<union> exp_skipped E l"
| "exp_skipped E (EBlock us seq e) =
     (\<Union>i \<in> set seq. seq_skipped E i) \<union> (\<Union>e \<in> set_option e. exp_skipped E e)"
| "exp_skipped E (EExpList es) = (\<Union>e \<in> set es. exp_skipped E e)"
| "exp_skipped E (EAssign a e) = exp_skipped E a \<union> exp_skipped E e"
| "exp_skipped E (EAbort e) = exp_skipped E e"
| "exp_skipped E (EDereference e) = exp_skipped E e"
| "exp_skipped E (ELoop e) = exp_skipped E e"
| "exp_skipped E (EUnary e) = exp_skipped E e"
| "exp_skipped E (EBorrow m e) = exp_skipped E e"
| "exp_skipped E (EDot e f) = exp_skipped E e"
| "exp_skipped E (EReturn e) = (\<Union>e \<in> set_option e. exp_skipped E e)"
| "exp_skipped E (EBinop a b) = exp_skipped E a \<union> exp_skipped E b"
| "exp_skipped E (ECast e t) = exp_skipped E e"
| "exp_skipped E _ = {}"
| "seq_skipped E (SSeq e) = exp_skipped E e"
| "seq_skipped E (SDeclare bs t) = (\<Union>b \<in> set bs. bind_skipped E b)"
| "seq_skipped E (SBind bs t e) = (\<Union>b \<in> set bs. bind_skipped E b) \<union> exp_skipped E e"

section \<open>Collectors\<close>

text \<open>A step of the traversal adds only mentions (\<open>m\<close>) and misses only skipped ones (\<open>k\<close>).\<close>

definition collects :: "('s set \<Rightarrow> 'e + 's set) \<Rightarrow> 's set \<Rightarrow> 's set \<Rightarrow> bool" where
  "collects f m k \<longleftrightarrow> (\<forall>S S'. f S = Inr S' \<longrightarrow> S \<subseteq> S' \<and> S' \<subseteq> S \<union> m \<and> m \<subseteq> S' \<union> k)"

lemma collects_Inr: "collects (\<lambda>S. Inr S) {} k"
  by (simp add: collects_def)

lemma collects_skip: "collects (\<lambda>S. Inr S) m m"
  by (simp add: collects_def)

lemma collects_rbind:
  "collects f m k \<Longrightarrow> collects g m' k' \<Longrightarrow> collects (\<lambda>S. rbind (f S) g) (m \<union> m') (k \<union> k')"
proof (unfold collects_def, intro allI impI)
  fix S S'
  assume f: "\<forall>S S'. f S = Inr S' \<longrightarrow> S \<subseteq> S' \<and> S' \<subseteq> S \<union> m \<and> m \<subseteq> S' \<union> k"
    and g: "\<forall>S S'. g S = Inr S' \<longrightarrow> S \<subseteq> S' \<and> S' \<subseteq> S \<union> m' \<and> m' \<subseteq> S' \<union> k'"
    and h: "rbind (f S) g = Inr S'"
  from h obtain T where T: "f S = Inr T" "g T = Inr S'" unfolding rbind_eq_Inr_iff by blast
  from f[rule_format, OF T(1)] g[rule_format, OF T(2)] show "S \<subseteq> S' \<and> S' \<subseteq> S \<union> (m \<union> m') \<and> m \<union> m' \<subseteq> S' \<union> (k \<union> k')" by blast
qed

lemma collects_foldM:
  assumes "\<And>x. x \<in> set xs \<Longrightarrow> collects (f x) (m x) (k x)"
  shows "collects (foldM f xs) (\<Union>x \<in> set xs. m x) (\<Union>x \<in> set xs. k x)"
  using assms
proof (induction xs)
  case (Cons x xs)
  then have "collects (\<lambda>S. rbind (f x S) (foldM f xs)) (m x \<union> (\<Union>x \<in> set xs. m x)) (k x \<union> (\<Union>x \<in> set xs. k x))"
    by (intro collects_rbind) auto
  then show ?case by simp
qed (simp add: collects_def)

lemma collects_optM:
  assumes "\<And>x. x \<in> set_option y \<Longrightarrow> collects (f x) (m x) (k x)"
  shows "collects (optM f y) (\<Union>x \<in> set_option y. m x) (\<Union>x \<in> set_option y. k x)"
  using assms by (cases y) (auto simp: collects_def)

lemma collects_import: "collects (import_module E i) {ident_module E i} {}"
  by (auto simp: collects_def import_module_def rbind_eq_Inr_iff dove_identifier_def ident_module_def split: if_splits)

lemma collects_access: "collects (access_usages E a) (access_mentions E a) {}"
proof (cases a)
  case (AccQualified x m n)
  then show ?thesis using collects_import[of E "(x, m)"] by (simp add: collects_def)
qed (simp_all add: collects_def)

lemma collects_use: "collects (uses E u) (use_mentions E u) {}"
  using collects_import[of E] by (cases u) (simp_all add: collects_def)

lemma collects_seq:
  assumes "collects f m k" "collects g m' k'" "M = m \<union> m'" "K = k \<union> k'" "\<And>S. h S = rbind (f S) g"
  shows "collects h M K"
  using collects_rbind[OF assms(1,2)] assms(3-5) by (simp add: collects_def)

lemma collects_s_type: "collects (s_type_usages E t) (ty_mentions E t) {}"
proof (induction t)
  case (TyApply a ts)
  then have "collects (foldM (s_type_usages E) ts) (\<Union>t \<in> set ts. ty_mentions E t) (\<Union>t \<in> set ts. {})"
    by (rule collects_foldM)
  from collects_seq[OF collects_access[of E a] this] show ?case by simp
next
  case (TyFun ts t)
  from TyFun(1) have "collects (foldM (s_type_usages E) ts) (\<Union>t \<in> set ts. ty_mentions E t) (\<Union>t \<in> set ts. {})"
    by (rule collects_foldM)
  from collects_seq[OF this TyFun(2)] show ?case by simp
next
  case (TyMultiple ts)
  then have "collects (foldM (s_type_usages E) ts) (\<Union>t \<in> set ts. ty_mentions E t) (\<Union>t \<in> set ts. {})"
    by (rule collects_foldM)
  then show ?case by (simp add: collects_def)
qed (simp_all add: collects_def)

lemma collects_s_types: "collects (foldM (s_type_usages E) ts) (\<Union>t \<in> set ts. ty_mentions E t) {}"
  using collects_foldM[of ts "s_type_usages E" "ty_mentions E" "\<lambda>_. {}"] by (simp add: collects_s_type)

lemma collects_opt_types: "collects (optM (foldM (s_type_usages E)) ts) (tys_mentions E ts) {}"
  using collects_optM[of ts "foldM (s_type_usages E)" "\<lambda>ts. \<Union>t \<in> set ts. ty_mentions E t" "\<lambda>_. {}"]
  by (simp add: collects_s_types tys_mentions_def)

lemma collects_type: "collects (type_usages E t) (ty_mentions E t) {}"
proof (cases t)
  case (TyApply a ts)
  with collects_seq[OF collects_s_types[of E ts] collects_access[of E a]] show ?thesis by (simp add: Un_commute)
next
  case (TyFun ts t)
  with collects_seq[OF collects_s_type[of E t] collects_s_types[of E ts]] show ?thesis by (simp add: Un_commute)
qed (use collects_s_types collects_s_type in \<open>simp_all add: collects_def\<close>)

lemma collects_opt_type: "collects (optM (type_usages E) t) (\<Union>t \<in> set_option t. ty_mentions E t) {}"
  using collects_optM[of t "type_usages E" "ty_mentions E" "\<lambda>_. {}"] by (simp add: collects_type)

lemma collects_bind: "collects (bind_usages E b) (bind_mentions E b) (bind_skipped E b)"
proof (induction E b rule: bind_skipped.induct)
  case (2 E a bs)
  show ?case
    by (intro collects_seq[OF collects_access[of E a] collects_skip[of "\<Union>b \<in> set bs. bind_mentions E (snd b)"]])
       (auto simp: tys_mentions_def)
next
  case (3 E a ts bs)
  have "collects (\<lambda>S. rbind (foldM (s_type_usages E) ts S) (foldM (\<lambda>b. bind_usages E (snd b)) bs))
      ((\<Union>t \<in> set ts. ty_mentions E t) \<union> (\<Union>b \<in> set bs. bind_mentions E (snd b)))
      ({} \<union> (\<Union>b \<in> set bs. bind_skipped E (snd b)))"
    by (intro collects_rbind collects_s_types collects_foldM) (use 3 in auto)
  from collects_seq[OF collects_access[of E a] this] show ?case
    by (simp add: tys_mentions_def Un_assoc)
qed (simp add: collects_def)

lemma collects_binds:
  "collects (foldM (bind_usages E) bs) (\<Union>b \<in> set bs. bind_mentions E b) (\<Union>b \<in> set bs. bind_skipped E b)"
  by (intro collects_foldM collects_bind)

lemma collects_eq: "collects f m k \<Longrightarrow> h = f \<Longrightarrow> m = m' \<Longrightarrow> k = k' \<Longrightarrow> collects h m' k'"
  by simp

lemma collects_uses: "collects (foldM (uses E) us) (\<Union>u \<in> set us. use_mentions E u) (\<Union>u \<in> set us. {})"
  by (rule collects_foldM) (rule collects_use)

lemma collects_name: "collects (expresion_usages E (EName a ts)) (exp_mentions E (EName a ts)) (exp_skipped E (EName a ts))"
  by (rule collects_eq, rule collects_rbind, rule collects_access, rule collects_opt_types) auto

lemma collects_exp:
  shows "collects (expresion_usages E e) (exp_mentions E e) (exp_skipped E e)"
    and "collects (seq_item_usages E i) (seq_mentions E i) (seq_skipped E i)"
proof (induction E e and E i rule: exp_skipped_seq_skipped.induct)
  case (4 E a ts es)
  show ?case
    by (rule collects_eq, rule collects_rbind, rule collects_access, rule collects_rbind, rule collects_opt_types,
        rule collects_foldM, rule 4) auto
next
  case (5 E a ts fs)
  show ?case
    by (rule collects_eq, rule collects_rbind, rule collects_access, rule collects_rbind, rule collects_opt_types,
        rule collects_foldM, rule 5) auto
next
  case (6 E b t f)
  show ?case
    by (rule collects_eq, rule collects_rbind, rule 6(1), rule collects_rbind, rule 6(2),
        rule collects_optM, rule 6(3)) auto
next
  case (8 E us seq e)
  show ?case
    by (rule collects_eq, rule collects_rbind, rule collects_uses, rule collects_rbind, rule collects_foldM, rule 8(1),
        assumption, rule collects_optM, rule 8(2)) auto
next
  case (9 E es)
  show ?case by (rule collects_eq, rule collects_foldM, rule 9) auto
next
  case (17 E e)
  show ?case by (rule collects_eq, rule collects_optM, rule 17) auto
next
  case (19 E e t)
  show ?case by (rule collects_eq, rule collects_rbind, rule 19, rule collects_s_type) auto
next
  case (3 E e t)
  show ?case
    by (rule collects_eq[where h = "expresion_usages E (EAnnotate e t)"], rule collects_rbind, rule 3,
        rule collects_skip[of "ty_mentions E t"]) (auto simp: rbind_def split: sum.split)
next
  case (7 E b l)
  show ?case by (rule collects_eq, rule collects_rbind, rule 7(1), rule 7(2)) auto
next
  case (10 E a e)
  show ?case by (rule collects_eq, rule collects_rbind, rule 10(1), rule 10(2)) auto
next
  case (18 E a b)
  show ?case by (rule collects_eq, rule collects_rbind, rule 18(1), rule 18(2)) auto
next
  case (22 E bs t)
  show ?case by (rule collects_eq, rule collects_rbind, rule collects_binds, rule collects_opt_type) auto
next
  case (23 E bs t e)
  show ?case
    by (rule collects_eq, rule collects_rbind, rule collects_binds, rule collects_rbind, rule collects_opt_type,
        rule 23) auto
qed (rule collects_name | simp add: collects_def)+

section \<open>Definitions\<close>

primrec body_mentions :: "dove_env \<Rightarrow> function_body \<Rightarrow> module_id set" where
  "body_mentions E BodyNative = {}"
| "body_mentions E (BodyDefined us seq e) = exp_mentions E (EBlock us seq e)"

definition function_mentions :: "dove_env \<Rightarrow> function_ast \<Rightarrow> module_id set" where
  "function_mentions E f =
     (\<Union>p \<in> set (fa_parameters f). ty_mentions E (snd p)) \<union> ty_mentions E (fa_return_type f) \<union>
     body_mentions E (fa_body f)"

primrec body_skipped :: "dove_env \<Rightarrow> function_body \<Rightarrow> module_id set" where
  "body_skipped E BodyNative = {}"
| "body_skipped E (BodyDefined us seq e) = exp_skipped E (EBlock us seq e)"

primrec member_mentions :: "dove_env \<Rightarrow> module_member \<Rightarrow> module_id set" where
  "member_mentions E (MemberUse u) = use_mentions E u"
| "member_mentions E (MemberFunction f) = function_mentions E f"
| "member_mentions E (MemberStruct fs) =
     (case fs of FieldsNative \<Rightarrow> {} | FieldsDefined l \<Rightarrow> \<Union>t \<in> set l. ty_mentions E (snd t))"
| "member_mentions E MemberSpec = {}"
| "member_mentions E (MemberConstant c) = ty_mentions E (ka_signature c) \<union> exp_mentions E (ka_body c)"

primrec member_skipped :: "dove_env \<Rightarrow> module_member \<Rightarrow> module_id set" where
  "member_skipped E (MemberUse u) = {}"
| "member_skipped E (MemberFunction f) = body_skipped E (fa_body f)"
| "member_skipped E (MemberStruct fs) = {}"
| "member_skipped E MemberSpec = {}"
| "member_skipped E (MemberConstant c) = exp_skipped E (ka_body c)"

lemma collects_body: "collects (internal_usages E b) (body_mentions E b) (body_skipped E b)"
proof (cases b)
  case (BodyDefined us seq e)
  have "expresion_usages E (EBlock us seq e) = internal_usages E b"
    by (simp add: BodyDefined fun_eq_iff block_usages_def)
  with collects_exp(1)[of E "EBlock us seq e"] BodyDefined show ?thesis by simp
qed (simp add: collects_def)

lemma collects_function: "collects (function_usages E f) (function_mentions E f) (body_skipped E (fa_body f))"
  by (rule collects_eq, rule collects_rbind, rule collects_rbind, rule collects_foldM, rule collects_type,
      rule collects_type, rule collects_body)
     (auto simp: function_usages_def signature_usages_def function_mentions_def fun_eq_iff)

lemma collects_member: "collects (member_usages E m) (member_mentions E m) (member_skipped E m)"
proof (cases m)
  case (MemberConstant c)
  show ?thesis
    by (rule collects_eq, rule collects_rbind, rule collects_type, rule collects_exp(1))
       (auto simp: MemberConstant constant_usages_def fun_eq_iff)
next
  case (MemberStruct fs)
  have "collects (foldM (\<lambda>t. s_type_usages E (snd t)) l) (\<Union>t \<in> set l. ty_mentions E (snd t)) (\<Union>t \<in> set l. {})" for l
    by (intro collects_foldM collects_s_type)
  with MemberStruct show ?thesis by (cases fs) (simp_all add: collects_def)
qed (use collects_use collects_function in \<open>simp_all add: collects_def\<close>)

definition module_mentions :: "dove_env \<Rightarrow> move_module \<Rightarrow> module_id set" where
  "module_mentions E m = (\<Union>x \<in> set (mo_members m). member_mentions E x)"

definition module_skipped :: "dove_env \<Rightarrow> move_module \<Rightarrow> module_id set" where
  "module_skipped E m = (\<Union>x \<in> set (mo_members m). member_skipped E x)"

lemma collects_members:
  "collects (foldM (member_usages E) ms) (\<Union>x \<in> set ms. member_mentions E x) (\<Union>x \<in> set ms. member_skipped E x)"
  by (intro collects_foldM collects_member)

lemma collects_empty: "collects f m k \<Longrightarrow> f {} = Inr S \<Longrightarrow> S \<subseteq> m \<and> m \<subseteq> S \<union> k"
  unfolding collects_def by (drule spec[of _ "{}"], drule spec[of _ S]) simp


text \<open>\<open>module M \{ fun f() \{ let R \{ x: 0x2::B::S \{ y \} \} = r; \} \}\<close>: the module \<open>B\<close> is missed.\<close>

definition sample_dove :: dove_env where
  "sample_dove =
     \<lparr>dn_core = \<lparr>mc_from_hex = (\<lambda>_. Some []), mc_is_identifier = (\<lambda>s. s \<noteq> []), mc_to_uppercase = id,
        mc_status_codes = [], mc_core_code_address = [1], mc_display = (\<lambda>_. []), mc_short_str = (\<lambda>_. []),
        mc_lang_display = (\<lambda>_. [])\<rparr>,
      dn_to_u8 = map (\<lambda>c. of_nat (of_char c))\<rparr>"

definition nested_pattern :: move_module where
  "nested_pattern =
     \<lparr>mo_name = ''M'', mo_members = [MemberUse (UseModule (''1'', ''A'') None), MemberFunction
       \<lparr>fa_name = ''f'', fa_parameters = [], fa_return_type = TyUnit,
        fa_body = BodyDefined []
          [SBind [BUnpack (AccName ''R'') None [(''x'', BUnpack (AccQualified ''2'' ''B'' ''S'') None [(''y'', BVar ''y'')])]]
             None (EMove ''r'')] None\<rparr>]\<rparr>"


end
