(* ===== verification/Dove_Tte.thy ===== *)
theory Dove_Tte
  imports Dove_Meta
begin

text \<open>
  Type tags from text: \<open>resource-viewer/src/tte.rs\<close>, which dove also uses for the type parameters
  of a transaction. The Move lexer and the parsers of a type and a number are the record
  \<open>lexer_ops\<close>; a lexer that was just made stands before the first token.
\<close>

section \<open>The lexer\<close>

datatype tok =
    IdentifierValue | Less | Greater | LParen | RParen | LBracket | RBracket | Comma | EndOfFile | OtherTok

record 'l lexer_ops =
  lx_new :: "string \<Rightarrow> 'l"
  lx_advance :: "'l \<Rightarrow> string + 'l"
  lx_peek :: "'l \<Rightarrow> tok"
  lx_content :: "'l \<Rightarrow> string"
  lx_parse_type :: "'l \<Rightarrow> string + ty \<times> 'l"
  lx_parse_num :: "'l \<Rightarrow> nat option \<times> 'l"

section \<open>Types\<close>

text \<open>\<open>unwrap\<close> or \<open>panic!\<close> on an error: a panic.\<close>

definition or_panic :: "'a exec \<Rightarrow> 'a exec" where
  "or_panic r = (case r of Inl (Failed e) \<Rightarrow> Inl (Trapped (Panicked e)) | _ \<Rightarrow> r)"

lemma or_panic_Inr [simp]: "or_panic (Inr x) = Inr x"
  by (simp add: or_panic_def)

fun unwrap_spanned_ty_in :: "dove_env \<Rightarrow> ty \<Rightarrow> account_address option \<Rightarrow> type_tag exec" where
  "unwrap_spanned_ty_in E (TyApply (AccName name) ty_params) this =
     (if name = ''bool'' then Inr TtBool
      else if name = ''u8'' then Inr TtU8
      else if name = ''u64'' then Inr TtU64
      else if name = ''u128'' then Inr TtU128
      else if name = ''address'' then Inr TtAddress
      else if name = ''signer'' then Inr TtSigner
      else if name = ''Vec'' then
        (case ty_params of
           [p] \<Rightarrow> rbind (or_panic (unwrap_spanned_ty_in E p this)) (\<lambda>t. Inr (TtVector t))
         | _ \<Rightarrow> Inl (Failed ''Could not parse input: type without struct name & module address''))
      else Inl (Failed ''Could not parse input: type without struct name & module address''))"
| "unwrap_spanned_ty_in E (TyApply (AccModule name struct_name) ty_params) None =
     Inl (Failed ''Could not parse input: type without module address'')"
| "unwrap_spanned_ty_in E (TyApply (AccModule name struct_name) ty_params) (Some this) =
     rbind (dove_identifier E name) (\<lambda>m.
     rbind (dove_identifier E struct_name) (\<lambda>s.
     rbind (mapM (\<lambda>t. or_panic (unwrap_spanned_ty_in E t (Some this))) ty_params) (\<lambda>ps.
       Inr (TtStruct (StructTag this m s ps)))))"
| "unwrap_spanned_ty_in E (TyApply (AccQualified a name struct_name) ty_params) this =
     rbind (dove_identifier E name) (\<lambda>m.
     rbind (dove_identifier E struct_name) (\<lambda>s.
     rbind (mapM (\<lambda>t. or_panic (unwrap_spanned_ty_in E t (Some (dn_to_u8 E a)))) ty_params) (\<lambda>ps.
       Inr (TtStruct (StructTag (dn_to_u8 E a) m s ps)))))"
| "unwrap_spanned_ty_in E _ this = Inl (Failed ''Could not parse input: unsupported type'')"

definition unwrap_spanned_ty :: "dove_env \<Rightarrow> ty \<Rightarrow> type_tag exec" where
  "unwrap_spanned_ty E t = unwrap_spanned_ty_in E t None"

section \<open>Queries\<close>

record type_tag_query =
  qy_tt :: type_tag
  qy_i :: "nat option"

text \<open>The tokens behind the type: an index in brackets, and nothing after another token.\<close>

partial_function (option) query_index :: "'l lexer_ops \<Rightarrow> 'l \<Rightarrow> nat option \<Rightarrow> nat option exec option" where
  "query_index X l i =
     (if lx_peek X l = EndOfFile then Some (Inr i)
      else case lx_advance X l of
             Inl e \<Rightarrow> Some (Inl (Failed e))
           | Inr l' \<Rightarrow>
               (if lx_peek X l = LBracket
                then query_index X (snd (lx_parse_num X l')) (fst (lx_parse_num X l'))
                else Some (Inr i)))"

text \<open>\<open>decode\<close>: the replacement of encoded addresses when the feature \<open>ps_address\<close> is on.\<close>

definition parse_query ::
    "dove_env \<Rightarrow> 'l lexer_ops \<Rightarrow> (string \<Rightarrow> string) \<Rightarrow> string \<Rightarrow> type_tag_query exec option" where
  "parse_query E X decode s =
     (case rbind (failing (lx_advance X (lx_new X (decode s)))) (\<lambda>l.
             rbind (failing (lx_parse_type X l)) (\<lambda>(ty, l).
             rbind (unwrap_spanned_ty E ty) (\<lambda>tt. Inr (tt, l)))) of
        Inl e \<Rightarrow> Some (Inl e)
      | Inr (tt, l) \<Rightarrow>
          map_option (\<lambda>r. rbind r (\<lambda>i. Inr \<lparr>qy_tt = tt, qy_i = i\<rparr>)) (query_index X l None))"

section \<open>Tags and their syntax\<close>

text \<open>The syntax of a tag, with every address written out.\<close>

fun tag_ty :: "(account_address \<Rightarrow> string) \<Rightarrow> type_tag \<Rightarrow> ty"
and struct_ty :: "(account_address \<Rightarrow> string) \<Rightarrow> struct_tag \<Rightarrow> ty" where
  "tag_ty A TtBool = TyApply (AccName ''bool'') []"
| "tag_ty A TtU8 = TyApply (AccName ''u8'') []"
| "tag_ty A TtU64 = TyApply (AccName ''u64'') []"
| "tag_ty A TtU128 = TyApply (AccName ''u128'') []"
| "tag_ty A TtAddress = TyApply (AccName ''address'') []"
| "tag_ty A TtSigner = TyApply (AccName ''signer'') []"
| "tag_ty A (TtVector t) = TyApply (AccName ''Vec'') [tag_ty A t]"
| "tag_ty A (TtStruct s) = struct_ty A s"
| "struct_ty A (StructTag a m n ts) = TyApply (AccQualified (A a) m n) (map (tag_ty A) ts)"

fun tag_names :: "type_tag \<Rightarrow> string set"
and struct_names :: "struct_tag \<Rightarrow> string set" where
  "tag_names (TtVector t) = tag_names t"
| "tag_names (TtStruct s) = struct_names s"
| "tag_names _ = {}"
| "struct_names (StructTag a m n ts) = {m, n} \<union> (\<Union>t \<in> set ts. tag_names t)"

lemma tag_roundtrip_this:
  assumes "\<And>a. dn_to_u8 E (A a) = a"
  shows "\<forall>n \<in> tag_names t. mc_is_identifier (dn_core E) n \<Longrightarrow> unwrap_spanned_ty_in E (tag_ty A t) this = Inr t"
    and "\<forall>n \<in> struct_names s. mc_is_identifier (dn_core E) n \<Longrightarrow>
      unwrap_spanned_ty_in E (struct_ty A s) this = Inr (TtStruct s)"
proof (induction t and s arbitrary: this and this)
  case (StructTag a m n ts)
  then have "mapM (\<lambda>t. or_panic (unwrap_spanned_ty_in E t (Some a))) (map (tag_ty A) ts) = Inr ts"
    by (induction ts) auto
  with StructTag.prems show ?case by (simp add: assms dove_identifier_def)
qed simp_all

text \<open>A type parameter that is no type tag is not an error but a panic.\<close>

lemma nested_type_panics:
  assumes "mc_is_identifier (dn_core E) m" "mc_is_identifier (dn_core E) n"
    and "unwrap_spanned_ty_in E p (Some (dn_to_u8 E a)) = Inl (Failed e)"
  shows "unwrap_spanned_ty E (TyApply (AccQualified a m n) (p # ps)) = Inl (Trapped (Panicked e))"
  using assms by (simp add: unwrap_spanned_ty_def dove_identifier_def or_panic_def)

end
