(* ===== verification/Dove_Tx.thy ===== *)
theory Dove_Tx
  imports Dove_Tte Dove_Index
begin

text \<open>
  Creating a transaction (\<open>dove/src/cmd/ct.rs\<close>): parsing a call, finding the script, building it
  and reading its arguments at the parameter types.

  The loops over tokens do not look for the end of the input everywhere; a computation that may
  not return has an optional result. Renderings of inner errors are left out of the messages.
\<close>

section \<open>Transactions\<close>

datatype tx_arg =
    TxU8 "8 word" | TxU64 "64 word" | TxU128 "128 word" | TxBool bool | TxAddress account_address
  | TxVectorU8 "8 word list" | TxVectorU64 "64 word list" | TxVectorU128 "128 word list"
  | TxVectorBool "bool list" | TxVectorAddress "account_address list"

record transaction =
  tx_signers_count :: "8 word"
  tx_code :: "8 word list"
  tx_args :: "tx_arg list"
  tx_type_args :: "type_tag list"

record ('l, 'k, 'c, 'u) tx_world =
  tw_dove :: "('k, 'c, 'u) dove_world"
  tw_lexer :: "'l lexer_ops"
  tw_meta_lang :: "(unit definition_ast, unit, unit, unit) move_lang"
  tw_verify_units :: "'u list \<Rightarrow> 'u list \<times> errors"
  tw_is_script :: "'u \<Rightarrow> bool"
  tw_unit_name :: "'u \<Rightarrow> string"
  tw_serialize_unit :: "'u \<Rightarrow> 8 word list"
  tw_path_order :: "string set \<Rightarrow> string list"
  tw_to_bytes :: "transaction \<Rightarrow> string + 8 word list"

record create_transaction_cmd =
  cm_call :: "string option"
  cm_script_name :: "string option"
  cm_file_name :: "string option"
  cm_type_parameters :: "string list option"
  cm_args :: "string list option"

record transaction_builder =
  tb_script_file_name :: "string option"
  tb_script_name :: "string option"
  tb_type_parameters :: "type_tag list"
  tb_args :: "string list"

section \<open>Parsing a call\<close>

definition tw_env :: "('l, 'k, 'c, 'u) tx_world \<Rightarrow> dove_env" where
  "tw_env T = dw_env (tw_dove T)"

definition tw_codecs :: "('l, 'k, 'c, 'u) tx_world \<Rightarrow> codecs" where
  "tw_codecs T = dw_codecs (tw_dove T)"

definition decode_addresses :: "codecs \<Rightarrow> string \<Rightarrow> string" where
  "decode_addresses C s = fst (replace_ss58_addresses C s file_offset_map_default)"

definition parse_type_params :: "dove_env \<Rightarrow> 'l lexer_ops \<Rightarrow> 'l \<Rightarrow> (type_tag \<times> 'l) exec" where
  "parse_type_params E X l =
     rbind (failing (lx_parse_type X l)) (\<lambda>(ty, l). rbind (unwrap_spanned_ty E ty) (\<lambda>t. Inr (t, l)))"

definition invalid_call :: "string \<Rightarrow> exec_error" where
  "invalid_call reason = Failed (''Invalid call script format. '' @ reason)"

partial_function (option) type_parameters_loop ::
    "dove_env \<Rightarrow> 'l lexer_ops \<Rightarrow> 'l \<Rightarrow> type_tag list \<Rightarrow> (type_tag list \<times> 'l) exec option" where
  "type_parameters_loop E X l type_parameter =
     (if lx_peek X l = Greater then Some (Inr (type_parameter, l))
      else if lx_peek X l = EndOfFile then Some (Inl (invalid_call ''Invalid type parameters format.''))
      else if lx_peek X l = Comma
      then obind (Some (failing (lx_advance X l))) (\<lambda>l. type_parameters_loop E X l type_parameter)
      else obind (Some (parse_type_params E X l)) (\<lambda>r.
             type_parameters_loop E X (snd r) (type_parameter @ [fst r])))"

text \<open>\<open>while !stop(peek) \{ token.push_str(content); advance()? \}\<close>.\<close>

partial_function (option) push_until ::
    "'l lexer_ops \<Rightarrow> (tok \<Rightarrow> bool) \<Rightarrow> 'l \<Rightarrow> string \<Rightarrow> (string \<times> 'l) exec option" where
  "push_until X stop l token =
     (if stop (lx_peek X l) then Some (Inr (token, l))
      else obind (Some (failing (lx_advance X l))) (\<lambda>l'. push_until X stop l' (token @ lx_content X l)))"

partial_function (option) arguments_loop ::
    "'l lexer_ops \<Rightarrow> 'l \<Rightarrow> string list \<Rightarrow> string list exec option" where
  "arguments_loop X l arguments =
     (if lx_peek X l = RParen then Some (Inr arguments)
      else if lx_peek X l = EndOfFile then Some (Inl (invalid_call ''Invalid arguments format.''))
      else if lx_peek X l = Comma
      then obind (Some (failing (lx_advance X l))) (\<lambda>l. arguments_loop X l arguments)
      else if lx_peek X l = LBracket
      then obind (Some (failing (lx_advance X l))) (\<lambda>l1.
           obind (push_until X (\<lambda>t. t = RBracket) l1 (lx_content X l)) (\<lambda>r.
           obind (Some (failing (lx_advance X (snd r)))) (\<lambda>l2.
             arguments_loop X l2 (arguments @ [fst r @ lx_content X (snd r)]))))
      else obind (Some (failing (lx_advance X l))) (\<lambda>l1.
           obind (push_until X (\<lambda>t. t = Comma \<or> t = RParen) l1 (lx_content X l)) (\<lambda>r.
             if lx_peek X (snd r) = RParen then Some (Inr (arguments @ [fst r]))
             else obind (Some (failing (lx_advance X (snd r)))) (\<lambda>l2.
                    arguments_loop X l2 (arguments @ [fst r])))))"

definition parse_call ::
    "dove_env \<Rightarrow> codecs \<Rightarrow> 'l lexer_ops \<Rightarrow> string \<Rightarrow> (string \<times> type_tag list \<times> string list) exec option" where
  "parse_call E C X call =
     obind (Some (failing (lx_advance X (lx_new X (decode_addresses C call))))) (\<lambda>l.
     if lx_peek X l \<noteq> IdentifierValue then Some (Inl (invalid_call ''Expected function identifier.''))
     else
       obind (Some (failing (lx_advance X l))) (\<lambda>l1.
       obind (if lx_peek X l1 = Less
              then obind (Some (failing (lx_advance X l1))) (\<lambda>l2.
                   obind (type_parameters_loop E X l2 []) (\<lambda>r.
                   obind (Some (failing (lx_advance X (snd r)))) (\<lambda>l3. Some (Inr (fst r, l3)))))
              else Some (Inr ([], l1))) (\<lambda>r.
       if lx_peek X (snd r) \<noteq> LParen
       then Some (Inl (invalid_call ''Invalid script arguments format.. Left paren '(' is expected.''))
       else
         obind (Some (failing (lx_advance X (snd r)))) (\<lambda>l4.
         obind (arguments_loop X l4 []) (\<lambda>arguments.
           Some (Inr (lx_content X l, fst r, arguments)))))))"

text \<open>\<open>TransactionBuilder::new\<close>: the options override the call. A lexer made for a type option
  is not advanced before its type is parsed.\<close>

definition transaction_builder_new ::
    "('l, 'k, 'c, 'u) tx_world \<Rightarrow> create_transaction_cmd \<Rightarrow> transaction_builder exec option" where
  "transaction_builder_new T cmd =
     obind (case cm_call cmd of
              Some call \<Rightarrow>
                obind (parse_call (tw_env T) (tw_codecs T) (tw_lexer T) call) (\<lambda>(script_name, type_parameters, args).
                  Some (Inr (Some script_name, type_parameters, args)))
            | None \<Rightarrow> Some (Inr (None, [], []))) (\<lambda>(script_name, type_parameters, args).
     obind (Some (case cm_type_parameters cmd of
              None \<Rightarrow> Inr type_parameters
            | Some tps \<Rightarrow>
                mapM (\<lambda>tp. rbind (parse_type_params (tw_env T) (tw_lexer T)
                        (lx_new (tw_lexer T) (decode_addresses (tw_codecs T) tp))) (\<lambda>r. Inr (fst r))) tps)) (\<lambda>type_parameters.
       Some (Inr
         \<lparr>tb_script_file_name = cm_file_name cmd,
          tb_script_name = (case cm_script_name cmd of Some n \<Rightarrow> Some n | None \<Rightarrow> script_name),
          tb_type_parameters = type_parameters,
          tb_args = (case cm_args cmd of Some cmd_args \<Rightarrow> map (decode_addresses (tw_codecs T)) cmd_args | None \<Rightarrow> args)\<rparr>)))"

section \<open>Finding the script\<close>

definition ends_with :: "string \<Rightarrow> string \<Rightarrow> bool" where
  "ends_with p s = starts_with (rev p) (rev s)"

definition extract_of :: "('l, 'k, 'c, 'u) tx_world \<Rightarrow> dove_context \<Rightarrow> move_file \<Rightarrow> meta list exec" where
  "extract_of T ctx mf =
     rbind (trapping (extract_metadata (tw_codecs T) (tw_meta_lang T) (dove_dialect (tw_dove T) ctx) mf)) (\<lambda>r.
       case r of Inl e \<Rightarrow> Inl (NotCompiled e) | Inr metas \<Rightarrow> Inr metas)"

text \<open>\<open>Vec::remove(0)\<close>.\<close>

definition remove_first :: "'a list \<Rightarrow> 'a exec" where
  "remove_first xs = (case xs of [] \<Rightarrow> Inl (Trapped IndexOutOfBounds) | x # _ \<Rightarrow> Inr x)"

definition script_dir_of :: "dove_context \<Rightarrow> string" where
  "script_dir_of ctx = path_for ctx (ly_script_dir (cx_layout ctx))"

definition lookup_script_by_file_name ::
    "('l, 'k, 'c, 'u) tx_world \<Rightarrow> dove_context \<Rightarrow> fs \<Rightarrow> string option \<Rightarrow> string \<Rightarrow> (move_file \<times> meta) exec" where
  "lookup_script_by_file_name T ctx F script_name fname =
     (let file_path = (if \<not> ends_with ''move'' fname then set_extension (path_join (script_dir_of ctx) fname) ''move''
                       else path_join (script_dir_of ctx) fname)
      in if \<not> fs_exists F file_path then Inl (Failed (''File ['' @ fname @ ''] not found''))
         else
           rbind (failing (move_file_load F file_path)) (\<lambda>script.
           rbind (extract_of T ctx script) (\<lambda>scripts.
             if scripts = [] then Inl (Failed (''Script not found in file '' @ fname))
             else
               rbind (if length scripts > 1
                      then let scripts = filter (\<lambda>sc. case script_name of Some n \<Rightarrow> mt_name sc = n | None \<Rightarrow> False) scripts
                           in if length scripts > 1
                              then Inl (Failed (''There are several scripts with the name in file '' @ fname))
                              else remove_first scripts
                      else remove_first scripts) (\<lambda>meta. Inr (script, meta)))))"

text \<open>A file that does not load or parse is only warned about.\<close>

definition named_script_file ::
    "('l, 'k, 'c, 'u) tx_world \<Rightarrow> dove_context \<Rightarrow> fs \<Rightarrow> string \<Rightarrow> string \<Rightarrow> (move_file \<times> meta list) option exec" where
  "named_script_file T ctx F name path =
     (case move_file_load F path of
        Inl _ \<Rightarrow> Inr None
      | Inr mf \<Rightarrow>
          (if find_str name (mf_content mf) = None then Inr None
           else case extract_of T ctx mf of
                  Inr metas \<Rightarrow> Inr (if list_ex (\<lambda>m. mt_name m = name) metas then Some (mf, metas) else None)
                | Inl (Trapped f) \<Rightarrow> Inl (Trapped f)
                | Inl _ \<Rightarrow> Inr None))"

definition lookup_script_by_name ::
    "('l, 'k, 'c, 'u) tx_world \<Rightarrow> dove_context \<Rightarrow> fs \<Rightarrow> string \<Rightarrow> (move_file \<times> meta) exec" where
  "lookup_script_by_name T ctx F name =
     rbind (failing (find_move_files F (script_dir_of ctx))) (\<lambda>paths.
     rbind (mapM (named_script_file T ctx F name) paths) (\<lambda>found.
       case List.map_filter id found of
         [] \<Rightarrow> Inl (Failed ''Script not found.'')
       | [(mf, metas)] \<Rightarrow>
           (if metas = [] then Inl (Failed ''Script not found.'')
            else if length metas > 1
            then Inl (Failed (''There are several scripts with the name '' @ name @ '' in file '' @ mf_name mf))
            else rbind (remove_first metas) (\<lambda>meta. Inr (mf, meta)))
       | files \<Rightarrow>
           Inl (Failed (''There are several scripts with the name '' @ name @ '' in files '' @
             intercalate '', '' (map (\<lambda>f. mf_name (fst f)) files)))))"

definition lookup_script ::
    "('l, 'k, 'c, 'u) tx_world \<Rightarrow> dove_context \<Rightarrow> fs \<Rightarrow> transaction_builder \<Rightarrow> (move_file \<times> meta) exec" where
  "lookup_script T ctx F b =
     (case tb_script_file_name b of
        Some file_name \<Rightarrow> lookup_script_by_file_name T ctx F (tb_script_name b) file_name
      | None \<Rightarrow>
          (case tb_script_name b of
             Some name \<Rightarrow> lookup_script_by_name T ctx F name
           | None \<Rightarrow>
               rbind (failing (find_move_files F (script_dir_of ctx))) (\<lambda>files.
                 case files of
                   [path] \<Rightarrow>
                     rbind (failing (move_file_load F path)) (\<lambda>mf.
                     rbind (extract_of T ctx mf) (\<lambda>metas.
                       if metas = [] then Inl (Failed ''Script not found.'')
                       else if length metas > 1 then Inl (Failed ''Failed to determine script. There are several scripts.'')
                       else rbind (remove_first metas) (\<lambda>meta. Inr (mf, meta))))
                 | _ \<Rightarrow> Inl (Failed ''Failed to determine script. There are several scripts.''))))"

section \<open>Building the script\<close>

definition build_script ::
    "('l, 'k, 'c, 'u) tx_world \<Rightarrow> dove_context \<Rightarrow> disk \<Rightarrow> move_file \<Rightarrow> ('u list \<times> disk) exec option" where
  "build_script T ctx D script =
     obind (build_index (tw_dove T) ctx D) (\<lambda>(index, D).
     let module_dir = path_for ctx (ly_module_dir (cx_layout ctx)) in
     obind (make_dependency_set (tw_dove T) ctx [module_dir, mf_name script] index D) (\<lambda>(index, dep_set, D).
     let F = disk_fs (tw_dove T) D in
     Some (
       rbind (failing (load_dependencies (tw_path_order T) F dep_set)) (\<lambda>dep_list.
       rbind (failing (load_move_files F [module_dir])) (\<lambda>modules.
       rbind (failing (account_address_of (tw_codecs T) ctx)) (\<lambda>sender.
       rbind (trapping (build (tw_codecs T) (dw_lang (tw_dove T)) (dove_dialect (tw_dove T) ctx) (Some sender)
                [script] (dep_list @ modules))) (\<lambda>artifacts.
         case ar_prog artifacts of
           Inl errors \<Rightarrow> Inl (Failed (''could not compile:'' @ project_name ctx))
         | Inr compiled_units \<Rightarrow>
             (case tw_verify_units T compiled_units of (compiled_units, ice_errors) \<Rightarrow>
                if ice_errors \<noteq> [] then Inl (Failed (''could not verify:'' @ project_name ctx))
                else Inr (compiled_units, D)))))))))"

section \<open>Arguments\<close>

text \<open>The loop of \<open>parse_vec\<close>.\<close>

partial_function (option) vec_loop ::
    "'l lexer_ops \<Rightarrow> (string \<Rightarrow> 'e option) \<Rightarrow> string \<Rightarrow> 'l \<Rightarrow> 'e list \<Rightarrow> 'e list exec option" where
  "vec_loop X from_str tp_name l elements =
     (if lx_peek X l = RBracket then Some (Inr elements)
      else if lx_peek X l = Comma
      then obind (Some (failing (lx_advance X l))) (\<lambda>l. vec_loop X from_str tp_name l elements)
      else if lx_peek X l = EndOfFile then Some (Inl (Failed ''unexpected end of vector.''))
      else case from_str (lx_content X l) of
             None \<Rightarrow> Some (Inl (Failed (''Failed to parse vector element. '' @ tp_name @ '' type is expected. Actual:'' @ lx_content X l)))
           | Some e \<Rightarrow> obind (Some (failing (lx_advance X l))) (\<lambda>l. vec_loop X from_str tp_name l (elements @ [e])))"

definition parse_vec ::
    "'l lexer_ops \<Rightarrow> (string \<Rightarrow> 'e option) \<Rightarrow> string \<Rightarrow> string \<Rightarrow> 'e list exec option" where
  "parse_vec X from_str tkn tp_name =
     obind (Some (failing (lx_advance X (lx_new X tkn)))) (\<lambda>l.
       if lx_peek X l \<noteq> LBracket then Some (Inl (Failed ''Vector in format  [n1, n2, ..., nn] is expected.''))
       else obind (Some (failing (lx_advance X l))) (\<lambda>l. vec_loop X from_str tp_name l []))"

text \<open>\<open>Address::from_str\<close>.\<close>

definition address_from_str :: "dove_env \<Rightarrow> codecs \<Rightarrow> string \<Rightarrow> account_address option" where
  "address_from_str E C addr =
     (case ss58_to_libra C addr of
        Inr a \<Rightarrow> mc_from_hex (dn_core E) a
      | Inl _ \<Rightarrow> mc_from_hex (dn_core E) addr)"

definition argument :: "string list \<Rightarrow> nat \<Rightarrow> nat \<Rightarrow> string exec" where
  "argument args index total_expected =
     (if index < length args then Inr (args ! index)
      else Inl (Failed (show_nat total_expected @ '' arguments are expected.'')))"

definition parsed :: "string \<Rightarrow> string \<Rightarrow> nat \<Rightarrow> string \<Rightarrow> 'a option \<Rightarrow> 'a exec" where
  "parsed name tp index value r =
     (case r of Some x \<Rightarrow> Inr x
      | None \<Rightarrow> Inl (Failed (''Parameter '' @ name @ '' has '' @ tp @ '' type. Failed to parse '' @ value @
                 '' ['' @ show_nat index @ '']'')))"

definition word_from_str :: "string \<Rightarrow> 'w::len word option" where
  "word_from_str s = map_option of_nat (parse_unsigned LENGTH('w) s)"

definition mapO :: "('a \<Rightarrow> 'b) \<Rightarrow> 'a exec option \<Rightarrow> 'b exec option" where
  "mapO f r = obind r (\<lambda>x. Some (Inr (f x)))"

definition parse_argument ::
    "dove_env \<Rightarrow> codecs \<Rightarrow> 'l lexer_ops \<Rightarrow> string \<Rightarrow> string \<Rightarrow> nat \<Rightarrow> string \<Rightarrow> tx_arg exec option" where
  "parse_argument E C X name tp index arg =
     (if tp = ''bool'' then mapO TxBool (Some (parsed name tp index arg (parse_bool arg)))
      else if tp = ''u8'' then mapO TxU8 (Some (parsed name tp index arg (word_from_str arg)))
      else if tp = ''u64'' then mapO TxU64 (Some (parsed name tp index arg (word_from_str arg)))
      else if tp = ''u128'' then mapO TxU128 (Some (parsed name tp index arg (word_from_str arg)))
      else if tp = ''address'' then mapO TxAddress
        (Some (case address_from_str E C arg of Some a \<Rightarrow> Inr a | None \<Rightarrow> Inl (Failed ''Invalid address'')))
      else if tp = ''vector<u8>''
      then mapO TxVectorU8 (if CHR ''['' \<in> set arg then parse_vec X word_from_str arg ''u8''
                            else Some (failing (cd_hex_decode C arg)))
      else if tp = ''vector<u64>'' then mapO TxVectorU64 (parse_vec X word_from_str arg ''u64'')
      else if tp = ''vector<u128>'' then mapO TxVectorU128 (parse_vec X word_from_str arg ''u128'')
      else if tp = ''vector<address>''
      then mapO TxVectorAddress (parse_vec X (address_from_str E C) arg ''vector<address>'')
      else Some (Inl (Failed (''Unexpected script parameter: '' @ tp))))"

definition readable_types :: "string list" where
  "readable_types =
     [''bool'', ''u8'', ''u64'', ''u128'', ''address'', ''vector<u8>'', ''vector<u64>'', ''vector<u128>'', ''vector<address>'']"

definition prepare_argument ::
    "dove_env \<Rightarrow> codecs \<Rightarrow> 'l lexer_ops \<Rightarrow> string list \<Rightarrow> nat \<Rightarrow> string \<times> string \<Rightarrow>
     nat \<times> nat \<times> tx_arg list \<Rightarrow> (nat \<times> nat \<times> tx_arg list) exec option" where
  "prepare_argument E C X args total_args param s =
     (case param of (name, tp) \<Rightarrow> case s of (signers, args_index, values) \<Rightarrow>
        if tp = ''&signer'' then Some (Inr (signers + 1, args_index, values))
        else if tp \<in> set readable_types
        then obind (Some (argument args args_index total_args)) (\<lambda>arg.
             obind (parse_argument E C X name tp args_index arg) (\<lambda>v.
               Some (Inr (signers, args_index + 1, values @ [v]))))
        else Some (Inl (Failed (''Unexpected script parameter: '' @ tp))))"

definition prepare_arguments ::
    "dove_env \<Rightarrow> codecs \<Rightarrow> 'l lexer_ops \<Rightarrow> string list \<Rightarrow> (string \<times> string) list \<Rightarrow>
     (nat \<times> nat \<times> tx_arg list) exec option" where
  "prepare_arguments E C X args args_type =
     foldO (prepare_argument E C X args (length args_type)) args_type (0, 0, [])"

section \<open>Building and storing the transaction\<close>

text \<open>The part of \<open>build\<close> behind the compilation.\<close>

definition make_transaction ::
    "('l, 'k, 'c, 'u) tx_world \<Rightarrow> transaction_builder \<Rightarrow> meta \<Rightarrow> 'u list \<Rightarrow> (string \<times> transaction) exec option" where
  "make_transaction T b meta units =
     obind (Some (case find (\<lambda>u. tw_is_script T u \<and> tw_unit_name T u = mt_name meta) units of
              Some u \<Rightarrow> Inr (tw_serialize_unit T u)
            | None \<Rightarrow> Inl (Failed (''Script '' @ mt_name meta @ '' not found'')))) (\<lambda>code.
     if length (mt_type_parameters meta) \<noteq> length (tb_type_parameters b)
     then Some (Inl (Failed (''Script '' @ mt_name meta @ '' takes '' @ show_nat (length (mt_type_parameters meta)) @
            '' type parameters, '' @ show_nat (length (tb_type_parameters b)) @ '' passed'')))
     else
       obind (prepare_arguments (tw_env T) (tw_codecs T) (tw_lexer T) (tb_args b) (mt_parameters meta))
         (\<lambda>(signers, args_count, args).
            if length (tb_args b) \<noteq> args_count
            then Some (Inl (Failed (''Script '' @ mt_name meta @ '' takes '' @ show_nat args_count @
                   '' parameters, '' @ show_nat (length (tb_args b)) @ '' passed'')))
            else Some (Inr (mt_name meta,
                   \<lparr>tx_signers_count = of_nat signers, tx_code = code, tx_args = args,
                    tx_type_args = tb_type_parameters b\<rparr>))))"

definition transaction_build ::
    "('l, 'k, 'c, 'u) tx_world \<Rightarrow> dove_context \<Rightarrow> disk \<Rightarrow> transaction_builder \<Rightarrow> (string \<times> transaction) exec option" where
  "transaction_build T ctx D b =
     obind (Some (lookup_script T ctx (disk_fs (tw_dove T) D) b)) (\<lambda>(script, meta).
     obind (build_script T ctx D script) (\<lambda>(units, D). make_transaction T b meta units))"

text \<open>\<open>store_transaction\<close>: the file and the bytes written to it.\<close>

definition store_transaction ::
    "('l, 'k, 'c, 'u) tx_world \<Rightarrow> dove_context \<Rightarrow> string \<Rightarrow> transaction \<Rightarrow> (string \<times> 8 word list) exec" where
  "store_transaction T ctx name tx =
     rbind (failing (tw_to_bytes T tx)) (\<lambda>bytes.
       Inr (set_extension (path_join (path_for ctx (ly_transaction_output (cx_layout ctx))) name) ''mvt'', bytes))"

definition create_transaction_apply ::
    "('l, 'k, 'c, 'u) tx_world \<Rightarrow> dove_context \<Rightarrow> disk \<Rightarrow> create_transaction_cmd \<Rightarrow> (string \<times> 8 word list) exec option" where
  "create_transaction_apply T ctx D cmd =
     obind (transaction_builder_new T cmd) (\<lambda>b.
     obind (transaction_build T ctx D b) (\<lambda>(script_name, tx).
       Some (store_transaction T ctx script_name tx)))"

end
