(* ===== verification/Dove_Tx_Correct.thy ===== *)
theory Dove_Tx_Correct
  imports Dove_Tx Dove_Imports Dove_Resolve
begin

text \<open>
  Properties of transactions: calls are read back from their tokens, a call that is not closed
  never returns, and the arguments of a transaction have the types of the script's parameters.
\<close>

section \<open>Type tags\<close>

text \<open>Every type tag is read back from its syntax, whatever structs, vectors and type
  parameters are nested in it.\<close>

theorem type_tag_roundtrip:
  assumes "\<And>a. dn_to_u8 E (A a) = a" and "\<forall>n \<in> tag_names t. mc_is_identifier (dn_core E) n"
  shows "unwrap_spanned_ty E (tag_ty A t) = Inr t"
  unfolding unwrap_spanned_ty_def by (rule tag_roundtrip_this(1)) (use assms in auto)

definition sample_type_tag :: type_tag where
  "sample_type_tag = TtVector (TtStruct (StructTag [1] ''M'' ''R'' [TtU8, TtStruct (StructTag [2, 3] ''N'' ''S'' [])]))"

theorem type_tag_roundtrip_witness:
  "unwrap_spanned_ty sample_dove (tag_ty (map (\<lambda>w. char_of (unat w))) sample_type_tag) = Inr sample_type_tag"
proof (rule type_tag_roundtrip)
  have "of_nat (of_char (char_of (unat w))) = w" for w :: "8 word"
  proof -
    have "unat w < 256" using unsigned_less[of w, where ?'a = nat] by simp
    then have "(of_char (char_of (unat w) :: char) :: nat) = unat w" by (simp add: of_char_of)
    then show ?thesis by simp
  qed
  then show "dn_to_u8 sample_dove (map (\<lambda>w. char_of (unat w)) a) = a" for a
    by (simp add: sample_dove_def map_idI)
qed (simp add: sample_type_tag_def sample_dove_def)

section \<open>Token streams\<close>

datatype item = Token tok string | TypeItem ty

text \<open>What stands before a lexer, up to the end of the input.\<close>

inductive sees :: "'l lexer_ops \<Rightarrow> 'l \<Rightarrow> item list \<Rightarrow> bool" for X where
  sees_end: "lx_peek X l = EndOfFile \<Longrightarrow> sees X l []"
| sees_token: "lx_peek X l = t \<Longrightarrow> lx_content X l = c \<Longrightarrow> lx_advance X l = Inr l' \<Longrightarrow> sees X l' is \<Longrightarrow>
     sees X l (Token t c # is)"
| sees_type: "lx_peek X l \<notin> {Greater, EndOfFile, Comma} \<Longrightarrow> lx_parse_type X l = Inr (ty, l') \<Longrightarrow> sees X l' is \<Longrightarrow>
     sees X l (TypeItem ty # is)"

inductive_cases sees_endE: "sees X l []"
inductive_cases sees_tokenE: "sees X l (Token t c # is)"
inductive_cases sees_typeE: "sees X l (TypeItem ty # is)"

abbreviation tokens :: "(tok \<times> string) list \<Rightarrow> item list" where
  "tokens ts \<equiv> map (\<lambda>(t, c). Token t c) ts"

abbreviation token_text :: "(tok \<times> string) list \<Rightarrow> string" where
  "token_text ts \<equiv> concat (map snd ts)"

section \<open>Calls\<close>

text \<open>An argument is a run of tokens or a vector in brackets.\<close>

datatype call_arg = PlainArg tok string "(tok \<times> string) list" | VectorArg "(tok \<times> string) list"

primrec arg_items :: "call_arg \<Rightarrow> item list" where
  "arg_items (PlainArg t c ts) = Token t c # tokens ts"
| "arg_items (VectorArg ts) = Token LBracket ''['' # tokens ts @ [Token RBracket '']'']"

primrec arg_text :: "call_arg \<Rightarrow> string" where
  "arg_text (PlainArg t c ts) = c @ token_text ts"
| "arg_text (VectorArg ts) = ''['' @ token_text ts @ '']''"

primrec arg_ok :: "call_arg \<Rightarrow> bool" where
  "arg_ok (PlainArg t c ts) \<longleftrightarrow>
     t \<notin> {RParen, EndOfFile, Comma, LBracket} \<and> (\<forall>x \<in> set ts. fst x \<notin> {Comma, RParen, EndOfFile})"
| "arg_ok (VectorArg ts) \<longleftrightarrow> (\<forall>x \<in> set ts. fst x \<notin> {RBracket, EndOfFile})"

fun args_items :: "call_arg list \<Rightarrow> item list" where
  "args_items [] = []"
| "args_items [a] = arg_items a"
| "args_items (a # as) = arg_items a @ Token Comma '','' # args_items as"

fun types_items :: "ty list \<Rightarrow> item list" where
  "types_items [] = []"
| "types_items [t] = [TypeItem t]"
| "types_items (t # ts) = TypeItem t # Token Comma '','' # types_items ts"

definition call_items :: "string \<Rightarrow> ty list option \<Rightarrow> call_arg list \<Rightarrow> item list" where
  "call_items name tys args =
     Token IdentifierValue name #
     (case tys of None \<Rightarrow> [] | Some ts \<Rightarrow> Token Less ''<'' # types_items ts @ [Token Greater ''>'']) @
     Token LParen ''('' # args_items args @ [Token RParen '')'']"

lemma push_until_sees:
  "sees X l (tokens ts @ Token t c # is) \<Longrightarrow> \<forall>x \<in> set ts. \<not> stop (fst x) \<Longrightarrow> stop t \<Longrightarrow>
   \<exists>l'. push_until X stop l token = Some (Inr (token @ token_text ts, l')) \<and> sees X l' (Token t c # is)"
proof (induction ts arbitrary: l token)
  case Nil
  then show ?case by (subst push_until.simps) (auto elim: sees_tokenE)
next
  case (Cons x ts)
  obtain t' c' where x: "x = (t', c')" by force
  from Cons.prems(1) x obtain l1 where l1: "lx_peek X l = t'" "lx_content X l = c'" "lx_advance X l = Inr l1"
    "sees X l1 (tokens ts @ Token t c # is)" by (auto elim: sees_tokenE)
  from Cons.IH[OF l1(4), of "token @ c'"] Cons.prems(2,3) obtain l' where
    "push_until X stop l1 (token @ c') = Some (Inr ((token @ c') @ token_text ts, l'))" "sees X l' (Token t c # is)" by auto
  with l1 Cons.prems(2) x show ?case by (subst push_until.simps) (simp add: failing_def)
qed

lemma types_loop_sees:
  "sees X l (types_items (map fst tys) @ Token Greater c # is) \<Longrightarrow>
   \<forall>x \<in> set tys. unwrap_spanned_ty E (fst x) = Inr (snd x) \<Longrightarrow>
   \<exists>l'. type_parameters_loop E X l acc = Some (Inr (acc @ map snd tys, l')) \<and> sees X l' (Token Greater c # is)"
proof (induction tys arbitrary: l acc)
  case Nil
  then show ?case by (subst type_parameters_loop.simps) (auto elim: sees_tokenE)
next
  case (Cons x tys)
  have r: "\<exists>l1. lx_peek X l \<notin> {Greater, EndOfFile, Comma} \<and> lx_parse_type X l = Inr (fst x, l1) \<and>
      sees X l1 ((if tys = [] then [] else Token Comma '','' # types_items (map fst tys)) @ Token Greater c # is)"
    using Cons.prems(1) by (cases tys) (auto elim: sees_typeE)
  then obtain l1 where l1: "lx_peek X l \<notin> {Greater, EndOfFile, Comma}" "lx_parse_type X l = Inr (fst x, l1)"
    "sees X l1 ((if tys = [] then [] else Token Comma '','' # types_items (map fst tys)) @ Token Greater c # is)" by blast
  have step: "type_parameters_loop E X l acc = type_parameters_loop E X l1 (acc @ [snd x])"
    using l1(1,2) Cons.prems(2) by (subst type_parameters_loop.simps) (simp add: parse_type_params_def failing_def)
  show ?case
  proof (cases "tys = []")
    case True
    with l1(3) have "sees X l1 (types_items (map fst tys) @ Token Greater c # is)" by simp
    from Cons.IH[OF this, of "acc @ [snd x]"] Cons.prems(2) step show ?thesis by simp
  next
    case False
    with l1(3) obtain l2 where l2: "lx_peek X l1 = Comma" "lx_advance X l1 = Inr l2"
      "sees X l2 (types_items (map fst tys) @ Token Greater c # is)" by (auto elim: sees_tokenE)
    have "type_parameters_loop E X l1 a = type_parameters_loop E X l2 a" for a
      using l2(1,2) by (subst type_parameters_loop.simps) (simp add: failing_def)
    with Cons.IH[OF l2(3), of "acc @ [snd x]"] Cons.prems(2) step show ?thesis by simp
  qed
qed

lemma arguments_loop_sees:
  "sees X l (args_items args @ Token RParen c # is) \<Longrightarrow> \<forall>a \<in> set args. arg_ok a \<Longrightarrow>
   arguments_loop X l acc = Some (Inr (acc @ map arg_text args))"
proof (induction args arbitrary: l acc)
  case Nil
  then show ?case by (subst arguments_loop.simps) (auto elim: sees_tokenE)
next
  case (Cons a args)
  define rest where "rest = (if args = [] then Token RParen c # is else Token Comma '','' # args_items args @ Token RParen c # is)"
  have s: "sees X l (arg_items a @ rest)"
    using Cons.prems(1) by (cases args) (simp_all add: rest_def)
  have next_arg: "arguments_loop X l' b = Some (Inr (b @ map arg_text args))"
    if "sees X l' rest" for l' b
  proof (cases "args = []")
    case True
    with that show ?thesis by (subst arguments_loop.simps) (auto simp: rest_def elim: sees_tokenE)
  next
    case False
    with that obtain l2 where l2: "lx_peek X l' = Comma" "lx_advance X l' = Inr l2"
      "sees X l2 (args_items args @ Token RParen c # is)" by (auto simp: rest_def elim: sees_tokenE)
    with Cons.IH[OF l2(3)] Cons.prems(2) show ?thesis
      by (subst arguments_loop.simps) (simp add: failing_def)
  qed
  show ?case
  proof (cases a)
    case (VectorArg ts)
    with s obtain l1 where l1: "lx_peek X l = LBracket" "lx_content X l = ''[''" "lx_advance X l = Inr l1"
      "sees X l1 (tokens ts @ Token RBracket '']'' # rest)" by (auto elim: sees_tokenE)
    have "\<forall>x \<in> set ts. \<not> (fst x = RBracket)" using Cons.prems(2) VectorArg by auto
    from push_until_sees[OF l1(4) this refl, of "''[''"] obtain l2 where
      l2: "push_until X (\<lambda>t. t = RBracket) l1 ''['' = Some (Inr (''['' @ token_text ts, l2))"
      "sees X l2 (Token RBracket '']'' # rest)" by auto
    from l2(2) obtain l3 where l3: "lx_content X l2 = '']''" "lx_advance X l2 = Inr l3" "sees X l3 rest"
      by (auto elim: sees_tokenE)
    have "arguments_loop X l acc = arguments_loop X l3 (acc @ [arg_text a])"
      using l1 l2 l3 VectorArg by (subst arguments_loop.simps) (simp add: failing_def)
    with next_arg[OF l3(3)] show ?thesis by simp
  next
    case (PlainArg t0 c0 ts)
    with s obtain l1 where l1: "lx_peek X l = t0" "lx_content X l = c0" "lx_advance X l = Inr l1"
      "sees X l1 (tokens ts @ rest)" by (auto elim: sees_tokenE)
    have ok: "t0 \<notin> {RParen, EndOfFile, Comma, LBracket}" "\<forall>x \<in> set ts. \<not> (fst x = Comma \<or> fst x = RParen)"
      using Cons.prems(2) PlainArg by auto
    obtain t c' is' where rest: "rest = Token t c' # is'" "t = Comma \<or> t = RParen" "t = RParen \<longleftrightarrow> args = []"
      by (cases "args = []") (auto simp: rest_def)
    from push_until_sees[OF l1(4)[unfolded rest(1)], where stop = "\<lambda>t. t = Comma \<or> t = RParen" and token = c0]
      ok(2) rest(2) obtain l2 where
      l2: "push_until X (\<lambda>t. t = Comma \<or> t = RParen) l1 c0 = Some (Inr (c0 @ token_text ts, l2))" "sees X l2 rest"
      unfolding rest(1) by auto
    from l2(2) obtain l3 where l3: "lx_peek X l2 = t" "lx_advance X l2 = Inr l3" "sees X l3 is'"
      unfolding rest(1) by (auto elim: sees_tokenE)
    show ?thesis
    proof (cases "args = []")
      case True
      with l1 l2(1) l3 ok(1) rest(3) PlainArg show ?thesis
        by (subst arguments_loop.simps) (simp add: failing_def)
    next
      case False
      then have t: "t = Comma" and is': "is' = args_items args @ Token RParen c # is"
        using rest by (auto simp: rest_def)
      have "arguments_loop X l acc = arguments_loop X l3 (acc @ [arg_text a])"
        using l1 l2(1) l3 ok(1) t PlainArg by (subst arguments_loop.simps) (simp add: failing_def)
      with Cons.IH[OF l3(3)[unfolded is']] Cons.prems(2) show ?thesis by simp
    qed
  qed
qed

text \<open>C36: a call is read back from its tokens: the name, the tags of its type arguments and its
  arguments, each the text of its tokens without blanks, vectors with their brackets, in order.\<close>

theorem parse_call_roundtrip:
  assumes "lx_advance X (lx_new X (decode_addresses C call)) = Inr l"
    and "sees X l (call_items name (map_option (map fst) tys) args)"
    and "\<forall>ts \<in> set_option tys. \<forall>x \<in> set ts. unwrap_spanned_ty E (fst x) = Inr (snd x)"
    and "\<forall>a \<in> set args. arg_ok a"
  shows "parse_call E C X call =
    Some (Inr (name, (case tys of None \<Rightarrow> [] | Some ts \<Rightarrow> map snd ts), map arg_text args))"
proof -
  let ?rest = "Token LParen ''('' # args_items args @ [Token RParen '')'']"
  from assms(2) obtain l1 where l1: "lx_peek X l = IdentifierValue" "lx_content X l = name" "lx_advance X l = Inr l1"
    "sees X l1 ((case map_option (map fst) tys of None \<Rightarrow> [] | Some ts \<Rightarrow> Token Less ''<'' # types_items ts @ [Token Greater ''>'']) @ ?rest)"
    unfolding call_items_def by (rule sees_tokenE)
  have finish: "lx_peek X l3 = LParen \<and> (\<exists>l4. lx_advance X l3 = Inr l4 \<and>
      arguments_loop X l4 [] = Some (Inr (map arg_text args)))" if "sees X l3 ?rest" for l3
    using that
  proof (rule sees_tokenE)
    fix l4 assume "lx_peek X l3 = LParen" "lx_advance X l3 = Inr l4" "sees X l4 (args_items args @ [Token RParen '')''])"
    with arguments_loop_sees[OF this(3) assms(4), of "[]"] show ?thesis by simp
  qed
  show ?thesis
  proof (cases tys)
    case None
    with l1(4) have "sees X l1 ?rest" by simp
    from finish[OF this] assms(1) l1(1-3) None show ?thesis by (auto simp: parse_call_def failing_def)
  next
    case (Some ts)
    with l1(4) obtain l2 where l2: "lx_peek X l1 = Less" "lx_advance X l1 = Inr l2"
      "sees X l2 (types_items (map fst ts) @ Token Greater ''>'' # ?rest)" by (auto elim: sees_tokenE)
    from types_loop_sees[OF l2(3), of E "[]"] assms(3) Some obtain l3 where
      l3: "type_parameters_loop E X l2 [] = Some (Inr (map snd ts, l3))" "sees X l3 (Token Greater ''>'' # ?rest)" by auto
    from l3(2) obtain l4 where l4: "lx_advance X l3 = Inr l4" "sees X l4 ?rest" by (auto elim: sees_tokenE)
    from finish[OF l4(2)] assms(1) l1(1-3) l2(1,2) l3(1) l4(1) Some show ?thesis
      by (auto simp: parse_call_def failing_def)
  qed
qed

text \<open>A lexer over a list of items, to run examples.\<close>

definition list_peek :: "item list \<Rightarrow> tok" where
  "list_peek l = (case l of [] \<Rightarrow> EndOfFile | Token t c # _ \<Rightarrow> t | TypeItem _ # _ \<Rightarrow> OtherTok)"

definition list_lexer :: "item list \<Rightarrow> item list lexer_ops" where
  "list_lexer is =
     \<lparr>lx_new = (\<lambda>_. Token OtherTok [] # is),
      lx_advance = (\<lambda>l. Inr (if list_peek l = EndOfFile then l else tl l)),
      lx_peek = list_peek,
      lx_content = (\<lambda>l. case l of Token t c # _ \<Rightarrow> c | _ \<Rightarrow> []),
      lx_parse_type = (\<lambda>l. case l of TypeItem ty # r \<Rightarrow> Inr (ty, r) | _ \<Rightarrow> Inl ''unexpected token''),
      lx_parse_num = (\<lambda>l. (None, l))\<rparr>"

lemma list_lexer_sees: "\<forall>c. Token EndOfFile c \<notin> set l \<Longrightarrow> sees (list_lexer is) l l"
proof (induction l)
  case (Cons i l)
  then show ?case
    by (cases i) (auto intro!: sees_token sees_type simp: list_lexer_def list_peek_def)
qed (simp add: sees_end list_lexer_def list_peek_def)

theorem parse_call_roundtrip_witness:
  "parse_call sample_dove sample_codecs
     (list_lexer (call_items ''transfer'' (Some [TyApply (AccName ''u8'') []])
        [PlainArg OtherTok ''10'' [], VectorArg [(OtherTok, ''1''), (Comma, '',''), (OtherTok, ''2'')]]))
     ''transfer<u8>(10, [1, 2])'' =
   Some (Inr (''transfer'', [TtU8], [''10'', ''[1,2]'']))"
proof -
  let ?args = "[PlainArg OtherTok ''10'' [], VectorArg [(OtherTok, ''1''), (Comma, '',''), (OtherTok, ''2'')]]"
  let ?is = "call_items ''transfer'' (map_option (map fst) (Some [(TyApply (AccName ''u8'') [], TtU8)])) ?args"
  have "sees (list_lexer ?is) ?is ?is" by (rule list_lexer_sees) (simp add: call_items_def)
  moreover have "lx_advance (list_lexer ?is) (lx_new (list_lexer ?is) s) = Inr ?is" for s
    by (simp add: list_lexer_def list_peek_def)
  ultimately have "parse_call sample_dove sample_codecs (list_lexer ?is) ''transfer<u8>(10, [1, 2])'' =
      Some (Inr (''transfer'', (case Some [(TyApply (AccName ''u8'') [], TtU8)] of None \<Rightarrow> [] | Some ts \<Rightarrow> map snd ts),
        map arg_text ?args))"
    by (intro parse_call_roundtrip) (auto simp: unwrap_spanned_ty_def)
  then show ?thesis by simp
qed

section \<open>Calls that are not closed\<close>

text \<open>At the end of the input the lexer stays there.\<close>

definition eof_stays :: "'l lexer_ops \<Rightarrow> bool" where
  "eof_stays X \<longleftrightarrow> (\<forall>l. lx_peek X l = EndOfFile \<longrightarrow> (\<exists>l'. lx_advance X l = Inr l' \<and> lx_peek X l' = EndOfFile))"

lemma push_until_eof:
  assumes "push_until X stop l token = Some y" "eof_stays X" "\<not> stop EndOfFile"
  shows "lx_peek X l \<noteq> EndOfFile"
  using assms
proof (induction rule: push_until.raw_induct[rotated 1, consumes 1])
  case (1 rec X stop l token y)
  show ?case
  proof
    assume e: "lx_peek X l = EndOfFile"
    with 1(3) obtain l' where l': "lx_advance X l = Inr l'" "lx_peek X l' = EndOfFile"
      unfolding eof_stays_def by blast
    with 1(2) e 1(4) have "rec X stop l' (token @ lx_content X l) = Some y" by (simp add: failing_def)
    from 1(1)[OF this 1(3,4)] l'(2) show False by simp
  qed
qed

lemma push_until_hangs:
  "sees X l (tokens ts) \<Longrightarrow> \<forall>x \<in> set ts. \<not> stop (fst x) \<Longrightarrow> \<not> stop EndOfFile \<Longrightarrow> eof_stays X \<Longrightarrow>
   push_until X stop l token = None"
proof (induction ts arbitrary: l token)
  case Nil
  then show ?case using push_until_eof[of X stop l token] by (cases "push_until X stop l token") (auto elim: sees_endE)
next
  case (Cons x ts)
  obtain t c where x: "x = (t, c)" by force
  from Cons.prems(1) x obtain l1 where l1: "lx_peek X l = t" "lx_advance X l = Inr l1" "sees X l1 (tokens ts)"
    by (auto elim: sees_tokenE)
  from Cons.IH[OF l1(3), of "token @ lx_content X l"] Cons.prems(2-4) l1 x show ?case
    by (subst push_until.simps) (simp add: failing_def)
qed



section \<open>Typed arguments\<close>

primrec tx_arg_type :: "tx_arg \<Rightarrow> string" where
  "tx_arg_type (TxU8 v) = ''u8''"
| "tx_arg_type (TxU64 v) = ''u64''"
| "tx_arg_type (TxU128 v) = ''u128''"
| "tx_arg_type (TxBool v) = ''bool''"
| "tx_arg_type (TxAddress v) = ''address''"
| "tx_arg_type (TxVectorU8 v) = ''vector<u8>''"
| "tx_arg_type (TxVectorU64 v) = ''vector<u64>''"
| "tx_arg_type (TxVectorU128 v) = ''vector<u128>''"
| "tx_arg_type (TxVectorBool v) = ''vector<bool>''"
| "tx_arg_type (TxVectorAddress v) = ''vector<address>''"

definition is_signer :: "string \<times> string \<Rightarrow> bool" where
  "is_signer p \<longleftrightarrow> snd p = ''&signer''"

lemma mapO_Some: "mapO f r = Some (Inr y) \<longleftrightarrow> (\<exists>x. r = Some (Inr x) \<and> y = f x)"
  by (auto simp: mapO_def obind_eq_Some)

lemma parse_argument_typed: "parse_argument E C X name tp i arg = Some (Inr v) \<Longrightarrow> tx_arg_type v = tp"
  unfolding parse_argument_def by (simp only: mapO_Some split: if_splits) auto

lemma prepare_argument_step:
  assumes "prepare_argument E C X args n p (s, i, vs) = Some (Inr r)"
  shows "if is_signer p then r = (s + 1, i, vs)
    else \<exists>v. r = (s, i + 1, vs @ [v]) \<and> tx_arg_type v = snd p \<and> snd p \<in> set readable_types"
proof (cases p)
  case (Pair name tp)
  show ?thesis
  proof (cases "tp = ''&signer''")
    case True
    with assms Pair show ?thesis by (simp add: prepare_argument_def is_signer_def)
  next
    case False
    with assms Pair have m: "tp \<in> set readable_types"
      by (cases "tp \<in> set readable_types") (simp_all add: prepare_argument_def)
    with assms Pair False obtain arg v where "parse_argument E C X name tp i arg = Some (Inr v)" "r = (s, i + 1, vs @ [v])"
      by (auto simp: prepare_argument_def obind_eq_Some)
    with parse_argument_typed m False Pair show ?thesis by (auto simp: is_signer_def)
  qed
qed

lemma prepare_fold:
  "foldO (prepare_argument E C X args n) params (s, i, vs) = Some (Inr (s', i', vs')) \<Longrightarrow>
   s' = s + length (filter is_signer params) \<and>
   i' = i + length (filter (\<lambda>p. \<not> is_signer p) params) \<and>
   map tx_arg_type vs' = map tx_arg_type vs @ map snd (filter (\<lambda>p. \<not> is_signer p) params) \<and>
   set (map snd (filter (\<lambda>p. \<not> is_signer p) params)) \<subseteq> set readable_types"
proof (induction params arbitrary: s i vs)
  case (Cons p params)
  then obtain s1 i1 vs1 where r: "prepare_argument E C X args n p (s, i, vs) = Some (Inr (s1, i1, vs1))"
    "foldO (prepare_argument E C X args n) params (s1, i1, vs1) = Some (Inr (s', i', vs'))"
    by (auto simp: obind_eq_Some)
  from prepare_argument_step[OF r(1)] Cons.IH[OF r(2)] show ?case by (auto split: if_splits)
qed simp

text \<open>C35: a transaction fits its script: its code is the compiled script of that name, its
  arguments have the types of the parameters that are no signers, in order, every argument given is
  used and none is missing, it has as many type arguments as the script has type parameters, and
  the signers are counted, modulo 256. A boolean vector is never among the arguments.\<close>

theorem transaction_typed:
  assumes "make_transaction T b meta units = Some (Inr (name, tx))"
  shows "name = mt_name meta \<and>
    (\<exists>u \<in> set units. tw_is_script T u \<and> tw_unit_name T u = name \<and> tx_code tx = tw_serialize_unit T u) \<and>
    map tx_arg_type (tx_args tx) = map snd (filter (\<lambda>p. \<not> is_signer p) (mt_parameters meta)) \<and>
    length (tx_args tx) = length (tb_args b) \<and>
    length (tx_type_args tx) = length (mt_type_parameters meta) \<and>
    unat (tx_signers_count tx) = length (filter is_signer (mt_parameters meta)) mod 256 \<and>
    (\<forall>vs. TxVectorBool vs \<notin> set (tx_args tx))"
proof -
  from assms obtain u s i vs where
    u: "find (\<lambda>u. tw_is_script T u \<and> tw_unit_name T u = mt_name meta) units = Some u"
    and p: "prepare_arguments (tw_env T) (tw_codecs T) (tw_lexer T) (tb_args b) (mt_parameters meta) = Some (Inr (s, i, vs))"
    and l: "length (mt_type_parameters meta) = length (tb_type_parameters b)" "length (tb_args b) = i"
    and tx: "name = mt_name meta" "tx = \<lparr>tx_signers_count = of_nat s, tx_code = tw_serialize_unit T u, tx_args = vs,
        tx_type_args = tb_type_parameters b\<rparr>"
    by (auto simp: make_transaction_def obind_eq_Some split: option.splits if_splits)
  from u have u': "u \<in> set units" "tw_is_script T u \<and> tw_unit_name T u = mt_name meta"
    by (auto simp: find_Some_iff)
  note f = prepare_fold[OF p[unfolded prepare_arguments_def], simplified]
  have "length vs = length (map tx_arg_type vs)" by simp
  also have "\<dots> = i" using f by simp
  finally have "length vs = i" .
  moreover have "TxVectorBool bs \<notin> set vs" for bs
  proof
    assume "TxVectorBool bs \<in> set vs"
    then have "''vector<bool>'' \<in> set (map tx_arg_type vs)" by force
    with f have "''vector<bool>'' \<in> set readable_types" by auto
    then show False by (simp add: readable_types_def)
  qed
  ultimately show ?thesis using u' f l tx by (auto simp: unat_of_nat)
qed

definition sample_tx_world :: "(item list, unit, unit, unit) tx_world" where
  "sample_tx_world =
     \<lparr>tw_dove = sample_dove_world, tw_lexer = list_lexer [], tw_meta_lang =
        \<lparr>ml_strip_comments = (\<lambda>f b. Inr (b, ())), ml_no_comments = (), ml_parse_file_string = (\<lambda>f b. Inr []),
         ml_check_program = (\<lambda>r a. Inr ()), ml_to_bytecode = (\<lambda>c. Inr [])\<rparr>,
      tw_verify_units = (\<lambda>us. (us, [])), tw_is_script = (\<lambda>_. True), tw_unit_name = (\<lambda>_. ''main''),
      tw_serialize_unit = (\<lambda>_. [7]), tw_path_order = (\<lambda>_. []), tw_to_bytes = (\<lambda>_. Inr [])\<rparr>"

definition sample_builder :: transaction_builder where
  "sample_builder = \<lparr>tb_script_file_name = None, tb_script_name = None, tb_type_parameters = [], tb_args = [''300'', ''true'']\<rparr>"

definition sample_meta :: meta where
  "sample_meta = \<lparr>mt_name = ''main'', mt_type_parameters = [],
     mt_parameters = [(''s'', ''&signer''), (''n'', ''u64''), (''b'', ''bool'')]\<rparr>"

theorem transaction_typed_witness:
  "\<exists>tx. make_transaction sample_tx_world sample_builder sample_meta [()] = Some (Inr (''main'', tx)) \<and>
     map tx_arg_type (tx_args tx) = [''u64'', ''bool''] \<and> unat (tx_signers_count tx) = 1"
proof -
  have p: "parse_unsigned 64 ''300'' = Some 300"
    by (simp add: parse_unsigned_def is_digit_char_def read_nat_def digit_value_def)
  have m: "make_transaction sample_tx_world sample_builder sample_meta [()] = Some (Inr (''main'',
      \<lparr>tx_signers_count = 1, tx_code = [7], tx_args = [TxU64 300, TxBool True], tx_type_args = []\<rparr>))"
    by (simp add: make_transaction_def sample_tx_world_def sample_builder_def sample_meta_def prepare_arguments_def
      prepare_argument_def readable_types_def argument_def parse_argument_def mapO_def parsed_def word_from_str_def
      parse_bool_def p)
  from transaction_typed[OF m] m show ?thesis by (auto simp: sample_meta_def is_signer_def)
qed

end
