(* ===== verification/Exec_Main.thy ===== *)
theory Exec_Main
  imports Exec_Correct
begin

text \<open>
  The command line programs of the executor (\<open>executor/src/bin/executor.rs\<close> and
  \<open>testrunner.rs\<close>): their \<open>main\<close> behind the argument parser, whose values are a record here.
  The result is the printed text, and for the test runner the exit code;
  the lists of file names printed under \<open>--verbose\<close> are left out.
\<close>

section \<open>Programs\<close>

text \<open>What the executor is made of: the virtual machine, the Move compiler with the
  definitions the session builder reads, and the parser of script arguments.\<close>

record ('m, 's, 'l, 'r) exec_env =
  xe_vm :: "('m, 's, script_arg, 'l) move_vm"
  xe_codecs :: codecs
  xe_lang :: "('r source_definition, file_comments, checked_program, ('m, 's) lang_unit) move_lang"
  xe_parse_argument :: "string \<Rightarrow> string + transaction_argument"

definition env_execute ::
    "('m, 's, 'l, 'r) exec_env \<Rightarrow> dialect \<Rightarrow> provided_account_address \<Rightarrow> move_file list \<Rightarrow> move_file \<Rightarrow>
     string list \<Rightarrow> step_result_info list exec" where
  "env_execute X d sender deps script args =
     executor_execute_script (xe_vm X) (xe_codecs X) (xe_lang X) d (xe_parse_argument X) sender deps script args"

section \<open>executor.rs\<close>

text \<open>The pieces between ASCII white space, none of them empty.\<close>

definition ascii_whitespace :: "char list" where
  "ascii_whitespace = map char_of [9, 10, 12, 13, 32 :: nat]"

fun ascii_words :: "string \<Rightarrow> string \<Rightarrow> string list" where
  "ascii_words word [] = (if word = [] then [] else [word])"
| "ascii_words word (c # cs) =
     (if c \<in> set ascii_whitespace
      then (if word = [] then ascii_words [] cs else word # ascii_words [] cs)
      else ascii_words (word @ [c]) cs)"

definition split_ascii_whitespace :: "string \<Rightarrow> string list" where
  "split_ascii_whitespace s = ascii_words [] s"

record executor_cli =
  ec_script :: string
  ec_dialect :: string
  ec_sender :: string
  ec_modules :: "string list"
  ec_args :: "string option"

definition executor_main :: "('m, 's, 'l, 'r) exec_env \<Rightarrow> fs \<Rightarrow> executor_cli \<Rightarrow> string exec" where
  "executor_main X F cli =
     rbind (failing (map_error (\<lambda>_. ''Cannot open '' @ ec_script cli) (move_file_load F (ec_script cli)))) (\<lambda>script.
     rbind (failing (load_move_files F (ec_modules cli))) (\<lambda>deps.
     let args = split_ascii_whitespace (case ec_args cli of Some a \<Rightarrow> a | None \<Rightarrow> []) in
     rbind (failing (dialect_from_str (ec_dialect cli))) (\<lambda>name.
     let dialect = get_dialect (xe_codecs X) name in
     rbind (failing (map_error (\<lambda>_. ''Not a valid '' @ di_name dialect @ '' address: '' @ ec_sender cli)
              (di_normalize dialect (ec_sender cli)))) (\<lambda>sender.
       render_execution_result (xe_vm X) (env_execute X dialect sender deps script args)))))"

section \<open>testrunner.rs\<close>

record testrunner_cli =
  tc_name_pattern :: "string option"
  tc_sender :: string
  tc_modules :: "string list"
  tc_test_directory :: "string option"

definition name_matches :: "string option \<Rightarrow> string \<Rightarrow> bool" where
  "name_matches pattern name =
     (case pattern of None \<Rightarrow> True | Some p \<Rightarrow> find_str p name \<noteq> None)"

text \<open>One test; the state is the printed text and \<open>has_failures\<close>. The name is an argument, the
  programs differ in how they read it.\<close>

definition run_test ::
    "('m, 's, 'l, 'r) exec_env \<Rightarrow> dialect \<Rightarrow> provided_account_address \<Rightarrow> move_file list \<Rightarrow> string option \<Rightarrow>
     (move_file \<Rightarrow> string exec) \<Rightarrow> move_file \<Rightarrow> string \<times> bool \<Rightarrow> (string \<times> bool) exec" where
  "run_test X d sender deps pattern name_of test s =
     rbind (name_of test) (\<lambda>test_name.
       if \<not> name_matches pattern test_name then Inr s
       else
         rbind (render_test_result (xe_vm X) test_name (env_execute X d sender deps test [])) (\<lambda>(out, is_err).
           Inr (fst s @ out, snd s \<or> is_err)))"

definition testrunner_main ::
    "('m, 's, 'l, 'r) exec_env \<Rightarrow> fs \<Rightarrow> testrunner_cli \<Rightarrow> (string \<times> nat) exec" where
  "testrunner_main X F cli =
     rbind (failing (load_move_files F (tc_modules cli))) (\<lambda>deps.
     rbind (failing (load_move_files F (case tc_test_directory cli of Some dir \<Rightarrow> [dir] | None \<Rightarrow> []))) (\<lambda>test_files.
     rbind (failing (dialect_from_str ''dfinance'')) (\<lambda>name.
     let dialect = get_dialect (xe_codecs X) name in
     rbind (failing (map_error (\<lambda>_. ''Not a valid '' @ di_name dialect @ '' address: '' @ tc_sender cli)
              (di_normalize dialect (tc_sender cli)))) (\<lambda>sender.
     rbind (foldM (run_test X dialect sender deps (tc_name_pattern cli)
               (\<lambda>test. trapping (unwrap (decoded (script_name test))))) test_files ([], False)) (\<lambda>(out, has_failures).
       Inr (out, if has_failures then 1 else 0))))))"

section \<open>Properties\<close>

text \<open>A test fails when its last step is an error.\<close>

definition test_failed :: "step_result_info list \<Rightarrow> bool" where
  "test_failed steps \<longleftrightarrow> (\<exists>e. pipeline_last steps = Some (StepError e))"

definition test_selected :: "string option \<Rightarrow> (move_file \<Rightarrow> string exec) \<Rightarrow> move_file \<Rightarrow> bool" where
  "test_selected pattern name_of test \<longleftrightarrow> (\<exists>n. name_of test = Inr n \<and> name_matches pattern n)"

lemma render_test_failed:
  "render_test_result V n r = Inr (out, b) \<Longrightarrow> \<exists>steps. r = Inr steps \<and> b = test_failed steps"
  by (cases r) (auto simp: render_test_result_def test_failed_def split: option.splits step_execution_result.splits)

lemma run_test_outcome:
  assumes "run_test X d sender deps pattern name_of test s = Inr s'"
  shows "snd s' \<longleftrightarrow> snd s \<or> (test_selected pattern name_of test \<and>
    (\<exists>steps. env_execute X d sender deps test [] = Inr steps \<and> test_failed steps))"
proof -
  from assms obtain n where n: "name_of test = Inr n" by (auto simp: run_test_def rbind_eq_Inr_iff)
  show ?thesis
  proof (cases "name_matches pattern n")
    case True
    with assms n obtain out b where r: "render_test_result (xe_vm X) n (env_execute X d sender deps test []) = Inr (out, b)"
      "s' = (fst s @ out, snd s \<or> b)"
      by (auto simp: run_test_def rbind_eq_Inr_iff)
    from render_test_failed[OF r(1)] r(2) n True show ?thesis by (auto simp: test_selected_def)
  qed (use assms n in \<open>auto simp: run_test_def test_selected_def\<close>)
qed

lemma run_tests_outcome:
  "foldM (run_test X d sender deps pattern name_of) tests s = Inr (out, failed) \<Longrightarrow>
   failed \<longleftrightarrow> snd s \<or> (\<exists>test \<in> set tests. test_selected pattern name_of test \<and>
     (\<exists>steps. env_execute X d sender deps test [] = Inr steps \<and> test_failed steps))"
proof (induction tests arbitrary: s)
  case (Cons test tests)
  then obtain s1 where "run_test X d sender deps pattern name_of test s = Inr s1"
    "foldM (run_test X d sender deps pattern name_of) tests s1 = Inr (out, failed)"
    by (auto simp: rbind_eq_Inr_iff)
  from Cons.IH[OF this(2)] run_test_outcome[OF this(1)] show ?case by simp
qed simp

end
