(* ===== verification/Dove_Cmd.thy ===== *)
theory Dove_Cmd
  imports Dove_Tx Exec_Main
begin

text \<open>
  The commands of dove that write to a project or run its scripts (\<open>dove/src/cmd\<close>): \<open>build.rs\<close>,
  \<open>clean.rs\<close>, \<open>fetch.rs\<close>, \<open>init.rs\<close>, \<open>new.rs\<close>, \<open>run.rs\<close>, \<open>test.rs\<close>, and the dispatch of
  \<open>bin/dove.rs\<close>.

  What a command writes goes to a \<open>tree\<close> of files and directories; a command reads the sources
  and the index, which are on the \<open>disk\<close> of the index, before it writes. An operation returns its
  result with the tree, since a failing command keeps what it has written.
\<close>

section \<open>Files and directories\<close>

record tree =
  tr_file :: "string \<Rightarrow> 8 word list option"
  tr_dir :: "string \<Rightarrow> bool"

type_synonym 'a cmd = "tree \<Rightarrow> 'a exec \<times> tree"

definition done_with :: "'a \<Rightarrow> 'a cmd" where
  "done_with x t = (Inr x, t)"

definition failing_with :: "string \<Rightarrow> 'a cmd" where
  "failing_with e t = (Inl (Failed e), t)"

definition cbind :: "'a cmd \<Rightarrow> ('a \<Rightarrow> 'b cmd) \<Rightarrow> 'b cmd" where
  "cbind m f t = (case m t of (Inl e, t') \<Rightarrow> (Inl e, t') | (Inr x, t') \<Rightarrow> f x t')"

primrec each :: "('a \<Rightarrow> unit cmd) \<Rightarrow> 'a list \<Rightarrow> unit cmd" where
  "each f [] = done_with ()"
| "each f (x # xs) = cbind (f x) (\<lambda>_. each f xs)"

definition below :: "string \<Rightarrow> string \<Rightarrow> bool" where
  "below dir p \<longleftrightarrow> p = dir \<or> starts_with (dir @ ''/'') p"

definition is_dir :: "tree \<Rightarrow> string \<Rightarrow> bool" where
  "is_dir t p \<longleftrightarrow> p = [] \<or> tr_dir t p"

definition tree_exists :: "tree \<Rightarrow> string \<Rightarrow> bool" where
  "tree_exists t p \<longleftrightarrow> tr_file t p \<noteq> None \<or> is_dir t p"

definition parent_path :: "string \<Rightarrow> string" where
  "parent_path p = rev (tl (dropWhile (\<lambda>c. c \<noteq> CHR ''/'') (rev p)))"

text \<open>\<open>fs::remove_dir_all\<close>, \<open>create_dir_all\<close>, \<open>create_dir\<close> and writing a file.\<close>

definition remove_dir_all :: "string \<Rightarrow> unit cmd" where
  "remove_dir_all dir t =
     (if is_dir t dir
      then (Inr (), t\<lparr>tr_file := (\<lambda>p. if below dir p then None else tr_file t p),
                      tr_dir := (\<lambda>p. \<not> below dir p \<and> tr_dir t p)\<rparr>)
      else (Inl (Failed ''Not a directory''), t))"

definition file_above :: "tree \<Rightarrow> string \<Rightarrow> bool" where
  "file_above t dir \<longleftrightarrow> list_ex (\<lambda>n. below (take n dir) dir \<and> tr_file t (take n dir) \<noteq> None) [0..<Suc (length dir)]"

definition create_dir_all :: "string \<Rightarrow> unit cmd" where
  "create_dir_all dir t =
     (if file_above t dir then (Inl (Failed ''Not a directory''), t)
      else (Inr (), t\<lparr>tr_dir := (\<lambda>p. tr_dir t p \<or> below p dir)\<rparr>))"

definition create_dir :: "string \<Rightarrow> unit cmd" where
  "create_dir dir t =
     (if tree_exists t dir then (Inl (Failed ''File exists''), t)
      else if \<not> is_dir t (parent_path dir) then (Inl (Failed ''No such file or directory''), t)
      else (Inr (), t\<lparr>tr_dir := (tr_dir t)(dir := True)\<rparr>))"

definition write_bytes :: "string \<Rightarrow> 8 word list \<Rightarrow> unit cmd" where
  "write_bytes p bytes t =
     (if is_dir t p \<or> \<not> is_dir t (parent_path p) then (Inl (Failed ''cannot create file''), t)
      else (Inr (), t\<lparr>tr_file := (tr_file t)(p \<mapsto> bytes)\<rparr>))"

definition text_bytes :: "string \<Rightarrow> 8 word list" where
  "text_bytes s = map (\<lambda>c. of_nat (of_char c)) s"

section \<open>build.rs\<close>

text \<open>The path of a unit: its index and name.\<close>

definition unit_path :: "('l, 'k, 'c, 'u) tx_world \<Rightarrow> string \<Rightarrow> nat \<times> 'u \<Rightarrow> string" where
  "unit_path T base_dir iu =
     set_extension (path_join base_dir (show_nat (fst iu) @ ''_'' @ tw_unit_name T (snd iu))) ''mv''"

definition store_units :: "('l, 'k, 'c, 'u) tx_world \<Rightarrow> 'u list \<Rightarrow> string \<Rightarrow> unit cmd" where
  "store_units T units base_dir =
     each (\<lambda>iu. write_bytes (unit_path T base_dir iu) (tw_serialize_unit T (snd iu))) (enumerate 0 units)"

text \<open>The output directory is made anew, but only when there is something to put into it.\<close>

definition store_outputs :: "('l, 'k, 'c, 'u) tx_world \<Rightarrow> 'u list \<Rightarrow> string \<Rightarrow> unit cmd" where
  "store_outputs T units dir =
     (if units = [] then done_with ()
      else cbind (\<lambda>t. if tree_exists t dir then remove_dir_all dir t else done_with () t) (\<lambda>_.
           cbind (create_dir_all dir) (\<lambda>_. store_units T units dir)))"

definition verify_and_store ::
    "('l, 'k, 'c, 'u) tx_world \<Rightarrow> dove_context \<Rightarrow> 'u list \<Rightarrow> unit cmd" where
  "verify_and_store T ctx units =
     (case tw_verify_units T units of (compiled_units, ice_errors) \<Rightarrow>
        cbind (store_outputs T (filter (\<lambda>u. \<not> tw_is_script T u) compiled_units)
                 (path_for ctx (ly_module_output (cx_layout ctx)))) (\<lambda>_.
        cbind (store_outputs T (filter (tw_is_script T) compiled_units)
                 (path_for ctx (ly_script_output (cx_layout ctx)))) (\<lambda>_.
          if ice_errors \<noteq> [] then failing_with (''could not verify:'' @ project_name ctx) else done_with ())))"

text \<open>The compilation of \<open>Build::apply\<close>.\<close>

definition build_units ::
    "('l, 'k, 'c, 'u) tx_world \<Rightarrow> dove_context \<Rightarrow> disk \<Rightarrow> 'u list exec option" where
  "build_units T ctx D =
     (let W = tw_dove T;
          dirs = paths_for (disk_fs W D) ctx [ly_script_dir (cx_layout ctx), ly_module_dir (cx_layout ctx)]
      in obind (build_index W ctx D) (\<lambda>(index, D).
         obind (make_dependency_set W ctx dirs index D) (\<lambda>(index, dep_set, D). Some (
           rbind (failing (Dove_Index.load_dependencies (tw_path_order T) (disk_fs W D) dep_set)) (\<lambda>dep_list.
           rbind (failing (load_move_files (disk_fs W D) dirs)) (\<lambda>source_list.
           rbind (failing (account_address_of (tw_codecs T) ctx)) (\<lambda>sender.
           rbind (trapping (build (tw_codecs T) (dw_lang W) (dove_dialect W ctx) (Some sender)
                    source_list dep_list)) (\<lambda>artifacts.
             case ar_prog artifacts of
               Inl errors \<Rightarrow> Inl (Failed (''could not compile:'' @ project_name ctx))
             | Inr compiled_units \<Rightarrow> Inr compiled_units))))))))"

definition build_apply ::
    "('l, 'k, 'c, 'u) tx_world \<Rightarrow> dove_context \<Rightarrow> disk \<Rightarrow> tree \<Rightarrow> (unit exec \<times> tree) option" where
  "build_apply T ctx D t =
     map_option (\<lambda>r. case r of Inl e \<Rightarrow> (Inl e, t) | Inr units \<Rightarrow> verify_and_store T ctx units t)
       (build_units T ctx D)"

section \<open>clean.rs, fetch.rs\<close>

definition clean_apply :: "dove_context \<Rightarrow> unit cmd" where
  "clean_apply ctx t =
     (let target = path_for ctx (ly_target (cx_layout ctx))
      in if tree_exists t target then remove_dir_all target t else done_with () t)"

definition fetch_apply :: "('k, 'c, 'u) dove_world \<Rightarrow> dove_context \<Rightarrow> disk \<Rightarrow> unit exec option" where
  "fetch_apply W ctx D = mapO (\<lambda>_. ()) (build_index W ctx D)"

section \<open>init.rs, new.rs\<close>

record init_cmd =
  in_repository :: "string option"
  in_address :: "string option"
  in_dialect :: "string option"

definition toml_line :: "string \<Rightarrow> string \<Rightarrow> string" where
  "toml_line key v = key @ '' = \"'' @ v @ ''\"'' @ nl"

definition optional_line :: "string \<Rightarrow> string option \<Rightarrow> string" where
  "optional_line key v = (case v of None \<Rightarrow> [] | Some v \<Rightarrow> toml_line key v)"

definition init_manifest :: "init_cmd \<Rightarrow> string \<Rightarrow> string" where
  "init_manifest cmd name =
     ''[package]'' @ nl @ toml_line ''name'' name @
     optional_line ''account_address'' (in_address cmd) @
     optional_line ''blockchain_api'' (in_repository cmd) @
     optional_line ''dialect'' (in_dialect cmd) @
     ''dependencies = ['' @ nl @
     ''    { git = \"https://github.com/dfinance/move-stdlib\" }'' @ nl @ '']'' @ nl"

definition init_apply :: "init_cmd \<Rightarrow> dove_context \<Rightarrow> unit cmd" where
  "init_apply cmd ctx t =
     (let manifest = path_for ctx MANIFEST
      in if tree_exists t manifest then failing_with ''init cannot be run on existing project.'' t
         else case Dove_Manifest.path_file_name (cx_project_dir ctx) of
                None \<Rightarrow> failing_with ''Failed to extract directory name.'' t
              | Some name \<Rightarrow>
                  cbind (create_dir_all (path_for ctx (ly_module_dir (cx_layout ctx)))) (\<lambda>_.
                  cbind (create_dir_all (path_for ctx (ly_script_dir (cx_layout ctx)))) (\<lambda>_.
                  cbind (create_dir_all (path_for ctx (ly_tests_dir (cx_layout ctx)))) (\<lambda>_.
                    write_bytes manifest (text_bytes (init_manifest cmd name))))) t)"

definition new_apply :: "dove_env \<Rightarrow> string \<Rightarrow> init_cmd \<Rightarrow> dove_context \<Rightarrow> unit cmd" where
  "new_apply E name cmd ctx t =
     (case dove_identifier E name of
        Inl e \<Rightarrow> (Inl e, t)
      | Inr _ \<Rightarrow>
          (let project_dir = path_join (cx_project_dir ctx) name
           in if tree_exists t project_dir
              then failing_with (''destination `'' @ project_dir @ ''` already exists'') t
              else cbind (create_dir project_dir) (\<lambda>_. init_apply cmd (ctx\<lparr>cx_project_dir := project_dir\<rparr>)) t))"

section \<open>run.rs, test.rs\<close>

definition run_apply ::
    "('l, 'k, 'c, 'u) tx_world \<Rightarrow> ('m, 's, 'y, 'r) exec_env \<Rightarrow> dove_context \<Rightarrow> disk \<Rightarrow> string \<Rightarrow> string list \<Rightarrow>
     string exec option" where
  "run_apply T X ctx D name args =
     (let W = tw_dove T;
          script = set_extension (path_join (script_dir_of ctx) name) ''move''
      in if \<not> fs_exists (disk_fs W D) script then Some (Inl (Failed (''Cannot open '' @ script)))
         else
           let module_dir = path_for ctx (ly_module_dir (cx_layout ctx)) in
           obind (build_index W ctx D) (\<lambda>(index, D).
           obind (make_dependency_set W ctx [script, module_dir] index D) (\<lambda>(index, dep_set, D). Some (
             rbind (failing (Dove_Index.load_dependencies (tw_path_order T) (disk_fs W D) dep_set)) (\<lambda>dep_list.
             rbind (failing (load_move_files (disk_fs W D) [module_dir])) (\<lambda>modules.
             rbind (failing (account_address_of (tw_codecs T) ctx)) (\<lambda>sender.
             rbind (failing (move_file_load (disk_fs W D) script)) (\<lambda>script.
               render_execution_result (xe_vm X)
                 (env_execute X (dove_dialect W ctx) sender (dep_list @ modules) script args)))))))))"

definition test_apply ::
    "('l, 'k, 'c, 'u) tx_world \<Rightarrow> ('m, 's, 'y, 'r) exec_env \<Rightarrow> dove_context \<Rightarrow> disk \<Rightarrow> string option \<Rightarrow>
     string exec option" where
  "test_apply T X ctx D name_pattern =
     (let W = tw_dove T;
          tests_dir = path_for ctx (ly_tests_dir (cx_layout ctx))
      in if \<not> fs_exists (disk_fs W D) tests_dir then Some (Inr [])
         else
           let src_dirs = paths_for (disk_fs W D) ctx [ly_script_dir (cx_layout ctx), ly_module_dir (cx_layout ctx)] in
           obind (build_index W ctx D) (\<lambda>(index, D).
           obind (make_dependency_set W ctx (src_dirs @ [tests_dir]) index D) (\<lambda>(index, dep_set, D). Some (
             rbind (failing (Dove_Index.load_dependencies (tw_path_order T) (disk_fs W D) dep_set)) (\<lambda>dep_list.
             rbind (failing (load_move_files (disk_fs W D) src_dirs)) (\<lambda>sources.
             rbind (failing (account_address_of (tw_codecs T) ctx)) (\<lambda>sender.
             rbind (failing (load_move_files (disk_fs W D) [tests_dir])) (\<lambda>tests.
             rbind (foldM (run_test X (dove_dialect W ctx) sender (dep_list @ sources) name_pattern
                       (\<lambda>test. failing (script_name test))) tests ([], False)) (\<lambda>(out, has_failures).
               if has_failures then Inl (Failed (''tests failed:'' @ project_name ctx)) else Inr out)))))))))"

section \<open>ct.rs\<close>

definition remove_file :: "string \<Rightarrow> unit cmd" where
  "remove_file p t =
     (if tr_file t p = None then (Inl (Failed ''cannot remove file''), t)
      else (Inr (), t\<lparr>tr_file := (tr_file t)(p := None)\<rparr>))"

text \<open>\<open>store_transaction\<close> on the tree: the old file is gone before the transaction is serialized.\<close>

definition store_transaction_file ::
    "('l, 'k, 'c, 'u) tx_world \<Rightarrow> dove_context \<Rightarrow> string \<Rightarrow> transaction \<Rightarrow> unit cmd" where
  "store_transaction_file T ctx name tx =
     (let tx_dir = path_for ctx (ly_transaction_output (cx_layout ctx));
          tx_file = set_extension (path_join tx_dir name) ''mvt''
      in cbind (\<lambda>t. if tree_exists t tx_dir then done_with () t else create_dir_all tx_dir t) (\<lambda>_.
         cbind (\<lambda>t. if tree_exists t tx_file then remove_file tx_file t else done_with () t) (\<lambda>_.
           case tw_to_bytes T tx of Inl e \<Rightarrow> failing_with e | Inr bytes \<Rightarrow> write_bytes tx_file bytes)))"

section \<open>bin/dove.rs\<close>

datatype dove_opt =
    OptInit init_cmd | OptNew string init_cmd | OptMetadata | OptFetch | OptBuild | OptClean
  | OptTest "string option" | OptRun string "string list" | OptCt create_transaction_cmd

text \<open>\<open>Cmd::context\<close>: a project need not exist for \<open>init\<close> and \<open>new\<close>.\<close>

definition opt_context ::
    "('k, 'c, 'u) dove_world \<Rightarrow> disk \<Rightarrow> string \<Rightarrow> dove_opt \<Rightarrow> string + dove_context" where
  "opt_context W D current_dir opt =
     (case opt of
        OptInit _ \<Rightarrow> create_context (dn_core (dw_env W)) current_dir
      | OptNew _ _ \<Rightarrow> create_context (dn_core (dw_env W)) current_dir
      | _ \<Rightarrow> get_context (dn_core (dw_env W)) (dw_toml_parse W) (disk_fs W D) current_dir)"

definition opt_apply ::
    "('l, 'k, 'c, 'u) tx_world \<Rightarrow> ('m, 's, 'y, 'r) exec_env \<Rightarrow> disk \<Rightarrow> dove_opt \<Rightarrow> dove_context \<Rightarrow> tree \<Rightarrow>
     (unit exec \<times> tree) option" where
  "opt_apply T X D opt ctx t =
     (case opt of
        OptInit cmd \<Rightarrow> Some (init_apply cmd ctx t)
      | OptNew name cmd \<Rightarrow> Some (new_apply (tw_env T) name cmd ctx t)
      | OptMetadata \<Rightarrow> Some (Inr (), t)
      | OptFetch \<Rightarrow> map_option (\<lambda>r. (r, t)) (fetch_apply (tw_dove T) ctx D)
      | OptBuild \<Rightarrow> build_apply T ctx D t
      | OptClean \<Rightarrow> Some (clean_apply ctx t)
      | OptTest pattern \<Rightarrow> map_option (\<lambda>r. (r, t)) (mapO (\<lambda>_. ()) (test_apply T X ctx D pattern))
      | OptRun name args \<Rightarrow> map_option (\<lambda>r. (r, t)) (mapO (\<lambda>_. ()) (run_apply T X ctx D name args))
      | OptCt cmd \<Rightarrow>
          map_option (\<lambda>r. case r of Inl e \<Rightarrow> (Inl e, t) | Inr (name, tx) \<Rightarrow> store_transaction_file T ctx name tx t)
            (obind (transaction_builder_new T cmd) (\<lambda>b. transaction_build T ctx D b)))"

definition opt_execute ::
    "('l, 'k, 'c, 'u) tx_world \<Rightarrow> ('m, 's, 'y, 'r) exec_env \<Rightarrow> disk \<Rightarrow> string \<Rightarrow> dove_opt \<Rightarrow> tree \<Rightarrow>
     (unit exec \<times> tree) option" where
  "opt_execute T X D current_dir opt t =
     (case opt_context (tw_dove T) D current_dir opt of
        Inl e \<Rightarrow> Some (Inl (Failed e), t)
      | Inr ctx \<Rightarrow> opt_apply T X D opt ctx t)"

text \<open>The exit code: 1 for an error, 101 for a panic.\<close>

definition exit_code :: "'a exec \<Rightarrow> nat" where
  "exit_code r = (case r of Inr _ \<Rightarrow> 0 | Inl (Trapped _) \<Rightarrow> 101 | Inl _ \<Rightarrow> 1)"

definition dove_main ::
    "('l, 'k, 'c, 'u) tx_world \<Rightarrow> ('m, 's, 'y, 'r) exec_env \<Rightarrow> disk \<Rightarrow> string \<Rightarrow> dove_opt \<Rightarrow> tree \<Rightarrow> (nat \<times> tree) option" where
  "dove_main T X D current_dir opt t =
     map_option (\<lambda>(r, t). (exit_code r, t)) (opt_execute T X D current_dir opt t)"

end
