(* ===== verification/Dove_Cmd_Correct.thy ===== *)
theory Dove_Cmd_Correct
  imports Dove_Cmd Dove_Tx_Correct
begin

text \<open>
  Properties of dove's commands: every command keeps the tree of files and directories well
  formed, and a build leaves exactly the compiled units in the output directories it renews.
\<close>

section \<open>Well-formed trees\<close>

text \<open>What is above a file or a directory is a directory, and no path is both.\<close>

definition tree_wf :: "tree \<Rightarrow> bool" where
  "tree_wf t \<longleftrightarrow>
     (\<forall>p d. (tr_file t p \<noteq> None \<or> tr_dir t p) \<and> below d p \<and> d \<noteq> p \<and> d \<noteq> [] \<longrightarrow> tr_dir t d) \<and>
     (\<forall>p. tr_file t p \<noteq> None \<longrightarrow> \<not> is_dir t p)"

lemma below_refl [simp]: "below p p"
  by (simp add: below_def)

lemma below_iff: "below d p \<longleftrightarrow> p = d \<or> (\<exists>r. p = d @ ''/'' @ r)"
  by (auto simp: below_def starts_with_def) (metis append_take_drop_id append_Cons append_assoc append_Nil)+

lemma below_trans [trans]: "below a b \<Longrightarrow> below b c \<Longrightarrow> below a c"
  by (auto simp: below_iff)

lemma parent_path_append: "CHR ''/'' \<notin> set x \<Longrightarrow> parent_path (d @ ''/'' @ x) = d"
proof -
  assume "CHR ''/'' \<notin> set x"
  then have "dropWhile (\<lambda>c. c \<noteq> CHR ''/'') (rev x @ CHR ''/'' # rev d) = dropWhile (\<lambda>c. c \<noteq> CHR ''/'') (CHR ''/'' # rev d)"
    by (intro dropWhile_append2) auto
  then show ?thesis by (simp add: parent_path_def)
qed

lemma parent_path_cases: "(CHR ''/'' \<notin> set p \<and> parent_path p = []) \<or> (\<exists>x. p = parent_path p @ ''/'' @ x \<and> CHR ''/'' \<notin> set x)"
proof (cases "CHR ''/'' \<in> set p")
  case True
  then obtain d x where "p = d @ CHR ''/'' # x" "CHR ''/'' \<notin> set x" by (metis split_list_last)
  then show ?thesis using parent_path_append[of x d] by auto
next
  case False
  then have "dropWhile (\<lambda>c. c \<noteq> CHR ''/'') (rev p) = []" unfolding dropWhile_eq_Nil_conv by auto
  with False show ?thesis by (simp only: parent_path_def) simp
qed

lemma below_parent:
  assumes "below d p" "d \<noteq> p"
  shows "below d (parent_path p)"
proof -
  from assms obtain r where r: "p = d @ ''/'' @ r" by (auto simp: below_iff)
  show ?thesis
  proof (cases "CHR ''/'' \<in> set r")
    case True
    then obtain e x where x: "r = e @ CHR ''/'' # x" "CHR ''/'' \<notin> set x" by (metis split_list_last)
    with r have "p = (d @ ''/'' @ e) @ ''/'' @ x" by simp
    then have "parent_path p = d @ ''/'' @ e" using parent_path_append[OF x(2)] by metis
    then show ?thesis by (auto simp: below_iff)
  next
    case False
    with r parent_path_append show ?thesis by simp
  qed
qed

lemma file_above_iff: "file_above t dir \<longleftrightarrow> (\<exists>p. below p dir \<and> tr_file t p \<noteq> None)"
proof
  assume "\<exists>p. below p dir \<and> tr_file t p \<noteq> None"
  then obtain p where p: "below p dir" "tr_file t p \<noteq> None" by blast
  then have "take (length p) dir = p" "length p < Suc (length dir)" by (auto simp: below_iff)
  with p show "file_above t dir" unfolding file_above_def list_ex_iff by (intro bexI[of _ "length p"]) auto
qed (auto simp: file_above_def list_ex_iff intro: below_refl)

section \<open>Invariants of commands\<close>

text \<open>What every write to the tree keeps, every command keeps.\<close>

locale kept =
  fixes I :: "tree \<Rightarrow> bool"
  assumes remove: "I t \<Longrightarrow> I (snd (remove_dir_all dir t))"
    and make_all: "I t \<Longrightarrow> I (snd (create_dir_all dir t))"
    and make: "I t \<Longrightarrow> I (snd (create_dir dir t))"
    and store: "I t \<Longrightarrow> I (snd (write_bytes p bytes t))"
    and remove_one: "I t \<Longrightarrow> I (snd (remove_file p t))"
begin

definition keeps :: "'a cmd \<Rightarrow> bool" where
  "keeps m \<longleftrightarrow> (\<forall>t. I t \<longrightarrow> I (snd (m t)))"

lemma keeps_basic:
  "keeps (done_with x)" "keeps (failing_with e)" "keeps (remove_dir_all dir)" "keeps (create_dir_all dir)"
  "keeps (create_dir dir)" "keeps (write_bytes p bytes)" "keeps (remove_file p)"
  by (simp_all add: keeps_def done_with_def failing_with_def remove make_all make store remove_one)

lemma keeps_bind: "keeps m \<Longrightarrow> (\<And>x. keeps (f x)) \<Longrightarrow> keeps (cbind m f)"
  by (auto simp: keeps_def cbind_def split: prod.splits sum.splits)

lemma keeps_each: "(\<And>x. keeps (f x)) \<Longrightarrow> keeps (each f xs)"
  by (induction xs) (simp_all add: keeps_basic keeps_bind)

lemma keeps_outputs: "keeps (store_outputs T units dir)"
proof -
  have "keeps (\<lambda>t. if tree_exists t dir then remove_dir_all dir t else done_with () t)"
    by (simp add: keeps_def remove done_with_def)
  then show ?thesis
    unfolding store_outputs_def store_units_def by (auto intro!: keeps_basic keeps_bind keeps_each)
qed

lemma keeps_build: "keeps (verify_and_store T ctx units)"
  unfolding verify_and_store_def
  by (cases "tw_verify_units T units") (auto intro!: keeps_bind keeps_outputs keeps_basic)

lemma keeps_clean: "keeps (clean_apply ctx)"
  by (simp add: keeps_def clean_apply_def remove done_with_def Let_def)

lemma keeps_init: "keeps (init_apply cmd ctx)"
proof -
  have "keeps (cbind (create_dir_all a) (\<lambda>_. cbind (create_dir_all b) (\<lambda>_. cbind (create_dir_all c) (\<lambda>_. write_bytes p x))))"
    for a b c p x by (intro keeps_bind keeps_basic)
  then show ?thesis
    by (simp add: keeps_def init_apply_def failing_with_def Let_def split: option.split)
qed

lemma keeps_new: "keeps (new_apply E name cmd ctx)"
proof -
  have "keeps (cbind (create_dir p) (\<lambda>_. init_apply cmd c))" for p c by (intro keeps_bind keeps_basic keeps_init)
  then show ?thesis
    by (simp add: keeps_def new_apply_def failing_with_def Let_def split: sum.split)
qed

lemma keeps_transaction: "keeps (store_transaction_file T ctx name tx)"
proof -
  have "keeps (\<lambda>t. if tree_exists t p then done_with () t else create_dir_all p t)"
    "keeps (\<lambda>t. if tree_exists t p then remove_file p t else done_with () t)" for p
    by (simp_all add: keeps_def make_all remove_one done_with_def)
  then show ?thesis
    unfolding store_transaction_file_def Let_def
    by (intro keeps_bind) (auto simp: keeps_basic split: sum.split)
qed

text \<open>Whatever command is run, and whether it succeeds or fails.\<close>

lemma kept_by_dove:
  assumes "dove_main T X D current_dir opt t = Some (code, t')" "I t"
  shows "I t'"
proof -
  have run: "I (snd (m t))" if "keeps m" for m :: "unit cmd" using that assms(2) by (simp add: keeps_def)
  have kept_case: "I (snd (case u of Inl e \<Rightarrow> (Inl e, t) | Inr x \<Rightarrow> m x t))" if "\<And>x. keeps (m x)"
    for m :: "'x \<Rightarrow> unit cmd" and u :: "exec_error + 'x"
    using run[OF that] assms(2) by (cases u) simp_all
  from assms(1) obtain r where r: "opt_execute T X D current_dir opt t = Some (r, t')"
    by (auto simp: dove_main_def)
  show ?thesis
  proof (cases "opt_context (tw_dove T) D current_dir opt")
    case (Inr ctx)
    with r have a: "opt_apply T X D opt ctx t = Some (r, t')" by (simp add: opt_execute_def)
    show ?thesis
    proof (cases opt)
      case OptBuild
      with a obtain u where "(case u of Inl e \<Rightarrow> (Inl e, t) | Inr us \<Rightarrow> verify_and_store T ctx us t) = (r, t')"
        by (auto simp: opt_apply_def build_apply_def)
      with kept_case[of "\<lambda>us. verify_and_store T ctx us" u] keeps_build show ?thesis by (metis snd_conv)
    next
      case (OptCt cmd)
      with a obtain u where u: "(case u of Inl e \<Rightarrow> (Inl e, t) | Inr (name, tx) \<Rightarrow> store_transaction_file T ctx name tx t) = (r, t')"
        by (auto simp: opt_apply_def)
      show ?thesis
      proof (cases u)
        case (Inr x)
        with u run[OF keeps_transaction[of T ctx "fst x" "snd x"]] show ?thesis by (cases x) simp
      qed (use u assms(2) in simp)
    next
      case (OptInit cmd)
      with a run[OF keeps_init[of cmd ctx]] show ?thesis by (simp add: opt_apply_def)
    next
      case (OptNew name cmd)
      with a run[OF keeps_new[of "tw_env T" name cmd ctx]] show ?thesis by (simp add: opt_apply_def)
    next
      case OptClean
      with a run[OF keeps_clean[of ctx]] show ?thesis by (simp add: opt_apply_def)
    qed (use a assms(2) in \<open>auto simp: opt_apply_def\<close>)
  qed (use r assms(2) in \<open>simp add: opt_execute_def\<close>)
qed

end

lemma remove_dir_all_wf: "tree_wf t \<Longrightarrow> tree_wf (snd (remove_dir_all dir t))"
  unfolding tree_wf_def remove_dir_all_def is_dir_def by (auto dest: below_trans split: if_splits)

lemma create_dir_all_wf:
  assumes "tree_wf t"
  shows "tree_wf (snd (create_dir_all dir t))"
proof (cases "file_above t dir")
  case False
  then have "tr_file t p = None" if "below p dir" for p using that by (auto simp: file_above_iff)
  with assms False show ?thesis
    unfolding tree_wf_def create_dir_all_def is_dir_def by (fastforce dest: below_trans)
qed (use assms in \<open>simp add: create_dir_all_def\<close>)

lemma create_dir_wf:
  assumes "tree_wf t"
  shows "tree_wf (snd (create_dir dir t))"
proof (cases "tree_exists t dir \<or> \<not> is_dir t (parent_path dir)")
  case False
  have "tr_dir t d" if "below d dir" "d \<noteq> dir" "d \<noteq> []" for d
  proof -
    have "below d (parent_path dir)" using below_parent that by blast
    then show ?thesis using False that(3) assms unfolding tree_wf_def is_dir_def by (auto simp: below_iff)
  qed
  with assms False show ?thesis
    unfolding tree_wf_def create_dir_def is_dir_def tree_exists_def by auto
qed (use assms in \<open>auto simp: create_dir_def\<close>)

lemma write_bytes_wf:
  assumes "tree_wf t"
  shows "tree_wf (snd (write_bytes p bytes t))"
proof (cases "is_dir t p \<or> \<not> is_dir t (parent_path p)")
  case False
  have "tr_dir t d" if "below d p" "d \<noteq> p" "d \<noteq> []" for d
  proof -
    have "below d (parent_path p)" using below_parent that by blast
    then show ?thesis using False that(3) assms unfolding tree_wf_def is_dir_def by (auto simp: below_iff)
  qed
  with assms False show ?thesis
    unfolding tree_wf_def write_bytes_def is_dir_def by auto
qed (use assms in \<open>auto simp: write_bytes_def\<close>)

lemma remove_file_wf: "tree_wf t \<Longrightarrow> tree_wf (snd (remove_file p t))"
  unfolding tree_wf_def remove_file_def is_dir_def by auto

interpretation wf_kept: kept tree_wf
  by unfold_locales
    (simp_all add: remove_dir_all_wf create_dir_all_wf create_dir_wf write_bytes_wf remove_file_wf)


definition empty_tree :: tree where
  "empty_tree = \<lparr>tr_file = (\<lambda>_. None), tr_dir = (\<lambda>_. False)\<rparr>"

lemma empty_tree_simps:
  "tree_wf empty_tree" "\<not> file_above empty_tree dir"
  by (simp_all add: empty_tree_def tree_wf_def file_above_iff)

definition sample_exec_env :: "(string, 8 word, unit, unit) exec_env" where
  "sample_exec_env =
     \<lparr>xe_vm = sample_vm, xe_codecs = sample_codecs,
      xe_lang = \<lparr>ml_strip_comments = (\<lambda>f b. Inr (b, [])), ml_no_comments = [], ml_parse_file_string = (\<lambda>f b. Inr []),
         ml_check_program = (\<lambda>r a. Inr \<lparr>cp_scripts = []\<rparr>), ml_to_bytecode = (\<lambda>c. Inr [])\<rparr>,
      xe_parse_argument = (\<lambda>_. Inr (TaBool True))\<rparr>"


section \<open>Outputs of a build\<close>

definition plain_name :: "string \<Rightarrow> bool" where
  "plain_name n \<longleftrightarrow> CHR ''/'' \<notin> set n \<and> CHR ''.'' \<notin> set n"

definition output_dir_ok :: "tree \<Rightarrow> string \<Rightarrow> bool" where
  "output_dir_ok t dir \<longleftrightarrow> dir \<noteq> [] \<and> last dir \<noteq> CHR ''/'' \<and> \<not> file_above t dir"

definition unit_outputs :: "('l, 'k, 'c, 'u) tx_world \<Rightarrow> string \<Rightarrow> 'u list \<Rightarrow> (string \<times> 8 word list) list" where
  "unit_outputs T dir units = map (\<lambda>iu. (unit_path T dir iu, tw_serialize_unit T (snd iu))) (enumerate 0 units)"

lemma show_nat_name_chars: "c \<in> set (show_nat n) \<Longrightarrow> c \<noteq> CHR ''/'' \<and> c \<noteq> CHR ''.'' \<and> c \<noteq> CHR ''_''"
  using show_nat_digits[of c n] by (auto simp: is_digit_char_def)

lemma unit_path_eq:
  assumes "dir \<noteq> []" "last dir \<noteq> CHR ''/''" "plain_name (tw_unit_name T u)"
  shows "unit_path T dir (i, u) = dir @ ''/'' @ show_nat i @ ''_'' @ tw_unit_name T u @ ''.mv''"
proof -
  define x where "x = show_nat i @ ''_'' @ tw_unit_name T u"
  have no: "CHR ''/'' \<notin> set x" "CHR ''.'' \<notin> set x" "x \<noteq> []"
    using assms(3) show_nat_name_chars[of _ i] by (auto simp: x_def plain_name_def)
  then have s: "\<not> starts_with ''/'' x" by (cases x) (auto simp: starts_with_def)
  have take: "takeWhile (\<lambda>c. c \<noteq> CHR ''/'') (rev x @ CHR ''/'' # rev dir) = rev x"
    using takeWhile_append2[of "rev x" "\<lambda>c. c \<noteq> CHR ''/''" "CHR ''/'' # rev dir"] no(1) by auto
  have "x \<noteq> ''.''" "x \<noteq> ''..''" using no(2) by auto
  then have name: "Dove_Manifest.path_file_name (dir @ ''/'' @ x) = Some x"
    using no(3) take by (simp add: Dove_Manifest.path_file_name_def)
  have "dropWhile (\<lambda>c. c \<noteq> CHR ''.'') (rev x) = []" unfolding dropWhile_eq_Nil_conv using no(2) by auto
  then have "file_stem x = x" unfolding file_stem_def by (simp del: dropWhile_eq_Nil_conv)
  with name s assms(1,2) have "set_extension (path_join dir x) ''mv'' = dir @ ''/'' @ x @ ''.mv''"
    by (simp add: path_join_def set_extension_def)
  then show ?thesis by (simp add: unit_path_def x_def)
qed

lemma unit_path_inject:
  assumes "dir \<noteq> []" "last dir \<noteq> CHR ''/''" "plain_name (tw_unit_name T u)" "plain_name (tw_unit_name T v)"
    and "unit_path T dir (i, u) = unit_path T dir (j, v)"
  shows "i = j"
proof -
  have pre: "takeWhile (\<lambda>c. c \<noteq> CHR ''_'') (show_nat k @ CHR ''_'' # r) = show_nat k" for k r
    using show_nat_name_chars takeWhile_append2[of "show_nat k" "\<lambda>c. c \<noteq> CHR ''_''" "CHR ''_'' # r"] by auto
  from assms have "show_nat i @ CHR ''_'' # tw_unit_name T u = show_nat j @ CHR ''_'' # tw_unit_name T v"
    by (simp add: unit_path_eq)
  then have "show_nat i = show_nat j" using pre by metis
  then show ?thesis using read_show_nat by metis
qed

text \<open>Writing files into an existing directory.\<close>

lemma each_write:
  assumes "\<forall>x \<in> set xs. is_dir t (parent_path (fst x)) \<and> \<not> is_dir t (fst x)" "distinct (map fst xs)"
  shows "each (\<lambda>x. write_bytes (fst x) (snd x)) xs t =
    (Inr (), t\<lparr>tr_file := (\<lambda>p. case map_of xs p of Some b \<Rightarrow> Some b | None \<Rightarrow> tr_file t p)\<rparr>)"
  using assms
proof (induction xs arbitrary: t)
  case Nil
  then show ?case by (simp add: done_with_def)
next
  case (Cons x xs)
  let ?t = "t\<lparr>tr_file := (tr_file t)(fst x \<mapsto> snd x)\<rparr>"
  have w: "write_bytes (fst x) (snd x) t = (Inr (), ?t)" using Cons.prems by (simp add: write_bytes_def)
  have "\<forall>y \<in> set xs. is_dir ?t (parent_path (fst y)) \<and> \<not> is_dir ?t (fst y)"
    using Cons.prems by (simp add: is_dir_def)
  from Cons.IH[OF this] Cons.prems(2) have "each (\<lambda>x. write_bytes (fst x) (snd x)) xs ?t =
      (Inr (), ?t\<lparr>tr_file := (\<lambda>p. case map_of xs p of Some b \<Rightarrow> Some b | None \<Rightarrow> tr_file ?t p)\<rparr>)" by simp
  moreover have "(\<lambda>p. case map_of xs p of Some b \<Rightarrow> Some b | None \<Rightarrow> tr_file ?t p) =
      (\<lambda>p. case map_of (x # xs) p of Some b \<Rightarrow> Some b | None \<Rightarrow> tr_file t p)"
  proof
    fix p
    have "map_of xs (fst x) = None" using Cons.prems(2) by (auto simp: map_of_eq_None_iff)
    then show "(case map_of xs p of Some b \<Rightarrow> Some b | None \<Rightarrow> tr_file ?t p) =
        (case map_of (x # xs) p of Some b \<Rightarrow> Some b | None \<Rightarrow> tr_file t p)"
      by (cases x) (auto split: option.split)
  qed
  ultimately show ?case using w by (simp add: cbind_def)
qed

lemma store_units_each: "store_units T units dir t = each (\<lambda>x. write_bytes (fst x) (snd x)) (unit_outputs T dir units) t"
proof -
  have "each (\<lambda>iu. write_bytes (f iu) (g iu)) xs = each (\<lambda>x. write_bytes (fst x) (snd x)) (map (\<lambda>iu. (f iu, g iu)) xs)"
    for f and g :: "nat \<times> 'd \<Rightarrow> 8 word list" and xs by (induction xs) simp_all
  then show ?thesis by (simp add: store_units_def unit_outputs_def)
qed

lemma unit_outputs_paths:
  assumes "dir \<noteq> []" "last dir \<noteq> CHR ''/''" "\<forall>u \<in> set units. plain_name (tw_unit_name T u)"
  shows "distinct (map fst (unit_outputs T dir units))"
    and "\<forall>x \<in> set (unit_outputs T dir units). parent_path (fst x) = dir \<and> below dir (fst x) \<and> fst x \<noteq> dir"
proof -
  have mem: "u \<in> set units" if "(i, u) \<in> set (enumerate 0 units)" for i u
    using that by (auto simp: in_set_enumerate_eq)
  have "inj_on (unit_path T dir) (set (enumerate 0 units))"
  proof (rule inj_onI)
    fix x y assume xy: "x \<in> set (enumerate 0 units)" "y \<in> set (enumerate 0 units)" "unit_path T dir x = unit_path T dir y"
    then have "fst x = fst y"
      using unit_path_inject[OF assms(1,2), of T "snd x" "snd y" "fst x" "fst y"] mem assms(3) by (metis prod.collapse)
    with xy(1,2) show "x = y" by (auto simp: in_set_enumerate_eq prod_eq_iff)
  qed
  then have "distinct (map (unit_path T dir) (enumerate 0 units))" by (simp add: distinct_map)
  then show "distinct (map fst (unit_outputs T dir units))" by (simp add: unit_outputs_def comp_def)
  have "parent_path (unit_path T dir (i, u)) = dir \<and> below dir (unit_path T dir (i, u)) \<and> unit_path T dir (i, u) \<noteq> dir"
    if "u \<in> set units" for i u
  proof -
    let ?x = "show_nat i @ ''_'' @ tw_unit_name T u @ ''.mv''"
    have "CHR ''/'' \<notin> set ?x" using show_nat_name_chars[of _ i] assms(3) that by (auto simp: plain_name_def)
    with parent_path_append[of ?x dir] assms that show ?thesis by (auto simp: unit_path_eq below_iff)
  qed
  then show "\<forall>x \<in> set (unit_outputs T dir units). parent_path (fst x) = dir \<and> below dir (fst x) \<and> fst x \<noteq> dir"
    using mem by (auto simp: unit_outputs_def)
qed

definition output_file :: "('l, 'k, 'c, 'u) tx_world \<Rightarrow> string \<Rightarrow> 'u list \<Rightarrow> string \<Rightarrow> 8 word list option" where
  "output_file T dir units p = map_of (unit_outputs T dir units) p"

lemma store_outputs_files:
  assumes "tree_wf t" "output_dir_ok t dir" "\<forall>u \<in> set units. plain_name (tw_unit_name T u)"
  shows "\<exists>t'. store_outputs T units dir t = (Inr (), t') \<and>
    (\<forall>p. tr_file t' p = (if units \<noteq> [] \<and> below dir p then output_file T dir units p else tr_file t p))"
proof (cases "units = []")
  case False
  have dir: "dir \<noteq> []" "last dir \<noteq> CHR ''/''" "\<not> file_above t dir" using assms(2) by (auto simp: output_dir_ok_def)
  then have nofile: "tr_file t dir = None" by (auto simp: file_above_iff intro: below_refl)
  define t1 where "t1 = snd ((if tree_exists t dir then remove_dir_all dir t else done_with () t))"
  have r1: "(if tree_exists t dir then remove_dir_all dir t else done_with () t) = (Inr (), t1)"
    using nofile by (auto simp: t1_def tree_exists_def remove_dir_all_def done_with_def)
  have absent: "tr_file t p = None \<and> \<not> tr_dir t p" if "\<not> tree_exists t dir" "below dir p" for p
  proof -
    have "(tr_file t p \<noteq> None \<or> tr_dir t p) \<and> below dir p \<and> dir \<noteq> p \<and> dir \<noteq> [] \<longrightarrow> tr_dir t dir"
      using assms(1) unfolding tree_wf_def by blast
    with that dir(1) show ?thesis unfolding tree_exists_def is_dir_def by (cases "p = dir") auto
  qed
  have f1: "tr_file t1 p = (if below dir p then None else tr_file t p)"
    and d1: "tr_dir t1 p \<longleftrightarrow> tr_dir t p \<and> \<not> below dir p" for p
    using nofile absent[of p] by (auto simp: t1_def tree_exists_def remove_dir_all_def done_with_def)
  have "\<not> file_above t1 dir" using dir(3) by (auto simp: file_above_iff f1)
  then have r2: "create_dir_all dir t1 = (Inr (), t1\<lparr>tr_dir := (\<lambda>p. tr_dir t1 p \<or> below p dir)\<rparr>)" (is "_ = (_, ?t2)")
    by (simp add: create_dir_all_def)
  note paths = unit_outputs_paths[OF dir(1,2) assms(3)]
  have "\<forall>x \<in> set (unit_outputs T dir units). is_dir ?t2 (parent_path (fst x)) \<and> \<not> is_dir ?t2 (fst x)"
    using paths(2) dir(1) by (fastforce simp: is_dir_def d1 below_iff)
  from each_write[OF this paths(1)] have "store_units T units dir ?t2 = (Inr (),
      ?t2\<lparr>tr_file := (\<lambda>p. case output_file T dir units p of Some b \<Rightarrow> Some b | None \<Rightarrow> tr_file ?t2 p)\<rparr>)" (is "_ = (_, ?t3)")
    by (simp add: store_units_each output_file_def)
  with r1 r2 False have "store_outputs T units dir t = (Inr (), ?t3)"
    by (simp add: store_outputs_def cbind_def)
  moreover have "tr_file ?t3 p = (if below dir p then output_file T dir units p else tr_file t p)" for p
  proof (cases "below dir p")
    case False
    then have "output_file T dir units p = None"
      using paths(2) by (force simp: output_file_def map_of_eq_None_iff)
    with False show ?thesis by (simp add: f1)
  qed (simp add: f1 split: option.split)
  ultimately show ?thesis using False by auto
qed (simp add: store_outputs_def done_with_def)

text \<open>C38: a build writes what it compiled. It succeeds exactly when every unit verifies; in both
  cases the verified units are stored, and the output directory of modules holds exactly the module
  units and that of scripts exactly the script units, each under its index and name. But a
  directory that nothing is written to keeps its old files, like every file elsewhere.\<close>

theorem build_outputs:
  assumes "tree_wf t" and "tw_verify_units T units = (us, ice)"
    and "M = path_for ctx (ly_module_output (cx_layout ctx))" and "S = path_for ctx (ly_script_output (cx_layout ctx))"
    and "output_dir_ok t M" and "output_dir_ok t S" and "\<not> below M S" and "\<not> below S M"
    and "\<forall>u \<in> set us. plain_name (tw_unit_name T u)"
  shows "\<exists>t'. verify_and_store T ctx units t =
      (if ice = [] then Inr () else Inl (Failed (''could not verify:'' @ project_name ctx)), t') \<and> tree_wf t' \<and>
    (\<forall>p. tr_file t' p =
      (let modules = filter (\<lambda>u. \<not> tw_is_script T u) us; scripts = filter (tw_is_script T) us in
       if modules \<noteq> [] \<and> below M p then output_file T M modules p
       else if scripts \<noteq> [] \<and> below S p then output_file T S scripts p
       else tr_file t p))"
proof -
  let ?ms = "filter (\<lambda>u. \<not> tw_is_script T u) us" and ?ss = "filter (tw_is_script T) us"
  from store_outputs_files[OF assms(1,5), of ?ms T] assms(9) obtain t1 where
    t1: "store_outputs T ?ms M t = (Inr (), t1)"
      "\<And>p. tr_file t1 p = (if ?ms \<noteq> [] \<and> below M p then output_file T M ?ms p else tr_file t p)" by auto
  have wf1: "tree_wf t1" using wf_kept.keeps_outputs[of T ?ms M] assms(1) t1(1) by (force simp: wf_kept.keeps_def)
  have "output_dir_ok t1 S"
    using assms(6,7) t1(2) by (auto simp: output_dir_ok_def file_above_iff dest: below_trans split: if_splits)
  from store_outputs_files[OF wf1 this, of ?ss T] assms(9) obtain t2 where
    t2: "store_outputs T ?ss S t1 = (Inr (), t2)"
      "\<And>p. tr_file t2 p = (if ?ss \<noteq> [] \<and> below S p then output_file T S ?ss p else tr_file t1 p)" by auto
  have wf2: "tree_wf t2" using wf_kept.keeps_outputs[of T ?ss S] wf1 t2(1) by (force simp: wf_kept.keeps_def)
  have apart: "\<not> (below M p \<and> below S p)" for p
    using assms(7,8) by (auto simp: below_iff append_eq_append_conv2 Cons_eq_append_conv append_eq_Cons_conv)
  have "verify_and_store T ctx units t =
      (if ice = [] then Inr () else Inl (Failed (''could not verify:'' @ project_name ctx)), t2)"
    using assms(2) t1(1) t2(1)
    by (simp add: verify_and_store_def cbind_def failing_with_def done_with_def flip: assms(3,4))
  with wf2 t1(2) t2(2) apart show ?thesis by (auto simp: Let_def)
qed

theorem build_outputs_witness:
  "\<exists>t'. verify_and_store sample_tx_world sample_context [()] empty_tree = (Inr (), t') \<and>
     tr_file t' ''/p/target/scripts/0_main.mv'' = Some [7]"
proof -
  have d: "path_for sample_context (ly_module_output (cx_layout sample_context)) = ''/p/target/modules''"
    "path_for sample_context (ly_script_output (cx_layout sample_context)) = ''/p/target/scripts''"
    by (simp_all add: path_for_def path_join_def sample_context_def cx_layout_def layout_default_def starts_with_def)
  have w: "tw_verify_units sample_tx_world [()] = ([()], [])" "tw_is_script sample_tx_world u"
    "tw_unit_name sample_tx_world u = ''main''" "tw_serialize_unit sample_tx_world u = [7]" for u
    by (simp_all add: sample_tx_world_def)
  have path: "unit_path sample_tx_world ''/p/target/scripts'' (0, ()) = ''/p/target/scripts/0_main.mv''"
  proof -
    have "show_nat 0 = ''0''" by code_simp
    then show ?thesis by (simp add: unit_path_eq plain_name_def w)
  qed
  have "\<exists>t'. verify_and_store sample_tx_world sample_context [()] empty_tree =
      (if ([] :: errors) = [] then Inr () else Inl (Failed (''could not verify:'' @ project_name sample_context)), t') \<and> tree_wf t' \<and>
    (\<forall>p. tr_file t' p =
      (let modules = filter (\<lambda>u. \<not> tw_is_script sample_tx_world u) [()]; scripts = filter (tw_is_script sample_tx_world) [()] in
       if modules \<noteq> [] \<and> below ''/p/target/modules'' p then output_file sample_tx_world ''/p/target/modules'' modules p
       else if scripts \<noteq> [] \<and> below ''/p/target/scripts'' p then output_file sample_tx_world ''/p/target/scripts'' scripts p
       else tr_file empty_tree p))"
    by (rule build_outputs[OF empty_tree_simps(1) w(1) d[symmetric]])
       (auto simp: output_dir_ok_def empty_tree_simps below_def starts_with_def plain_name_def w)
  then obtain t' where t': "verify_and_store sample_tx_world sample_context [()] empty_tree = (Inr (), t')"
    "\<And>p. tr_file t' p = (if below ''/p/target/scripts'' p then output_file sample_tx_world ''/p/target/scripts'' [()] p
       else tr_file empty_tree p)" by (auto simp: w)
  have "tr_file t' ''/p/target/scripts/0_main.mv'' = Some [7]"
    by (simp add: t'(2) below_def starts_with_def output_file_def unit_outputs_def path w)
  with t'(1) show ?thesis by blast
qed

section \<open>Tests\<close>

text \<open>When the test command succeeds, every selected test ran and none of them ended in an error.
  A test whose last step is no error, or that has no script at all, does not count as failed.\<close>

lemma test_apply_outcome:
  assumes "test_apply T X ctx D pattern = Some (Inr out)"
    and "fs_exists (disk_fs (tw_dove T) D) (path_for ctx (ly_tests_dir (cx_layout ctx)))"
  shows "\<exists>D' deps sender tests. load_move_files (disk_fs (tw_dove T) D') [path_for ctx (ly_tests_dir (cx_layout ctx))] = Inr tests \<and>
    (\<forall>test \<in> set tests. test_selected pattern (\<lambda>test. failing (script_name test)) test \<longrightarrow>
      (\<nexists>steps. env_execute X (dove_dialect (tw_dove T) ctx) sender deps test [] = Inr steps \<and> test_failed steps))"
proof -
  have f: "failing r = Inr x \<longleftrightarrow> r = Inr x" for r and x :: 'x by (cases r) (simp_all add: failing_def)
  from assms obtain D' deps sender tests where
    t: "load_move_files (disk_fs (tw_dove T) D') [path_for ctx (ly_tests_dir (cx_layout ctx))] = Inr tests"
      "foldM (run_test X (dove_dialect (tw_dove T) ctx) sender deps pattern (\<lambda>test. failing (script_name test))) tests ([], False)
        = Inr (out, False)"
    by (auto simp: test_apply_def Let_def obind_eq_Some rbind_eq_Inr_iff f split: if_splits simp del: load_move_files.simps foldM.simps)
  from run_tests_outcome[OF t(2)] have "\<forall>test \<in> set tests. test_selected pattern (\<lambda>test. failing (script_name test)) test \<longrightarrow>
      (\<nexists>steps. env_execute X (dove_dialect (tw_dove T) ctx) sender deps test [] = Inr steps \<and> test_failed steps)" by auto
  with t(1) show ?thesis by blast
qed

end
