(* ===== verification/Viewer.thy ===== *)
theory Viewer
  imports Dove_Tte
begin

text \<open>
  The resource viewer (\<open>resource-viewer/src/main.rs\<close>, \<open>ser.rs\<close>) and the client of a node it asks
  (\<open>common/dnode-rest-client/src\<close>), in the build without \<open>ps_address\<close> and \<open>json-schema\<close>.

  HTTP, the JSON grammar, the annotator of the Move VM and the access paths of libra are fields
  of \<open>node\<close> and \<open>viewer\<close>; JSON values, their readers and writers are written out.
\<close>

section \<open>JSON\<close>

datatype json = JNum nat | JBool bool | JStr string | JArr "json list" | JObj "(string \<times> json) list"

definition json_field :: "json \<Rightarrow> string \<Rightarrow> string + json" where
  "json_field j k =
     (case j of JObj fs \<Rightarrow> (case map_of fs k of Some v \<Rightarrow> Inr v | None \<Rightarrow> Inl (''missing field '' @ k))
      | _ \<Rightarrow> Inl ''invalid type: expected a map'')"

definition json_string :: "json \<Rightarrow> string + string" where
  "json_string j = (case j of JStr s \<Rightarrow> Inr s | _ \<Rightarrow> Inl ''invalid type: expected a string'')"

section \<open>The node client\<close>

record access_path =
  ap_address :: account_address
  ap_path :: "8 word list"

datatype response_body = BodyResult string | BodyError string

record node_response =
  rs_height :: nat
  rs_body :: response_body

record node =
  nd_base_url :: string
  nd_get :: "string \<Rightarrow> string + string \<times> string"
  nd_parse_json :: "string \<Rightarrow> string + json"
  nd_resource_path :: "account_address \<Rightarrow> struct_tag \<Rightarrow> access_path"
  nd_code_path :: "module_id \<Rightarrow> access_path"

definition block_deserialize :: "json \<Rightarrow> string + nat" where
  "block_deserialize j =
     rbind (json_string j) (\<lambda>s. case parse_unsigned 128 s of Some n \<Rightarrow> Inr n | None \<Rightarrow> Inl ''invalid digit'')"

text \<open>The flattened body: the first key that names a variant.\<close>

definition response_body_of :: "json \<Rightarrow> string + response_body" where
  "response_body_of j =
     (case j of
        JObj fs \<Rightarrow>
          (case find (\<lambda>f. fst f = ''result'' \<or> fst f = ''error'') fs of
             None \<Rightarrow> Inl ''no variant of enum ResponseBody found''
           | Some (k, v) \<Rightarrow>
               (if k = ''result'' then rbind (json_field v ''value'') (\<lambda>x. rbind (json_string x) (\<lambda>s. Inr (BodyResult s)))
                else rbind (json_field v ''error'') (\<lambda>x. rbind (json_string x) (\<lambda>s. Inr (BodyError s)))))
      | _ \<Rightarrow> Inl ''invalid type: expected a map'')"

definition response_of_json :: "json \<Rightarrow> string + node_response" where
  "response_of_json j =
     rbind (json_field j ''height'') (\<lambda>h.
     rbind (block_deserialize h) (\<lambda>height.
     rbind (response_body_of j) (\<lambda>body. Inr \<lparr>rs_height = height, rs_body = body\<rparr>)))"

text \<open>\<open>hex::encode\<close>.\<close>

definition hex_digit :: "nat \<Rightarrow> char" where
  "hex_digit n = char_of (if n < 10 then 48 + n else 87 + n)"

definition hex_encode :: "8 word list \<Rightarrow> string" where
  "hex_encode bs = concat (map (\<lambda>b. [hex_digit (unat b div 16), hex_digit (unat b mod 16)]) bs)"

definition data_url :: "string \<Rightarrow> access_path \<Rightarrow> nat option \<Rightarrow> string" where
  "data_url base_url p height =
     base_url @ ''vm/data/'' @ hex_encode (ap_address p) @ ''/'' @ hex_encode (ap_path p) @
     (case height of Some i \<Rightarrow> ''?height='' @ show_nat i | None \<Rightarrow> [])"

definition data_request :: "node \<Rightarrow> codecs \<Rightarrow> access_path \<Rightarrow> nat option \<Rightarrow> string + 8 word list \<times> nat" where
  "data_request N C p height =
     (let url = data_url (nd_base_url N) p height
      in rbind (nd_get N url) (\<lambda>(status, body).
         rbind (nd_parse_json N body) (\<lambda>j.
         rbind (response_of_json j) (\<lambda>res.
           case rs_body res of
             BodyResult v \<Rightarrow> rbind (cd_hex_decode C v) (\<lambda>bytes. Inr (bytes, rs_height res))
           | BodyError message \<Rightarrow>
               Inl (''Failed to load:'' @ url @ '' ('' @ status @ '') ['' @ message @ '']'')))))"

definition node_get_module :: "node \<Rightarrow> codecs \<Rightarrow> module_id \<Rightarrow> nat option \<Rightarrow> string + 8 word list \<times> nat" where
  "node_get_module N C mid height = data_request N C (nd_code_path N mid) height"

definition node_get_resource ::
    "node \<Rightarrow> codecs \<Rightarrow> account_address \<Rightarrow> struct_tag \<Rightarrow> nat option \<Rightarrow> string + 8 word list \<times> nat" where
  "node_get_resource N C addr tag height = data_request N C (nd_resource_path N addr tag) height"

text \<open>The client as a remote cache: every failure is a missing module or resource.\<close>

definition ok_bytes :: "string + 8 word list \<times> nat \<Rightarrow> 8 word list option" where
  "ok_bytes r = (case r of Inr (bytes, _) \<Rightarrow> Some bytes | Inl _ \<Rightarrow> None)"

definition client_get_module :: "node \<Rightarrow> codecs \<Rightarrow> nat option \<Rightarrow> module_id \<Rightarrow> 8 word list option" where
  "client_get_module N C height mid = ok_bytes (node_get_module N C mid height)"

definition client_get_resource ::
    "node \<Rightarrow> codecs \<Rightarrow> nat option \<Rightarrow> account_address \<Rightarrow> struct_tag \<Rightarrow> 8 word list option" where
  "client_get_resource N C height addr tag = ok_bytes (node_get_resource N C addr tag height)"

section \<open>Annotated values (ser.rs)\<close>

datatype 'v annotated_struct_of =
  AnnotatedStruct (as_is_resource: bool) (as_type: struct_tag) (as_value: "(string \<times> 'v) list")

datatype annotated_value =
    AvU8 "8 word" | AvU64 "64 word" | AvU128 "128 word" | AvBool bool | AvAddress account_address
  | AvVector "annotated_value list" | AvBytes "8 word list"
  | AvStruct "annotated_value annotated_struct_of"

type_synonym annotated_struct = "annotated_value annotated_struct_of"

definition json_bytes :: "8 word list \<Rightarrow> json" where
  "json_bytes bs = JArr (map (\<lambda>b. JNum (unat b)) bs)"

text \<open>A variant under its name.\<close>

definition tagged :: "string \<Rightarrow> json \<Rightarrow> json" where
  "tagged name j = JObj [(name, j)]"

text \<open>A structure whose field values are serialized; \<open>tag_json\<close> serializes a struct tag.\<close>

definition json_of_fields :: "(struct_tag \<Rightarrow> json) \<Rightarrow> json annotated_struct_of \<Rightarrow> json" where
  "json_of_fields tag_json s =
     JObj [(''is_resource'', JBool (as_is_resource s)), (''type'', tag_json (as_type s)),
           (''value'', JArr (map (\<lambda>(n, v). JObj [(''id'', JStr n), (''value'', v)]) (as_value s)))]"

primrec json_of_value :: "(struct_tag \<Rightarrow> json) \<Rightarrow> annotated_value \<Rightarrow> json" where
  "json_of_value tag_json (AvU8 n) = tagged ''U8'' (JNum (unat n))"
| "json_of_value tag_json (AvU64 n) = tagged ''U64'' (JNum (unat n))"
| "json_of_value tag_json (AvU128 n) = tagged ''U128'' (JNum (unat n))"
| "json_of_value tag_json (AvBool b) = tagged ''Bool'' (JBool b)"
| "json_of_value tag_json (AvAddress a) = tagged ''Address'' (json_bytes a)"
| "json_of_value tag_json (AvVector vs) = tagged ''Vector'' (JArr (map (json_of_value tag_json) vs))"
| "json_of_value tag_json (AvBytes bs) = tagged ''Bytes'' (json_bytes bs)"
| "json_of_value tag_json (AvStruct s) =
     tagged ''Struct'' (json_of_fields tag_json (map_annotated_struct_of (json_of_value tag_json) s))"

definition json_of_struct :: "(struct_tag \<Rightarrow> json) \<Rightarrow> annotated_struct \<Rightarrow> json" where
  "json_of_struct tag_json s = json_of_fields tag_json (map_annotated_struct_of (json_of_value tag_json) s)"

definition json_of_wrapper :: "(struct_tag \<Rightarrow> json) \<Rightarrow> nat \<Rightarrow> annotated_struct \<Rightarrow> json" where
  "json_of_wrapper tag_json height result =
     JObj [(''height'', JNum height), (''result'', json_of_struct tag_json result)]"

section \<open>main.rs\<close>

record viewer =
  vw_node :: node
  vw_codecs :: codecs
  vw_core :: move_core
  vw_tag_json :: "struct_tag \<Rightarrow> json"
  vw_view :: "(module_id \<Rightarrow> 8 word list option) \<Rightarrow> (account_address \<Rightarrow> struct_tag \<Rightarrow> 8 word list option) \<Rightarrow>
     struct_tag \<Rightarrow> 8 word list \<Rightarrow> string + annotated_struct"
  vw_display :: "annotated_struct \<Rightarrow> string"
  vw_pretty :: "json \<Rightarrow> string + string"

record viewer_cfg =
  vc_address :: string
  vc_query :: type_tag_query
  vc_height :: "nat option"
  vc_output :: string
  vc_json :: "bool option"

text \<open>\<open>Path::extension\<close>: the text behind the last dot of the file name, which must not start it.\<close>

definition path_extension :: "string \<Rightarrow> string option" where
  "path_extension p =
     (let name = rev (takeWhile (\<lambda>c. c \<noteq> CHR ''/'') (rev p))
      in if name = ''..'' \<or> CHR ''.'' \<notin> set (tl name) then None
         else Some (rev (takeWhile (\<lambda>c. c \<noteq> CHR ''.'') (rev name))))"

definition viewer_json :: "viewer_cfg \<Rightarrow> bool" where
  "viewer_json cfg = (case vc_json cfg of Some b \<Rightarrow> b | None \<Rightarrow> path_extension (vc_output cfg) = Some ''json'')"

definition from_hex_literal :: "move_core \<Rightarrow> string \<Rightarrow> string + account_address" where
  "from_hex_literal M s = (case mc_from_hex M s of Some a \<Rightarrow> Inr a | None \<Rightarrow> Inl ''invalid address'')"

definition viewer_address :: "codecs \<Rightarrow> move_core \<Rightarrow> string \<Rightarrow> string + account_address" where
  "viewer_address C M addr =
     (if starts_with HRP addr then rbind (bech32_into_libra C addr) (from_hex_literal M)
      else if starts_with ''0x'' addr then from_hex_literal M addr
      else case ss58_to_libra C addr of
             Inr a \<Rightarrow> from_hex_literal M a
           | Inl _ \<Rightarrow> from_hex_literal M addr)"

definition render_resource :: "viewer \<Rightarrow> bool \<Rightarrow> nat \<Rightarrow> annotated_struct \<Rightarrow> string + string" where
  "render_resource V as_json height result =
     (if as_json then vw_pretty V (json_of_wrapper (vw_tag_json V) height result)
      else Inr (vw_display V result))"

text \<open>The output file and its text; a failure to write it is only logged.\<close>

definition viewer_run :: "viewer \<Rightarrow> viewer_cfg \<Rightarrow> string + string \<times> string" where
  "viewer_run V cfg =
     rbind (viewer_address (vw_codecs V) (vw_core V) (vc_address cfg)) (\<lambda>addr.
       case qy_tt (vc_query cfg) of
         TtStruct st \<Rightarrow>
           rbind (node_get_resource (vw_node V) (vw_codecs V) addr st (vc_height cfg)) (\<lambda>(bytes, block).
             if bytes = [] then Inl ''Resource not found, result is empty''
             else
               rbind (vw_view V (client_get_module (vw_node V) (vw_codecs V) (vc_height cfg))
                        (client_get_resource (vw_node V) (vw_codecs V) (vc_height cfg)) st bytes) (\<lambda>result.
               rbind (render_resource V (viewer_json cfg) block result) (\<lambda>text_out.
                 Inr (vc_output cfg, text_out))))
       | TtVector _ \<Rightarrow> Inl ''Unsupported root type Vec''
       | _ \<Rightarrow> Inl ''Unsupported type'')"

section \<open>Properties\<close>

lemma json_bytes_inject [simp]: "json_bytes a = json_bytes b \<longleftrightarrow> a = b"
proof -
  have "inj (\<lambda>b :: 8 word. JNum (unat b))" by (auto simp: inj_def unsigned_word_eqI)
  then show ?thesis by (simp add: json_bytes_def inj_map_eq_map)
qed

lemma json_of_fields_inject:
  assumes "inj tag_json"
  shows "json_of_fields tag_json s = json_of_fields tag_json s' \<longleftrightarrow> s = s'"
proof -
  have "inj (\<lambda>(n :: string, v :: json). JObj [(''id'', JStr n), (''value'', v)])" by (auto simp: inj_def)
  with assms show ?thesis
    by (cases s; cases s') (auto simp: json_of_fields_def inj_map_eq_map inj_eq)
qed

lemma json_of_value_inject:
  assumes "inj tag_json"
  shows "json_of_value tag_json v = json_of_value tag_json w \<Longrightarrow> v = w"
proof (induction v arbitrary: w)
  case (AvVector vs)
  then show ?case by (cases w) (auto simp: tagged_def intro: list.inj_map_strong[rotated])
next
  case (AvStruct s)
  from AvStruct.prems obtain s' where w: "w = AvStruct s'" by (cases w) (auto simp: tagged_def)
  with AvStruct.prems have e: "map_annotated_struct_of (json_of_value tag_json) s = map_annotated_struct_of (json_of_value tag_json) s'"
    by (simp add: tagged_def json_of_fields_inject[OF assms])
  have "s = s'"
    by (rule annotated_struct_of.inj_map_strong[OF _ e]) (use AvStruct.IH in blast)
  with w show ?case by simp
qed (case_tac w; auto simp: tagged_def unsigned_word_eqI)+

text \<open>The JSON output determines what is shown: two outputs agree only for the same block and
  the same annotated resource, down to every nested value and its type.\<close>

theorem json_output_faithful:
  assumes "inj tag_json"
  shows "json_of_wrapper tag_json height s = json_of_wrapper tag_json height' s' \<longleftrightarrow> height = height' \<and> s = s'"
proof -
  have "s = s'" if "json_of_struct tag_json s = json_of_struct tag_json s'"
    using json_of_value_inject[OF assms, of "AvStruct s" "AvStruct s'"] that
    by (simp add: json_of_struct_def)
  then show ?thesis by (auto simp: json_of_wrapper_def)
qed

text \<open>A serialization of struct tags.\<close>

primrec sample_type_json :: "type_tag \<Rightarrow> json" and sample_tag_json :: "struct_tag \<Rightarrow> json" where
  "sample_type_json TtBool = JStr ''Bool''"
| "sample_type_json TtU8 = JStr ''U8''"
| "sample_type_json TtU64 = JStr ''U64''"
| "sample_type_json TtU128 = JStr ''U128''"
| "sample_type_json TtAddress = JStr ''Address''"
| "sample_type_json TtSigner = JStr ''Signer''"
| "sample_type_json (TtVector t) = tagged ''Vector'' (sample_type_json t)"
| "sample_type_json (TtStruct s) = tagged ''Struct'' (sample_tag_json s)"
| "sample_tag_json (StructTag a m n ts) =
     JObj [(''address'', json_bytes a), (''module'', JStr m), (''name'', JStr n), (''type_params'', JArr (map sample_type_json ts))]"

lemma sample_tag_json_inject:
  "sample_type_json t = sample_type_json t' \<Longrightarrow> t = t'"
  "sample_tag_json s = sample_tag_json s' \<Longrightarrow> s = s'"
proof (induction t and s arbitrary: t' and s')
  case (TtVector t)
  then show ?case by (cases t') (auto simp: tagged_def)
next
  case (TtStruct s)
  then show ?case by (cases t') (auto simp: tagged_def)
next
  case (StructTag a m n ts)
  then show ?case by (cases s') (auto intro: list.inj_map_strong[rotated])
qed (case_tac t'; simp add: tagged_def)+

theorem json_output_faithful_witness:
  "json_of_wrapper sample_tag_json 5 (AnnotatedStruct True (StructTag [1] ''M'' ''R'' []) [(''v'', AvVector [AvU8 7])]) \<noteq>
   json_of_wrapper sample_tag_json 5 (AnnotatedStruct True (StructTag [1] ''M'' ''R'' []) [(''v'', AvBytes [7])])"
proof -
  have "inj sample_tag_json" using sample_tag_json_inject(2) by (intro injI)
  from json_output_faithful[OF this] show ?thesis by simp
qed

text \<open>The index of a query for a structure has no effect.\<close>

lemma viewer_ignores_index: "viewer_run V (cfg\<lparr>vc_query := (vc_query cfg)\<lparr>qy_i := i\<rparr>\<rparr>) = viewer_run V cfg"
  by (simp add: viewer_run_def viewer_json_def cong: if_cong type_tag.case_cong option.case_cong)

end
