(* ===== verification/Dove_Fetch.thy ===== *)
theory Dove_Fetch
  imports Dove_Index Viewer
begin

text \<open>
  Fetching dependencies of a project: \<open>resolve\<close> for git dependencies
  (\<open>dove/src/index/resolver/git.rs\<close>) and the bytecode loaders
  (\<open>dove/src/index/resolver/chain/loader.rs\<close>).

  The functions of the git2 crate are the record \<open>git_ops\<close>, over repositories of any type; the
  SHA3 hash and the HTTP client are arguments.
\<close>

section \<open>Git dependencies (git.rs)\<close>

type_synonym oid = string

record 'r git_ops =
  gt_clone :: "string \<Rightarrow> string \<Rightarrow> string + 'r"
  gt_head_target :: "'r \<Rightarrow> string + oid option"
  gt_oid_from_str :: "string \<Rightarrow> string + oid"
  gt_find_commit :: "'r \<Rightarrow> oid \<Rightarrow> string + oid"
  gt_branch :: "'r \<Rightarrow> string \<Rightarrow> oid \<Rightarrow> bool \<Rightarrow> string + 'r"
  gt_revparse_single :: "'r \<Rightarrow> string \<Rightarrow> string + oid"
  gt_checkout_tree :: "'r \<Rightarrow> oid \<Rightarrow> string + 'r"
  gt_set_head :: "'r \<Rightarrow> string \<Rightarrow> string + 'r"

definition git_local_name :: "(8 word list \<Rightarrow> 8 word list) \<Rightarrow> git_dep \<Rightarrow> string" where
  "git_local_name sha3 git =
     GIT_PREFIX @ ''_'' @ hex_encode (sha3 (map (\<lambda>c. of_nat (of_char c))
       (gd_git git @ (case gd_branch git of Some b \<Rightarrow> b | None \<Rightarrow> []) @ (case gd_rev git of Some r \<Rightarrow> r | None \<Rightarrow> []))))"

definition git_clone :: "'r git_ops \<Rightarrow> git_dep \<Rightarrow> string \<Rightarrow> string + 'r" where
  "git_clone G git path =
     map_error (\<lambda>err. ''Failed to clone repository :['' @ gd_git git @ '']:'' @ err) (gt_clone G (gd_git git) path)"

text \<open>A new branch at a commit, checked out.\<close>

definition heads :: "string \<Rightarrow> string" where
  "heads name = ''refs/heads/'' @ name"

definition checkout_new_branch :: "'r git_ops \<Rightarrow> 'r \<Rightarrow> string \<Rightarrow> oid \<Rightarrow> string + 'r" where
  "checkout_new_branch G repo name oid =
     rbind (gt_find_commit G repo oid) (\<lambda>commit.
     rbind (gt_branch G repo name commit False) (\<lambda>repo.
     rbind (gt_revparse_single G repo (heads name)) (\<lambda>obj.
     rbind (gt_checkout_tree G repo obj) (\<lambda>repo. gt_set_head G repo (heads name)))))"

text \<open>The path and the repository cloned to it, if it was not there.\<close>

definition git_resolve ::
    "'r git_ops \<Rightarrow> (8 word list \<Rightarrow> 8 word list) \<Rightarrow> fs \<Rightarrow> dove_context \<Rightarrow> git_dep \<Rightarrow> string + string \<times> 'r option" where
  "git_resolve G sha3 F ctx git =
     (let repo_path = path_join (path_for ctx (ly_target_deps (cx_layout ctx))) (git_local_name sha3 git)
      in if fs_exists F repo_path then Inr (repo_path, None)
         else
           rbind (git_clone G git repo_path) (\<lambda>repo.
           rbind (case gd_branch git of
                    Some branch_name \<Rightarrow>
                      rbind (gt_head_target G repo) (\<lambda>target.
                        case target of
                          None \<Rightarrow> Inl (''Failed to take repo '' @ gd_git git @ '' head.'')
                        | Some oid \<Rightarrow> checkout_new_branch G repo branch_name oid)
                  | None \<Rightarrow>
                      (case gd_rev git of
                         Some rv \<Rightarrow> rbind (gt_oid_from_str G rv) (checkout_new_branch G repo rv)
                       | None \<Rightarrow> Inr repo)) (\<lambda>repo. Inr (repo_path, Some repo))))"

section \<open>Bytecode loaders (chain/loader.rs)\<close>

record rest_api =
  ra_get :: "string \<Rightarrow> string + bool \<times> string"
  ra_parse_json :: "string \<Rightarrow> string + json"
  ra_code_path :: "module_id \<Rightarrow> access_path"

definition loader_url :: "string \<Rightarrow> access_path \<Rightarrow> string" where
  "loader_url base_url p = base_url @ ''vm/data/'' @ hex_encode (ap_address p) @ ''/'' @ hex_encode (ap_path p)"

definition loader_response :: "json \<Rightarrow> string + string" where
  "loader_response j = rbind (json_field j ''result'') (\<lambda>r. rbind (json_field r ''value'') json_string)"

definition loader_error_response :: "json \<Rightarrow> string + string" where
  "loader_error_response j = rbind (json_field j ''error'') json_string"

definition rest_load :: "rest_api \<Rightarrow> codecs \<Rightarrow> string \<Rightarrow> module_id \<Rightarrow> string + 8 word list" where
  "rest_load R C base_url m =
     (let url = loader_url base_url (ra_code_path R m)
      in rbind (ra_get R url) (\<lambda>(success, body).
         rbind (ra_parse_json R body) (\<lambda>j.
           if success then rbind (loader_response j) (cd_hex_decode C)
           else rbind (loader_error_response j) (\<lambda>error.
                  Inl (''Failed to load dependencies :'' @ url @ '' ['' @ error @ '']'')))))"

text \<open>\<open>Loader\<close>: a cache directory in front of a source. The cached files are the state.\<close>

type_synonym bytecode_cache = "string \<Rightarrow> 8 word list option"

definition loader_local_name :: "(8 word list \<Rightarrow> 8 word list) \<Rightarrow> module_id \<Rightarrow> string" where
  "loader_local_name sha3 m =
     hex_encode (sha3 (map (\<lambda>c. of_nat (of_char c)) (mid_name m) @ mid_address m))"

definition loader_get ::
    "(8 word list \<Rightarrow> 8 word list) \<Rightarrow> string option \<Rightarrow> (module_id \<Rightarrow> string + 8 word list) \<Rightarrow>
     module_id \<Rightarrow> bytecode_cache \<Rightarrow> string + 8 word list \<times> bytecode_cache" where
  "loader_get sha3 cache_path source m files =
     (case cache_path of
        Some dir \<Rightarrow>
          (let local_path = path_join dir (loader_local_name sha3 m)
           in case files local_path of
                Some bytecode \<Rightarrow> Inr (bytecode, files)
              | None \<Rightarrow> rbind (source m) (\<lambda>bytecode. Inr (bytecode, files(local_path \<mapsto> bytecode))))
      | None \<Rightarrow> rbind (source m) (\<lambda>bytecode. Inr (bytecode, files)))"

section \<open>Properties\<close>

text \<open>What git2 documents: a new branch points at the given commit, \<open>checkout_tree\<close> updates the
  working directory to the tree it is given, and moving \<open>HEAD\<close> leaves the working directory alone.
  \<open>tree_of\<close> reads the commit the working directory is at.\<close>

definition git_laws :: "'r git_ops \<Rightarrow> ('r \<Rightarrow> oid) \<Rightarrow> bool" where
  "git_laws G tree_of \<longleftrightarrow>
     (\<forall>r oid c. gt_find_commit G r oid = Inr c \<longrightarrow> c = oid) \<and>
     (\<forall>r name c r' c'. gt_branch G r name c False = Inr r' \<and> gt_revparse_single G r' (heads name) = Inr c' \<longrightarrow> c' = c) \<and>
     (\<forall>r c r'. gt_checkout_tree G r c = Inr r' \<longrightarrow> tree_of r' = c) \<and>
     (\<forall>r name r'. gt_set_head G r name = Inr r' \<longrightarrow> tree_of r' = tree_of r)"

lemma checkout_new_branch_tree:
  assumes "git_laws G tree_of" "checkout_new_branch G repo name oid = Inr repo'"
  shows "tree_of repo' = oid"
proof -
  from assms(2) obtain c r1 obj r2 where s: "gt_find_commit G repo oid = Inr c" "gt_branch G repo name c False = Inr r1"
    "gt_revparse_single G r1 (heads name) = Inr obj" "gt_checkout_tree G r1 obj = Inr r2" "gt_set_head G r2 (heads name) = Inr repo'"
    by (auto simp: checkout_new_branch_def rbind_eq_Inr_iff)
  from assms(1) s show ?thesis unfolding git_laws_def by metis
qed

text \<open>C40: a git dependency on a branch is cloned and then stands at the commit of the default
  branch: the branch of that name in the repository plays no role. A dependency on a revision
  stands at that revision.\<close>

theorem git_branch_is_default_head:
  assumes "git_laws G tree_of" and "git_resolve G sha3 F ctx git = Inr (path, Some repo)"
  shows "(gd_branch git \<noteq> None \<longrightarrow> (\<exists>p cloned. gt_clone G (gd_git git) p = Inr cloned \<and>
            gt_head_target G cloned = Inr (Some (tree_of repo)))) \<and>
         (gd_branch git = None \<longrightarrow> (\<forall>rv. gd_rev git = Some rv \<longrightarrow> gt_oid_from_str G rv = Inr (tree_of repo)))"
proof -
  define p where "p = path_join (path_for ctx (ly_target_deps (cx_layout ctx))) (git_local_name sha3 git)"
  from assms(2) have "\<not> fs_exists F p" by (auto simp: git_resolve_def Let_def p_def)
  with assms(2) obtain cloned where c: "git_clone G git p = Inr cloned" "(case gd_branch git of
        Some branch_name \<Rightarrow> rbind (gt_head_target G cloned) (\<lambda>target. case target of
            None \<Rightarrow> Inl (''Failed to take repo '' @ gd_git git @ '' head.'')
          | Some oid \<Rightarrow> checkout_new_branch G cloned branch_name oid)
      | None \<Rightarrow> (case gd_rev git of
            Some rv \<Rightarrow> rbind (gt_oid_from_str G rv) (checkout_new_branch G cloned rv)
          | None \<Rightarrow> Inr cloned)) = Inr repo"
    by (auto simp: git_resolve_def Let_def rbind_eq_Inr_iff simp flip: p_def)
  from c(1) have clone: "gt_clone G (gd_git git) p = Inr cloned"
    by (auto simp: git_clone_def map_error_def split: sum.splits)
  have branch: "gt_head_target G cloned = Inr (Some (tree_of repo))" if "gd_branch git = Some b" for b
    using c(2) that checkout_new_branch_tree[OF assms(1)] by (auto simp: rbind_eq_Inr_iff split: option.splits)
  have rev: "gt_oid_from_str G rv = Inr (tree_of repo)" if "gd_branch git = None" "gd_rev git = Some rv" for rv
    using c(2) that checkout_new_branch_tree[OF assms(1)] by (auto simp: rbind_eq_Inr_iff)
  from clone branch rev show ?thesis by blast
qed

text \<open>A branch and a revision of the same name share their directory.\<close>

lemma git_names_collide:
  "git_local_name sha3 \<lparr>gd_git = u, gd_branch = Some x, gd_rev = None\<rparr> =
   git_local_name sha3 \<lparr>gd_git = u, gd_branch = None, gd_rev = Some x\<rparr>"
  by (simp add: git_local_name_def)

text \<open>Once a module is in the cache it is never loaded again, and what is in the cache stays.\<close>

lemma loader_get_cached:
  assumes "loader_get sha3 (Some dir) source m files = Inr (bytecode, files')"
  shows "loader_get sha3 (Some dir) source' m files' = Inr (bytecode, files')"
    and "files \<subseteq>\<^sub>m files'"
  using assms by (auto simp: loader_get_def Let_def rbind_eq_Inr_iff map_le_def split: option.splits)

text \<open>A repository for the witness: the head, the branches and the working directory.\<close>

record toy_repo =
  ty_head :: oid
  ty_branches :: "string \<Rightarrow> oid option"
  ty_tree :: oid

definition sample_git :: "toy_repo git_ops" where
  "sample_git =
     \<lparr>gt_clone = (\<lambda>u p. Inr \<lparr>ty_head = ''c1'', ty_branches = [''refs/remotes/origin/dev'' \<mapsto> ''c2''], ty_tree = ''c1''\<rparr>),
      gt_head_target = (\<lambda>r. Inr (Some (ty_head r))), gt_oid_from_str = Inr, gt_find_commit = (\<lambda>r oid. Inr oid),
      gt_branch = (\<lambda>r name c f. if ty_branches r (heads name) = None \<or> f
                    then Inr (r\<lparr>ty_branches := (ty_branches r)(heads name \<mapsto> c)\<rparr>) else Inl ''exists''),
      gt_revparse_single = (\<lambda>r name. case ty_branches r name of Some c \<Rightarrow> Inr c | None \<Rightarrow> Inl ''not found''),
      gt_checkout_tree = (\<lambda>r c. Inr (r\<lparr>ty_tree := c\<rparr>)), gt_set_head = (\<lambda>r name. Inr r)\<rparr>"

theorem git_branch_is_default_head_witness:
  "\<exists>path repo. git_resolve sample_git (\<lambda>_. []) \<lparr>fs_exists = (\<lambda>_. False), fs_is_file = (\<lambda>_. False), fs_read = Inl, fs_walk = (\<lambda>_. [])\<rparr>
     \<lparr>cx_project_dir = ''/p'', cx_manifest = \<lparr>tm_package = \<lparr>pk_name = None, pk_account_address = None, pk_authors = [],
        pk_blockchain_api = None, pk_dependencies = None, pk_dialect = None\<rparr>, tm_layout = layout_default\<rparr>, cx_dialect_name = DFinance\<rparr>
     \<lparr>gd_git = ''u'', gd_branch = Some ''dev'', gd_rev = None\<rparr> = Inr (path, Some repo) \<and>
     ty_tree repo = ''c1'' \<and> ty_branches repo ''refs/remotes/origin/dev'' = Some ''c2''"
  (is "\<exists>path repo. git_resolve _ _ ?F ?ctx ?git = _ \<and> _")
proof -
  have laws: "git_laws sample_git ty_tree"
    by (auto simp: git_laws_def sample_git_def split: if_splits)
  obtain path repo where r: "git_resolve sample_git (\<lambda>_. []) ?F ?ctx ?git = Inr (path, Some repo)"
    "ty_branches repo ''refs/remotes/origin/dev'' = Some ''c2''"
    by (simp add: git_resolve_def git_clone_def map_error_def sample_git_def checkout_new_branch_def heads_def Let_def)
  from git_branch_is_default_head[OF laws r(1)] r show ?thesis by (auto simp: sample_git_def)
qed

end
