(* ===== verification/Sp_Client.thy ===== *)
theory Sp_Client
  imports Viewer
begin

text \<open>
  The client of a substrate node (\<open>resource-viewer/src/sp_client.rs\<close>), which the viewer uses in the
  build for \<open>ps_address\<close>, and the git hash of the version texts (\<open>common/git-hash/src\<close>).

  \<open>substrate_api_client\<close> is the record \<open>sp_api\<close>: its operations work on a client \<open>'c\<close>, which the
  code shares in a \<open>RefCell\<close>, so that they take the client and give it back. git, the reading of
  a process and the token parser of the compiler are parameters too.
\<close>

section \<open>Requests\<close>

type_synonym block_hash = "8 word list"

record 'c sp_api =
  sp_new :: "string \<Rightarrow> 'c"
  sp_storage_map_key :: "string \<Rightarrow> string \<Rightarrow> 8 word list \<Rightarrow> 'c \<Rightarrow> string + 8 word list"
  sp_finalized_head :: "'c \<Rightarrow> block_hash option \<times> 'c"
  sp_storage_by_key :: "8 word list \<Rightarrow> block_hash option \<Rightarrow> 'c \<Rightarrow> 8 word list option \<times> 'c"
  sp_resource_path :: "account_address \<Rightarrow> struct_tag \<Rightarrow> 8 word list"
  sp_access_vector :: "module_id \<Rightarrow> 8 word list"

record bytes_for_block =
  bb_bytes :: "8 word list"
  bb_block :: block_hash

definition MODULE :: string where
  "MODULE = ''Mvm''"

definition STORAGE :: string where
  "STORAGE = ''VMStorage''"

definition data_request_with ::
    "'c sp_api \<Rightarrow> 8 word list \<Rightarrow> block_hash option \<Rightarrow> 'c \<Rightarrow> ((string + bytes_for_block) \<times> 'c) result" where
  "data_request_with A path height c =
     (case sp_storage_map_key A MODULE STORAGE path c of
        Inl e \<Rightarrow> Inl (Panicked e)
      | Inr storagekey \<Rightarrow>
          Inr (case sp_finalized_head A c of
             (None, c1) \<Rightarrow> (Inl ''Cannot get finalized head'', c1)
           | (Some head, c1) \<Rightarrow>
               (case sp_storage_by_key A storagekey None c1 of
                  (None, c2) \<Rightarrow> (Inl ''not found'', c2)
                | (Some found, c2) \<Rightarrow> (Inr \<lparr>bb_bytes = found, bb_block = head\<rparr>, c2))))"

definition sp_get_resource_with ::
    "'c sp_api \<Rightarrow> account_address \<Rightarrow> struct_tag \<Rightarrow> block_hash option \<Rightarrow> 'c \<Rightarrow>
     ((string + bytes_for_block) \<times> 'c) result" where
  "sp_get_resource_with A addr tag height c = data_request_with A (sp_resource_path A addr tag) height c"

definition sp_get_module_with ::
    "'c sp_api \<Rightarrow> module_id \<Rightarrow> block_hash option \<Rightarrow> 'c \<Rightarrow> ((string + bytes_for_block) \<times> 'c) result" where
  "sp_get_module_with A mid height c = data_request_with A (sp_access_vector A mid) height c"

definition sp_get_resource ::
    "'c sp_api \<Rightarrow> account_address \<Rightarrow> struct_tag \<Rightarrow> string \<Rightarrow> block_hash option \<Rightarrow>
     (string + bytes_for_block) result" where
  "sp_get_resource A addr tag host height =
     rbind (sp_get_resource_with A addr tag height (sp_new A host)) (\<lambda>(r, _). Inr r)"

definition sp_get_module ::
    "'c sp_api \<Rightarrow> module_id \<Rightarrow> string \<Rightarrow> block_hash option \<Rightarrow> (string + bytes_for_block) result" where
  "sp_get_module A mid host height =
     rbind (sp_get_module_with A mid height (sp_new A host)) (\<lambda>(r, _). Inr r)"

section \<open>The client as a remote cache\<close>

record 'c sp_node_client =
  nc_client :: 'c
  nc_height :: "block_hash option"

definition sp_node_client_new :: "'c sp_api \<Rightarrow> string \<Rightarrow> block_hash option \<Rightarrow> 'c sp_node_client" where
  "sp_node_client_new A uri height = \<lparr>nc_client = sp_new A uri, nc_height = height\<rparr>"

definition found_bytes :: "string + bytes_for_block \<Rightarrow> 8 word list option" where
  "found_bytes r = (case r of Inr b \<Rightarrow> Some (bb_bytes b) | Inl _ \<Rightarrow> None)"

definition sp_cache_get_module ::
    "'c sp_api \<Rightarrow> module_id \<Rightarrow> 'c sp_node_client \<Rightarrow> (8 word list option \<times> 'c sp_node_client) result" where
  "sp_cache_get_module A mid n =
     rbind (sp_get_module_with A mid (nc_height n) (nc_client n)) (\<lambda>(r, c).
       Inr (found_bytes r, n\<lparr>nc_client := c\<rparr>))"

definition sp_cache_get_resource ::
    "'c sp_api \<Rightarrow> account_address \<Rightarrow> struct_tag \<Rightarrow> 'c sp_node_client \<Rightarrow>
     (8 word list option \<times> 'c sp_node_client) result" where
  "sp_cache_get_resource A addr tag n =
     rbind (sp_get_resource_with A addr tag (nc_height n) (nc_client n)) (\<lambda>(r, c).
       Inr (found_bytes r, n\<lparr>nc_client := c\<rparr>))"

section \<open>Which block a request reads\<close>

text \<open>A node has a value for every key at every block; without a block it reads its best one.\<close>

definition reads_chain ::
    "'c sp_api \<Rightarrow> ('c \<Rightarrow> block_hash) \<Rightarrow> ('c \<Rightarrow> block_hash) \<Rightarrow> (block_hash \<Rightarrow> 8 word list \<Rightarrow> 8 word list option) \<Rightarrow> bool" where
  "reads_chain A finalized best state \<longleftrightarrow>
     (\<forall>c. sp_finalized_head A c = (Some (finalized c), c)) \<and>
     (\<forall>key at c. sp_storage_by_key A key at c = (state (case at of Some b \<Rightarrow> b | None \<Rightarrow> best c) key, c))"

lemma height_ignored: "data_request_with A path height c = data_request_with A path None c"
  by (simp add: data_request_with_def)

text \<open>The value is the one of the best block, the block it is given out for the finalized one,
  and the block that was asked for plays no role.\<close>

lemma request_mixes_blocks:
  assumes "reads_chain A finalized best state" "sp_storage_map_key A MODULE STORAGE path c = Inr key"
  shows "data_request_with A path height c =
     Inr (case state (best c) key of None \<Rightarrow> Inl ''not found''
          | Some v \<Rightarrow> Inr \<lparr>bb_bytes = v, bb_block = finalized c\<rparr>, c)"
  using assms by (simp add: data_request_with_def reads_chain_def split: option.split)

text \<open>So an answer is right for its block when the key did not change since that block.\<close>

lemma request_right_when_unchanged:
  assumes "reads_chain A finalized best state" "data_request_with A path height c = Inr (Inr b, c')"
    and "\<And>key. state (best c) key = state (finalized c) key"
  shows "\<exists>key. sp_storage_map_key A MODULE STORAGE path c = Inr key \<and> state (bb_block b) key = Some (bb_bytes b)"
proof (cases "sp_storage_map_key A MODULE STORAGE path c")
  case (Inl e)
  with assms(2) show ?thesis by (simp add: data_request_with_def)
next
  case (Inr key)
  from request_mixes_blocks[OF assms(1) this] assms(2,3) have "state (finalized c) key = Some (bb_bytes b)"
    "bb_block b = finalized c" by (auto split: option.splits)
  with Inr show ?thesis by simp
qed

text \<open>A cache lookup never reports an error: a node that cannot be reached has no modules.\<close>

lemma cache_hides_errors:
  assumes "sp_storage_map_key A MODULE STORAGE (sp_access_vector A mid) (nc_client n) = Inr key"
    and "sp_finalized_head A (nc_client n) = (None, c')"
  shows "sp_cache_get_module A mid n = Inr (None, n\<lparr>nc_client := c'\<rparr>)"
  using assms by (simp add: sp_cache_get_module_def sp_get_module_with_def data_request_with_def found_bytes_def)

section \<open>The git hash (common/git-hash)\<close>

text \<open>\<open>git\<close> gives the standard output and whether the exit status is zero, or \<open>None\<close> when it cannot
  be started.\<close>

type_synonym git_command = "string list \<Rightarrow> (string \<times> bool) option"

definition run_git :: "git_command \<Rightarrow> string list \<Rightarrow> string option" where
  "run_git G args = (case G args of Some (stdout, _) \<Rightarrow> Some (trim stdout) | None \<Rightarrow> None)"

definition cmd_git_hash :: "git_command \<Rightarrow> string option" where
  "cmd_git_hash G = run_git G [''rev-parse'', ''HEAD'']"

definition cmd_git_hash_short :: "git_command \<Rightarrow> string option" where
  "cmd_git_hash_short G = run_git G [''rev-parse'', ''--short'', ''HEAD'']"

definition opt_tokenize :: "(string \<Rightarrow> string + 't) \<Rightarrow> string option \<Rightarrow> string + 't" where
  "opt_tokenize parse s =
     parse (case s of Some s \<Rightarrow> ''Some('' @ [CHR 0x22] @ s @ [CHR 0x22] @ '')'' | None \<Rightarrow> ''None'')"

definition crate_version_with :: "(string \<Rightarrow> string + 't) \<Rightarrow> string option \<Rightarrow> string + 't" where
  "crate_version_with parse s =
     (let res = (case s of Some hash \<Rightarrow> ''-'' @ hash | None \<Rightarrow> [])
      in parse (''concat!(env!('' @ [CHR 0x22] @ ''CARGO_PKG_VERSION'' @ [CHR 0x22] @ ''), '' @
                [CHR 0x22] @ res @ [CHR 0x22] @ '')''))"

definition unwrap_tokens :: "string + 't \<Rightarrow> 't result" where
  "unwrap_tokens r = (case r of Inl e \<Rightarrow> Inl (Panicked e) | Inr t \<Rightarrow> Inr t)"

definition macro_git_hash :: "(string \<Rightarrow> string + 't) \<Rightarrow> git_command \<Rightarrow> 't result" where
  "macro_git_hash parse G = unwrap_tokens (opt_tokenize parse (cmd_git_hash G))"

definition macro_git_hash_short :: "(string \<Rightarrow> string + 't) \<Rightarrow> git_command \<Rightarrow> 't result" where
  "macro_git_hash_short parse G = unwrap_tokens (opt_tokenize parse (cmd_git_hash_short G))"

definition crate_version_with_git_hash :: "(string \<Rightarrow> string + 't) \<Rightarrow> git_command \<Rightarrow> 't result" where
  "crate_version_with_git_hash parse G = unwrap_tokens (crate_version_with parse (cmd_git_hash G))"

definition crate_version_with_git_hash_short :: "(string \<Rightarrow> string + 't) \<Rightarrow> git_command \<Rightarrow> 't result" where
  "crate_version_with_git_hash_short parse G = unwrap_tokens (crate_version_with parse (cmd_git_hash_short G))"

text \<open>Outside of a repository git fails without output: the hash is then the empty text, not the
  missing one, and the version ends in a dash.\<close>

lemma failing_git_is_a_hash:
  assumes "G [''rev-parse'', ''HEAD''] = Some ([], False)"
  shows "cmd_git_hash G = Some []"
    and "crate_version_with_git_hash parse G = unwrap_tokens (parse
      (''concat!(env!('' @ [CHR 0x22] @ ''CARGO_PKG_VERSION'' @ [CHR 0x22] @ ''), '' @ [CHR 0x22] @ ''-'' @ [CHR 0x22] @ '')''))"
proof -
  have "trim [] = []" by code_simp
  with assms show "cmd_git_hash G = Some []" by (simp add: cmd_git_hash_def run_git_def)
  then show "crate_version_with_git_hash parse G = unwrap_tokens (parse
      (''concat!(env!('' @ [CHR 0x22] @ ''CARGO_PKG_VERSION'' @ [CHR 0x22] @ ''), '' @ [CHR 0x22] @ ''-'' @ [CHR 0x22] @ '')''))"
    by (simp add: crate_version_with_git_hash_def crate_version_with_def)
qed

end
